(* ===== verification/Prelude.thy ===== *)
theory Prelude
  imports Main "HOL-Library.Sublist"
begin

text \<open>
  Shared vocabulary of the development: the Go values the operator computes with, and the
  generic lemmas on them.

  \<^item> A Go \<^verbatim>\<open>string\<close> is a byte sequence; it is modelled by \<^typ>\<open>string\<close> (a list of 8-bit
    characters). The functions of the packages \<^verbatim>\<open>strings\<close> and \<^verbatim>\<open>fmt\<close> that the source calls are
    written out here.
  \<^item> A Go \<^verbatim>\<open>map[string]string\<close> is an optional partial map: \<open>None\<close> is the nil map. Reading a
    missing key or a nil map gives the empty string; writing goes through \<open>map_set\<close>, which
    contains the nil check that precedes every map write of the source.
  \<^item> A Go \<^verbatim>\<open>error\<close> carries the API machinery's reason (what \<^verbatim>\<open>errors.IsNotFound\<close> and
    \<^verbatim>\<open>errors.IsAlreadyExists\<close> test, also through \<^verbatim>\<open>%w\<close> wrapping) and its text.
  \<^item> The integers of the source (\<^verbatim>\<open>int32\<close> replica counts, \<^verbatim>\<open>int64\<close> generations and user ids) are
    only copied, compared and printed, never computed with, so \<^typ>\<open>int\<close> represents them.

  The collections \<open>go_str\<close>, \<open>go_map\<close> and \<open>go_err\<close> hold the rewrite rules of each group.
\<close>

named_theorems go_str \<open>rules for the string functions of the Go library\<close>
named_theorems go_map \<open>rules for Go maps of strings\<close>
named_theorems go_err \<open>rules for Go errors\<close>

section \<open>Strings\<close>

definition newline :: char where
  "newline = CHR 0x0A"

definition strings_HasPrefix :: "string \<Rightarrow> string \<Rightarrow> bool" where
  "strings_HasPrefix s p = prefix p s"

fun strings_Cut :: "string \<Rightarrow> char \<Rightarrow> string \<times> string \<times> bool" where
  "strings_Cut [] c = ([], [], False)"
| "strings_Cut (x # xs) c =
     (if x = c then ([], xs, True)
      else (case strings_Cut xs c of (before, after, found) \<Rightarrow> (x # before, after, found)))"

definition strings_TrimRight :: "string \<Rightarrow> string \<Rightarrow> string" where
  "strings_TrimRight s cutset = rev (dropWhile (\<lambda>c. c \<in> set cutset) (rev s))"

definition digit_char :: "nat \<Rightarrow> char" where
  "digit_char d = char_of (48 + d)"

fun show_nat :: "nat \<Rightarrow> string" where
  "show_nat n =
     (if n < 10 then [digit_char n] else show_nat (n div 10) @ [digit_char (n mod 10)])"

declare show_nat.simps [simp del]

definition show_int :: "int \<Rightarrow> string" where
  "show_int i = (if i < 0 then ''-'' @ show_nat (nat (- i)) else show_nat (nat i))"

text \<open>The verb \<^verbatim>\<open>%v\<close> on a slice of strings: the elements between brackets, separated by spaces.\<close>

fun join_with :: "string \<Rightarrow> string list \<Rightarrow> string" where
  "join_with sep [] = []"
| "join_with sep [x] = x"
| "join_with sep (x # y # ys) = x @ sep @ join_with sep (y # ys)"

definition fmt_slice :: "string list \<Rightarrow> string" where
  "fmt_slice xs = ''['' @ join_with '' '' xs @ '']''"

text \<open>
  The verb \<^verbatim>\<open>%q\<close>: a double-quoted Go string literal. ASCII control characters, the quote and
  the backslash are escaped as \<^verbatim>\<open>strconv.Quote\<close> does; bytes from 128 on are copied, which is
  what \<^verbatim>\<open>strconv.Quote\<close> does with printable UTF-8 text.
\<close>

definition hex_char :: "nat \<Rightarrow> char" where
  "hex_char d = (if d < 10 then char_of (48 + d) else char_of (87 + d))"

definition quote_char :: "char \<Rightarrow> string" where
  "quote_char c =
     (let n = of_char c :: nat; bs = CHR 0x5C in
      if n = 34 \<or> n = 92 then [bs, c]
      else if n = 7 then bs # ''a''
      else if n = 8 then bs # ''b''
      else if n = 12 then bs # ''f''
      else if n = 10 then bs # ''n''
      else if n = 13 then bs # ''r''
      else if n = 9 then bs # ''t''
      else if n = 11 then bs # ''v''
      else if n < 32 \<or> n = 127 then [bs, CHR ''x'', hex_char (n div 16), hex_char (n mod 16)]
      else [c])"

definition fmt_quote :: "string \<Rightarrow> string" where
  "fmt_quote s = [CHR 0x22] @ concat (map quote_char s) @ [CHR 0x22]"

section \<open>Maps of strings\<close>

type_synonym strmap = "(string \<rightharpoonup> string) option"

definition map_get :: "strmap \<Rightarrow> string \<Rightarrow> string" where
  "map_get m k = (case m of None \<Rightarrow> [] | Some f \<Rightarrow> (case f k of None \<Rightarrow> [] | Some v \<Rightarrow> v))"

text \<open>\<^verbatim>\<open>if m == nil { m = map[string]string{} }\<close>\<close>

definition map_make :: "strmap \<Rightarrow> (string \<rightharpoonup> string)" where
  "map_make m = (case m of None \<Rightarrow> Map.empty | Some f \<Rightarrow> f)"

definition map_set :: "strmap \<Rightarrow> string \<Rightarrow> string \<Rightarrow> strmap" where
  "map_set m k v = Some ((map_make m)(k \<mapsto> v))"

text \<open>\<^verbatim>\<open>delete(m, k)\<close> is a no-op on a nil map.\<close>

definition map_delete :: "strmap \<Rightarrow> string \<Rightarrow> strmap" where
  "map_delete m k = map_option (\<lambda>f. f(k := None)) m"

text \<open>
  \<^verbatim>\<open>for k, v := range add { m[k] = v }\<close> after the nil check: the iteration order does not
  matter since the keys of \<open>add\<close> are distinct.
\<close>

definition map_merge :: "strmap \<Rightarrow> (string \<rightharpoonup> string) \<Rightarrow> strmap" where
  "map_merge m add = Some (map_make m ++ add)"

section \<open>Errors\<close>

datatype err_reason = NotFound | AlreadyExists | OtherReason

record go_error =
  err_Reason :: err_reason
  err_Text :: string

definition errorf :: "string \<Rightarrow> go_error" where
  "errorf txt = \<lparr>err_Reason = OtherReason, err_Text = txt\<rparr>"

text \<open>\<^verbatim>\<open>fmt.Errorf("...%w", err)\<close>: a prefix on the text, the wrapped error's reason.\<close>

definition wrapf :: "string \<Rightarrow> go_error \<Rightarrow> go_error" where
  "wrapf pre e = e\<lparr>err_Text := pre @ err_Text e\<rparr>"

definition errors_IsNotFound :: "go_error \<Rightarrow> bool" where
  "errors_IsNotFound e = (err_Reason e = NotFound)"

definition errors_IsAlreadyExists :: "go_error \<Rightarrow> bool" where
  "errors_IsAlreadyExists e = (err_Reason e = AlreadyExists)"

section \<open>Lemmas on strings\<close>

lemma strings_Cut_found [go_str]:
  "c \<notin> set s \<Longrightarrow> strings_Cut (s @ c # t) c = (s, t, True)"
  by (induction s) auto

lemma strings_Cut_not_found [go_str]:
  "c \<notin> set s \<Longrightarrow> strings_Cut s c = (s, [], False)"
  by (induction s) auto

lemma strings_Cut_SomeD:
  "strings_Cut s c = (b, a, True) \<Longrightarrow> s = b @ c # a \<and> c \<notin> set b"
  by (induction s arbitrary: b) (auto split: if_splits prod.splits)

lemma strings_Cut_found_iff:
  "snd (snd (strings_Cut s c)) \<longleftrightarrow> c \<in> set s"
  by (induction s) (auto split: prod.splits)

lemma HasPrefix_append [go_str, simp]: "strings_HasPrefix (p @ s) p"
  by (simp add: strings_HasPrefix_def)

lemma HasPrefix_iff: "strings_HasPrefix s p \<longleftrightarrow> (\<exists>t. s = p @ t)"
  by (auto simp: strings_HasPrefix_def prefix_def)

lemma TrimRight_decompose:
  obtains t where "s = strings_TrimRight s cs @ t" "set t \<subseteq> set cs"
proof
  have "rev s = takeWhile (\<lambda>c. c \<in> set cs) (rev s) @ dropWhile (\<lambda>c. c \<in> set cs) (rev s)"
    by simp
  then have "rev (rev s) = rev (dropWhile (\<lambda>c. c \<in> set cs) (rev s))
      @ rev (takeWhile (\<lambda>c. c \<in> set cs) (rev s))"
    by (metis rev_append)
  then show "s = strings_TrimRight s cs @ rev (takeWhile (\<lambda>c. c \<in> set cs) (rev s))"
    by (simp add: strings_TrimRight_def)
  show "set (rev (takeWhile (\<lambda>c. c \<in> set cs) (rev s))) \<subseteq> set cs"
    by (auto dest: set_takeWhileD)
qed

lemma TrimRight_last:
  "strings_TrimRight s cs \<noteq> [] \<Longrightarrow> last (strings_TrimRight s cs) \<notin> set cs"
  by (metis strings_TrimRight_def hd_dropWhile last_rev rev_is_Nil_conv)

lemma TrimRight_idem: "strings_TrimRight (strings_TrimRight s cs) cs = strings_TrimRight s cs"
  by (simp add: strings_TrimRight_def)

lemma set_TrimRight: "set (strings_TrimRight s cs) \<subseteq> set s"
  by (auto simp: strings_TrimRight_def dest: set_dropWhileD)

lemma show_nat_nonempty [simp]: "show_nat n \<noteq> []"
  by (subst show_nat.simps) simp

section \<open>Lemmas on maps\<close>

lemma map_get_set [go_map, simp]:
  "map_get (map_set m k v) k' = (if k' = k then v else map_get m k')"
  by (auto simp: map_get_def map_set_def map_make_def split: option.splits)

lemma map_get_delete [go_map, simp]:
  "map_get (map_delete m k) k' = (if k' = k then [] else map_get m k')"
  by (auto simp: map_get_def map_delete_def split: option.splits)

lemma map_get_merge [go_map]:
  "map_get (map_merge m add) k = (case add k of None \<Rightarrow> map_get m k | Some v \<Rightarrow> v)"
  by (auto simp: map_get_def map_merge_def map_make_def map_add_def split: option.splits)

lemma map_get_nil [go_map, simp]: "map_get None k = []"
  by (simp add: map_get_def)

lemma map_get_Some [go_map]:
  "map_get (Some f) k = (case f k of None \<Rightarrow> [] | Some v \<Rightarrow> v)"
  by (simp add: map_get_def)

section \<open>Lemmas on errors\<close>

lemma wrapf_reason [go_err, simp]: "err_Reason (wrapf pre e) = err_Reason e"
  by (simp add: wrapf_def)

lemma IsNotFound_wrapf [go_err, simp]: "errors_IsNotFound (wrapf pre e) = errors_IsNotFound e"
  by (simp add: errors_IsNotFound_def)

end
