(* ===== verification/Api_Types.thy ===== *)
theory Api_Types
  imports Prelude
begin

text \<open>
  The data model: the custom resources of \<^verbatim>\<open>src/api/v1\<close>, field by field, and the fields of the
  Kubernetes types (pods, workloads, config maps, jobs, conditions) that the source reads or
  writes. A struct is a record, a pointer field is an option, a string-valued enumeration stays a
  string with its constants as definitions. Fields of Kubernetes types that the source neither
  reads nor writes are not represented: the source only assigns single fields of them.

  The \<open>zero_\<dots>\<close> constants are Go's zero values: a composite literal of the source that sets some
  fields is an update of the zero value.
\<close>

type_synonym time = int

section \<open>Kubernetes types the source uses\<close>

record ObjectMeta =
  om_Name :: string
  om_Namespace :: string
  om_Annotations :: strmap
  om_Labels :: strmap
  om_Generation :: int

definition zero_ObjectMeta :: ObjectMeta where
  "zero_ObjectMeta = \<lparr>om_Name = [], om_Namespace = [], om_Annotations = None, om_Labels = None,
     om_Generation = 0\<rparr>"

record NamespacedName =
  nn_Namespace :: string
  nn_Name :: string

text \<open>\<^verbatim>\<open>metav1.Condition\<close>; the statuses are the strings \<^verbatim>\<open>True\<close>, \<^verbatim>\<open>False\<close> and \<^verbatim>\<open>Unknown\<close>.\<close>

record Condition =
  cond_Type :: string
  cond_Status :: string
  cond_ObservedGeneration :: int
  cond_LastTransitionTime :: time
  cond_Reason :: string
  cond_Message :: string

definition ConditionTrue :: string where "ConditionTrue = ''True''"
definition ConditionFalse :: string where "ConditionFalse = ''False''"

text \<open>
  \<^verbatim>\<open>resource.MustParse\<close> belongs to the API machinery: a quantity is kept as the text it is
  parsed from.
\<close>

datatype quantity = MustParse string

record ResourceRequirements =
  rr_Limits :: "string \<rightharpoonup> quantity"
  rr_Requests :: "string \<rightharpoonup> quantity"

definition zero_ResourceRequirements :: ResourceRequirements where
  "zero_ResourceRequirements = \<lparr>rr_Limits = Map.empty, rr_Requests = Map.empty\<rparr>"

record SecretKeySelector =
  sk_Name :: string
  sk_Key :: string

record EnvVar =
  ev_Name :: string
  ev_Value :: string
  ev_ValueFrom :: "SecretKeySelector option"

record VolumeMount =
  vm_Name :: string
  vm_MountPath :: string
  vm_SubPath :: string
  vm_ReadOnly :: bool

definition zero_VolumeMount :: VolumeMount where
  "zero_VolumeMount = \<lparr>vm_Name = [], vm_MountPath = [], vm_SubPath = [], vm_ReadOnly = False\<rparr>"

record ContainerPort =
  cp_Name :: string
  cp_ContainerPort :: int
  cp_Protocol :: string

text \<open>The user and group of a container's or a pod's security context.\<close>

record SecurityContext =
  sc_RunAsUser :: "int option"
  sc_RunAsGroup :: "int option"

record Container =
  c_Name :: string
  c_Image :: string
  c_Command :: "string list"
  c_Args :: "string list"
  c_Ports :: "ContainerPort list"
  c_Env :: "EnvVar list"
  c_VolumeMounts :: "VolumeMount list"
  c_Resources :: ResourceRequirements
  c_SecurityContext :: "SecurityContext option"

definition zero_Container :: Container where
  "zero_Container = \<lparr>c_Name = [], c_Image = [], c_Command = [], c_Args = [], c_Ports = [],
     c_Env = [], c_VolumeMounts = [], c_Resources = zero_ResourceRequirements,
     c_SecurityContext = None\<rparr>"

datatype VolumeSource =
  ConfigMapSource string
| PersistentVolumeClaimSource string
| OtherSource string

record Volume =
  vol_Name :: string
  vol_Source :: VolumeSource

record PodSpec =
  ps_InitContainers :: "Container list"
  ps_Containers :: "Container list"
  ps_Volumes :: "Volume list"
  ps_RestartPolicy :: string
  ps_SecurityContext :: "SecurityContext option"

definition zero_PodSpec :: PodSpec where
  "zero_PodSpec = \<lparr>ps_InitContainers = [], ps_Containers = [], ps_Volumes = [],
     ps_RestartPolicy = [], ps_SecurityContext = None\<rparr>"

text \<open>\<^verbatim>\<open>ContainerState\<close> has three independent pointers: running, waiting (with a reason) and
  terminated (with an exit code).\<close>

record ContainerState =
  stt_Running :: bool
  stt_Waiting :: "string option"
  stt_Terminated :: "int option"

record ContainerStatus =
  cs_Name :: string
  cs_State :: ContainerState

record Pod =
  pod_Meta :: ObjectMeta
  pod_Spec :: PodSpec
  pod_ContainerStatuses :: "ContainerStatus list"
  pod_InitContainerStatuses :: "ContainerStatus list"

record PodTemplateSpec =
  pt_Annotations :: strmap
  pt_Labels :: strmap
  pt_Spec :: PodSpec

record Deployment =
  dep_Meta :: ObjectMeta
  dep_Replicas :: "int option"
  dep_Selector :: "strmap option"
  dep_Template :: PodTemplateSpec
  dep_StatusReplicas :: int
  dep_ReadyReplicas :: int

record StatefulSet =
  ss_Meta :: ObjectMeta
  ss_Replicas :: "int option"
  ss_Selector :: "strmap option"
  ss_Template :: PodTemplateSpec
  ss_StatusReplicas :: int
  ss_ReadyReplicas :: int

record ConfigMap =
  cm_Meta :: ObjectMeta
  cm_Data :: strmap

record JobCondition =
  jc_Type :: string
  jc_Status :: string
  jc_Message :: string

record Job =
  job_Meta :: ObjectMeta
  job_BackoffLimit :: "int option"
  job_Template :: PodTemplateSpec
  job_Conditions :: "JobCondition list"

section \<open>LitestreamReplica (litestreamreplica_types.go)\<close>

record S3Destination =
  s3_Endpoint :: string
  s3_Bucket :: string
  s3_Path :: string
  s3_SecretRef :: string

record BackupDestination =
  dest_S3 :: "S3Destination option"

record RetentionPolicy =
  ret_Duration :: string

record BackupSpec =
  bk_Enabled :: bool
  bk_Destination :: BackupDestination
  bk_Retention :: RetentionPolicy
  bk_SyncInterval :: string
  bk_LogLevel :: string
  bk_Resources :: "ResourceRequirements option"
  bk_AutoRestore :: bool

record LitestreamReplicaSpec =
  rp_DatabaseName :: string
  rp_DatabasePath :: string
  rp_TargetDeployment :: string
  rp_TargetStatefulSet :: string
  rp_Image :: string
  rp_Backup :: BackupSpec
  rp_InitSQL :: string
  rp_InitImage :: string
  rp_RunAsUser :: "int option"
  rp_RunAsGroup :: "int option"

definition AnnotationInject :: string where "AnnotationInject = ''litestream.io/inject''"
definition AnnotationConfig :: string where "AnnotationConfig = ''litestream.io/config''"
definition AnnotationPause :: string where "AnnotationPause = ''litestream.io/pause''"
definition AnnotationSkipArchiveCheck :: string where
  "AnnotationSkipArchiveCheck = ''litestream.io/skip-archive-check''"

definition ConditionSidecarInjected :: string where
  "ConditionSidecarInjected = ''SidecarInjected''"
definition ConditionBackupHealthy :: string where "ConditionBackupHealthy = ''BackupHealthy''"
definition ConditionInitSQLApplied :: string where "ConditionInitSQLApplied = ''InitSQLApplied''"
definition ConditionReplicationPaused :: string where
  "ConditionReplicationPaused = ''ReplicationPaused''"
definition ConditionArchiveCheckFailed :: string where
  "ConditionArchiveCheckFailed = ''ArchiveCheckFailed''"
definition ConditionReplicaCountExceeded :: string where
  "ConditionReplicaCountExceeded = ''ReplicaCountExceeded''"
definition ConditionReady :: string where "ConditionReady = ''Ready''"

definition PhaseConfiguring :: string where "PhaseConfiguring = ''Configuring''"
definition PhasePending :: string where "PhasePending = ''Pending''"
definition PhaseReady :: string where "PhaseReady = ''Ready''"
definition PhasePaused :: string where "PhasePaused = ''Paused''"
definition PhaseError :: string where "PhaseError = ''Error''"

record LitestreamReplicaStatus =
  st_Phase :: string
  st_Ready :: bool
  st_BackupHealthy :: bool
  st_LastBackup :: "time option"
  st_ReplicationLag :: string
  st_InitSQLHash :: string
  st_ObservedGeneration :: int
  st_Conditions :: "Condition list"

record LitestreamReplica =
  db_Meta :: ObjectMeta
  db_Spec :: LitestreamReplicaSpec
  db_Status :: LitestreamReplicaStatus

section \<open>LitestreamRestore (litestreamrestore_types.go)\<close>

definition RestorePhasePending :: string where "RestorePhasePending = ''Pending''"
definition RestorePhasePausing :: string where "RestorePhasePausing = ''Pausing''"
definition RestorePhaseScalingDown :: string where "RestorePhaseScalingDown = ''ScalingDown''"
definition RestorePhaseRunning :: string where "RestorePhaseRunning = ''Running''"
definition RestorePhaseValidating :: string where "RestorePhaseValidating = ''Validating''"
definition RestorePhaseScalingUp :: string where "RestorePhaseScalingUp = ''ScalingUp''"
definition RestorePhaseComplete :: string where "RestorePhaseComplete = ''Complete''"
definition RestorePhaseFailed :: string where "RestorePhaseFailed = ''Failed''"

record LitestreamRestoreSpec =
  re_SourceRef :: string
  re_TargetPVC :: string
  re_TargetPath :: string
  re_Timestamp :: string
  re_Image :: string
  re_Force :: bool
  re_RunAsUser :: "int option"
  re_RunAsGroup :: "int option"

record LitestreamRestoreStatus =
  rst_Phase :: string
  rst_JobName :: string
  rst_OriginalReplicas :: "int option"
  rst_StartTime :: "time option"
  rst_CompletionTime :: "time option"
  rst_Message :: string

record LitestreamRestore =
  res_Meta :: ObjectMeta
  res_Spec :: LitestreamRestoreSpec
  res_Status :: LitestreamRestoreStatus

section \<open>Package constants (groupversion_info.go)\<close>

definition LitestreamDefaultImage :: string where
  "LitestreamDefaultImage = ''litestream/litestream:0.5.14''"

section \<open>Accessors and their rules\<close>

abbreviation db_Name :: "LitestreamReplica \<Rightarrow> string" where
  "db_Name db \<equiv> om_Name (db_Meta db)"
abbreviation db_Namespace :: "LitestreamReplica \<Rightarrow> string" where
  "db_Namespace db \<equiv> om_Namespace (db_Meta db)"
abbreviation db_Annotations :: "LitestreamReplica \<Rightarrow> strmap" where
  "db_Annotations db \<equiv> om_Annotations (db_Meta db)"
abbreviation db_Backup :: "LitestreamReplica \<Rightarrow> BackupSpec" where
  "db_Backup db \<equiv> rp_Backup (db_Spec db)"
abbreviation db_S3 :: "LitestreamReplica \<Rightarrow> S3Destination option" where
  "db_S3 db \<equiv> dest_S3 (bk_Destination (rp_Backup (db_Spec db)))"
abbreviation res_Name :: "LitestreamRestore \<Rightarrow> string" where
  "res_Name r \<equiv> om_Name (res_Meta r)"
abbreviation res_Namespace :: "LitestreamRestore \<Rightarrow> string" where
  "res_Namespace r \<equiv> om_Namespace (res_Meta r)"
abbreviation res_Phase :: "LitestreamRestore \<Rightarrow> string" where
  "res_Phase r \<equiv> rst_Phase (res_Status r)"

lemmas annotation_keys =
  AnnotationInject_def AnnotationConfig_def AnnotationPause_def AnnotationSkipArchiveCheck_def

lemmas condition_types =
  ConditionSidecarInjected_def ConditionBackupHealthy_def ConditionInitSQLApplied_def
  ConditionReplicationPaused_def ConditionArchiveCheckFailed_def
  ConditionReplicaCountExceeded_def ConditionReady_def

lemmas restore_phases =
  RestorePhasePending_def RestorePhasePausing_def RestorePhaseScalingDown_def
  RestorePhaseRunning_def RestorePhaseValidating_def RestorePhaseScalingUp_def
  RestorePhaseComplete_def RestorePhaseFailed_def

lemma annotation_keys_distinct [simp]:
  "distinct [AnnotationInject, AnnotationConfig, AnnotationPause, AnnotationSkipArchiveCheck]"
  "AnnotationPause \<noteq> AnnotationSkipArchiveCheck" "AnnotationSkipArchiveCheck \<noteq> AnnotationPause"
  "AnnotationInject \<noteq> AnnotationConfig" "AnnotationConfig \<noteq> AnnotationInject"
  by (simp_all add: annotation_keys)

lemma restore_phases_distinct:
  "distinct [[], RestorePhasePending, RestorePhasePausing, RestorePhaseScalingDown,
     RestorePhaseRunning, RestorePhaseValidating, RestorePhaseScalingUp, RestorePhaseComplete,
     RestorePhaseFailed]"
  by (simp add: restore_phases)

lemma restore_phases_distinct_rev:
  "distinct [RestorePhaseFailed, RestorePhaseComplete, RestorePhaseScalingUp, RestorePhaseValidating,
     RestorePhaseRunning, RestorePhaseScalingDown, RestorePhasePausing, RestorePhasePending, []]"
  by (simp add: restore_phases)

lemmas phase_neq [simp] =
  restore_phases_distinct [simplified] restore_phases_distinct_rev [simplified]

end
