(* ===== verification/Effects.thy ===== *)
theory Effects
  imports Api_Types
begin

text \<open>
  How the operator talks to the outside. The controller-runtime client, the event recorder, the
  clock and the typed client set are not part of the repository: a call to one of them is a
  request, and what it answers comes from the environment. An operation of the source that makes
  calls is a \<open>prog\<close>: it returns, panics, or issues a request and continues with the response.
  The source has no unbounded loop, so this is an inductive datatype and every operation
  terminates by construction.

  Two semantics are given. The relation \<open>exec p tr out\<close> holds for every sequence \<open>tr\<close> of
  request/response pairs that \<open>p\<close> can go through when each response is arbitrary: errors,
  stale objects and the effect of every concurrent client are included, so a theorem about all
  \<open>exec\<close> traces rests on no assumption on the API server. The function \<open>run\<close> executes \<open>p\<close> against
  an API server given as an argument.

  \<open>wp p G Q h\<close> is the weakest precondition used to prove trace properties: after the calls \<open>h\<close>
  (most recent first), every request that \<open>p\<close> issues satisfies the guard \<open>G\<close> on the calls
  before it, and \<open>Q\<close> holds of all calls and the outcome at the end.

  Responses are untyped; a response of the wrong kind is read as an error by the \<open>as_\<dots>\<close>
  functions, which only adds behaviours.
\<close>

named_theorems prog_simps \<open>symbolic execution of programs\<close>

section \<open>Requests and responses\<close>

datatype obj = ReplicaObj LitestreamReplica | RestoreObj LitestreamRestore

text \<open>
  One constructor per call of the source. A \<^verbatim>\<open>Patch\<close> carries the base (the deep copy given to
  \<^verbatim>\<open>client.MergeFrom\<close>) and the modified object; a successful patch answers the server's
  object, which replaces the local one. \<^verbatim>\<open>controllerutil.CreateOrUpdate\<close> is one request: the key,
  the data and the owner that the closure passed to it writes.
\<close>

datatype api_req =
  GetReplica NamespacedName
| GetRestore NamespacedName
| GetDeployment NamespacedName
| GetStatefulSet NamespacedName
| GetConfigMap NamespacedName
| GetJob NamespacedName
| ListPods string strmap
| CreateOrUpdateConfigMap NamespacedName "string \<rightharpoonup> string" obj
| SetControllerReference LitestreamRestore Job
| CreateJob Job
| PatchReplica LitestreamReplica LitestreamReplica
| PatchReplicaStatus LitestreamReplica LitestreamReplica
| PatchDeployment Deployment Deployment
| PatchStatefulSet StatefulSet StatefulSet
| PatchRestoreStatus LitestreamRestore LitestreamRestore
| KubeListPods string string
| KubeGetLogs string string int
| Event obj string string string
| Now

datatype api_resp =
  RErr go_error
| ROk
| RReplica LitestreamReplica
| RRestore LitestreamRestore
| RDeployment Deployment
| RStatefulSet StatefulSet
| RConfigMap ConfigMap
| RJob Job
| RPods "Pod list"
| RText string
| RTime time

definition bad_response :: go_error where
  "bad_response = errorf ''unexpected response''"

fun as_replica :: "api_resp \<Rightarrow> go_error + LitestreamReplica" where
  "as_replica (RErr e) = Inl e"
| "as_replica (RReplica x) = Inr x"
| "as_replica _ = Inl bad_response"

fun as_restore :: "api_resp \<Rightarrow> go_error + LitestreamRestore" where
  "as_restore (RErr e) = Inl e"
| "as_restore (RRestore x) = Inr x"
| "as_restore _ = Inl bad_response"

fun as_deployment :: "api_resp \<Rightarrow> go_error + Deployment" where
  "as_deployment (RErr e) = Inl e"
| "as_deployment (RDeployment x) = Inr x"
| "as_deployment _ = Inl bad_response"

fun as_statefulset :: "api_resp \<Rightarrow> go_error + StatefulSet" where
  "as_statefulset (RErr e) = Inl e"
| "as_statefulset (RStatefulSet x) = Inr x"
| "as_statefulset _ = Inl bad_response"

fun as_configmap :: "api_resp \<Rightarrow> go_error + ConfigMap" where
  "as_configmap (RErr e) = Inl e"
| "as_configmap (RConfigMap x) = Inr x"
| "as_configmap _ = Inl bad_response"

fun as_job :: "api_resp \<Rightarrow> go_error + Job" where
  "as_job (RErr e) = Inl e"
| "as_job (RJob x) = Inr x"
| "as_job _ = Inl bad_response"

fun as_pods :: "api_resp \<Rightarrow> go_error + Pod list" where
  "as_pods (RErr e) = Inl e"
| "as_pods (RPods x) = Inr x"
| "as_pods _ = Inl bad_response"

fun as_text :: "api_resp \<Rightarrow> go_error + string" where
  "as_text (RErr e) = Inl e"
| "as_text (RText x) = Inr x"
| "as_text _ = Inl bad_response"

text \<open>Calls whose only result is an error.\<close>

fun as_error :: "api_resp \<Rightarrow> go_error option" where
  "as_error (RErr e) = Some e"
| "as_error _ = None"

text \<open>\<^verbatim>\<open>metav1.Now()\<close> cannot fail.\<close>

fun as_time :: "api_resp \<Rightarrow> time" where
  "as_time (RTime t) = t"
| "as_time _ = 0"

section \<open>Programs\<close>

datatype 'a prog = Ret 'a | Panic | Call api_req "api_resp \<Rightarrow> 'a prog"

primrec bind :: "'a prog \<Rightarrow> ('a \<Rightarrow> 'b prog) \<Rightarrow> 'b prog" where
  "bind (Ret a) f = f a"
| "bind Panic f = Panic"
| "bind (Call q k) f = Call q (\<lambda>r. bind (k r) f)"

text \<open>The rest of a program after its first call was answered.\<close>

definition answered :: "'a prog \<Rightarrow> api_resp \<Rightarrow> 'a prog" where
  "answered p r = (case p of Call q f \<Rightarrow> f r | _ \<Rightarrow> p)"

text \<open>Dereferencing a pointer: a nil pointer panics.\<close>

definition deref :: "'a option \<Rightarrow> 'a prog" where
  "deref x = (case x of None \<Rightarrow> Panic | Some v \<Rightarrow> Ret v)"

definition now :: "time prog" where
  "now = Call Now (\<lambda>r. Ret (as_time r))"

text \<open>\<^verbatim>\<open>r.Recorder.Event\<close> returns nothing.\<close>

definition record_event :: "obj \<Rightarrow> string \<Rightarrow> string \<Rightarrow> string \<Rightarrow> unit prog" where
  "record_event ob etype reason msg = Call (Event ob etype reason msg) (\<lambda>_. Ret ())"

text \<open>
  What \<^verbatim>\<open>Reconcile\<close> returns: the delay of \<^verbatim>\<open>ctrl.Result.RequeueAfter\<close> in nanoseconds (zero for
  \<^verbatim>\<open>ctrl.Result{}\<close>) and an error.
\<close>

type_synonym ctrl_result = "int \<times> go_error option"

section \<open>Semantics\<close>

datatype 'a outcome = Returned 'a | Panicked

type_synonym trace = "(api_req \<times> api_resp) list"

inductive exec :: "'a prog \<Rightarrow> trace \<Rightarrow> 'a outcome \<Rightarrow> bool" where
  exec_ret: "exec (Ret a) [] (Returned a)"
| exec_panic: "exec Panic [] Panicked"
| exec_call: "exec (k r) tr out \<Longrightarrow> exec (Call q k) ((q, r) # tr) out"

inductive_simps exec_Ret_iff [prog_simps]: "exec (Ret a) tr out"
inductive_simps exec_Panic_iff [prog_simps]: "exec Panic tr out"
inductive_simps exec_Call_iff [prog_simps]: "exec (Call q k) tr out"

primrec run :: "'a prog \<Rightarrow> ('w \<Rightarrow> api_req \<Rightarrow> api_resp \<times> 'w) \<Rightarrow> 'w \<Rightarrow> 'a outcome \<times> 'w" where
  "run (Ret a) api w = (Returned a, w)"
| "run Panic api w = (Panicked, w)"
| "run (Call q k) api w = (case api w q of (r, w') \<Rightarrow> run (k r) api w')"

text \<open>
  The execution that receives the given responses one after the other, and errors after them: what
  a test with a scripted fake client does.
\<close>

primrec drive :: "'a prog \<Rightarrow> api_resp list \<Rightarrow> trace \<times> 'a outcome" where
  "drive (Ret a) rs = ([], Returned a)"
| "drive Panic rs = ([], Panicked)"
| "drive (Call q k) rs =
     (let (r, rs') = (case rs of [] \<Rightarrow> (RErr bad_response, []) | r # rs' \<Rightarrow> (r, rs'));
          (tr, out) = drive (k r) rs'
      in ((q, r) # tr, out))"

primrec wp :: "'a prog \<Rightarrow> (trace \<Rightarrow> api_req \<Rightarrow> bool) \<Rightarrow> (trace \<Rightarrow> 'a outcome \<Rightarrow> bool) \<Rightarrow> trace \<Rightarrow> bool"
where
  "wp (Ret a) G Q h = Q h (Returned a)"
| "wp Panic G Q h = Q h Panicked"
| "wp (Call q k) G Q h = (G h q \<and> (\<forall>r. wp (k r) G Q ((q, r) # h)))"

text \<open>Every request of a trace satisfies the guard on the calls before it.\<close>

fun guarded :: "(trace \<Rightarrow> api_req \<Rightarrow> bool) \<Rightarrow> trace \<Rightarrow> trace \<Rightarrow> bool" where
  "guarded G h [] = True"
| "guarded G h ((q, r) # tr) = (G h q \<and> guarded G ((q, r) # h) tr)"

text \<open>Every request that a program can issue, whatever the responses.\<close>

primrec all_calls :: "(api_req \<Rightarrow> bool) \<Rightarrow> 'a prog \<Rightarrow> bool" where
  "all_calls P (Ret a) = True"
| "all_calls P Panic = True"
| "all_calls P (Call q k) = (P q \<and> (\<forall>r. all_calls P (k r)))"

text \<open>Every value that a program can return, and that it never panics.\<close>

primrec all_rets :: "('a \<Rightarrow> bool) \<Rightarrow> 'a prog \<Rightarrow> bool" where
  "all_rets P (Ret a) = P a"
| "all_rets P Panic = True"
| "all_rets P (Call q k) = (\<forall>r. all_rets P (k r))"

primrec no_panic :: "'a prog \<Rightarrow> bool" where
  "no_panic (Ret a) = True"
| "no_panic Panic = False"
| "no_panic (Call q k) = (\<forall>r. no_panic (k r))"

section \<open>Lemmas\<close>

lemma bind_assoc [prog_simps]: "bind (bind p f) g = bind p (\<lambda>a. bind (f a) g)"
  by (induction p) auto

lemma bind_Ret_right [simp]: "bind p Ret = p"
  by (induction p) auto

lemma bind_deref_Some [simp]: "bind (deref (Some x)) f = f x"
  by (simp add: deref_def)

lemma deref_Some [simp]: "deref (Some x) = Ret x"
  by (simp add: deref_def)

text \<open>The outcome of a sequence: a panic of the first part is a panic of the whole.\<close>

lemma wp_bind:
  "wp (bind p f) G Q h =
     wp p G (\<lambda>h' out. case out of Returned a \<Rightarrow> wp (f a) G Q h' | Panicked \<Rightarrow> Q h' Panicked) h"
  by (induction p arbitrary: h) auto

lemma wp_mono:
  assumes "wp p G Q h"
    and "\<And>h q. G h q \<Longrightarrow> G' h q" and "\<And>h out. Q h out \<Longrightarrow> Q' h out"
  shows "wp p G' Q' h"
  using assms(1) by (induction p arbitrary: h) (auto simp: assms(2,3))

text \<open>Soundness and completeness of \<open>wp\<close> for the traces of a program.\<close>

lemma wp_exec:
  "wp p G Q h \<Longrightarrow> exec p tr out \<Longrightarrow> guarded G h tr \<and> Q (rev tr @ h) out"
proof (induction p arbitrary: h tr)
  case (Call q k)
  from Call.prems(2) obtain r tr' where tr: "tr = (q, r) # tr'" and ex: "exec (k r) tr' out"
    by (auto simp: prog_simps)
  from Call.prems(1) have "G h q" and "wp (k r) G Q ((q, r) # h)" by auto
  with Call.IH [of "k r"] ex have "guarded G ((q, r) # h) tr' \<and> Q (rev tr' @ (q, r) # h) out"
    by blast
  with \<open>G h q\<close> tr show ?case by simp
qed (auto simp: prog_simps)

lemma exec_wp:
  "(\<And>tr out. exec p tr out \<Longrightarrow> guarded G h tr \<and> Q (rev tr @ h) out) \<Longrightarrow> wp p G Q h"
proof (induction p arbitrary: h)
  case (Call q k)
  have step: "guarded G h ((q, r) # tr) \<and> Q (rev tr @ (q, r) # h) out"
    if "exec (k r) tr out" for r tr out
    using Call.prems [of "(q, r) # tr" out] that by (simp add: exec_call)
  have some: "\<exists>tr out. exec p' tr out" for p' :: "'a prog"
    by (induction p') (meson exec_ret exec_panic exec_call rangeI)+
  from step some have "G h q" by fastforce
  moreover have "wp (k r) G Q ((q, r) # h)" for r
    by (rule Call.IH) (use step in auto)
  ultimately show ?case by simp
qed (auto simp: prog_simps)

theorem wp_iff_exec:
  "wp p G Q h \<longleftrightarrow> (\<forall>tr out. exec p tr out \<longrightarrow> guarded G h tr \<and> Q (rev tr @ h) out)"
  using wp_exec exec_wp by metis

text \<open>A run against any API server goes through one of the traces.\<close>

lemma run_exec: "\<exists>tr. exec p tr (fst (run p api w))"
proof (induction p arbitrary: w)
  case (Call q k)
  obtain r w' where "api w q = (r, w')" by fastforce
  with Call.IH [of "k r" w'] show ?case by (auto intro: exec_call)
qed (auto intro: exec.intros)

lemma run_bind:
  "run (bind p f) api w =
     (case run p api w of (Returned a, w') \<Rightarrow> run (f a) api w' | (Panicked, w') \<Rightarrow> (Panicked, w'))"
  by (induction p arbitrary: w) (auto split: prod.splits)

lemma exec_bind [prog_simps]:
  "exec (bind p f) tr out \<longleftrightarrow>
     (\<exists>tr1 tr2 a. tr = tr1 @ tr2 \<and> exec p tr1 (Returned a) \<and> exec (f a) tr2 out)
     \<or> (exec p tr Panicked \<and> out = Panicked)"
proof (induction p arbitrary: tr)
  case (Call q k)
  show ?case
    by (auto simp: prog_simps Call.IH [OF rangeI] Cons_eq_append_conv) blast+
qed (auto simp: prog_simps)

lemma drive_exec: "exec p (fst (drive p rs)) (snd (drive p rs))"
proof (induction p arbitrary: rs)
  case (Call q k)
  have "exec (k r) (fst (drive (k r) rs')) (snd (drive (k r) rs'))" for r rs'
    by (rule Call.IH [OF rangeI])
  then show ?case by (cases rs) (simp_all add: exec_call split_beta)
qed (simp_all add: exec_ret exec_panic)

lemma drive_execI: "drive p rs = (tr, out) \<Longrightarrow> exec p tr out"
  using drive_exec [of p rs] by simp

text \<open>The guards of a trace in terms of positions: what came before the \<open>i\<close>-th request.\<close>

lemma guarded_nth:
  "guarded G h tr \<Longrightarrow> i < length tr \<Longrightarrow> G (rev (take i tr) @ h) (fst (tr ! i))"
proof (induction tr arbitrary: h i)
  case (Cons e tr)
  obtain q r where e: "e = (q, r)" by fastforce
  show ?case
  proof (cases i)
    case 0
    with Cons.prems e show ?thesis by simp
  next
    case (Suc j)
    with Cons.prems e have "G (rev (take j tr) @ e # h) (fst (tr ! j))"
      by (intro Cons.IH) auto
    with Suc e show ?thesis by simp
  qed
qed simp

lemma guarded_mem:
  "guarded (\<lambda>h q. G q) h tr \<Longrightarrow> (q, r) \<in> set tr \<Longrightarrow> G q"
  by (induction tr arbitrary: h) auto

text \<open>Symbolic execution of the calls that only report.\<close>

lemma wp_now [prog_simps]:
  "wp (bind now f) G Q h = (G h Now \<and> (\<forall>r. wp (f (as_time r)) G Q ((Now, r) # h)))"
  by (simp add: now_def)

lemma wp_record_event [prog_simps]:
  "wp (bind (record_event ob t re m) f) G Q h =
     (G h (Event ob t re m) \<and> (\<forall>r. wp (f ()) G Q ((Event ob t re m, r) # h)))"
  by (simp add: record_event_def)

section \<open>Programs with restricted calls\<close>

lemma all_calls_bindI [intro]:
  "all_calls P p \<Longrightarrow> (\<And>a. all_calls P (f a)) \<Longrightarrow> all_calls P (bind p f)"
  by (induction p) auto

lemma all_calls_deref [simp]: "all_calls P (deref x)"
  by (simp add: deref_def split: option.splits)

lemma all_calls_now [simp]: "all_calls P now = P Now"
  by (simp add: now_def)

lemma all_calls_event [simp]: "all_calls P (record_event ob t re m) = P (Event ob t re m)"
  by (simp add: record_event_def)

lemma all_calls_wp:
  assumes "all_calls P p"
    and "\<And>h' q. P q \<Longrightarrow> G (h' @ h) q" and "\<And>h' out. Q (h' @ h) out"
  shows "wp p G Q h"
  using assms
proof (induction p arbitrary: h)
  case (Call q k)
  have "G h q" using Call.prems(1) Call.prems(2) [of q "[]"] by simp
  moreover have "wp (k r) G Q ((q, r) # h)" for r
  proof (rule Call.IH [OF rangeI])
    show "all_calls P (k r)" using Call.prems(1) by simp
    show "G (h' @ (q, r) # h) q'" if "P q'" for h' q'
      using Call.prems(2) [OF that, of "h' @ [(q, r)]"] by simp
    show "Q (h' @ (q, r) # h) out" for h' out
      using Call.prems(3) [of "h' @ [(q, r)]"] by simp
  qed
  ultimately show ?case by simp
next
  case (Ret a)
  show ?case using Ret.prems(3) [of "[]"] by simp
next
  case Panic
  show ?case using Panic.prems(3) [of "[]"] by simp
qed

lemma all_calls_wp_bind:
  assumes "all_calls P p"
    and "\<And>h' q. P q \<Longrightarrow> G (h' @ h) q"
    and "\<And>h' a. wp (f a) G Q (h' @ h)" and "\<And>h'. Q (h' @ h) Panicked"
  shows "wp (bind p f) G Q h"
  unfolding wp_bind using assms(1,2)
  by (rule all_calls_wp) (auto simp: assms(3,4) split: outcome.splits)

lemma all_calls_exec:
  assumes "all_calls P p" "exec p tr out" "(q, r) \<in> set tr"
  shows "P q"
  using assms(2,1,3) by (induction rule: exec.induct) auto

lemma all_rets_bindI:
  "all_rets R p \<Longrightarrow> (\<And>a. R a \<Longrightarrow> all_rets S (f a)) \<Longrightarrow> all_rets S (bind p f)"
  by (induction p) auto

lemma all_rets_bind: "all_rets S (bind p f) = all_rets (\<lambda>a. all_rets S (f a)) p"
  by (induction p) auto

lemma all_rets_bind_any: "(\<And>a. all_rets S (f a)) \<Longrightarrow> all_rets S (bind p f)"
  by (induction p) auto

lemma no_panic_bind_any: "no_panic p \<Longrightarrow> (\<And>a. no_panic (f a)) \<Longrightarrow> no_panic (bind p f)"
  by (induction p) auto

lemma all_calls_True [simp]: "all_calls (\<lambda>_. True) p"
  by (induction p) auto

lemma all_rets_True [simp]: "all_rets (\<lambda>_. True) p"
  by (induction p) auto

lemma all_rets_deref [simp]: "all_rets P (deref x) = (\<forall>v. x = Some v \<longrightarrow> P v)"
  by (simp add: deref_def split: option.splits)

lemma no_panic_bindI:
  "no_panic p \<Longrightarrow> all_rets R p \<Longrightarrow> (\<And>a. R a \<Longrightarrow> no_panic (f a)) \<Longrightarrow> no_panic (bind p f)"
  by (induction p) auto

lemma no_panic_bind: "no_panic (bind p f) \<longleftrightarrow> no_panic p \<and> all_rets (\<lambda>a. no_panic (f a)) p"
  by (induction p) auto

lemma no_panic_deref [simp]: "no_panic (deref x) \<longleftrightarrow> x \<noteq> None"
  by (simp add: deref_def split: option.splits)

lemma now_rets [simp]: "no_panic now" "all_rets P now = (\<forall>r. P (as_time r))"
  by (simp_all add: now_def)

lemma event_rets [simp]:
  "no_panic (record_event ob t re m)" "all_rets P (record_event ob t re m) = P ()"
  by (simp_all add: record_event_def)

lemma exec_all_rets: "exec p tr (Returned a) \<Longrightarrow> all_rets P p \<Longrightarrow> P a"
  by (induction p arbitrary: tr) (auto simp: prog_simps)

lemma exec_no_panic: "exec p tr out \<Longrightarrow> no_panic p \<Longrightarrow> out \<noteq> Panicked"
  by (induction p arbitrary: tr) (auto simp: prog_simps)

lemma wp_no_panic: "wp p G (\<lambda>_ out. out \<noteq> Panicked) h \<Longrightarrow> no_panic p"
  by (induction p arbitrary: h) auto

lemma exec_bind_no_panic:
  assumes "exec (bind p f) tr out" "no_panic p"
  obtains t1 t2 a where "tr = t1 @ t2" "exec p t1 (Returned a)" "exec (f a) t2 out"
  using assms by (auto simp: exec_bind dest: exec_no_panic)

lemma run_no_panic: "no_panic p \<Longrightarrow> fst (run p api w) \<noteq> Panicked"
  using run_exec exec_no_panic by metis

lemma all_rets_wp_bind:
  assumes "all_calls P p" and "all_rets R p"
    and "\<And>h' q. P q \<Longrightarrow> G (h' @ h) q"
    and "\<And>h' a. R a \<Longrightarrow> wp (f a) G Q (h' @ h)"
    and "\<And>h'. \<not> no_panic p \<Longrightarrow> Q (h' @ h) Panicked"
  shows "wp (bind p f) G Q h"
  using assms
proof (induction p arbitrary: h)
  case (Call q k)
  have "G h q" using Call.prems(1) Call.prems(3) [of q "[]"] by simp
  moreover have "wp (bind (k r) f) G Q ((q, r) # h)" for r
  proof (rule Call.IH [OF rangeI])
    show "Q (h' @ (q, r) # h) Panicked" if "\<not> no_panic (k r)" for h'
      using Call.prems(5) [of "h' @ [(q, r)]"] that by auto
  qed (use Call.prems(1,2) Call.prems(3,4) [of _ "_ @ [(q, r)]"] in auto)
  ultimately show ?case by simp
next
  case (Ret a)
  then show ?case using Ret.prems(4) [of a "[]"] by simp
next
  case Panic
  then show ?case using Panic.prems(5) [of "[]"] by simp
qed

text \<open>The first request with a property is at one place.\<close>

lemma first_query_unique:
  assumes "tr1 @ (q, r) # tr2 = p1 @ (q', r') # p2"
    and "\<forall>(q, r) \<in> set tr1. \<not> P q" "P q" "\<forall>(q, r) \<in> set p1. \<not> P q" "P q'"
  shows "q = q' \<and> r = r' \<and> tr2 = p2"
proof -
  have "dropWhile (\<lambda>(q, r). \<not> P q) (tr1 @ (q, r) # tr2) = (q, r) # tr2"
    using assms(2,3) by (induction tr1) auto
  moreover have "dropWhile (\<lambda>(q, r). \<not> P q) (p1 @ (q', r') # p2) = (q', r') # p2"
    using assms(4,5) by (induction p1) auto
  ultimately show ?thesis using assms(1) by simp
qed

section \<open>Reading responses\<close>

lemma as_Inr_iff [simp]:
  "as_replica r = Inr db \<longleftrightarrow> r = RReplica db"
  "as_restore r = Inr re \<longleftrightarrow> r = RRestore re"
  "as_deployment r = Inr d \<longleftrightarrow> r = RDeployment d"
  "as_statefulset r = Inr s \<longleftrightarrow> r = RStatefulSet s"
  "as_configmap r = Inr c \<longleftrightarrow> r = RConfigMap c"
  "as_job r = Inr j \<longleftrightarrow> r = RJob j"
  "as_pods r = Inr ps \<longleftrightarrow> r = RPods ps"
  "as_text r = Inr txt \<longleftrightarrow> r = RText txt"
  by (cases r; auto)+

end
