(* ===== verification/Workload.thy ===== *)
theory Workload
  imports Effects
begin

text \<open>
  The target workload of a replica (\<^verbatim>\<open>src/internal/controller/workload.go\<close>): a Deployment or a
  StatefulSet behind one handle with two pointers, of which exactly one should be non-nil. The
  accessors follow the source: they test the Deployment pointer and otherwise dereference the
  StatefulSet pointer, so a handle with two nil pointers panics.

  The locale \<open>workload_kind\<close> is the interface that both kinds provide to the controllers; it is
  interpreted for Deployments and for StatefulSets, so each lemma about scaling and about
  annotating a workload is proved once for the two branches the source writes out.
\<close>

named_theorems wl_simps \<open>accessors of workload handles\<close>

section \<open>Handles and accessors\<close>

record workloadTarget =
  wt_deployment :: "Deployment option"
  wt_statefulSet :: "StatefulSet option"

definition wt_name :: "workloadTarget \<Rightarrow> string prog" where
  "wt_name wt =
     (case wt_deployment wt of
        Some d \<Rightarrow> Ret (om_Name (dep_Meta d))
      | None \<Rightarrow> bind (deref (wt_statefulSet wt)) (\<lambda>s. Ret (om_Name (ss_Meta s))))"

definition wt_typeName :: "workloadTarget \<Rightarrow> string" where
  "wt_typeName wt = (if wt_deployment wt \<noteq> None then ''Deployment'' else ''StatefulSet'')"

text \<open>\<^verbatim>\<open>Spec.Selector.MatchLabels\<close>: the selector is a pointer of its own.\<close>

definition wt_selectorLabels :: "workloadTarget \<Rightarrow> strmap prog" where
  "wt_selectorLabels wt =
     (case wt_deployment wt of
        Some d \<Rightarrow> deref (dep_Selector d)
      | None \<Rightarrow> bind (deref (wt_statefulSet wt)) (\<lambda>s. deref (ss_Selector s)))"

definition wt_podTemplateAnnotations :: "workloadTarget \<Rightarrow> strmap prog" where
  "wt_podTemplateAnnotations wt =
     (case wt_deployment wt of
        Some d \<Rightarrow> Ret (pt_Annotations (dep_Template d))
      | None \<Rightarrow> bind (deref (wt_statefulSet wt)) (\<lambda>s. Ret (pt_Annotations (ss_Template s))))"

definition wt_podTemplateLabels :: "workloadTarget \<Rightarrow> strmap prog" where
  "wt_podTemplateLabels wt =
     (case wt_deployment wt of
        Some d \<Rightarrow> Ret (pt_Labels (dep_Template d))
      | None \<Rightarrow> bind (deref (wt_statefulSet wt)) (\<lambda>s. Ret (pt_Labels (ss_Template s))))"

definition wt_desiredReplicas :: "workloadTarget \<Rightarrow> int prog" where
  "wt_desiredReplicas wt =
     (case wt_deployment wt of
        Some d \<Rightarrow> Ret (case dep_Replicas d of Some n \<Rightarrow> n | None \<Rightarrow> 1)
      | None \<Rightarrow> bind (deref (wt_statefulSet wt))
          (\<lambda>s. Ret (case ss_Replicas s of Some n \<Rightarrow> n | None \<Rightarrow> 1)))"

definition wt_runningReplicas :: "workloadTarget \<Rightarrow> int prog" where
  "wt_runningReplicas wt =
     (case wt_deployment wt of
        Some d \<Rightarrow> Ret (dep_StatusReplicas d)
      | None \<Rightarrow> bind (deref (wt_statefulSet wt)) (\<lambda>s. Ret (ss_StatusReplicas s)))"

definition wt_readyReplicas :: "workloadTarget \<Rightarrow> int prog" where
  "wt_readyReplicas wt =
     (case wt_deployment wt of
        Some d \<Rightarrow> Ret (dep_ReadyReplicas d)
      | None \<Rightarrow> bind (deref (wt_statefulSet wt)) (\<lambda>s. Ret (ss_ReadyReplicas s)))"

section \<open>Resolving the target\<close>

definition of_deployment :: "Deployment \<Rightarrow> workloadTarget" where
  "of_deployment d = \<lparr>wt_deployment = Some d, wt_statefulSet = None\<rparr>"

definition of_statefulSet :: "StatefulSet \<Rightarrow> workloadTarget" where
  "of_statefulSet s = \<lparr>wt_deployment = None, wt_statefulSet = Some s\<rparr>"

definition getTargetWorkload :: "LitestreamReplica \<Rightarrow> (go_error + workloadTarget) prog" where
  "getTargetWorkload db =
     (let ssn = rp_TargetStatefulSet (db_Spec db); dpn = rp_TargetDeployment (db_Spec db) in
      if ssn \<noteq> [] then
        Call (GetStatefulSet \<lparr>nn_Namespace = db_Namespace db, nn_Name = ssn\<rparr>)
          (\<lambda>r. case as_statefulset r of
             Inl e \<Rightarrow> Ret (Inl (wrapf (''target StatefulSet '' @ fmt_quote ssn @ '': '') e))
           | Inr s \<Rightarrow> Ret (Inr (of_statefulSet s)))
      else
        Call (GetDeployment \<lparr>nn_Namespace = db_Namespace db, nn_Name = dpn\<rparr>)
          (\<lambda>r. case as_deployment r of
             Inl e \<Rightarrow> Ret (Inl (wrapf (''target Deployment '' @ fmt_quote dpn @ '': '') e))
           | Inr d \<Rightarrow> Ret (Inr (of_deployment d))))"

definition getTargetWorkloadForRestore ::
  "LitestreamReplica \<Rightarrow> (go_error + workloadTarget) prog" where
  "getTargetWorkloadForRestore db =
     (let ssn = rp_TargetStatefulSet (db_Spec db); dpn = rp_TargetDeployment (db_Spec db) in
      if ssn \<noteq> [] then
        Call (GetStatefulSet \<lparr>nn_Namespace = db_Namespace db, nn_Name = ssn\<rparr>)
          (\<lambda>r. case as_statefulset r of
             Inl e \<Rightarrow> Ret (Inl e)
           | Inr s \<Rightarrow> Ret (Inr (of_statefulSet s)))
      else
        Call (GetDeployment \<lparr>nn_Namespace = db_Namespace db, nn_Name = dpn\<rparr>)
          (\<lambda>r. case as_deployment r of
             Inl e \<Rightarrow> Ret (Inl e)
           | Inr d \<Rightarrow> Ret (Inr (of_deployment d))))"

section \<open>Writing to the target\<close>

definition patch_template ::
  "PodTemplateSpec \<Rightarrow> (string \<rightharpoonup> string) \<Rightarrow> (string \<rightharpoonup> string) \<Rightarrow> PodTemplateSpec" where
  "patch_template t addAnnotations addLabels =
     t\<lparr>pt_Annotations := map_merge (pt_Annotations t) addAnnotations,
       pt_Labels := map_merge (pt_Labels t) addLabels\<rparr>"

definition patchWorkloadPodTemplate ::
  "workloadTarget \<Rightarrow> (string \<rightharpoonup> string) \<Rightarrow> (string \<rightharpoonup> string) \<Rightarrow> go_error option prog" where
  "patchWorkloadPodTemplate wt addAnnotations addLabels =
     (case wt_deployment wt of
        Some dep \<Rightarrow>
          Call (PatchDeployment dep
                 (dep\<lparr>dep_Template := patch_template (dep_Template dep) addAnnotations addLabels\<rparr>))
            (\<lambda>r. Ret (as_error r))
      | None \<Rightarrow> bind (deref (wt_statefulSet wt)) (\<lambda>ss.
          Call (PatchStatefulSet ss
                 (ss\<lparr>ss_Template := patch_template (ss_Template ss) addAnnotations addLabels\<rparr>))
            (\<lambda>r. Ret (as_error r))))"

text \<open>
  \<^verbatim>\<open>scaleWorkload\<close> changes the handle it is given: after a successful patch the handle holds the
  server's object. The result is the error and the handle.
\<close>

definition scaleWorkload :: "workloadTarget \<Rightarrow> int \<Rightarrow> (go_error option \<times> workloadTarget) prog" where
  "scaleWorkload wt replicas =
     (case wt_deployment wt of
        Some dep \<Rightarrow>
          if dep_Replicas dep = Some replicas then Ret (None, wt)
          else (let dep' = dep\<lparr>dep_Replicas := Some replicas\<rparr> in
            Call (PatchDeployment dep dep')
              (\<lambda>r. case as_deployment r of
                 Inl e \<Rightarrow> Ret (Some e, wt\<lparr>wt_deployment := Some dep'\<rparr>)
               | Inr d \<Rightarrow> Ret (None, wt\<lparr>wt_deployment := Some d\<rparr>)))
      | None \<Rightarrow> bind (deref (wt_statefulSet wt)) (\<lambda>ss.
          if ss_Replicas ss = Some replicas then Ret (None, wt)
          else (let ss' = ss\<lparr>ss_Replicas := Some replicas\<rparr> in
            Call (PatchStatefulSet ss ss')
              (\<lambda>r. case as_statefulset r of
                 Inl e \<Rightarrow> Ret (Some e, wt\<lparr>wt_statefulSet := Some ss'\<rparr>)
               | Inr s \<Rightarrow> Ret (None, wt\<lparr>wt_statefulSet := Some s\<rparr>)))))"

section \<open>The view of a handle\<close>

text \<open>
  What a handle stands for, whatever its kind: the specification the accessors implement.
\<close>

record workload_view =
  wv_Kind :: string
  wv_Meta :: ObjectMeta
  wv_Replicas :: "int option"
  wv_Selector :: "strmap option"
  wv_Template :: PodTemplateSpec
  wv_Running :: int
  wv_Ready :: int

definition view_deployment :: "Deployment \<Rightarrow> workload_view" where
  "view_deployment d = \<lparr>wv_Kind = ''Deployment'', wv_Meta = dep_Meta d,
     wv_Replicas = dep_Replicas d, wv_Selector = dep_Selector d, wv_Template = dep_Template d,
     wv_Running = dep_StatusReplicas d, wv_Ready = dep_ReadyReplicas d\<rparr>"

definition view_statefulSet :: "StatefulSet \<Rightarrow> workload_view" where
  "view_statefulSet s = \<lparr>wv_Kind = ''StatefulSet'', wv_Meta = ss_Meta s,
     wv_Replicas = ss_Replicas s, wv_Selector = ss_Selector s, wv_Template = ss_Template s,
     wv_Running = ss_StatusReplicas s, wv_Ready = ss_ReadyReplicas s\<rparr>"

text \<open>Exactly one of the two pointers is non-nil (the invariant stated in workload.go).\<close>

definition wf_target :: "workloadTarget \<Rightarrow> bool" where
  "wf_target wt = ((wt_deployment wt = None) \<noteq> (wt_statefulSet wt = None))"

definition wt_view :: "workloadTarget \<Rightarrow> workload_view" where
  "wt_view wt =
     (case wt_deployment wt of
        Some d \<Rightarrow> view_deployment d
      | None \<Rightarrow> view_statefulSet (the (wt_statefulSet wt)))"

text \<open>\<^verbatim>\<open>spec.replicas\<close> defaults to 1.\<close>

definition view_desired :: "workload_view \<Rightarrow> int" where
  "view_desired v = (case wv_Replicas v of Some n \<Rightarrow> n | None \<Rightarrow> 1)"

abbreviation desired :: "workloadTarget \<Rightarrow> int" where
  "desired wt \<equiv> view_desired (wt_view wt)"

section \<open>The interface of a workload kind\<close>

locale workload_kind =
  fixes handle :: "'o \<Rightarrow> workloadTarget"
    and view :: "'o \<Rightarrow> workload_view"
    and with_replicas :: "int \<Rightarrow> 'o \<Rightarrow> 'o"
    and with_template :: "PodTemplateSpec \<Rightarrow> 'o \<Rightarrow> 'o"
    and patch :: "'o \<Rightarrow> 'o \<Rightarrow> api_req"
    and answer :: "api_resp \<Rightarrow> go_error + 'o"
  assumes wf_handle: "wf_target (handle x)"
    and view_handle: "wt_view (handle x) = view x"
    and view_with_replicas: "view (with_replicas n x) = (view x)\<lparr>wv_Replicas := Some n\<rparr>"
    and view_with_template: "view (with_template t x) = (view x)\<lparr>wv_Template := t\<rparr>"
    and scale_handle:
      "scaleWorkload (handle x) n =
         (if wv_Replicas (view x) = Some n then Ret (None, handle x)
          else Call (patch x (with_replicas n x))
            (\<lambda>r. case answer r of
               Inl e \<Rightarrow> Ret (Some e, handle (with_replicas n x))
             | Inr y \<Rightarrow> Ret (None, handle y)))"
    and answer_ok: "answer r = Inr y \<Longrightarrow> as_error r = None"
    and patch_template_handle:
      "patchWorkloadPodTemplate (handle x) an lb =
         Call (patch x (with_template (patch_template (wv_Template (view x)) an lb) x))
           (\<lambda>r. Ret (as_error r))"
begin

text \<open>
  Scaling issues at most one request, a patch that changes nothing but the replica count; its
  result is a well-formed handle.
\<close>

lemma wp_scale:
  assumes "wv_Replicas (view x) = Some n \<Longrightarrow> Q h (Returned (None, handle x))"
    and "\<And>y z r e. wv_Replicas (view x) \<noteq> Some n \<Longrightarrow> view y = (view x)\<lparr>wv_Replicas := Some n\<rparr>
      \<Longrightarrow> (e = None \<Longrightarrow> as_error r = None)
      \<Longrightarrow> G h (patch x y) \<and> Q ((patch x y, r) # h) (Returned (e, handle z))"
  shows "wp (scaleWorkload (handle x) n) G Q h"
proof -
  have "Q ((patch x (with_replicas n x), r) # h) (Returned (e, handle z))"
    and "G h (patch x (with_replicas n x))"
    if "wv_Replicas (view x) \<noteq> Some n" "e = None \<longrightarrow> as_error r = None" for r e z
    using assms(2) [OF that(1) view_with_replicas] that(2) by blast+
  moreover have "G h (patch x (with_replicas n x))" if "wv_Replicas (view x) \<noteq> Some n"
    using assms(2) [OF that view_with_replicas, of "Some undefined"] by blast
  ultimately show ?thesis
    using assms(1) by (auto simp: scale_handle answer_ok split: sum.splits)
qed

text \<open>Annotating issues exactly one request, a patch that changes nothing but the template.\<close>

lemma wp_annotate:
  assumes "\<And>y r. view y =
        (view x)\<lparr>wv_Template := patch_template (wv_Template (view x)) an lb\<rparr>
      \<Longrightarrow> G h (patch x y) \<and> Q ((patch x y, r) # h) (Returned (as_error r))"
  shows "wp (patchWorkloadPodTemplate (handle x) an lb) G Q h"
  using assms [OF view_with_template] by (simp add: patch_template_handle)

end

interpretation deployment_kind: workload_kind of_deployment view_deployment
  "\<lambda>n. dep_Replicas_update (\<lambda>_. Some n)" "\<lambda>t. dep_Template_update (\<lambda>_. t)"
  PatchDeployment as_deployment
  by unfold_locales
    (auto simp: wf_target_def of_deployment_def wt_view_def view_deployment_def
      scaleWorkload_def patchWorkloadPodTemplate_def Let_def fun_eq_iff split: sum.splits)

interpretation statefulset_kind: workload_kind of_statefulSet view_statefulSet
  "\<lambda>n. ss_Replicas_update (\<lambda>_. Some n)" "\<lambda>t. ss_Template_update (\<lambda>_. t)"
  PatchStatefulSet as_statefulset
  by unfold_locales
    (auto simp: wf_target_def of_statefulSet_def wt_view_def view_statefulSet_def
      scaleWorkload_def patchWorkloadPodTemplate_def Let_def fun_eq_iff split: sum.splits)

section \<open>Lemmas\<close>

text \<open>A well-formed handle is one of the two kinds.\<close>

lemma wf_target_cases:
  assumes "wf_target wt"
  obtains (dep) d where "wt = of_deployment d" | (ss) s where "wt = of_statefulSet s"
  using assms
  by (cases wt; cases "wt_deployment wt"; cases "wt_statefulSet wt")
    (auto simp: wf_target_def of_deployment_def of_statefulSet_def)

lemma wf_of_kind [simp]: "wf_target (of_deployment d)" "wf_target (of_statefulSet s)"
  by (rule deployment_kind.wf_handle statefulset_kind.wf_handle)+

text \<open>On a well-formed handle no accessor panics, and each returns what the view says.\<close>

lemma wf_accessors [wl_simps]:
  assumes "wf_target wt"
  shows "wt_name wt = Ret (om_Name (wv_Meta (wt_view wt)))"
    "wt_typeName wt = wv_Kind (wt_view wt)"
    "wt_selectorLabels wt = deref (wv_Selector (wt_view wt))"
    "wt_podTemplateAnnotations wt = Ret (pt_Annotations (wv_Template (wt_view wt)))"
    "wt_podTemplateLabels wt = Ret (pt_Labels (wv_Template (wt_view wt)))"
    "wt_desiredReplicas wt = Ret (desired wt)"
    "wt_runningReplicas wt = Ret (wv_Running (wt_view wt))"
    "wt_readyReplicas wt = Ret (wv_Ready (wt_view wt))"
  using assms
  by (cases rule: wf_target_cases;
      simp add: wt_name_def wt_typeName_def wt_selectorLabels_def wt_podTemplateAnnotations_def
        wt_podTemplateLabels_def wt_desiredReplicas_def wt_runningReplicas_def
        wt_readyReplicas_def view_desired_def wt_view_def view_deployment_def view_statefulSet_def
        of_deployment_def of_statefulSet_def)+

text \<open>The requests that write a workload, read through the views of what they change.\<close>

fun workload_patch :: "api_req \<Rightarrow> (workload_view \<times> workload_view) option" where
  "workload_patch (PatchDeployment b n) = Some (view_deployment b, view_deployment n)"
| "workload_patch (PatchStatefulSet b n) = Some (view_statefulSet b, view_statefulSet n)"
| "workload_patch _ = None"

text \<open>
  Symbolic execution of the operations on a well-formed handle: one rule for both kinds.
\<close>

lemma wp_scaleWorkload:
  assumes "wf_target wt"
    and "wv_Replicas (wt_view wt) = Some n \<Longrightarrow> Q h (Returned (None, wt))"
    and "\<And>q r e wt'. wv_Replicas (wt_view wt) \<noteq> Some n
      \<Longrightarrow> workload_patch q = Some (wt_view wt, (wt_view wt)\<lparr>wv_Replicas := Some n\<rparr>)
      \<Longrightarrow> wf_target wt' \<Longrightarrow> (e = None \<Longrightarrow> as_error r = None)
      \<Longrightarrow> G h q \<and> Q ((q, r) # h) (Returned (e, wt'))"
  shows "wp (scaleWorkload wt n) G Q h"
  using assms(1)
proof (cases rule: wf_target_cases)
  case (dep d)
  show ?thesis unfolding dep
    by (rule deployment_kind.wp_scale; rule assms(2,3) [unfolded dep deployment_kind.view_handle])
      simp_all
next
  case (ss s)
  show ?thesis unfolding ss
    by (rule statefulset_kind.wp_scale; rule assms(2,3) [unfolded ss statefulset_kind.view_handle])
      simp_all
qed

lemma wp_patchWorkloadPodTemplate:
  assumes "wf_target wt"
    and "\<And>q r. workload_patch q = Some (wt_view wt,
        (wt_view wt)\<lparr>wv_Template := patch_template (wv_Template (wt_view wt)) an lb\<rparr>)
      \<Longrightarrow> G h q \<and> Q ((q, r) # h) (Returned (as_error r))"
  shows "wp (patchWorkloadPodTemplate wt an lb) G Q h"
  using assms(1)
proof (cases rule: wf_target_cases)
  case (dep d)
  show ?thesis unfolding dep
    by (rule deployment_kind.wp_annotate, rule assms(2) [unfolded dep deployment_kind.view_handle])
      simp
next
  case (ss s)
  show ?thesis unfolding ss
    by (rule statefulset_kind.wp_annotate, rule assms(2) [unfolded ss statefulset_kind.view_handle])
      simp
qed

section \<open>Resolving the target, symbolically\<close>

text \<open>The one request that resolves the target, and what its response means.\<close>

definition target_query :: "LitestreamReplica \<Rightarrow> api_req" where
  "target_query db =
     (if rp_TargetStatefulSet (db_Spec db) \<noteq> []
      then GetStatefulSet \<lparr>nn_Namespace = db_Namespace db, nn_Name = rp_TargetStatefulSet (db_Spec db)\<rparr>
      else GetDeployment \<lparr>nn_Namespace = db_Namespace db, nn_Name = rp_TargetDeployment (db_Spec db)\<rparr>)"

fun workload_resp :: "api_req \<Rightarrow> api_resp \<Rightarrow> go_error + workloadTarget" where
  "workload_resp (GetStatefulSet _) r = map_sum id of_statefulSet (as_statefulset r)"
| "workload_resp (GetDeployment _) r = map_sum id of_deployment (as_deployment r)"
| "workload_resp _ r = Inl bad_response"

lemma workload_resp_wf: "workload_resp q r = Inr wt \<Longrightarrow> wf_target wt"
  by (induction q r rule: workload_resp.induct)
    (auto simp: map_sum_def split: sum.splits)

lemma getTargetWorkloadForRestore_Call:
  "getTargetWorkloadForRestore db =
     Call (target_query db) (\<lambda>r. Ret (workload_resp (target_query db) r))"
  by (auto simp: getTargetWorkloadForRestore_def target_query_def Let_def fun_eq_iff
      split: sum.splits)

text \<open>The replica controller's variant differs in the text of the error only.\<close>

lemma getTargetWorkload_Call:
  "\<exists>pre. getTargetWorkload db =
     Call (target_query db) (\<lambda>r. Ret (map_sum (wrapf pre) id (workload_resp (target_query db) r)))"
  by (auto simp: getTargetWorkload_def target_query_def Let_def fun_eq_iff split: sum.splits)

lemma wp_getTargetWorkloadForRestore:
  assumes "G h (target_query db)"
    and "\<And>r e. workload_resp (target_query db) r = Inl e \<Longrightarrow> wp (f (Inl e)) G Q ((target_query db, r) # h)"
    and "\<And>r wt. workload_resp (target_query db) r = Inr wt \<Longrightarrow> wf_target wt
      \<Longrightarrow> wp (f (Inr wt)) G Q ((target_query db, r) # h)"
  shows "wp (bind (getTargetWorkloadForRestore db) f) G Q h"
proof -
  have "wp (f (workload_resp (target_query db) r)) G Q ((target_query db, r) # h)" for r
    using assms(2,3) workload_resp_wf by (cases "workload_resp (target_query db) r") auto
  with assms(1) show ?thesis by (simp add: getTargetWorkloadForRestore_Call)
qed

lemma wp_getTargetWorkload:
  assumes "G h (target_query db)"
    and "\<And>r e e'. workload_resp (target_query db) r = Inl e \<Longrightarrow> err_Reason e' = err_Reason e
      \<Longrightarrow> wp (f (Inl e')) G Q ((target_query db, r) # h)"
    and "\<And>r wt. workload_resp (target_query db) r = Inr wt \<Longrightarrow> wf_target wt
      \<Longrightarrow> wp (f (Inr wt)) G Q ((target_query db, r) # h)"
  shows "wp (bind (getTargetWorkload db) f) G Q h"
proof -
  obtain pre where eq: "getTargetWorkload db =
      Call (target_query db) (\<lambda>r. Ret (map_sum (wrapf pre) id (workload_resp (target_query db) r)))"
    using getTargetWorkload_Call by blast
  have "wp (f (map_sum (wrapf pre) id (workload_resp (target_query db) r))) G Q
      ((target_query db, r) # h)" for r
    using assms(2,3) workload_resp_wf by (cases "workload_resp (target_query db) r") auto
  with assms(1) show ?thesis by (simp add: eq)
qed

text \<open>The requests that read a workload.\<close>

fun workload_query :: "api_req \<Rightarrow> bool" where
  "workload_query (GetDeployment _) = True"
| "workload_query (GetStatefulSet _) = True"
| "workload_query _ = False"

lemma target_query_workload [simp]: "workload_query (target_query db)"
  by (simp add: target_query_def)

text \<open>A resolving request is neither a write nor an event.\<close>

lemma target_query_simps [simp]:
  "workload_patch (target_query db) = None"
  "target_query db \<noteq> GetReplica k" "target_query db \<noteq> GetRestore k"
  "target_query db \<noteq> GetConfigMap k" "target_query db \<noteq> GetJob k"
  "target_query db \<noteq> CreateJob j" "target_query db \<noteq> PatchReplica a b"
  "target_query db \<noteq> PatchReplicaStatus a b" "target_query db \<noteq> PatchRestoreStatus c d"
  "target_query db \<noteq> CreateOrUpdateConfigMap k m ow" "target_query db \<noteq> Event ob et er em"
  "target_query db \<noteq> Now" "target_query db \<noteq> ListPods n l"
  by (simp_all add: target_query_def)

lemmas target_query_neq [simp] = target_query_simps(2-13) [symmetric]

text \<open>The accessors make no calls.\<close>

lemma all_calls_accessors [simp]:
  "all_calls P (wt_name wt)" "all_calls P (wt_selectorLabels wt)"
  "all_calls P (wt_podTemplateAnnotations wt)" "all_calls P (wt_podTemplateLabels wt)"
  "all_calls P (wt_desiredReplicas wt)" "all_calls P (wt_runningReplicas wt)"
  "all_calls P (wt_readyReplicas wt)"
  by (auto simp: wt_name_def wt_selectorLabels_def wt_podTemplateAnnotations_def
      wt_podTemplateLabels_def wt_desiredReplicas_def wt_runningReplicas_def
      wt_readyReplicas_def split: option.splits intro!: all_calls_bindI)

lemma all_calls_getTargetWorkload [simp]:
  "all_calls P (getTargetWorkload db) = P (target_query db)"
  using getTargetWorkload_Call [of db] by auto

lemma all_calls_getTargetWorkloadForRestore [simp]:
  "all_calls P (getTargetWorkloadForRestore db) = P (target_query db)"
  by (simp add: getTargetWorkloadForRestore_Call)

end
