(* ===== verification/Go_Path.thy ===== *)
theory Go_Path
  imports Prelude
begin

text \<open>
  \<^verbatim>\<open>path/filepath\<close> on Unix: \<^verbatim>\<open>Clean\<close> and \<^verbatim>\<open>Dir\<close>, which the restore controller uses to find the
  mount point of the target volume. \<open>filepath_Clean\<close> processes the components of the path with a
  stack (the last component on top), which is what the lazy buffer of the Go library computes.
\<close>

fun split_on :: "char \<Rightarrow> string \<Rightarrow> string list" where
  "split_on c [] = [[]]"
| "split_on c (x # xs) =
     (if x = c then [] # split_on c xs
      else (case split_on c xs of [] \<Rightarrow> [[x]] | y # ys \<Rightarrow> (x # y) # ys))"

definition clean_step :: "bool \<Rightarrow> string list \<Rightarrow> string \<Rightarrow> string list" where
  "clean_step rooted st seg =
     (if seg = [] \<or> seg = ''.'' then st
      else if seg = ''..'' then
        (case st of
           [] \<Rightarrow> if rooted then [] else [''..'']
         | x # xs \<Rightarrow> if x = ''..'' then ''..'' # st else xs)
      else seg # st)"

definition clean_stack :: "bool \<Rightarrow> string list \<Rightarrow> string list" where
  "clean_stack rooted comps = foldl (clean_step rooted) [] comps"

definition filepath_Clean :: "string \<Rightarrow> string" where
  "filepath_Clean path =
     (if path = [] then ''.''
      else
        (let rooted = (hd path = CHR ''/'');
             out = join_with ''/'' (rev (clean_stack rooted (split_on CHR ''/'' path)))
         in if rooted then CHR ''/'' # out else if out = [] then ''.'' else out))"

definition up_to_last_slash :: "string \<Rightarrow> string" where
  "up_to_last_slash path = rev (dropWhile (\<lambda>c. c \<noteq> CHR ''/'') (rev path))"

definition filepath_Dir :: "string \<Rightarrow> string" where
  "filepath_Dir path = filepath_Clean (up_to_last_slash path)"

section \<open>Canonical absolute paths\<close>

text \<open>A proper component: non-empty, without a slash, neither \<^verbatim>\<open>.\<close> nor \<^verbatim>\<open>..\<close>.\<close>

definition proper_comp :: "string \<Rightarrow> bool" where
  "proper_comp s = (s \<noteq> [] \<and> CHR ''/'' \<notin> set s \<and> s \<noteq> ''.'' \<and> s \<noteq> ''..'')"

definition abs_path :: "string list \<Rightarrow> string" where
  "abs_path comps = CHR ''/'' # join_with ''/'' comps"

lemma split_on_no_sep: "c \<notin> set s \<Longrightarrow> split_on c s = [s]"
  by (induction s) auto

lemma split_on_append: "c \<notin> set s \<Longrightarrow> split_on c (s @ c # t) = s # split_on c t"
  by (induction s) auto

lemma split_on_join:
  assumes "xs \<noteq> []" "\<forall>x \<in> set xs. CHR ''/'' \<notin> set x"
  shows "split_on CHR ''/'' (join_with ''/'' xs) = xs"
  using assms
proof (induction "''/''" xs rule: join_with.induct)
  case (3 x y ys)
  then show ?case by (simp add: split_on_append)
qed (auto simp: split_on_no_sep)

lemma split_on_join_slash:
  assumes "\<forall>x \<in> set xs. CHR ''/'' \<notin> set x"
  shows "split_on CHR ''/'' (join_with ''/'' xs @ ''/'') = (if xs = [] then [[], []] else xs @ [[]])"
  using assms
proof (induction "''/''" xs rule: join_with.induct)
  case (2 x)
  then show ?case using split_on_append [of "CHR ''/''" x "[]"] by simp
next
  case (3 x y ys)
  then show ?case by (simp add: split_on_append)
qed simp

lemma foldl_clean_proper:
  "\<forall>x \<in> set xs. proper_comp x \<Longrightarrow> foldl (clean_step r) st xs = rev xs @ st"
  by (induction xs arbitrary: st) (auto simp: clean_step_def proper_comp_def)

lemma proper_no_slash: "\<forall>x \<in> set xs. proper_comp x \<Longrightarrow> \<forall>x \<in> set xs. CHR ''/'' \<notin> set x"
  by (auto simp: proper_comp_def)

text \<open>Cleaning a canonical path, with or without a trailing slash.\<close>

lemma Clean_abs_path:
  assumes "\<forall>x \<in> set xs. proper_comp x"
  shows "filepath_Clean (abs_path xs) = abs_path xs"
proof (cases "xs = []")
  case True
  then show ?thesis
    by (simp add: filepath_Clean_def abs_path_def clean_stack_def clean_step_def)
next
  case False
  then show ?thesis
    using assms split_on_join [OF False proper_no_slash [OF assms]]
    by (simp add: filepath_Clean_def abs_path_def clean_stack_def clean_step_def
        foldl_clean_proper)
qed

lemma Clean_abs_path_slash:
  assumes "\<forall>x \<in> set xs. proper_comp x"
  shows "filepath_Clean (abs_path xs @ ''/'') = abs_path xs"
  using assms split_on_join_slash [OF proper_no_slash [OF assms]]
  by (simp add: filepath_Clean_def abs_path_def clean_stack_def clean_step_def
      foldl_clean_proper)

lemma up_to_last_slash_append:
  assumes "CHR ''/'' \<notin> set f"
  shows "up_to_last_slash (d @ CHR ''/'' # f) = d @ ''/''"
proof -
  have "dropWhile (\<lambda>c. c \<noteq> CHR ''/'') (rev f @ CHR ''/'' # rev d) = CHR ''/'' # rev d"
    using assms by (subst dropWhile_append2) auto
  then show ?thesis by (simp add: up_to_last_slash_def)
qed

text \<open>The parent directory of a canonical path.\<close>

lemma Dir_abs_path:
  assumes "\<forall>x \<in> set xs. proper_comp x" "CHR ''/'' \<notin> set f"
  shows "filepath_Dir ((if xs = [] then [] else abs_path xs) @ CHR ''/'' # f) = abs_path xs"
proof (cases "xs = []")
  case True
  then show ?thesis
    using up_to_last_slash_append [OF assms(2), of "[]"]
    by (simp add: filepath_Dir_def filepath_Clean_def abs_path_def clean_stack_def
        clean_step_def)
next
  case False
  then show ?thesis
    using up_to_last_slash_append [OF assms(2), of "abs_path xs"] Clean_abs_path_slash [OF assms(1)]
    by (simp add: filepath_Dir_def)
qed

end
