(* ===== verification/Sha256.thy ===== *)
theory Sha256
  imports Prelude "HOL-Library.Word"
begin

text \<open>
  \<^verbatim>\<open>crypto/sha256\<close> of the Go library (FIPS 180-4): the hash that names the init SQL of a replica.
  The message schedule is kept with the latest word first.
\<close>

unbundle bit_operations_syntax

type_synonym u8 = "8 word"
type_synonym u32 = "32 word"

text \<open>
  The constants are the first 32 bits of the fractional parts of the cube roots of the first 64
  primes and of the square roots of the first eight: \<open>iroot k b n 0\<close> is the integer part of the
  \<open>k\<close>-th root of \<open>n\<close> (below \<open>2 ^ b\<close>), and the conversion to 32 bits drops the integer part.
\<close>

fun iroot :: "nat \<Rightarrow> nat \<Rightarrow> int \<Rightarrow> int \<Rightarrow> int" where
  "iroot k 0 n r = r"
| "iroot k (Suc b) n r = iroot k b n (if (r + 2 ^ b) ^ k \<le> n then r + 2 ^ b else r)"

definition root_fraction :: "nat \<Rightarrow> int \<Rightarrow> u32" where
  "root_fraction k p = word_of_int (iroot k 36 (p * 2 ^ (32 * k)) 0)"

definition small_primes :: "int list" where
  "small_primes = filter (\<lambda>n. list_all (\<lambda>d. n mod d \<noteq> 0) [2..n - 1]) [2..311]"

definition sha256_K :: "u32 list" where
  "sha256_K = map (root_fraction 3) small_primes"

definition sha256_init :: "u32 list" where
  "sha256_init = map (root_fraction 2) [2, 3, 5, 7, 11, 13, 17, 19]"

definition sha_ch :: "u32 \<Rightarrow> u32 \<Rightarrow> u32 \<Rightarrow> u32" where
  "sha_ch x y z = (x AND y) XOR (NOT x AND z)"
definition sha_maj :: "u32 \<Rightarrow> u32 \<Rightarrow> u32 \<Rightarrow> u32" where
  "sha_maj x y z = (x AND y) XOR (x AND z) XOR (y AND z)"
definition sha_S0 :: "u32 \<Rightarrow> u32" where
  "sha_S0 x = word_rotr 2 x XOR word_rotr 13 x XOR word_rotr 22 x"
definition sha_S1 :: "u32 \<Rightarrow> u32" where
  "sha_S1 x = word_rotr 6 x XOR word_rotr 11 x XOR word_rotr 25 x"
definition sha_s0 :: "u32 \<Rightarrow> u32" where
  "sha_s0 x = word_rotr 7 x XOR word_rotr 18 x XOR drop_bit 3 x"
definition sha_s1 :: "u32 \<Rightarrow> u32" where
  "sha_s1 x = word_rotr 17 x XOR word_rotr 19 x XOR drop_bit 10 x"

fun sha_schedule :: "nat \<Rightarrow> u32 list \<Rightarrow> u32 list" where
  "sha_schedule 0 ws = ws"
| "sha_schedule (Suc n) ws =
     sha_schedule n ((sha_s1 (ws ! 1) + ws ! 6 + sha_s0 (ws ! 14) + ws ! 15) # ws)"

fun sha_round :: "u32 list \<Rightarrow> u32 \<times> u32 \<Rightarrow> u32 list" where
  "sha_round [a, b, c, d, e, f, g, h] (k, w) =
     (let t1 = h + sha_S1 e + sha_ch e f g + k + w; t2 = sha_S0 a + sha_maj a b c
      in [t1 + t2, a, b, c, d + t1, e, f, g])"
| "sha_round st kw = st"

definition sha_block :: "u32 list \<Rightarrow> u32 list \<Rightarrow> u32 list" where
  "sha_block st ws =
     map2 (+) st (foldl sha_round st (zip sha256_K (rev (sha_schedule 48 (rev ws)))))"

fun chunks :: "nat \<Rightarrow> 'a list \<Rightarrow> 'a list list" where
  "chunks n xs = (if n = 0 \<or> xs = [] then [] else take n xs # chunks n (drop n xs))"

declare chunks.simps [simp del]

text \<open>The bytes of a number, most significant first.\<close>

fun be_bytes :: "nat \<Rightarrow> nat \<Rightarrow> u8 list" where
  "be_bytes 0 n = []"
| "be_bytes (Suc k) n = be_bytes k (n div 256) @ [word_of_nat (n mod 256)]"

definition be_word :: "u8 list \<Rightarrow> u32" where
  "be_word bs = foldl (\<lambda>acc b. acc * 256 + ucast b) 0 bs"

text \<open>A byte 0x80, zeros up to 56 bytes modulo 64, and the length in bits as 64 bits.\<close>

definition sha_pad :: "u8 list \<Rightarrow> u8 list" where
  "sha_pad m = m @ [0x80] @ replicate ((119 - length m mod 64) mod 64) 0
     @ be_bytes 8 ((8 * length m) mod 2 ^ 64)"

definition sha256_Sum256 :: "u8 list \<Rightarrow> u8 list" where
  "sha256_Sum256 m =
     concat (map (\<lambda>w. be_bytes 4 (unat w))
       (foldl sha_block sha256_init (map (map be_word \<circ> chunks 4) (chunks 64 (sha_pad m)))))"

text \<open>\<^verbatim>\<open>[]byte(s)\<close> and the verb \<^verbatim>\<open>%x\<close>: two lower-case hexadecimal digits for each byte.\<close>

definition bytes_of :: "string \<Rightarrow> u8 list" where
  "bytes_of s = map (\<lambda>c. word_of_nat (of_char c)) s"

definition fmt_hex :: "u8 list \<Rightarrow> string" where
  "fmt_hex bs = concat (map (\<lambda>b. [hex_char (unat b div 16), hex_char (unat b mod 16)]) bs)"

section \<open>Shape of the digest\<close>

lemma length_be_bytes [simp]: "length (be_bytes k n) = k"
  by (induction k arbitrary: n) auto

lemma length_sha_round: "length st = 8 \<Longrightarrow> length (sha_round st kw) = 8"
  by (induction st kw rule: sha_round.induct) (auto simp: Let_def)

lemma length_foldl_round: "length st = 8 \<Longrightarrow> length (foldl sha_round st kws) = 8"
  by (induction kws arbitrary: st) (auto simp: length_sha_round)

lemma length_sha_block: "length st = 8 \<Longrightarrow> length (sha_block st ws) = 8"
  by (simp add: sha_block_def length_foldl_round)

lemma length_foldl_block: "length st = 8 \<Longrightarrow> length (foldl sha_block st bs) = 8"
  by (induction bs arbitrary: st) (auto simp: length_sha_block)

lemma length_concat_const: "\<forall>x \<in> set xs. length (f x) = n \<Longrightarrow> length (concat (map f xs)) = n * length xs"
  by (induction xs) auto

lemma length_Sum256: "length (sha256_Sum256 m) = 32"
  by (simp add: sha256_Sum256_def length_concat_const [where n = 4] length_foldl_block
      sha256_init_def)

lemma length_sha_pad: "length (sha_pad m) mod 64 = 0"
proof -
  have pad: "(119 - r) mod 64 + (r + 9) = (if r \<le> 55 then 64 else 128)" if "r < 64" for r :: nat
  proof (cases "r \<le> 55")
    case True
    then have "119 - r = 64 + (55 - r)" by simp
    with True show ?thesis by (simp only: mod_add_self1) simp
  next
    case False
    with that show ?thesis by simp
  qed
  have "length (sha_pad m) =
      64 * (length m div 64) + ((119 - length m mod 64) mod 64 + (length m mod 64 + 9))"
    by (simp add: sha_pad_def)
  also have "\<dots> = 64 * (length m div 64) + (if length m mod 64 \<le> 55 then 64 else 128)"
    by (subst pad) simp_all
  finally show ?thesis by simp
qed

lemma length_fmt_hex: "length (fmt_hex bs) = 2 * length bs"
  by (simp add: fmt_hex_def length_concat_const [where n = 2])

lemma hex_char_digit:
  assumes "d < 16"
  shows "hex_char d \<in> set ''0123456789abcdef''"
proof -
  have "\<forall>d \<in> set [0..<16]. hex_char d \<in> set ''0123456789abcdef''"
    by code_simp
  with assms show ?thesis by auto
qed

lemma fmt_hex_digits: "set (fmt_hex bs) \<subseteq> set ''0123456789abcdef''"
proof -
  have "unat b div 16 < 16" for b :: u8
    by (rule less_mult_imp_div_less) (use unsigned_less [of b] in simp)
  then have "set [hex_char (unat b div 16), hex_char (unat b mod 16)]
      \<subseteq> set ''0123456789abcdef''" for b :: u8
    using hex_char_digit [of "unat b div 16"] hex_char_digit [of "unat b mod 16"]
    by (simp del: insert_iff)
  then show ?thesis unfolding fmt_hex_def by (auto simp del: set_simps)
qed

end
