(* ===== verification/Replica_Config.thy ===== *)
theory Replica_Config
  imports Api_Types Go_Path Sha256
begin

text \<open>
  The configuration file of the Litestream sidecar: \<^verbatim>\<open>buildLitestreamConfigYAML\<close>, the constants
  around it and \<^verbatim>\<open>initSQLHash\<close> of \<^verbatim>\<open>src/internal/controller/litestreamreplica_controller.go\<close>.

  The text is the contract between three parties: the replica controller writes it (or the paused
  text) into a ConfigMap, the restore controller compares the ConfigMap with the paused text, and
  Litestream reads it. The lemmas show the list of lines that is rendered, that the text determines
  the settings of the resource and is determined by them, and that it never equals the paused text.
  How Litestream parses the text is not modelled.
\<close>

section \<open>Definitions\<close>

definition injectEnabled :: string where "injectEnabled = ''true''"
definition pausedConfig :: string where "pausedConfig = ''dbs: []\<newline>''"
definition litestreamSidecar :: string where "litestreamSidecar = ''litestream''"
definition litestreamConfigKey :: string where "litestreamConfigKey = ''litestream.yml''"

definition statusSyncInterval :: int where "statusSyncInterval = 2 * 60 * 1000000000"
definition restoreRequeueInterval :: int where "restoreRequeueInterval = 5 * 1000000000"

definition buildLitestreamConfigYAML :: "LitestreamReplica \<Rightarrow> string" where
  "buildLitestreamConfigYAML db =
     (let dbPath = rp_DatabasePath (db_Spec db) @ ''/'' @ rp_DatabaseName (db_Spec db);
          cfg = ''addr: \":9090\"\<newline>'';
          cfg = cfg @ ''dbs:\<newline>  - path: '' @ dbPath @ ''\<newline>''
      in case (if bk_Enabled (db_Backup db) then db_S3 db else None) of
           None \<Rightarrow> cfg
         | Some s3 \<Rightarrow>
             (let cfg = cfg @ ''    replica:\<newline>'';
                  cfg = cfg @ ''      type: s3\<newline>'';
                  cfg = (if s3_Endpoint s3 \<noteq> [] then
                           (let endpoint = s3_Endpoint s3;
                                endpoint = (if \<not> strings_HasPrefix endpoint ''http://''
                                               \<and> \<not> strings_HasPrefix endpoint ''https://''
                                            then ''http://'' @ endpoint else endpoint);
                                cfg = cfg @ ''      endpoint: '' @ endpoint @ ''\<newline>''
                            in cfg @ ''      force-path-style: true\<newline>'')
                         else cfg);
                  cfg = cfg @ ''      bucket: '' @ s3_Bucket s3 @ ''\<newline>'';
                  cfg = (if s3_Path s3 \<noteq> []
                         then cfg @ ''      path: '' @ strings_TrimRight (s3_Path s3) ''/'' @ ''\<newline>''
                         else cfg);
                  cfg = (if ret_Duration (bk_Retention (db_Backup db)) \<noteq> []
                         then cfg @ ''      retention: '' @ ret_Duration (bk_Retention (db_Backup db))
                                @ ''\<newline>''
                         else cfg);
                  cfg = (if bk_SyncInterval (db_Backup db) \<noteq> []
                         then cfg @ ''      sync-interval: '' @ bk_SyncInterval (db_Backup db)
                                @ ''\<newline>''
                         else cfg)
              in cfg))"

definition initSQLHash :: "string \<Rightarrow> string" where
  "initSQLHash sql = fmt_hex (sha256_Sum256 (bytes_of sql))"

section \<open>Specification: the lines of the file\<close>

definition db_full_path :: "LitestreamReplica \<Rightarrow> string" where
  "db_full_path db = rp_DatabasePath (db_Spec db) @ ''/'' @ rp_DatabaseName (db_Spec db)"

definition endpoint_url :: "string \<Rightarrow> string" where
  "endpoint_url e =
     (if strings_HasPrefix e ''http://'' \<or> strings_HasPrefix e ''https://'' then e
      else ''http://'' @ e)"

definition opt_line :: "string \<Rightarrow> string \<Rightarrow> string list" where
  "opt_line key v = (if v = [] then [] else [key @ '': '' @ v])"

definition s3_lines :: "BackupSpec \<Rightarrow> S3Destination \<Rightarrow> string list" where
  "s3_lines bk s3 =
     [''    replica:'', ''      type: s3'']
     @ (if s3_Endpoint s3 = [] then []
        else [''      endpoint: '' @ endpoint_url (s3_Endpoint s3), ''      force-path-style: true''])
     @ [''      bucket: '' @ s3_Bucket s3]
     @ (if s3_Path s3 = [] then [] else [''      path: '' @ strings_TrimRight (s3_Path s3) ''/''])
     @ opt_line ''      retention'' (ret_Duration (bk_Retention bk))
     @ opt_line ''      sync-interval'' (bk_SyncInterval bk)"

definition config_lines :: "LitestreamReplica \<Rightarrow> string list" where
  "config_lines db =
     [''addr: \":9090\"'', ''dbs:'', ''  - path: '' @ db_full_path db]
     @ (case db_S3 db of
          Some s3 \<Rightarrow> if bk_Enabled (db_Backup db) then s3_lines (db_Backup db) s3 else []
        | None \<Rightarrow> [])"

definition unlines :: "string list \<Rightarrow> string" where
  "unlines ls = concat (map (\<lambda>l. l @ [newline]) ls)"

text \<open>
  The settings of a replica that the file is about: the path of the database and, when backup to S3
  is enabled, the endpoint with its scheme, the bucket, the key prefix without trailing slashes, the
  retention and the sync interval. What is not configured is absent.
\<close>

record replica_settings =
  se_Endpoint :: "string option"
  se_Bucket :: string
  se_Path :: "string option"
  se_Retention :: string
  se_SyncInterval :: string

definition db_settings :: "LitestreamReplica \<Rightarrow> string \<times> replica_settings option" where
  "db_settings db = (db_full_path db,
     (case db_S3 db of
        Some s3 \<Rightarrow>
          if bk_Enabled (db_Backup db) then Some
            \<lparr>se_Endpoint = (if s3_Endpoint s3 = [] then None else Some (endpoint_url (s3_Endpoint s3))),
             se_Bucket = s3_Bucket s3,
             se_Path = (if s3_Path s3 = [] then None else Some (strings_TrimRight (s3_Path s3) ''/'')),
             se_Retention = ret_Duration (bk_Retention (db_Backup db)),
             se_SyncInterval = bk_SyncInterval (db_Backup db)\<rparr>
          else None
      | None \<Rightarrow> None))"

section \<open>Lemmas\<close>

lemma newline_literal: "''\<newline>'' = [newline]"
  by (simp add: newline_def)

lemma build_unlines: "buildLitestreamConfigYAML db = unlines (config_lines db)"
  by (simp add: buildLitestreamConfigYAML_def config_lines_def s3_lines_def opt_line_def
      unlines_def db_full_path_def endpoint_url_def newline_def Let_def split: option.splits)

lemma split_on_unlines:
  "\<forall>l \<in> set ls. newline \<notin> set l \<Longrightarrow> split_on newline (unlines ls) = ls @ [[]]"
  by (induction ls) (auto simp: unlines_def split_on_append)

lemma endpoint_url_idem: "endpoint_url (endpoint_url e) = endpoint_url e"
  by (auto simp: endpoint_url_def strings_HasPrefix_def prefix_def)

text \<open>The fields that are written into the file hold no line break.\<close>

definition one_line :: "LitestreamReplica \<Rightarrow> bool" where
  "one_line db =
     (newline \<notin> set (rp_DatabasePath (db_Spec db)) \<union> set (rp_DatabaseName (db_Spec db))
        \<union> set (ret_Duration (bk_Retention (db_Backup db))) \<union> set (bk_SyncInterval (db_Backup db))
        \<union> (case db_S3 db of None \<Rightarrow> {}
           | Some s3 \<Rightarrow> set (s3_Endpoint s3) \<union> set (s3_Bucket s3) \<union> set (s3_Path s3)))"

lemma one_line_config_lines:
  assumes "one_line db"
  shows "\<forall>l \<in> set (config_lines db). newline \<notin> set l"
  using assms set_TrimRight
  by (fastforce simp: one_line_def config_lines_def s3_lines_def opt_line_def db_full_path_def
      endpoint_url_def newline_def split: option.splits if_splits)

text \<open>The rest of the first line that starts with a key.\<close>

definition line_value :: "string \<Rightarrow> string list \<Rightarrow> string option" where
  "line_value key ls = map_option (drop (length key + 2)) (find (\<lambda>l. prefix (key @ '': '') l) ls)"

lemma line_values:
  "line_value ''  - path'' (config_lines db) = Some (fst (db_settings db))"
  "line_value ''      endpoint'' (config_lines db) = Option.bind (snd (db_settings db)) se_Endpoint"
  "line_value ''      bucket'' (config_lines db) = map_option se_Bucket (snd (db_settings db))"
  "line_value ''      path'' (config_lines db) = Option.bind (snd (db_settings db)) se_Path"
  "line_value ''      retention'' (config_lines db) =
     Option.bind (snd (db_settings db)) (\<lambda>x. if se_Retention x = [] then None else Some (se_Retention x))"
  "line_value ''      sync-interval'' (config_lines db) =
     Option.bind (snd (db_settings db)) (\<lambda>x. if se_SyncInterval x = [] then None else Some (se_SyncInterval x))"
  by (simp_all add: line_value_def config_lines_def db_settings_def s3_lines_def opt_line_def split: option.split)

text \<open>Every key is in the lines, so the lines determine the settings.\<close>

lemma settings_cong:
  assumes "config_lines a = config_lines b"
  shows "db_settings a = db_settings b"
proof -
  note same = line_values [of a, unfolded assms, unfolded line_values [of b]]
  show ?thesis
  proof (cases "snd (db_settings a)"; cases "snd (db_settings b)")
    fix x y assume "snd (db_settings a) = Some x" "snd (db_settings b) = Some y"
    moreover from this have "x = y" using same(2-6) by (cases x; cases y) (simp split: if_splits)
    ultimately show ?thesis using same(1) by (simp add: prod_eq_iff)
  qed (use same in \<open>simp_all add: prod_eq_iff\<close>)
qed

lemma lines_of_settings:
  "config_lines db = [''addr: \":9090\"'', ''dbs:'', ''  - path: '' @ fst (db_settings db)]
     @ (case snd (db_settings db) of None \<Rightarrow> []
        | Some x \<Rightarrow> [''    replica:'', ''      type: s3'']
            @ (case se_Endpoint x of None \<Rightarrow> [] | Some e \<Rightarrow> [''      endpoint: '' @ e, ''      force-path-style: true''])
            @ [''      bucket: '' @ se_Bucket x]
            @ (case se_Path x of None \<Rightarrow> [] | Some p \<Rightarrow> [''      path: '' @ p])
            @ opt_line ''      retention'' (se_Retention x) @ opt_line ''      sync-interval'' (se_SyncInterval x))"
  by (simp add: config_lines_def db_settings_def s3_lines_def split: option.split)

section \<open>Properties\<close>

text \<open>
  The rendered configuration never equals the paused configuration. Both gates of the restore
  controller (wait for the pause before scaling down, wait for the resume before scaling up)
  compare the ConfigMap with the paused text, so they can tell the two apart for every replica.
\<close>

lemma build_not_paused_text: "buildLitestreamConfigYAML db \<noteq> pausedConfig"
  by (simp add: build_unlines unlines_def config_lines_def pausedConfig_def)

text \<open>
  C17. The text is a faithful image of the settings: for replicas whose rendered fields hold no line
  break, the rendered configurations of two of them are equal exactly when the two agree on the path
  of the database, on whether they are backed up to S3, and then on the endpoint with its scheme, the
  bucket, the key prefix without trailing slashes, the retention and the sync interval.
\<close>

theorem config_text_settings:
  assumes "one_line a" "one_line b"
  shows "buildLitestreamConfigYAML a = buildLitestreamConfigYAML b \<longleftrightarrow> db_settings a = db_settings b"
proof
  assume "buildLitestreamConfigYAML a = buildLitestreamConfigYAML b"
  then have "split_on newline (unlines (config_lines a)) = split_on newline (unlines (config_lines b))"
    by (simp add: build_unlines)
  then have "config_lines a = config_lines b"
    unfolding split_on_unlines [OF one_line_config_lines [OF assms(1)]]
      split_on_unlines [OF one_line_config_lines [OF assms(2)]] by simp
  then show "db_settings a = db_settings b" by (rule settings_cong)
qed (simp add: build_unlines lines_of_settings)

definition sample_s3 :: S3Destination where
  "sample_s3 = \<lparr>s3_Endpoint = ''minio.homelab:9000'', s3_Bucket = ''litestream-backups'',
     s3_Path = ''paperless/'', s3_SecretRef = ''minio-creds''\<rparr>"

definition sample_replica :: LitestreamReplica where
  "sample_replica = \<lparr>
     db_Meta = zero_ObjectMeta\<lparr>om_Name := ''paperless-db'', om_Namespace := ''paperless''\<rparr>,
     db_Spec = \<lparr>rp_DatabaseName = ''paperless.db'', rp_DatabasePath = ''/data'',
       rp_TargetDeployment = ''web'', rp_TargetStatefulSet = [], rp_Image = [],
       rp_Backup = \<lparr>bk_Enabled = True, bk_Destination = \<lparr>dest_S3 = Some sample_s3\<rparr>,
         bk_Retention = \<lparr>ret_Duration = ''720h''\<rparr>, bk_SyncInterval = [], bk_LogLevel = [],
         bk_Resources = None, bk_AutoRestore = False\<rparr>,
       rp_InitSQL = [], rp_InitImage = [], rp_RunAsUser = None, rp_RunAsGroup = None\<rparr>,
     db_Status = \<lparr>st_Phase = [], st_Ready = False, st_BackupHealthy = False,
       st_LastBackup = None, st_ReplicationLag = [], st_InitSQLHash = [],
       st_ObservedGeneration = 0, st_Conditions = []\<rparr>\<rparr>"

lemmas sample_defs = sample_replica_def sample_s3_def zero_ObjectMeta_def

theorem config_text_settings_witness:
  "buildLitestreamConfigYAML sample_replica
     \<noteq> buildLitestreamConfigYAML (sample_replica\<lparr>db_Spec := (db_Spec sample_replica)\<lparr>rp_DatabaseName := ''other.db''\<rparr>\<rparr>)"
proof -
  let ?other = "sample_replica\<lparr>db_Spec := (db_Spec sample_replica)\<lparr>rp_DatabaseName := ''other.db''\<rparr>\<rparr>"
  have "one_line sample_replica" "one_line ?other" "db_settings sample_replica \<noteq> db_settings ?other"
    by (simp_all add: one_line_def newline_def sample_defs db_settings_def db_full_path_def)
  with config_text_settings [of sample_replica ?other] show ?thesis by simp
qed

text \<open>
  The hash of the init SQL has 64 hexadecimal digits, so it is never empty and names a file.
\<close>

theorem initSQLHash_shape:
  "length (initSQLHash sql) = 64 \<and> set (initSQLHash sql) \<subseteq> set ''0123456789abcdef''"
  using fmt_hex_digits by (simp add: initSQLHash_def length_fmt_hex length_Sum256)

end
