(* ===== verification/Replica_Controller.thy ===== *)
theory Replica_Controller
  imports Workload Replica_Config
begin

text \<open>
  The LitestreamReplica reconciler (\<^verbatim>\<open>src/internal/controller/litestreamreplica_controller.go\<close>):
  \<open>replica_Reconcile\<close> writes the sidecar's ConfigMap, the init SQL ConfigMap, the injection
  annotations of the target workload and the status of the resource, in this order, and stops at
  the first error.

  \<^verbatim>\<open>meta.SetStatusCondition\<close> and \<^verbatim>\<open>meta.RemoveStatusCondition\<close> belong to the API machinery: they
  are the argument \<open>M\<close> of the operations that use them. What the source relies on (and what
  their documentation promises) is the locale \<open>status_conditions\<close>.
\<close>

section \<open>Status conditions\<close>

record meta_lib =
  SetStatusCondition :: "Condition list \<Rightarrow> Condition \<Rightarrow> Condition list"
  RemoveStatusCondition :: "Condition list \<Rightarrow> string \<Rightarrow> Condition list"

definition find_cond :: "string \<Rightarrow> Condition list \<Rightarrow> Condition option" where
  "find_cond ty cs = find (\<lambda>c. cond_Type c = ty) cs"

definition cond_is :: "string \<Rightarrow> string \<Rightarrow> Condition list \<Rightarrow> bool" where
  "cond_is ty st cs = (case find_cond ty cs of None \<Rightarrow> False | Some c \<Rightarrow> cond_Status c = st)"

definition setCondition ::
  "meta_lib \<Rightarrow> Condition list \<Rightarrow> string \<Rightarrow> string \<Rightarrow> string \<Rightarrow> string \<Rightarrow> int \<Rightarrow> time \<Rightarrow> Condition list"
where
  "setCondition M conditions condType status reason message gen t =
     SetStatusCondition M conditions
       \<lparr>cond_Type = condType, cond_Status = status, cond_ObservedGeneration = gen,
        cond_LastTransitionTime = t, cond_Reason = reason, cond_Message = message\<rparr>"

text \<open>\<^verbatim>\<open>setCondition(&db.Status.Conditions, ..., db.Generation, now)\<close>\<close>

definition set_db_condition ::
  "meta_lib \<Rightarrow> string \<Rightarrow> string \<Rightarrow> string \<Rightarrow> string \<Rightarrow> time \<Rightarrow> LitestreamReplica \<Rightarrow> LitestreamReplica"
where
  "set_db_condition M condType status reason message t db =
     db\<lparr>db_Status := (db_Status db)\<lparr>st_Conditions :=
       setCondition M (st_Conditions (db_Status db)) condType status reason message
         (om_Generation (db_Meta db)) t\<rparr>\<rparr>"

definition patch_replica_status ::
  "LitestreamReplica \<Rightarrow> LitestreamReplica \<Rightarrow> (go_error option \<times> LitestreamReplica) prog" where
  "patch_replica_status base db =
     Call (PatchReplicaStatus base db)
       (\<lambda>r. case as_replica r of Inl e \<Rightarrow> Ret (Some e, db) | Inr x \<Rightarrow> Ret (None, x))"

section \<open>Config maps\<close>

definition buildLitestreamConfig :: "LitestreamReplica \<Rightarrow> string" where
  "buildLitestreamConfig db = buildLitestreamConfigYAML db"

definition is_paused :: "LitestreamReplica \<Rightarrow> bool" where
  "is_paused db = (map_get (db_Annotations db) AnnotationPause = injectEnabled)"

definition reconcileLitestreamConfig :: "LitestreamReplica \<Rightarrow> go_error option prog" where
  "reconcileLitestreamConfig db =
     (let config = (if map_get (db_Annotations db) AnnotationPause = injectEnabled
                    then pausedConfig else buildLitestreamConfig db)
      in Call (CreateOrUpdateConfigMap
                \<lparr>nn_Namespace = db_Namespace db, nn_Name = db_Name db @ ''-litestream''\<rparr>
                [litestreamConfigKey \<mapsto> config] (ReplicaObj db))
           (\<lambda>r. Ret (as_error r)))"

text \<open>The horizontal ellipsis of the message, in UTF-8.\<close>

definition ellipsis :: string where
  "ellipsis = [CHR 0xE2, CHR 0x80, CHR 0xA6]"

definition reconcileInitSQLConfig ::
  "meta_lib \<Rightarrow> LitestreamReplica \<Rightarrow> (go_error option \<times> LitestreamReplica) prog" where
  "reconcileInitSQLConfig M db =
     (if rp_InitSQL (db_Spec db) = [] then
        (if st_InitSQLHash (db_Status db) \<noteq> [] then
           bind now (\<lambda>t.
             patch_replica_status db
               (set_db_condition M ConditionInitSQLApplied ConditionFalse ''NoInitSQL''
                  ''no initSQL configured'' t
                  (db\<lparr>db_Status := (db_Status db)\<lparr>st_InitSQLHash := []\<rparr>\<rparr>)))
         else Ret (None, db))
      else
        (let hash = initSQLHash (rp_InitSQL (db_Spec db)) in
         Call (CreateOrUpdateConfigMap
                \<lparr>nn_Namespace = db_Namespace db, nn_Name = db_Name db @ ''-init-sql''\<rparr>
                [''init.sql'' \<mapsto> rp_InitSQL (db_Spec db)] (ReplicaObj db))
           (\<lambda>r. case as_error r of
              Some e \<Rightarrow> Ret (Some e, db)
            | None \<Rightarrow>
                if st_InitSQLHash (db_Status db) = hash then Ret (None, db)
                else bind now (\<lambda>t.
                  patch_replica_status db
                    (set_db_condition M ConditionInitSQLApplied ConditionTrue ''ConfigMapReady''
                       (''init SQL ConfigMap ready (hash '' @ take 8 hash @ ellipsis @ '')'') t
                       (db\<lparr>db_Status := (db_Status db)\<lparr>st_InitSQLHash := hash\<rparr>\<rparr>))))))"

section \<open>Annotating the target\<close>

definition configRef :: "LitestreamReplica \<Rightarrow> string" where
  "configRef db = db_Namespace db @ ''/'' @ db_Name db"

definition reconcileTargetAnnotation :: "LitestreamReplica \<Rightarrow> go_error option prog" where
  "reconcileTargetAnnotation db =
     bind (getTargetWorkload db) (\<lambda>res. case res of
       Inl e \<Rightarrow> Ret (Some e)
     | Inr wt \<Rightarrow>
         bind (wt_desiredReplicas wt) (\<lambda>n.
         if n > 1 then
           bind (wt_name wt) (\<lambda>nm.
           bind (record_event (ReplicaObj db) ''Warning'' ''ReplicaCountExceeded''
             (''target '' @ wt_typeName wt @ '' '' @ fmt_quote nm @ '' has '' @ show_int n
              @ '' replicas; Litestream requires exactly 1 writer'')) (\<lambda>_.
           Ret None))
         else
           bind (wt_podTemplateAnnotations wt) (\<lambda>tmplAnnotations.
           bind (wt_podTemplateLabels wt) (\<lambda>tmplLabels.
           if map_get tmplAnnotations AnnotationInject = injectEnabled
              \<and> map_get tmplAnnotations AnnotationConfig = configRef db
              \<and> map_get tmplLabels AnnotationInject = injectEnabled
           then Ret None
           else patchWorkloadPodTemplate wt
                  [AnnotationInject \<mapsto> injectEnabled, AnnotationConfig \<mapsto> configRef db]
                  [AnnotationInject \<mapsto> injectEnabled]))))"

section \<open>Inspecting pods\<close>

definition isFailureReason :: "string \<Rightarrow> bool" where
  "isFailureReason reason =
     (reason \<in> {''CrashLoopBackOff'', ''OOMKilled'', ''Error'', ''ImagePullBackOff'', ''ErrImagePull''})"

text \<open>The variables of the loop: \<^verbatim>\<open>runningCount\<close>, \<^verbatim>\<open>failedPods\<close> and \<^verbatim>\<open>noneFound\<close>.\<close>

record health_acc =
  runningCount :: nat
  failedPods :: "string list"
  noneFound :: bool

definition health_step :: "Pod \<Rightarrow> health_acc \<Rightarrow> ContainerStatus \<Rightarrow> health_acc" where
  "health_step pod a cs =
     (if cs_Name cs \<noteq> litestreamSidecar then a
      else
        (let nm = om_Name (pod_Meta pod);
             a = a\<lparr>noneFound := False\<rparr>;
             a = (if stt_Running (cs_State cs) then a\<lparr>runningCount := runningCount a + 1\<rparr> else a);
             a = (case stt_Waiting (cs_State cs) of
                    None \<Rightarrow> a
                  | Some reason \<Rightarrow>
                      if isFailureReason reason
                      then a\<lparr>failedPods := failedPods a @ [nm @ '' ('' @ reason @ '')'']\<rparr> else a);
             a = (case stt_Terminated (cs_State cs) of
                    None \<Rightarrow> a
                  | Some code \<Rightarrow>
                      if code \<noteq> 0
                      then a\<lparr>failedPods := failedPods a @ [nm @ '' (exit '' @ show_int code @ '')'']\<rparr>
                      else a)
         in a))"

definition health_loop :: "Pod list \<Rightarrow> health_acc" where
  "health_loop pods =
     foldl (\<lambda>a pod. foldl (health_step pod) a (pod_ContainerStatuses pod))
       \<lparr>runningCount = 0, failedPods = [], noneFound = True\<rparr> pods"

definition sidecar_state :: "Pod list \<Rightarrow> bool \<times> string" where
  "sidecar_state pods =
     (let a = health_loop pods in
      if noneFound a then (False, ''no pods with Litestream sidecar found; waiting for rollout'')
      else if failedPods a \<noteq> [] then
        (False, ''Litestream sidecar unhealthy in pods: '' @ fmt_slice (failedPods a))
      else if runningCount a > 0 then
        (True, ''Litestream sidecar running in '' @ show_nat (runningCount a) @ '' pod(s)'')
      else (False, ''Litestream sidecar not yet running''))"

definition litestreamContainerState ::
  "LitestreamReplica \<Rightarrow> workloadTarget \<Rightarrow> (bool \<times> string) prog" where
  "litestreamContainerState db wt =
     bind (wt_selectorLabels wt) (\<lambda>labels.
     Call (ListPods (db_Namespace db) labels)
       (\<lambda>r. case as_pods r of
          Inl e \<Rightarrow> Ret (False, ''failed to list pods: '' @ err_Text e)
        | Inr pods \<Rightarrow> Ret (sidecar_state pods)))"

text \<open>The nested loops of \<^verbatim>\<open>archiveCheckState\<close> return at the first failed init container.\<close>

definition archive_check_failed_status :: "ContainerStatus \<Rightarrow> bool" where
  "archive_check_failed_status cs =
     (cs_Name cs = ''litestream-archive-check''
      \<and> (case stt_Terminated (cs_State cs) of None \<Rightarrow> False | Some code \<Rightarrow> code \<noteq> 0))"

fun archive_failed_pod :: "Pod list \<Rightarrow> Pod option" where
  "archive_failed_pod [] = None"
| "archive_failed_pod (pod # pods) =
     (case find archive_check_failed_status (pod_InitContainerStatuses pod) of
        Some _ \<Rightarrow> Some pod
      | None \<Rightarrow> archive_failed_pod pods)"

definition archiveCheckState ::
  "LitestreamReplica \<Rightarrow> workloadTarget \<Rightarrow> (bool \<times> string) prog" where
  "archiveCheckState db wt =
     (if \<not> bk_Enabled (db_Backup db) then Ret (False, ''backup not enabled'')
      else bind (wt_selectorLabels wt) (\<lambda>labels.
        Call (ListPods (db_Namespace db) labels)
          (\<lambda>r. case as_pods r of
             Inl e \<Rightarrow> Ret (False, ''failed to list pods: '' @ err_Text e)
           | Inr pods \<Rightarrow>
               (case archive_failed_pod pods of
                  Some pod \<Rightarrow> Ret (True, ''archive check failed in pod '' @ om_Name (pod_Meta pod)
                    @ '': S3 has existing backup data but local database is missing; ''
                    @ ''create a LitestreamRestore CR to recover'')
                | None \<Rightarrow> Ret (False, ''archive check passed'')))))"

definition clearSkipArchiveCheck :: "LitestreamReplica \<Rightarrow> go_error option prog" where
  "clearSkipArchiveCheck db =
     Call (GetReplica \<lparr>nn_Namespace = db_Namespace db, nn_Name = db_Name db\<rparr>)
       (\<lambda>r. case as_replica r of
          Inl e \<Rightarrow> Ret (Some e)
        | Inr latest \<Rightarrow>
            if map_get (db_Annotations latest) AnnotationSkipArchiveCheck \<noteq> injectEnabled
            then Ret None
            else Call (PatchReplica latest
                   (latest\<lparr>db_Meta := (db_Meta latest)\<lparr>om_Annotations :=
                      map_delete (db_Annotations latest) AnnotationSkipArchiveCheck\<rparr>\<rparr>))
                 (\<lambda>r. Ret (as_error r)))"

section \<open>Status\<close>

definition set_phase :: "string \<Rightarrow> bool \<Rightarrow> LitestreamReplica \<Rightarrow> LitestreamReplica" where
  "set_phase phase ready db =
     db\<lparr>db_Status := (db_Status db)\<lparr>st_Phase := phase, st_Ready := ready\<rparr>\<rparr>"

definition set_backup_healthy :: "bool \<Rightarrow> LitestreamReplica \<Rightarrow> LitestreamReplica" where
  "set_backup_healthy b db = db\<lparr>db_Status := (db_Status db)\<lparr>st_BackupHealthy := b\<rparr>\<rparr>"

definition remove_db_condition :: "meta_lib \<Rightarrow> string \<Rightarrow> LitestreamReplica \<Rightarrow> LitestreamReplica" where
  "remove_db_condition M ty db =
     db\<lparr>db_Status := (db_Status db)\<lparr>st_Conditions :=
       RemoveStatusCondition M (st_Conditions (db_Status db)) ty\<rparr>\<rparr>"

definition patch_status_err :: "LitestreamReplica \<Rightarrow> LitestreamReplica \<Rightarrow> go_error option prog" where
  "patch_status_err base db = bind (patch_replica_status base db) (\<lambda>(e, _). Ret e)"

text \<open>The BackupHealthy section of \<^verbatim>\<open>updateStatus\<close>, with its events and the annotation clean-up.\<close>

definition update_backup_health ::
  "meta_lib \<Rightarrow> workloadTarget \<Rightarrow> time \<Rightarrow> LitestreamReplica \<Rightarrow> LitestreamReplica prog" where
  "update_backup_health M wt t db =
     (let prevHealthy = st_BackupHealthy (db_Status db) in
      if bk_Enabled (db_Backup db) then
        bind (litestreamContainerState db wt) (\<lambda>(healthy, msg).
          (let db = set_backup_healthy healthy db;
               db = set_db_condition M ConditionBackupHealthy
                      (if healthy then ConditionTrue else ConditionFalse)
                      (if healthy then ''SidecarRunning'' else ''SidecarUnhealthy'') msg t db
           in
           bind (if healthy \<and> \<not> prevHealthy then
                   record_event (ReplicaObj db) ''Normal'' ''BackupHealthy''
                     ''Litestream sidecar is running and replicating''
                 else if \<not> healthy \<and> prevHealthy then
                   record_event (ReplicaObj db) ''Warning'' ''BackupUnhealthy'' msg
                 else Ret ()) (\<lambda>_.
           bind (if healthy \<and> map_get (db_Annotations db) AnnotationSkipArchiveCheck = injectEnabled
                 then bind (clearSkipArchiveCheck db) (\<lambda>_. Ret ())
                 else Ret ()) (\<lambda>_.
           Ret db))))
      else
        Ret (set_db_condition M ConditionBackupHealthy ConditionFalse ''BackupDisabled''
               ''backup is not enabled in spec'' t (set_backup_healthy False db)))"

definition updateStatus :: "meta_lib \<Rightarrow> LitestreamReplica \<Rightarrow> go_error option prog" where
  "updateStatus M db0 =
     bind (getTargetWorkload db0) (\<lambda>res.
     bind now (\<lambda>t.
     (let db = db0\<lparr>db_Status := (db_Status db0)\<lparr>st_ObservedGeneration :=
                 om_Generation (db_Meta db0)\<rparr>\<rparr> in
      case res of
        Inl e \<Rightarrow>
          (let msg = ''target workload not found: '' @ err_Text e;
               db = set_backup_healthy False (set_phase PhaseError False db);
               db = set_db_condition M ConditionSidecarInjected ConditionFalse
                      ''WorkloadNotFound'' msg t db;
               db = set_db_condition M ConditionBackupHealthy ConditionFalse
                      ''WorkloadNotFound'' msg t db;
               db = set_db_condition M ConditionReady ConditionFalse ''WorkloadNotFound'' msg t db
           in patch_status_err db0 db)
      | Inr wt \<Rightarrow>
          bind (wt_desiredReplicas wt) (\<lambda>n.
          if n > 1 then
            bind (wt_name wt) (\<lambda>nm.
            patch_status_err db0
              (set_db_condition M ConditionReplicaCountExceeded ConditionTrue ''TooManyReplicas''
                (''target '' @ wt_typeName wt @ '' '' @ fmt_quote nm @ '' has '' @ show_int n
                 @ '' replicas; Litestream requires exactly 1 writer'') t
                (set_phase PhaseError False db)))
          else
            (let db = remove_db_condition M ConditionReplicaCountExceeded db;
                 isPaused = (map_get (db_Annotations db) AnnotationPause = injectEnabled);
                 db = (if isPaused
                       then set_db_condition M ConditionReplicationPaused ConditionTrue
                              ''PauseAnnotationSet'' ''replication paused via annotation'' t db
                       else set_db_condition M ConditionReplicationPaused ConditionFalse
                              ''ReplicationActive'' ''replication is active'' t db)
             in
             bind (archiveCheckState db wt) (\<lambda>(archiveCheckFailed, msg).
             if archiveCheckFailed then
               patch_status_err db0
                 (set_phase PhaseError False
                   (set_db_condition M ConditionArchiveCheckFailed ConditionTrue
                      ''ArchiveCheckFailed'' msg t db))
             else
               (let db = set_db_condition M ConditionArchiveCheckFailed ConditionFalse
                           ''ArchiveCheckPassed'' msg t db in
                bind (wt_podTemplateAnnotations wt) (\<lambda>an.
                (let annotated = (map_get an AnnotationInject = injectEnabled);
                     db = (if annotated
                           then set_db_condition M ConditionSidecarInjected ConditionTrue
                                  ''Annotated'' (''target '' @ wt_typeName wt
                                  @ '' is annotated for sidecar injection'') t db
                           else set_db_condition M ConditionSidecarInjected ConditionFalse
                                  ''AnnotationPending''
                                  (''injection annotation not yet applied to target ''
                                   @ wt_typeName wt) t db)
                 in
                 bind (update_backup_health M wt t db) (\<lambda>db.
                 if isPaused then
                   patch_status_err db0
                     (set_db_condition M ConditionReady ConditionFalse ''ReplicationPaused''
                       ''replication is paused; waiting for pause annotation to be removed'' t
                       (set_phase PhasePaused False db))
                 else
                   bind (wt_readyReplicas wt) (\<lambda>ready.
                   if annotated \<and> ready > 0 then
                     patch_status_err db0
                       (set_db_condition M ConditionReady ConditionTrue ''WorkloadReady''
                         (''target '' @ wt_typeName wt @ '' has ready replicas'') t
                         (set_phase PhaseReady True db))
                   else
                     patch_status_err db0
                       (set_db_condition M ConditionReady ConditionFalse ''WorkloadNotReady''
                         (''waiting for target '' @ wt_typeName wt @ '' to have ready replicas'') t
                         (set_phase PhasePending False db)))))))))))))"

section \<open>Reconcile\<close>

definition replica_Reconcile :: "meta_lib \<Rightarrow> NamespacedName \<Rightarrow> ctrl_result prog" where
  "replica_Reconcile M req =
     Call (GetReplica req) (\<lambda>r. case as_replica r of
       Inl e \<Rightarrow> if errors_IsNotFound e then Ret (0, None) else Ret (0, Some e)
     | Inr db \<Rightarrow>
         bind (reconcileLitestreamConfig db) (\<lambda>err. case err of
           Some e \<Rightarrow> Ret (0, Some e)
         | None \<Rightarrow>
         bind (reconcileInitSQLConfig M db) (\<lambda>(err, db). case err of
           Some e \<Rightarrow> Ret (0, Some e)
         | None \<Rightarrow>
         bind (reconcileTargetAnnotation db) (\<lambda>err. case err of
           Some e \<Rightarrow> Ret (0, Some e)
         | None \<Rightarrow>
         bind (updateStatus M db) (\<lambda>err. case err of
           Some e \<Rightarrow> Ret (0, Some e)
         | None \<Rightarrow> Ret (statusSyncInterval, None))))))"

text \<open>
  The pod event mapper of \<^verbatim>\<open>SetupWithManager\<close>: which replica a pod event is about. The loop of the
  source looks for the byte offset of the first slash.
\<close>

fun slash_index :: "string \<Rightarrow> nat \<Rightarrow> nat option" where
  "slash_index [] i = None"
| "slash_index (c # cs) i = (if c = CHR ''/'' then Some i else slash_index cs (i + 1))"

definition podToLitestreamReplica :: "Pod \<Rightarrow> NamespacedName list" where
  "podToLitestreamReplica pod =
     (let ref = map_get (om_Annotations (pod_Meta pod)) AnnotationConfig in
      if ref = [] then []
      else
        (let (ns, name) = (case slash_index ref 0 of
               Some i \<Rightarrow> (take i ref, drop (i + 1) ref)
             | None \<Rightarrow> ([], ref));
             ns = (if ns = [] then om_Namespace (pod_Meta pod) else ns)
         in [\<lparr>nn_Namespace = ns, nn_Name = name\<rparr>]))"

end
