(* ===== verification/Restore_Jobs.thy ===== *)
theory Restore_Jobs
  imports Replica_Config Go_Path
begin

text \<open>
  The Jobs of a restore (\<^verbatim>\<open>src/internal/controller/litestreamrestore_controller.go\<close>): the one that
  runs \<^verbatim>\<open>litestream restore\<close> and the one that runs the integrity check. The lemmas relate what
  the two Jobs mount and the arguments they get to the restore's spec and to the configuration
  file of the source replica.
\<close>

section \<open>Constants\<close>

definition defaultLitestreamImage :: string where
  "defaultLitestreamImage = LitestreamDefaultImage"
definition restoreLabelKey :: string where "restoreLabelKey = ''litestream.io/restore''"
definition restoreTargetVolumeName :: string where "restoreTargetVolumeName = ''target''"

section \<open>Jobs\<close>

definition secret_env :: "string \<Rightarrow> string \<Rightarrow> string \<Rightarrow> EnvVar" where
  "secret_env nm secretRef key =
     \<lparr>ev_Name = nm, ev_Value = [], ev_ValueFrom = Some \<lparr>sk_Name = secretRef, sk_Key = key\<rparr>\<rparr>"

definition s3EnvVars :: "string \<Rightarrow> EnvVar list" where
  "s3EnvVars secretRef =
     [secret_env ''LITESTREAM_ACCESS_KEY_ID'' secretRef ''ACCESS_KEY_ID'',
      secret_env ''LITESTREAM_SECRET_ACCESS_KEY'' secretRef ''SECRET_ACCESS_KEY'']"

definition restore_labels :: "LitestreamRestore \<Rightarrow> strmap" where
  "restore_labels restore =
     Some [''app.kubernetes.io/managed-by'' \<mapsto> ''litestream-operator'',
           restoreLabelKey \<mapsto> res_Name restore]"

definition restore_image :: "LitestreamRestore \<Rightarrow> LitestreamReplica \<Rightarrow> string" where
  "restore_image restore sourceDB =
     (let image = re_Image (res_Spec restore);
          image = (if image = [] then rp_Image (db_Spec sourceDB) else image)
      in if image = [] then defaultLitestreamImage else image)"

definition restore_args :: "LitestreamRestore \<Rightarrow> LitestreamReplica \<Rightarrow> string list" where
  "restore_args restore sourceDB =
     (let dbPathInConfig = rp_DatabasePath (db_Spec sourceDB) @ ''/'' @ rp_DatabaseName (db_Spec sourceDB);
          args = [''restore'', ''-config'', ''/etc/litestream/litestream.yml'',
                  ''-o'', re_TargetPath (res_Spec restore)];
          args = (if re_Force (res_Spec restore) then args @ [''-force''] else args);
          args = (if re_Timestamp (res_Spec restore) \<noteq> []
                  then args @ [''-timestamp'', re_Timestamp (res_Spec restore)] else args)
      in args @ [dbPathInConfig])"

text \<open>\<^verbatim>\<open>s3.SecretRef\<close> dereferences the destination: no S3 destination is a panic (\<open>None\<close>).\<close>

definition buildRestoreJob ::
  "LitestreamRestore \<Rightarrow> LitestreamReplica \<Rightarrow> string \<Rightarrow> Job option" where
  "buildRestoreJob restore sourceDB jobName =
     (case db_S3 sourceDB of
        None \<Rightarrow> None
      | Some s3 \<Rightarrow>
          (let mountPath = filepath_Dir (re_TargetPath (res_Spec restore));
               jobLabels = restore_labels restore;
               restorePodSpec = zero_PodSpec\<lparr>
                 ps_RestartPolicy := ''OnFailure'',
                 ps_Containers := [zero_Container\<lparr>
                   c_Name := ''litestream-restore'',
                   c_Image := restore_image restore sourceDB,
                   c_Args := restore_args restore sourceDB,
                   c_Env := s3EnvVars (s3_SecretRef s3),
                   c_VolumeMounts :=
                     [zero_VolumeMount\<lparr>vm_Name := restoreTargetVolumeName, vm_MountPath := mountPath\<rparr>,
                      zero_VolumeMount\<lparr>vm_Name := ''litestream-config'',
                        vm_MountPath := ''/etc/litestream'', vm_ReadOnly := True\<rparr>]\<rparr>],
                 ps_Volumes :=
                   [\<lparr>vol_Name = ''target'',
                     vol_Source = PersistentVolumeClaimSource (re_TargetPVC (res_Spec restore))\<rparr>,
                    \<lparr>vol_Name = ''litestream-config'',
                     vol_Source = ConfigMapSource (res_Name restore @ ''-litestream'')\<rparr>],
                 ps_SecurityContext :=
                   (if re_RunAsUser (res_Spec restore) \<noteq> None \<or> re_RunAsGroup (res_Spec restore) \<noteq> None
                    then Some \<lparr>sc_RunAsUser = re_RunAsUser (res_Spec restore),
                               sc_RunAsGroup = re_RunAsGroup (res_Spec restore)\<rparr>
                    else None)\<rparr>
           in Some \<lparr>
             job_Meta = zero_ObjectMeta\<lparr>om_Name := jobName, om_Namespace := res_Namespace restore,
               om_Labels := jobLabels\<rparr>,
             job_BackoffLimit = Some 3,
             job_Template = \<lparr>pt_Annotations = None, pt_Labels = jobLabels, pt_Spec = restorePodSpec\<rparr>,
             job_Conditions = []\<rparr>))"

definition validation_script :: "string \<Rightarrow> string" where
  "validation_script targetPath =
     ''result=$(sqlite3 '' @ fmt_quote targetPath
     @ '' \"PRAGMA quick_check;\"); if [ \"$result\" = \"ok\" ]; then echo \"ok\"; exit 0; fi; ''
     @ ''echo \"integrity check failed: $result\"; exit 1''"

definition buildValidationJob ::
  "LitestreamRestore \<Rightarrow> LitestreamReplica \<Rightarrow> string \<Rightarrow> Job" where
  "buildValidationJob restore sourceDB jobName =
     (let image = rp_InitImage (db_Spec sourceDB);
          image = (if image = [] then ''keinos/sqlite3:latest'' else image);
          mountPath = filepath_Dir (re_TargetPath (res_Spec restore));
          jobLabels = restore_labels restore;
          validationSecCtx =
            (if re_RunAsUser (res_Spec restore) \<noteq> None \<or> re_RunAsGroup (res_Spec restore) \<noteq> None
             then \<lparr>sc_RunAsUser = re_RunAsUser (res_Spec restore),
                   sc_RunAsGroup = re_RunAsGroup (res_Spec restore)\<rparr>
             else \<lparr>sc_RunAsUser = Some 0, sc_RunAsGroup = Some 0\<rparr>)
      in \<lparr>
        job_Meta = zero_ObjectMeta\<lparr>om_Name := jobName, om_Namespace := res_Namespace restore,
          om_Labels := jobLabels\<rparr>,
        job_BackoffLimit = Some 1,
        job_Template = \<lparr>pt_Annotations = None, pt_Labels = jobLabels,
          pt_Spec = zero_PodSpec\<lparr>
            ps_RestartPolicy := ''Never'',
            ps_SecurityContext := Some validationSecCtx,
            ps_Containers := [zero_Container\<lparr>
              c_Name := ''db-integrity-check'',
              c_Image := image,
              c_Command := [''sh'', ''-c'', validation_script (re_TargetPath (res_Spec restore))],
              c_VolumeMounts := [zero_VolumeMount\<lparr>vm_Name := restoreTargetVolumeName,
                vm_MountPath := mountPath\<rparr>]\<rparr>],
            ps_Volumes := [\<lparr>vol_Name = ''target'',
              vol_Source = PersistentVolumeClaimSource (re_TargetPVC (res_Spec restore))\<rparr>]\<rparr>\<rparr>,
        job_Conditions = []\<rparr>)"

section \<open>What the Jobs are\<close>

text \<open>The volumes that the first container of a Job mounts, with the mount path.\<close>

definition job_pod :: "Job \<Rightarrow> PodSpec" where
  "job_pod job = pt_Spec (job_Template job)"

definition mounted_at :: "Job \<Rightarrow> string \<Rightarrow> VolumeSource option" where
  "mounted_at job path =
     (case find (\<lambda>m. vm_MountPath m = path) (concat (map c_VolumeMounts (ps_Containers (job_pod job)))) of
        None \<Rightarrow> None
      | Some m \<Rightarrow> map_option vol_Source (find (\<lambda>v. vol_Name v = vm_Name m) (ps_Volumes (job_pod job))))"

lemma buildRestoreJob_panics_iff: "buildRestoreJob restore db n = None \<longleftrightarrow> db_S3 db = None"
  by (simp add: buildRestoreJob_def Let_def split: option.splits)

lemma target_mounted:
  assumes "buildRestoreJob restore db n = Some job"
  shows "mounted_at job (filepath_Dir (re_TargetPath (res_Spec restore))) =
      Some (PersistentVolumeClaimSource (re_TargetPVC (res_Spec restore)))"
    and "mounted_at (buildValidationJob restore db m) (filepath_Dir (re_TargetPath (res_Spec restore))) =
      Some (PersistentVolumeClaimSource (re_TargetPVC (res_Spec restore)))"
  using assms
  by (auto simp: buildRestoreJob_def buildValidationJob_def mounted_at_def job_pod_def Let_def
      restoreTargetVolumeName_def zero_VolumeMount_def split: option.splits)

text \<open>
  C19. The restore and the validation Job work on the same file of the target claim: for a target
  path \<open>dirs/f\<close> both Jobs mount the claim at \<open>dirs\<close>, the output argument of \<^verbatim>\<open>litestream restore\<close>
  is that path, and the integrity check of the second Job names the same path.
\<close>

theorem restore_jobs_same_target:
  assumes "buildRestoreJob restore db n = Some job"
    and "re_TargetPath (res_Spec restore) = (if dirs = [] then [] else abs_path dirs) @ ''/'' @ f"
    and "\<forall>d \<in> set dirs. proper_comp d" "proper_comp f"
  shows "mounted_at job (abs_path dirs) =
      Some (PersistentVolumeClaimSource (re_TargetPVC (res_Spec restore)))
    \<and> mounted_at (buildValidationJob restore db m) (abs_path dirs) =
      Some (PersistentVolumeClaimSource (re_TargetPVC (res_Spec restore)))
    \<and> c_Args (hd (ps_Containers (job_pod job))) ! 4 = re_TargetPath (res_Spec restore)
    \<and> c_Command (hd (ps_Containers (job_pod (buildValidationJob restore db m)))) =
      [''sh'', ''-c'', validation_script (re_TargetPath (res_Spec restore))]"
proof -
  have dir: "filepath_Dir (re_TargetPath (res_Spec restore)) = abs_path dirs"
    using assms(2-4) Dir_abs_path [of dirs f] by (simp add: proper_comp_def)
  from assms(1) have "c_Args (hd (ps_Containers (job_pod job))) = restore_args restore db"
    by (auto simp: buildRestoreJob_def job_pod_def Let_def split: option.splits)
  then have "c_Args (hd (ps_Containers (job_pod job))) ! 4 = re_TargetPath (res_Spec restore)"
    by (simp add: restore_args_def Let_def nth_append)
  with target_mounted [OF assms(1)] dir show ?thesis
    by (auto simp: buildValidationJob_def job_pod_def Let_def)
qed

text \<open>
  C18. The last argument of \<^verbatim>\<open>litestream restore\<close> is, character by character, the path of the
  database in the first lines of the configuration file that the Job mounts, and the configuration
  flag names the key of that ConfigMap under the directory where it is mounted.
\<close>

theorem restore_job_config_agrees:
  assumes "buildRestoreJob restore db n = Some job"
    and "filepath_Dir (re_TargetPath (res_Spec restore)) \<noteq> ''/etc/litestream''"
  shows "prefix (''addr: \":9090\"\<newline>dbs:\<newline>  - path: '' @ last (restore_args restore db) @ ''\<newline>'')
      (buildLitestreamConfigYAML db)
    \<and> mounted_at job ''/etc/litestream'' = Some (ConfigMapSource (res_Name restore @ ''-litestream''))
    \<and> restore_args restore db ! 2 = ''/etc/litestream/'' @ litestreamConfigKey
    \<and> (\<exists>c. ps_Containers (job_pod job) = [c] \<and> c_Args c = restore_args restore db)"
proof -
  have "prefix (''addr: \":9090\"\<newline>dbs:\<newline>  - path: '' @ last (restore_args restore db) @ ''\<newline>'')
      (buildLitestreamConfigYAML db)"
    by (simp add: build_unlines unlines_def config_lines_def restore_args_def db_full_path_def Let_def newline_def)
  moreover have "restore_args restore db ! 2 = ''/etc/litestream/'' @ litestreamConfigKey"
    by (simp add: restore_args_def litestreamConfigKey_def Let_def nth_append)
  ultimately show ?thesis
    using assms
    by (auto simp: buildRestoreJob_def mounted_at_def job_pod_def Let_def
        restoreTargetVolumeName_def zero_VolumeMount_def split: option.splits)
qed

section \<open>Samples\<close>

definition sample_restore :: LitestreamRestore where
  "sample_restore = \<lparr>
     res_Meta = zero_ObjectMeta\<lparr>om_Name := ''recover'', om_Namespace := ''paperless''\<rparr>,
     res_Spec = \<lparr>re_SourceRef = ''paperless-db'', re_TargetPVC = ''paperless-data'',
       re_TargetPath = ''/data/paperless.db'', re_Timestamp = [], re_Image = [], re_Force = True,
       re_RunAsUser = None, re_RunAsGroup = None\<rparr>,
     res_Status = \<lparr>rst_Phase = [], rst_JobName = [], rst_OriginalReplicas = None,
       rst_StartTime = None, rst_CompletionTime = None, rst_Message = []\<rparr>\<rparr>"

lemma sample_restore_job: "\<exists>job. buildRestoreJob sample_restore sample_replica ''recover-restore'' = Some job"
  by (simp add: buildRestoreJob_def Let_def sample_defs)

theorem restore_jobs_same_target_witness:
  "mounted_at (buildValidationJob sample_restore sample_replica ''recover-validate'') ''/data'' =
     Some (PersistentVolumeClaimSource ''paperless-data'')"
proof -
  obtain job where job: "buildRestoreJob sample_restore sample_replica ''recover-restore'' = Some job"
    using sample_restore_job by blast
  show ?thesis
    using restore_jobs_same_target [OF job, of "[''data'']" "''paperless.db''" "''recover-validate''"]
    by (simp add: sample_restore_def abs_path_def proper_comp_def)
qed

theorem restore_job_config_agrees_witness:
  "prefix (''addr: \":9090\"\<newline>dbs:\<newline>  - path: '' @ last (restore_args sample_restore sample_replica) @ ''\<newline>'')
     (buildLitestreamConfigYAML sample_replica)"
proof -
  obtain job where job: "buildRestoreJob sample_restore sample_replica ''recover-restore'' = Some job"
    using sample_restore_job by blast
  have "filepath_Dir (re_TargetPath (res_Spec sample_restore)) \<noteq> ''/etc/litestream''"
    using Dir_abs_path [of "[''data'']" "''paperless.db''"]
    by (simp add: sample_restore_def abs_path_def proper_comp_def)
  with restore_job_config_agrees [OF job] show ?thesis by blast
qed

end
