(* ===== verification/Restore_Controller.thy ===== *)
theory Restore_Controller
  imports Replica_Controller Restore_Jobs
begin

text \<open>
  The LitestreamRestore reconciler (\<^verbatim>\<open>src/internal/controller/litestreamrestore_controller.go\<close>):
  a state machine over the phase of the resource. Each reconciliation reads the restore and its
  source replica and runs the handler of the phase; a handler ends with at most one status write,
  which moves to the next phase.

  The reconciler's optional \<^verbatim>\<open>KubeClient\<close> (nil in some configurations) is the argument
  \<open>hasKube\<close>. Log calls of the source have no effect and are omitted.
\<close>

section \<open>Status\<close>

text \<open>The changes of \<^verbatim>\<open>setStatus\<close> to the local object.\<close>

definition apply_status ::
  "LitestreamRestore \<Rightarrow> string \<Rightarrow> string \<Rightarrow> string \<Rightarrow> int option \<Rightarrow> time option \<Rightarrow> time option
   \<Rightarrow> LitestreamRestore"
where
  "apply_status restore phase jobName message originalReplicas startTime completionTime =
     restore\<lparr>res_Status := (let s = res_Status restore in s\<lparr>
       rst_Phase := phase,
       rst_JobName := (if jobName \<noteq> [] then jobName else rst_JobName s),
       rst_Message := message,
       rst_OriginalReplicas :=
         (if originalReplicas \<noteq> None \<and> rst_OriginalReplicas s = None
          then originalReplicas else rst_OriginalReplicas s),
       rst_StartTime :=
         (if startTime \<noteq> None \<and> rst_StartTime s = None then startTime else rst_StartTime s),
       rst_CompletionTime :=
         (if completionTime \<noteq> None then completionTime else rst_CompletionTime s)\<rparr>)\<rparr>"

definition setStatus ::
  "LitestreamRestore \<Rightarrow> string \<Rightarrow> string \<Rightarrow> string \<Rightarrow> int option \<Rightarrow> time option \<Rightarrow> time option
   \<Rightarrow> go_error option prog"
where
  "setStatus restore phase jobName message originalReplicas startTime completionTime =
     Call (PatchRestoreStatus restore
            (apply_status restore phase jobName message originalReplicas startTime completionTime))
       (\<lambda>r. Ret (as_error r))"

definition failRestore :: "LitestreamRestore \<Rightarrow> string \<Rightarrow> go_error option prog" where
  "failRestore restore msg =
     bind (record_event (RestoreObj restore) ''Warning'' ''RestoreFailed'' msg) (\<lambda>_.
     bind now (\<lambda>t.
     setStatus restore RestorePhaseFailed [] msg None (Some t) (Some t)))"

section \<open>Annotations of the source replica\<close>

definition with_annotations :: "LitestreamReplica \<Rightarrow> strmap \<Rightarrow> LitestreamReplica" where
  "with_annotations db an = db\<lparr>db_Meta := (db_Meta db)\<lparr>om_Annotations := an\<rparr>\<rparr>"

text \<open>The caller's object: on success the server's answer, on failure the local change.\<close>

definition pauseReplication ::
  "LitestreamReplica \<Rightarrow> (go_error option \<times> LitestreamReplica) prog" where
  "pauseReplication db =
     (if map_get (db_Annotations db) AnnotationPause = injectEnabled then Ret (None, db)
      else
        (let db' = with_annotations db (map_set (db_Annotations db) AnnotationPause injectEnabled)
         in Call (PatchReplica db db')
              (\<lambda>r. case as_replica r of Inl e \<Rightarrow> Ret (Some e, db') | Inr x \<Rightarrow> Ret (None, x))))"

definition resumeReplication :: "LitestreamReplica \<Rightarrow> go_error option prog" where
  "resumeReplication db =
     (if map_get (db_Annotations db) AnnotationPause \<noteq> injectEnabled then Ret None
      else Call (GetReplica \<lparr>nn_Namespace = db_Namespace db, nn_Name = db_Name db\<rparr>)
        (\<lambda>r. case as_replica r of
           Inl e \<Rightarrow> Ret (Some e)
         | Inr latest \<Rightarrow>
             Call (PatchReplica latest
                    (with_annotations latest (map_delete (db_Annotations latest) AnnotationPause)))
               (\<lambda>r. Ret (as_error r))))"

definition setSkipArchiveCheck :: "LitestreamReplica \<Rightarrow> bool \<Rightarrow> go_error option prog" where
  "setSkipArchiveCheck db enable =
     Call (GetReplica \<lparr>nn_Namespace = db_Namespace db, nn_Name = db_Name db\<rparr>)
       (\<lambda>r. case as_replica r of
          Inl e \<Rightarrow> Ret (Some e)
        | Inr latest \<Rightarrow>
            (let isSet = (map_get (db_Annotations latest) AnnotationSkipArchiveCheck = injectEnabled)
             in if enable \<and> isSet \<or> \<not> enable \<and> \<not> isSet then Ret None
                else
                  (let an = Some (map_make (db_Annotations latest));
                       an = (if enable then map_set an AnnotationSkipArchiveCheck injectEnabled
                             else map_delete an AnnotationSkipArchiveCheck)
                   in Call (PatchReplica latest (with_annotations latest an)) (\<lambda>r. Ret (as_error r)))))"

section \<open>Helpers\<close>

definition reconcileRestoreConfig ::
  "LitestreamRestore \<Rightarrow> LitestreamReplica \<Rightarrow> go_error option prog" where
  "reconcileRestoreConfig restore sourceDB =
     Call (CreateOrUpdateConfigMap
            \<lparr>nn_Namespace = res_Namespace restore, nn_Name = res_Name restore @ ''-litestream''\<rparr>
            [litestreamConfigKey \<mapsto> buildLitestreamConfigYAML sourceDB] (RestoreObj restore))
       (\<lambda>r. Ret (as_error r))"

text \<open>Best effort: any error gives the empty string. The log tail has 30 lines.\<close>

definition restoreJobPodLogs :: "bool \<Rightarrow> string \<Rightarrow> string \<Rightarrow> string prog" where
  "restoreJobPodLogs hasKube namespace restoreName =
     (if \<not> hasKube then Ret []
      else Call (KubeListPods namespace (restoreLabelKey @ ''='' @ restoreName))
        (\<lambda>r. case as_pods r of
           Inl e \<Rightarrow> Ret []
         | Inr [] \<Rightarrow> Ret []
         | Inr (pod # _) \<Rightarrow>
             Call (KubeGetLogs namespace (om_Name (pod_Meta pod)) 30)
               (\<lambda>r. case as_text r of Inl e \<Rightarrow> Ret [] | Inr txt \<Rightarrow> Ret txt)))"

text \<open>The replica count to return to: the recorded one, 1 if none was recorded.\<close>

definition restore_target :: "LitestreamRestore \<Rightarrow> int" where
  "restore_target restore =
     (case rst_OriginalReplicas (res_Status restore) of Some n \<Rightarrow> n | None \<Rightarrow> 1)"

definition failRestoreWithCleanup ::
  "LitestreamRestore \<Rightarrow> LitestreamReplica \<Rightarrow> string \<Rightarrow> go_error option prog" where
  "failRestoreWithCleanup restore sourceDB msg =
     bind (getTargetWorkloadForRestore sourceDB) (\<lambda>res.
     bind (case res of
             Inl e \<Rightarrow> Ret ()
           | Inr wt \<Rightarrow>
               bind (wt_runningReplicas wt) (\<lambda>n.
               if n = 0 \<and> restore_target restore > 0
               then bind (scaleWorkload wt (restore_target restore)) (\<lambda>_. Ret ())
               else Ret ())) (\<lambda>_.
     bind (resumeReplication sourceDB) (\<lambda>_.
     bind (record_event (RestoreObj restore) ''Warning'' ''RestoreFailed'' msg) (\<lambda>_.
     bind now (\<lambda>t.
     setStatus restore RestorePhaseFailed (rst_JobName (res_Status restore)) msg
       (rst_OriginalReplicas (res_Status restore)) (rst_StartTime (res_Status restore)) (Some t))))))"

section \<open>The phases\<close>

definition reconcilePending :: "LitestreamRestore \<Rightarrow> LitestreamReplica \<Rightarrow> ctrl_result prog" where
  "reconcilePending restore sourceDB =
     bind (getTargetWorkloadForRestore sourceDB) (\<lambda>res.
     bind (case res of
             Inr wt \<Rightarrow> bind (wt_desiredReplicas wt) (\<lambda>n. Ret (Inr n))
           | Inl e \<Rightarrow> if errors_IsNotFound e then Ret (Inr 0) else Ret (Inl e)) (\<lambda>orig.
     case orig of
       Inl e \<Rightarrow>
         bind (failRestore restore (''getting target workload for LitestreamReplica ''
           @ fmt_quote (db_Name sourceDB) @ '': '' @ err_Text e)) (\<lambda>err. Ret (0, err))
     | Inr originalReplicas \<Rightarrow>
         bind (pauseReplication sourceDB) (\<lambda>(err, sourceDB). case err of
           Some e \<Rightarrow> Ret (0, Some (wrapf ''setting pause annotation on LitestreamReplica: '' e))
         | None \<Rightarrow>
             bind (record_event (RestoreObj restore) ''Normal'' ''PausingReplication''
               (''Pausing Litestream replication on LitestreamReplica '' @ db_Name sourceDB)) (\<lambda>_.
             bind now (\<lambda>t.
             bind (setStatus restore RestorePhasePausing (rst_JobName (res_Status restore))
               ''pausing replication'' (Some originalReplicas) (Some t) None) (\<lambda>err.
             Ret (restoreRequeueInterval, err)))))))"

definition reconcilePausing :: "LitestreamRestore \<Rightarrow> LitestreamReplica \<Rightarrow> ctrl_result prog" where
  "reconcilePausing restore sourceDB =
     (if map_get (db_Annotations sourceDB) AnnotationPause \<noteq> injectEnabled then
        bind (pauseReplication sourceDB) (\<lambda>(err, _). case err of
          Some e \<Rightarrow> Ret (0, Some (wrapf ''re-setting pause annotation: '' e))
        | None \<Rightarrow> Ret (restoreRequeueInterval, None))
      else
        Call (GetConfigMap \<lparr>nn_Namespace = db_Namespace sourceDB,
                nn_Name = db_Name sourceDB @ ''-litestream''\<rparr>)
          (\<lambda>r. case as_configmap r of
             Inl e \<Rightarrow> Ret (restoreRequeueInterval, Some (wrapf ''getting litestream ConfigMap: '' e))
           | Inr cm \<Rightarrow>
               if map_get (cm_Data cm) litestreamConfigKey \<noteq> pausedConfig
               then Ret (restoreRequeueInterval, None)
               else
                 bind (getTargetWorkloadForRestore sourceDB) (\<lambda>res.
                 let next = bind (setStatus restore RestorePhaseScalingDown
                       (rst_JobName (res_Status restore)) ''waiting for pods to terminate''
                       (rst_OriginalReplicas (res_Status restore))
                       (rst_StartTime (res_Status restore)) None)
                       (\<lambda>err. Ret (restoreRequeueInterval, err))
                 in case res of
                   Inl e \<Rightarrow>
                     if \<not> errors_IsNotFound e
                     then bind (failRestore restore (''cannot find target workload: '' @ err_Text e))
                            (\<lambda>err. Ret (0, err))
                     else next
                 | Inr wt \<Rightarrow>
                     bind (scaleWorkload wt 0) (\<lambda>(err, wt). case err of
                       Some e \<Rightarrow> Ret (0, Some (wrapf ''scaling workload to 0: '' e))
                     | None \<Rightarrow>
                         bind (wt_name wt) (\<lambda>nm.
                         bind (record_event (RestoreObj restore) ''Normal'' ''ScalingDown''
                           (''Scaled '' @ wt_typeName wt @ '' '' @ nm @ '' to 0 replicas'')) (\<lambda>_.
                         next))))))"

definition reconcileScalingDown :: "LitestreamRestore \<Rightarrow> LitestreamReplica \<Rightarrow> ctrl_result prog" where
  "reconcileScalingDown restore sourceDB =
     bind (getTargetWorkloadForRestore sourceDB) (\<lambda>res.
     let create =
       bind (reconcileRestoreConfig restore sourceDB) (\<lambda>err. case err of
         Some e \<Rightarrow> Ret (0, Some (wrapf ''creating restore litestream config: '' e))
       | None \<Rightarrow>
         (let jobName = res_Name restore @ ''-restore'' in
          bind (deref (buildRestoreJob restore sourceDB jobName)) (\<lambda>newJob.
          Call (SetControllerReference restore newJob) (\<lambda>r. case as_error r of
            Some e \<Rightarrow> Ret (0, Some e)
          | None \<Rightarrow>
              Call (CreateJob newJob) (\<lambda>r.
                let started =
                  bind (record_event (RestoreObj restore) ''Normal'' ''RestoreStarted''
                    (''Created restore Job '' @ jobName)) (\<lambda>_.
                  bind now (\<lambda>t.
                  bind (setStatus restore RestorePhaseRunning jobName ''restore Job running''
                    (rst_OriginalReplicas (res_Status restore)) (Some t) None) (\<lambda>err.
                  Ret (restoreRequeueInterval, err))))
                in case as_error r of
                  Some e \<Rightarrow> if \<not> errors_IsAlreadyExists e
                            then Ret (0, Some (wrapf ''creating restore Job: '' e)) else started
                | None \<Rightarrow> started)))))
     in case res of
       Inl e \<Rightarrow>
         if \<not> errors_IsNotFound e
         then bind (failRestore restore (''cannot find target workload: '' @ err_Text e))
                (\<lambda>err. Ret (0, err))
         else create
     | Inr wt \<Rightarrow>
         bind (wt_runningReplicas wt) (\<lambda>n.
         if n > 0 then Ret (restoreRequeueInterval, None) else create))"

text \<open>
  The loops over the Job's conditions: the first Complete or Failed condition with status True
  decides.
\<close>

datatype job_verdict = JobComplete | JobFailed string | JobRunning

fun job_result :: "JobCondition list \<Rightarrow> job_verdict" where
  "job_result [] = JobRunning"
| "job_result (c # cs) =
     (if jc_Type c = ''Complete'' \<and> jc_Status c = ConditionTrue then JobComplete
      else if jc_Type c = ''Failed'' \<and> jc_Status c = ConditionTrue then JobFailed (jc_Message c)
      else job_result cs)"

definition reconcileRunning ::
  "bool \<Rightarrow> LitestreamRestore \<Rightarrow> LitestreamReplica \<Rightarrow> ctrl_result prog" where
  "reconcileRunning hasKube restore sourceDB =
     Call (GetJob \<lparr>nn_Namespace = res_Namespace restore, nn_Name = rst_JobName (res_Status restore)\<rparr>)
       (\<lambda>r. case as_job r of
          Inl e \<Rightarrow>
            if errors_IsNotFound e
            then bind (failRestoreWithCleanup restore sourceDB ''restore Job not found'')
                   (\<lambda>err. Ret (0, err))
            else Ret (0, Some (wrapf ''getting restore Job: '' e))
        | Inr job \<Rightarrow>
            (case job_result (job_Conditions job) of
               JobComplete \<Rightarrow>
                 bind (record_event (RestoreObj restore) ''Normal'' ''RestoreJobComplete''
                   ''Restore Job completed; running integrity check'') (\<lambda>_.
                 bind (setStatus restore RestorePhaseValidating (rst_JobName (res_Status restore))
                   ''running integrity check'' (rst_OriginalReplicas (res_Status restore))
                   (rst_StartTime (res_Status restore)) None) (\<lambda>err.
                 Ret (restoreRequeueInterval, err)))
             | JobFailed condMsg \<Rightarrow>
                 (let msg = (if condMsg \<noteq> [] then condMsg else ''restore Job failed'') in
                  bind (restoreJobPodLogs hasKube (res_Namespace restore) (res_Name restore)) (\<lambda>podLogs.
                  (let msg = (if podLogs \<noteq> [] then msg @ ''; litestream output: '' @ podLogs else msg) in
                   bind (failRestoreWithCleanup restore sourceDB msg) (\<lambda>err. Ret (0, err)))))
             | JobRunning \<Rightarrow> Ret (restoreRequeueInterval, None)))"

definition validation_failed_message :: string where
  "validation_failed_message =
     ''integrity check failed on restored database: PRAGMA quick_check returned errors. ''
     @ ''The S3 backup may be corrupt (Litestream upstream #1164/#1220). ''
     @ ''Try creating a new LitestreamRestore CR with an earlier -timestamp.''"

definition reconcileValidating :: "LitestreamRestore \<Rightarrow> LitestreamReplica \<Rightarrow> ctrl_result prog" where
  "reconcileValidating restore sourceDB =
     (let validationJobName = res_Name restore @ ''-validate'' in
      Call (GetJob \<lparr>nn_Namespace = res_Namespace restore, nn_Name = validationJobName\<rparr>)
        (\<lambda>r. case as_job r of
           Inl e \<Rightarrow>
             if errors_IsNotFound e then
               (let newJob = buildValidationJob restore sourceDB validationJobName in
                Call (SetControllerReference restore newJob) (\<lambda>r. case as_error r of
                  Some e \<Rightarrow> Ret (0, Some e)
                | None \<Rightarrow>
                    Call (CreateJob newJob) (\<lambda>r.
                      let started =
                        bind (record_event (RestoreObj restore) ''Normal'' ''ValidationStarted''
                          ''Running PRAGMA quick_check on restored database'') (\<lambda>_.
                        Ret (restoreRequeueInterval, None))
                      in case as_error r of
                        Some e \<Rightarrow> if \<not> errors_IsAlreadyExists e
                                  then Ret (0, Some (wrapf ''creating validation Job: '' e)) else started
                      | None \<Rightarrow> started)))
             else Ret (0, Some (wrapf ''getting validation Job: '' e))
         | Inr validationJob \<Rightarrow>
             (case job_result (job_Conditions validationJob) of
                JobComplete \<Rightarrow>
                  bind (record_event (RestoreObj restore) ''Normal'' ''ValidationPassed''
                    ''Integrity check passed; scaling Deployment back up'') (\<lambda>_.
                  bind (setStatus restore RestorePhaseScalingUp (rst_JobName (res_Status restore))
                    ''scaling Deployment back up'' (rst_OriginalReplicas (res_Status restore))
                    (rst_StartTime (res_Status restore)) None) (\<lambda>err.
                  Ret (restoreRequeueInterval, err)))
              | JobFailed _ \<Rightarrow>
                  bind (failRestoreWithCleanup restore sourceDB validation_failed_message)
                    (\<lambda>err. Ret (0, err))
              | JobRunning \<Rightarrow> Ret (restoreRequeueInterval, None))))"

definition reconcileScalingUp :: "LitestreamRestore \<Rightarrow> LitestreamReplica \<Rightarrow> ctrl_result prog" where
  "reconcileScalingUp restore sourceDB =
     bind (setSkipArchiveCheck sourceDB True) (\<lambda>err. case err of
       Some e \<Rightarrow> Ret (0, Some (wrapf ''setting skip-archive-check on LitestreamReplica: '' e))
     | None \<Rightarrow>
     bind (resumeReplication sourceDB) (\<lambda>err. case err of
       Some e \<Rightarrow> Ret (0, Some (wrapf ''removing pause annotation from LitestreamReplica: '' e))
     | None \<Rightarrow>
     Call (GetConfigMap \<lparr>nn_Namespace = db_Namespace sourceDB,
             nn_Name = db_Name sourceDB @ ''-litestream''\<rparr>)
       (\<lambda>r. case as_configmap r of
          Inl e \<Rightarrow> Ret (restoreRequeueInterval, Some (wrapf ''getting litestream ConfigMap: '' e))
        | Inr cm \<Rightarrow>
            if map_get (cm_Data cm) litestreamConfigKey = pausedConfig
            then Ret (restoreRequeueInterval, None)
            else
              (let finish =
                 bind (record_event (RestoreObj restore) ''Normal'' ''RestoreComplete''
                   ''Litestream restore completed successfully'') (\<lambda>_.
                 bind now (\<lambda>t.
                 bind (setStatus restore RestorePhaseComplete (rst_JobName (res_Status restore))
                   ''restore completed successfully'' (rst_OriginalReplicas (res_Status restore))
                   (rst_StartTime (res_Status restore)) (Some t)) (\<lambda>err.
                 Ret (0, err))))
               in
               if restore_target restore > 0 then
                 bind (getTargetWorkloadForRestore sourceDB) (\<lambda>res. case res of
                   Inl e \<Rightarrow> finish
                 | Inr wt \<Rightarrow>
                     bind (scaleWorkload wt (restore_target restore)) (\<lambda>(err, _). case err of
                       Some e \<Rightarrow> Ret (0, Some (wrapf (''scaling workload back to ''
                         @ show_int (restore_target restore) @ '': '') e))
                     | None \<Rightarrow> finish))
               else finish))))"

section \<open>Reconcile\<close>

text \<open>The switch on the phase.\<close>

definition restore_dispatch ::
  "bool \<Rightarrow> LitestreamRestore \<Rightarrow> LitestreamReplica \<Rightarrow> ctrl_result prog" where
  "restore_dispatch hasKube restore sourceDB =
     (if res_Phase restore = [] \<or> res_Phase restore = RestorePhasePending
      then reconcilePending restore sourceDB
      else if res_Phase restore = RestorePhasePausing then reconcilePausing restore sourceDB
      else if res_Phase restore = RestorePhaseScalingDown then reconcileScalingDown restore sourceDB
      else if res_Phase restore = RestorePhaseRunning then reconcileRunning hasKube restore sourceDB
      else if res_Phase restore = RestorePhaseValidating then reconcileValidating restore sourceDB
      else if res_Phase restore = RestorePhaseScalingUp then reconcileScalingUp restore sourceDB
      else Ret (0, None))"

definition restore_Reconcile :: "bool \<Rightarrow> NamespacedName \<Rightarrow> ctrl_result prog" where
  "restore_Reconcile hasKube req =
     Call (GetRestore req) (\<lambda>r. case as_restore r of
       Inl e \<Rightarrow> if errors_IsNotFound e then Ret (0, None) else Ret (0, Some e)
     | Inr restore \<Rightarrow>
         if res_Phase restore = RestorePhaseComplete \<or> res_Phase restore = RestorePhaseFailed
         then Ret (0, None)
         else
           Call (GetReplica \<lparr>nn_Namespace = res_Namespace restore,
                   nn_Name = re_SourceRef (res_Spec restore)\<rparr>)
             (\<lambda>r. case as_replica r of
                Inl e \<Rightarrow>
                  bind (failRestore restore (''LitestreamReplica ''
                    @ fmt_quote (re_SourceRef (res_Spec restore)) @ '' not found: '' @ err_Text e))
                    (\<lambda>err. Ret (0, err))
              | Inr sourceDB \<Rightarrow>
                  if \<not> bk_Enabled (db_Backup sourceDB) \<or> db_S3 sourceDB = None
                  then bind (failRestore restore (''LitestreamReplica ''
                         @ fmt_quote (re_SourceRef (res_Spec restore))
                         @ '' does not have backup enabled with an S3 destination''))
                         (\<lambda>err. Ret (0, err))
                  else restore_dispatch hasKube restore sourceDB))"

end
