(* ===== verification/Restore_Facts.thy ===== *)
theory Restore_Facts
  imports Restore_Controller
begin

text \<open>
  The restore state machine as a specification, and the proof that the handlers follow it.
  \<open>restore_edge\<close> is the step relation on LitestreamRestore objects; \<open>edge_evidence\<close> says what must
  have happened in the same reconciliation before a phase is entered; \<open>restore_guard\<close> collects
  the obligations of all writes. \<open>wp_restore_dispatch\<close> shows that every handler satisfies them for
  every response of the API server, and never panics.
\<close>

section \<open>The phase machine\<close>

text \<open>The resource is final: nothing more will be done.\<close>

definition terminal :: "LitestreamRestore \<Rightarrow> bool" where
  "terminal restore = (res_Phase restore \<in> {RestorePhaseComplete, RestorePhaseFailed})"

abbreviation job_name :: "LitestreamRestore \<Rightarrow> string" where
  "job_name restore \<equiv> rst_JobName (res_Status restore)"
abbreviation original_replicas :: "LitestreamRestore \<Rightarrow> int option" where
  "original_replicas restore \<equiv> rst_OriginalReplicas (res_Status restore)"
abbreviation start_time :: "LitestreamRestore \<Rightarrow> time option" where
  "start_time restore \<equiv> rst_StartTime (res_Status restore)"
abbreviation completion_time :: "LitestreamRestore \<Rightarrow> time option" where
  "completion_time restore \<equiv> rst_CompletionTime (res_Status restore)"

text \<open>
  The edges of the machine: which status may be written over which, with the job name, the
  replica count and the times. \<open>apply_status\<close> keeps a replica count and a start time that are
  already recorded.
\<close>

inductive restore_edge :: "LitestreamRestore \<Rightarrow> LitestreamRestore \<Rightarrow> bool" for x where
  pausing: "res_Phase x \<in> {[], RestorePhasePending} \<Longrightarrow>
    restore_edge x (apply_status x RestorePhasePausing (job_name x) msg (Some n) (Some t) None)"
| scaling_down: "res_Phase x = RestorePhasePausing \<Longrightarrow>
    restore_edge x (apply_status x RestorePhaseScalingDown (job_name x) msg
      (original_replicas x) (start_time x) None)"
| running: "res_Phase x = RestorePhaseScalingDown \<Longrightarrow>
    restore_edge x (apply_status x RestorePhaseRunning (res_Name x @ ''-restore'') msg
      (original_replicas x) (Some t) None)"
| validating: "res_Phase x = RestorePhaseRunning \<Longrightarrow>
    restore_edge x (apply_status x RestorePhaseValidating (job_name x) msg
      (original_replicas x) (start_time x) None)"
| scaling_up: "res_Phase x = RestorePhaseValidating \<Longrightarrow>
    restore_edge x (apply_status x RestorePhaseScalingUp (job_name x) msg
      (original_replicas x) (start_time x) None)"
| complete: "res_Phase x = RestorePhaseScalingUp \<Longrightarrow>
    restore_edge x (apply_status x RestorePhaseComplete (job_name x) msg
      (original_replicas x) (start_time x) (Some t))"
| fail_early: "\<not> terminal x \<Longrightarrow>
    restore_edge x (apply_status x RestorePhaseFailed [] msg None (Some t) (Some t))"
| fail_cleanup: "res_Phase x \<in> {RestorePhaseRunning, RestorePhaseValidating} \<Longrightarrow>
    restore_edge x (apply_status x RestorePhaseFailed (job_name x) msg
      (original_replicas x) (start_time x) (Some t))"

section \<open>Evidence in the trace\<close>

text \<open>
  What the calls of an execution have established. All predicates are about the set of calls, so
  they are kept when more calls follow.
\<close>

definition litestream_cm :: "LitestreamReplica \<Rightarrow> NamespacedName" where
  "litestream_cm src = \<lparr>nn_Namespace = db_Namespace src, nn_Name = db_Name src @ ''-litestream''\<rparr>"

definition config_read :: "LitestreamReplica \<Rightarrow> (string \<Rightarrow> bool) \<Rightarrow> trace \<Rightarrow> bool" where
  "config_read src P h = (\<exists>cm. (GetConfigMap (litestream_cm src), RConfigMap cm) \<in> set h
     \<and> P (map_get (cm_Data cm) litestreamConfigKey))"

definition workload_read ::
  "LitestreamReplica \<Rightarrow> (workload_view \<Rightarrow> bool) \<Rightarrow> (go_error \<Rightarrow> bool) \<Rightarrow> trace \<Rightarrow> bool" where
  "workload_read src P E h = (\<exists>r. (target_query src, r) \<in> set h
     \<and> (case workload_resp (target_query src) r of Inl e \<Rightarrow> E e | Inr wt \<Rightarrow> P (wt_view wt)))"

definition job_read :: "LitestreamRestore \<Rightarrow> string \<Rightarrow> (job_verdict \<Rightarrow> bool) \<Rightarrow> trace \<Rightarrow> bool" where
  "job_read restore n P h = (\<exists>job. (GetJob \<lparr>nn_Namespace = res_Namespace restore, nn_Name = n\<rparr>, RJob job) \<in> set h
     \<and> P (job_result (job_Conditions job)))"

definition job_missing :: "LitestreamRestore \<Rightarrow> string \<Rightarrow> trace \<Rightarrow> bool" where
  "job_missing restore n h = (\<exists>r e. (GetJob \<lparr>nn_Namespace = res_Namespace restore, nn_Name = n\<rparr>, r) \<in> set h
     \<and> as_job r = Inl e \<and> errors_IsNotFound e)"

definition skip_annotation :: "LitestreamReplica \<Rightarrow> bool" where
  "skip_annotation db = (map_get (db_Annotations db) AnnotationSkipArchiveCheck = injectEnabled)"

text \<open>An answer to a write that the reconciler takes as success.\<close>

definition acked :: "api_req \<Rightarrow> trace \<Rightarrow> bool" where
  "acked q h = (\<exists>r. (q, r) \<in> set h \<and> as_error r = None)"

text \<open>The workload was read and is gone or runs no pods.\<close>

definition pods_gone :: "LitestreamReplica \<Rightarrow> trace \<Rightarrow> bool" where
  "pods_gone src h = workload_read src (\<lambda>v. wv_Running v \<le> 0) errors_IsNotFound h"

definition restore_config_write :: "LitestreamRestore \<Rightarrow> LitestreamReplica \<Rightarrow> api_req" where
  "restore_config_write restore src = CreateOrUpdateConfigMap
     \<lparr>nn_Namespace = res_Namespace restore, nn_Name = res_Name restore @ ''-litestream''\<rparr>
     [litestreamConfigKey \<mapsto> buildLitestreamConfigYAML src] (RestoreObj restore)"

definition job_requested :: "Job \<Rightarrow> trace \<Rightarrow> bool" where
  "job_requested job h = (\<exists>r. (CreateJob job, r) \<in> set h
     \<and> (case as_error r of None \<Rightarrow> True | Some e \<Rightarrow> errors_IsAlreadyExists e))"

text \<open>A version of the replica that skips the archive check was read, or written successfully.\<close>

definition skip_visible :: "trace \<Rightarrow> bool" where
  "skip_visible h = (\<exists>db. skip_annotation db \<and>
     ((\<exists>q. (q, RReplica db) \<in> set h) \<or> (\<exists>b. acked (PatchReplica b db) h)))"

text \<open>The workload is gone, was found at zero desired replicas, or was patched to zero.\<close>

definition scaled_to_zero :: "LitestreamReplica \<Rightarrow> trace \<Rightarrow> bool" where
  "scaled_to_zero src h =
     (workload_read src (\<lambda>v. wv_Replicas v = Some 0) errors_IsNotFound h
      \<or> (\<exists>q v. workload_patch q = Some (v, v\<lparr>wv_Replicas := Some 0\<rparr>) \<and> acked q h))"

text \<open>The pause annotation was found on the source, or written successfully.\<close>

definition pause_visible :: "LitestreamReplica \<Rightarrow> trace \<Rightarrow> bool" where
  "pause_visible src h = (is_paused src \<or>
     (\<exists>db x. is_paused db \<and> (PatchReplica src db, RReplica x) \<in> set h))"

text \<open>What justifies the phase Failed and each other phase.\<close>

definition fail_evidence :: "LitestreamRestore \<Rightarrow> LitestreamReplica \<Rightarrow> trace \<Rightarrow> bool" where
  "fail_evidence x src h =
    (res_Phase x \<in> {[], RestorePhasePending, RestorePhasePausing, RestorePhaseScalingDown}
       \<and> workload_read src (\<lambda>_. False) (\<lambda>e. \<not> errors_IsNotFound e) h
     \<or> res_Phase x = RestorePhaseRunning
       \<and> (job_missing x (job_name x) h \<or> job_read x (job_name x) (\<lambda>v. \<exists>m. v = JobFailed m) h)
     \<or> res_Phase x = RestorePhaseValidating
       \<and> job_read x (res_Name x @ ''-validate'') (\<lambda>v. \<exists>m. v = JobFailed m) h)"

definition edge_evidence :: "LitestreamRestore \<Rightarrow> LitestreamReplica \<Rightarrow> trace \<Rightarrow> string \<Rightarrow> bool" where
  "edge_evidence x src h p =
    (p = RestorePhasePausing \<and> pause_visible src h
     \<or> p = RestorePhaseScalingDown \<and> is_paused src \<and> config_read src (\<lambda>c. c = pausedConfig) h
         \<and> scaled_to_zero src h
     \<or> p = RestorePhaseRunning \<and> pods_gone src h \<and> acked (restore_config_write x src) h
         \<and> (\<exists>job. buildRestoreJob x src (res_Name x @ ''-restore'') = Some job \<and> job_requested job h)
     \<or> p = RestorePhaseValidating \<and> job_read x (job_name x) (\<lambda>v. v = JobComplete) h
     \<or> p = RestorePhaseScalingUp \<and> job_read x (res_Name x @ ''-validate'') (\<lambda>v. v = JobComplete) h
     \<or> p = RestorePhaseComplete \<and> skip_visible h \<and> config_read src (\<lambda>c. c \<noteq> pausedConfig) h
     \<or> p = RestorePhaseFailed \<and> fail_evidence x src h)"

text \<open>The three ways the workload is scaled.\<close>

definition scale_down :: "LitestreamRestore \<Rightarrow> LitestreamReplica \<Rightarrow> trace \<Rightarrow> workload_view \<Rightarrow> workload_view \<Rightarrow> bool" where
  "scale_down x src h v v' =
    (res_Phase x = RestorePhasePausing \<and> v' = v\<lparr>wv_Replicas := Some 0\<rparr> \<and> wv_Replicas v \<noteq> Some 0
     \<and> is_paused src \<and> config_read src (\<lambda>c. c = pausedConfig) h)"

definition scale_up :: "LitestreamRestore \<Rightarrow> LitestreamReplica \<Rightarrow> trace \<Rightarrow> workload_view \<Rightarrow> workload_view \<Rightarrow> bool" where
  "scale_up x src h v v' =
    (v' = v\<lparr>wv_Replicas := Some (restore_target x)\<rparr> \<and> restore_target x > 0
     \<and> res_Phase x = RestorePhaseScalingUp \<and> skip_visible h \<and> config_read src (\<lambda>c. c \<noteq> pausedConfig) h)"

definition scale_cleanup :: "LitestreamRestore \<Rightarrow> LitestreamReplica \<Rightarrow> trace \<Rightarrow> workload_view \<Rightarrow> workload_view \<Rightarrow> bool" where
  "scale_cleanup x src h v v' =
    (v' = v\<lparr>wv_Replicas := Some (restore_target x)\<rparr> \<and> restore_target x > 0 \<and> wv_Running v = 0
     \<and> res_Phase x \<in> {RestorePhaseRunning, RestorePhaseValidating} \<and> fail_evidence x src h)"

text \<open>The source was read again and, if that succeeded, a patch without the pause was sent.\<close>

definition resume_attempted :: "LitestreamReplica \<Rightarrow> trace \<Rightarrow> bool" where
  "resume_attempted src h =
     (\<exists>r. (GetReplica \<lparr>nn_Namespace = db_Namespace src, nn_Name = db_Name src\<rparr>, r) \<in> set h
       \<and> (\<forall>latest. r = RReplica latest \<longrightarrow>
            (\<exists>r'. (PatchReplica latest (with_annotations latest
               (map_delete (db_Annotations latest) AnnotationPause)), r') \<in> set h)))"

text \<open>
  The source replica is patched in its annotations only. The pause is set while the restore
  prepares, and removed when it has validated the data or failed; every other patch leaves it.
\<close>

definition pause_value :: "LitestreamReplica \<Rightarrow> string" where
  "pause_value db = map_get (db_Annotations db) AnnotationPause"

lemma is_paused_value: "is_paused db \<longleftrightarrow> pause_value db = injectEnabled"
  by (simp add: is_paused_def pause_value_def)

definition replica_patch ::
  "LitestreamRestore \<Rightarrow> LitestreamReplica \<Rightarrow> trace \<Rightarrow> LitestreamReplica \<Rightarrow> LitestreamReplica \<Rightarrow> bool" where
  "replica_patch x src h b n =
    ((\<exists>an. n = with_annotations b an)
     \<and> (pause_value n = pause_value b
        \<or> is_paused n \<and> res_Phase x \<in> {[], RestorePhasePending, RestorePhasePausing}
        \<or> res_Phase x = RestorePhaseScalingUp
        \<or> res_Phase x \<in> {RestorePhaseRunning, RestorePhaseValidating} \<and> fail_evidence x src h))"

text \<open>What every write of a reconciliation of \<open>x\<close> with source \<open>src\<close> satisfies.\<close>

fun restore_guard :: "LitestreamRestore \<Rightarrow> LitestreamReplica \<Rightarrow> trace \<Rightarrow> api_req \<Rightarrow> bool" where
  "restore_guard x src h (PatchRestoreStatus old new) =
     (old = x \<and> restore_edge x new \<and> edge_evidence x src h (res_Phase new)
      \<and> (res_Phase new = RestorePhaseFailed \<and> res_Phase x \<in> {RestorePhaseRunning, RestorePhaseValidating}
          \<and> is_paused src \<longrightarrow> resume_attempted src h))"
| "restore_guard x src h (CreateJob job) =
     (res_Phase x = RestorePhaseScalingDown \<and> pods_gone src h \<and> acked (restore_config_write x src) h
        \<and> buildRestoreJob x src (res_Name x @ ''-restore'') = Some job
      \<or> res_Phase x = RestorePhaseValidating \<and> job_missing x (res_Name x @ ''-validate'') h
        \<and> job = buildValidationJob x src (res_Name x @ ''-validate''))"
| "restore_guard x src h (CreateOrUpdateConfigMap k m ow) =
     (CreateOrUpdateConfigMap k m ow = restore_config_write x src
      \<and> res_Phase x = RestorePhaseScalingDown \<and> pods_gone src h)"
| "restore_guard x src h (PatchReplica b n) = replica_patch x src h b n"
| "restore_guard x src h q =
     (\<forall>v v'. workload_patch q = Some (v, v') \<longrightarrow>
        scale_down x src h v v' \<or> scale_up x src h v v' \<or> scale_cleanup x src h v v')"

lemma res_Phase_apply [simp]: "res_Phase (apply_status x p j m o' s c) = p"
  by (simp add: apply_status_def Let_def)

lemma guard_query [simp]: "restore_guard x src h (target_query db)"
  by (simp add: target_query_def)

lemma edge_evidence_phases [simp]:
  "edge_evidence x src h RestorePhasePausing = pause_visible src h"
  "edge_evidence x src h RestorePhaseScalingDown =
     (is_paused src \<and> config_read src (\<lambda>c. c = pausedConfig) h \<and> scaled_to_zero src h)"
  "edge_evidence x src h RestorePhaseRunning =
     (pods_gone src h \<and> acked (restore_config_write x src) h
      \<and> (\<exists>job. buildRestoreJob x src (res_Name x @ ''-restore'') = Some job \<and> job_requested job h))"
  "edge_evidence x src h RestorePhaseValidating = job_read x (job_name x) (\<lambda>v. v = JobComplete) h"
  "edge_evidence x src h RestorePhaseScalingUp =
     job_read x (res_Name x @ ''-validate'') (\<lambda>v. v = JobComplete) h"
  "edge_evidence x src h RestorePhaseComplete =
     (skip_visible h \<and> config_read src (\<lambda>c. c \<noteq> pausedConfig) h)"
  "edge_evidence x src h RestorePhaseFailed = fail_evidence x src h"
  by (simp_all add: edge_evidence_def restore_phases)

lemma fail_evidence_phases:
  "res_Phase x \<in> {[], RestorePhasePending, RestorePhasePausing, RestorePhaseScalingDown} \<Longrightarrow>
   fail_evidence x src h = workload_read src (\<lambda>_. False) (\<lambda>e. \<not> errors_IsNotFound e) h"
  "res_Phase x = RestorePhaseRunning \<Longrightarrow> fail_evidence x src h =
     (job_missing x (job_name x) h \<or> job_read x (job_name x) (\<lambda>v. \<exists>m. v = JobFailed m) h)"
  "res_Phase x = RestorePhaseValidating \<Longrightarrow> fail_evidence x src h =
     job_read x (res_Name x @ ''-validate'') (\<lambda>v. \<exists>m. v = JobFailed m) h"
  by (auto simp: fail_evidence_def restore_phases)

lemma terminal_phases [simp]:
  "res_Phase x \<in> {[], RestorePhasePending} \<Longrightarrow> \<not> terminal x"
  "res_Phase x = RestorePhasePausing \<Longrightarrow> \<not> terminal x"
  "res_Phase x = RestorePhaseScalingDown \<Longrightarrow> \<not> terminal x"
  by (auto simp: terminal_def restore_phases)

text \<open>Evidence about reads, as it enters the trace and as it stays.\<close>

lemma workload_read_Cons [simp]:
  "workload_read src P E ((q, r) # h) \<longleftrightarrow>
     q = target_query src \<and> (case workload_resp (target_query src) r of Inl e \<Rightarrow> E e | Inr wt \<Rightarrow> P (wt_view wt))
     \<or> workload_read src P E h"
  by (auto simp: workload_read_def)

lemma config_read_Cons [simp]:
  "config_read src P ((q, r) # h) \<longleftrightarrow>
     (q = GetConfigMap (litestream_cm src) \<and> (\<exists>cm. r = RConfigMap cm \<and> P (map_get (cm_Data cm) litestreamConfigKey)))
     \<or> config_read src P h"
  by (auto simp: config_read_def)

lemma job_read_Cons [simp]:
  "job_read x n P ((q, r) # h) \<longleftrightarrow>
     (q = GetJob \<lparr>nn_Namespace = res_Namespace x, nn_Name = n\<rparr>
       \<and> (\<exists>job. r = RJob job \<and> P (job_result (job_Conditions job))))
     \<or> job_read x n P h"
  by (auto simp: job_read_def)

lemma job_missing_Cons [simp]:
  "job_missing x n ((q, r) # h) \<longleftrightarrow>
     (q = GetJob \<lparr>nn_Namespace = res_Namespace x, nn_Name = n\<rparr>
       \<and> (\<exists>e. as_job r = Inl e \<and> errors_IsNotFound e))
     \<or> job_missing x n h"
  by (auto simp: job_missing_def)

lemma acked_Cons [simp]: "acked q ((q', r) # h) \<longleftrightarrow> q' = q \<and> as_error r = None \<or> acked q h"
  by (auto simp: acked_def)

lemma job_requested_Cons [simp]: "job_requested job ((q, r) # h) \<longleftrightarrow>
   q = CreateJob job \<and> (case as_error r of None \<Rightarrow> True | Some e \<Rightarrow> errors_IsAlreadyExists e)
   \<or> job_requested job h"
  by (auto simp: job_requested_def)

lemma pods_gone_Cons [simp]: "pods_gone src ((q, r) # h) \<longleftrightarrow>
   q = target_query src \<and> (case workload_resp (target_query src) r of
      Inl e \<Rightarrow> errors_IsNotFound e | Inr wt \<Rightarrow> wv_Running (wt_view wt) \<le> 0)
   \<or> pods_gone src h"
  by (simp add: pods_gone_def)

lemma pause_visible_Cons [simp]: "pause_visible src ((q, r) # h) \<longleftrightarrow>
   (\<exists>db x. q = PatchReplica src db \<and> r = RReplica x \<and> is_paused db) \<or> pause_visible src h"
  by (auto simp: pause_visible_def)

lemma pause_visible_src [simp]: "is_paused src \<Longrightarrow> pause_visible src h"
  by (simp add: pause_visible_def)

lemma skip_visible_Cons [simp]: "skip_visible ((q, r) # h) \<longleftrightarrow>
   (\<exists>db. skip_annotation db \<and> (r = RReplica db \<or> as_error r = None \<and> (\<exists>b. q = PatchReplica b db)))
   \<or> skip_visible h"
  by (auto simp: skip_visible_def)

lemma scaled_to_zero_Cons [simp]: "scaled_to_zero src ((q, r) # h) \<longleftrightarrow>
   q = target_query src \<and> (case workload_resp (target_query src) r of
      Inl e \<Rightarrow> errors_IsNotFound e | Inr wt \<Rightarrow> wv_Replicas (wt_view wt) = Some 0)
   \<or> (as_error r = None \<and> (\<exists>v. workload_patch q = Some (v, v\<lparr>wv_Replicas := Some 0\<rparr>)))
   \<or> scaled_to_zero src h"
  by (auto simp: scaled_to_zero_def)

section \<open>Symbolic execution of the handlers\<close>

lemma wp_failRestore:
  "wp (bind (failRestore x msg) f) G Q h \<longleftrightarrow>
     G h (Event (RestoreObj x) ''Warning'' ''RestoreFailed'' msg) \<and>
     (\<forall>r. G ((Event (RestoreObj x) ''Warning'' ''RestoreFailed'' msg, r) # h) Now \<and>
      (\<forall>r'. let h' = (Now, r') # (Event (RestoreObj x) ''Warning'' ''RestoreFailed'' msg, r) # h;
                q = PatchRestoreStatus x (apply_status x RestorePhaseFailed [] msg None (Some (as_time r')) (Some (as_time r')))
            in G h' q \<and> (\<forall>r''. wp (f (as_error r'')) G Q ((q, r'') # h'))))"
  by (simp add: failRestore_def setStatus_def record_event_def now_def Let_def)

lemma wp_pauseReplication:
  assumes "\<And>an. is_paused (with_annotations db an) \<Longrightarrow> G h (PatchReplica db (with_annotations db an))"
    and "is_paused db \<Longrightarrow> wp (f (None, db)) G Q h"
    and "\<And>db' r e. is_paused db' \<Longrightarrow> wp (f (Some e, db')) G Q ((PatchReplica db db', r) # h)"
    and "\<And>db' x. is_paused db' \<Longrightarrow> wp (f (None, x)) G Q ((PatchReplica db db', RReplica x) # h)"
  shows "wp (bind (pauseReplication db) f) G Q h"
  using assms(2-4) assms(1) [of "map_set (db_Annotations db) AnnotationPause injectEnabled"]
  by (auto simp: pauseReplication_def is_paused_def with_annotations_def Let_def split: sum.splits)

lemma patch_pause:
  "is_paused (with_annotations b an) \<Longrightarrow> res_Phase x \<in> {[], RestorePhasePending, RestorePhasePausing}
   \<Longrightarrow> replica_patch x src h b (with_annotations b an)"
  by (auto simp: replica_patch_def)

lemma patch_resume:
  "res_Phase x = RestorePhaseScalingUp
     \<or> res_Phase x \<in> {RestorePhaseRunning, RestorePhaseValidating} \<and> fail_evidence x src h
   \<Longrightarrow> replica_patch x src h b (with_annotations b an)"
  by (auto simp: replica_patch_def)

lemma wp_reconcilePending:
  assumes "res_Phase x \<in> {[], RestorePhasePending}"
  shows "wp (reconcilePending x src) (restore_guard x src) (\<lambda>_ out. out \<noteq> Panicked) h"
  unfolding reconcilePending_def
  using assms
  by (intro wp_getTargetWorkloadForRestore)
    (auto simp: wp_failRestore prog_simps wl_simps Let_def fail_evidence_phases setStatus_def
      intro!: fail_early pausing wp_pauseReplication patch_pause)

lemma guard_workload_patch:
  "workload_patch q = Some (v, v') \<Longrightarrow> restore_guard x src h q \<longleftrightarrow>
     scale_down x src h v v' \<or> scale_up x src h v v' \<or> scale_cleanup x src h v v'"
  by (cases q) auto

lemma wp_reconcilePausing:
  assumes "res_Phase x = RestorePhasePausing"
  shows "wp (reconcilePausing x src) (restore_guard x src) (\<lambda>_ out. out \<noteq> Panicked) h"
proof (cases "is_paused src")
  case False
  then show ?thesis
    using assms by (auto simp: reconcilePausing_def is_paused_def intro!: wp_pauseReplication patch_pause)
next
  case True
  note leaf = wp_failRestore prog_simps wl_simps Let_def fail_evidence_phases setStatus_def
  have scale: "wp (bind (scaleWorkload wt 0) (\<lambda>(err, wt). f err wt)) (restore_guard x src) Q h"
    if "wf_target wt"
      "config_read src (\<lambda>c. c = pausedConfig) h"
      "wv_Replicas (wt_view wt) = Some 0 \<Longrightarrow> wp (f None wt) (restore_guard x src) Q h"
      "\<And>q r e wt'. workload_patch q = Some (wt_view wt, (wt_view wt)\<lparr>wv_Replicas := Some 0\<rparr>) \<Longrightarrow> wf_target wt' \<Longrightarrow>
        (e = None \<Longrightarrow> as_error r = None) \<Longrightarrow> wp (f e wt') (restore_guard x src) Q ((q, r) # h)"
    for f Q h wt
    unfolding wp_bind using that assms True
    by (intro wp_scaleWorkload) (auto simp: guard_workload_patch scale_down_def)
  show ?thesis
    unfolding reconcilePausing_def is_paused_def [symmetric] Let_def
    using assms True
    apply (auto split: sum.splits)
    apply (rule wp_getTargetWorkloadForRestore)
      apply simp
     apply (auto simp: leaf litestream_cm_def intro!: fail_early scaling_down)[]
    apply (simp only: sum.case)
    apply (rule scale)
       apply assumption
      apply (simp add: litestream_cm_def)
     apply (simp add: leaf litestream_cm_def scaling_down)
    apply (auto simp: leaf litestream_cm_def intro!: scaling_down split: option.splits)[]
    done
qed

lemma wp_reconcileScalingDown:
  assumes "res_Phase x = RestorePhaseScalingDown" "db_S3 src \<noteq> None"
  shows "wp (reconcileScalingDown x src) (restore_guard x src) (\<lambda>_ out. out \<noteq> Panicked) h"
proof -
  obtain job where job: "buildRestoreJob x src (res_Name x @ ''-restore'') = Some job"
    using assms(2) buildRestoreJob_panics_iff [of x src "res_Name x @ ''-restore''"] by auto
  note leaf = wp_failRestore prog_simps wl_simps Let_def fail_evidence_phases setStatus_def
    reconcileRestoreConfig_def restore_config_write_def job
  show ?thesis
    unfolding reconcileScalingDown_def
    using assms(1)
    by (intro wp_getTargetWorkloadForRestore)
      (auto simp: leaf intro!: fail_early running split: option.splits)
qed

lemma evidence_mono [simp]:
  "fail_evidence x src h \<Longrightarrow> fail_evidence x src (e # h)"
  by (cases e) (auto simp: fail_evidence_def)

lemma resume_attempted_mono: "resume_attempted src h \<Longrightarrow> resume_attempted src (e # h)"
  by (auto simp: resume_attempted_def)

lemma resume_attempted_error:
  "as_replica r = Inl e \<Longrightarrow> resume_attempted src
     ((GetReplica \<lparr>nn_Namespace = db_Namespace src, nn_Name = db_Name src\<rparr>, r) # h)"
  by (auto simp: resume_attempted_def)

lemma resume_attempted_patch:
  "resume_attempted src ((PatchReplica latest (with_annotations latest
       (map_delete (db_Annotations latest) AnnotationPause)), r')
     # (GetReplica \<lparr>nn_Namespace = db_Namespace src, nn_Name = db_Name src\<rparr>, RReplica latest) # h)"
  by (auto simp: resume_attempted_def)

lemmas resume_attempted_intros = resume_attempted_mono resume_attempted_error resume_attempted_patch

lemma wp_cleanup:
  assumes ev: "fail_evidence x src h"
    and ph: "res_Phase x \<in> {RestorePhaseRunning, RestorePhaseValidating}"
  shows "wp (bind (failRestoreWithCleanup x src msg) (\<lambda>err. Ret (0 :: int, err))) (restore_guard x src)
     (\<lambda>_ out. out \<noteq> Panicked) h"
proof -
  have fin: "wp (bind (resumeReplication src) (\<lambda>_.
     bind (record_event (RestoreObj x) ''Warning'' ''RestoreFailed'' msg) (\<lambda>_.
     bind now (\<lambda>t.
     bind (setStatus x RestorePhaseFailed (rst_JobName (res_Status x)) msg
       (rst_OriginalReplicas (res_Status x)) (rst_StartTime (res_Status x)) (Some t)) (\<lambda>err. Ret (0::int, err))))))
       (restore_guard x src) (\<lambda>_ out. out \<noteq> Panicked) h"
    if "fail_evidence x src h" for h
    using that ph
    by (auto simp: resumeReplication_def setStatus_def prog_simps is_paused_def
        intro!: fail_cleanup resume_attempted_intros patch_resume split: sum.splits)
  have scale: "wp (bind (scaleWorkload wt (restore_target x)) f) (restore_guard x src) Q h"
    if "wf_target wt" "restore_target x > 0" "wv_Running (wt_view wt) = 0"
      "fail_evidence x src h"
      "\<And>a h. fail_evidence x src h \<Longrightarrow> wp (f a) (restore_guard x src) Q h"
    for f Q h wt
    unfolding wp_bind using that ph
    by (intro wp_scaleWorkload) (auto simp: guard_workload_patch scale_cleanup_def)
  show ?thesis
    unfolding failRestoreWithCleanup_def
    using ev
    by (simp only: bind_assoc, intro wp_getTargetWorkloadForRestore)
      (auto simp: wl_simps prog_simps intro!: fin scale)
qed

lemma wp_reconcileRunning:
  assumes "res_Phase x = RestorePhaseRunning"
  shows "wp (reconcileRunning k x src) (restore_guard x src) (\<lambda>_ out. out \<noteq> Panicked) h"
  unfolding reconcileRunning_def
  using assms
  by (auto simp: Let_def setStatus_def prog_simps restoreJobPodLogs_def fail_evidence_phases
      intro!: wp_cleanup validating split: sum.splits job_verdict.splits list.splits)

lemma wp_reconcileValidating:
  assumes "res_Phase x = RestorePhaseValidating"
  shows "wp (reconcileValidating x src) (restore_guard x src) (\<lambda>_ out. out \<noteq> Panicked) h"
  unfolding reconcileValidating_def
  using assms
  by (auto simp: Let_def setStatus_def prog_simps fail_evidence_phases
      intro!: wp_cleanup scaling_up split: sum.splits job_verdict.splits list.splits option.splits)

lemma wp_setSkipArchiveCheck:
  assumes "\<And>h k. G h (GetReplica k)" "\<And>h b an. G h (PatchReplica b (with_annotations b an))"
    and "\<And>h e. wp (f (Some e)) G Q h" "\<And>h. skip_visible h \<Longrightarrow> wp (f None) G Q h"
  shows "wp (bind (setSkipArchiveCheck src True) f) G Q h"
proof -
  have "skip_annotation (with_annotations db (map_set m AnnotationSkipArchiveCheck injectEnabled))" for db m
    by (simp add: skip_annotation_def with_annotations_def)
  moreover have "wp (f (as_error r)) G Q ((PatchReplica b db, r) # h)" if "skip_annotation db" for b db r h
    using that by (cases "as_error r") (auto intro!: assms(3,4))
  ultimately show ?thesis
    using assms(1,2)
    by (auto simp: setSkipArchiveCheck_def Let_def skip_annotation_def [symmetric] assms(3) intro!: assms(4)
      split: sum.splits)
qed

lemma wp_resumeReplication:
  assumes "\<And>h k. G h (GetReplica k)" "\<And>h b an. G h (PatchReplica b (with_annotations b an))"
    and "\<And>h e. wp (f (Some e)) G Q h" "\<And>h'. wp (f None) G Q (h' @ h)"
  shows "wp (bind (resumeReplication src) f) G Q h"
proof -
  have "wp (f (as_error r)) G Q ((q, r) # a # h)" for q r a
    using assms(3) assms(4) [of "[_, _]"] by (cases "as_error r") auto
  then show ?thesis
    using assms(4) [of "[]"] by (auto simp: resumeReplication_def assms(1-3) split: sum.splits)
qed

lemma skip_visible_append [simp]: "skip_visible h \<Longrightarrow> skip_visible (h' @ h)"
  by (induction h') auto

lemma wp_reconcileScalingUp:
  assumes "res_Phase x = RestorePhaseScalingUp"
  shows "wp (reconcileScalingUp x src) (restore_guard x src) (\<lambda>_ out. out \<noteq> Panicked) h"
proof -
  have scale: "wp (bind (scaleWorkload wt (restore_target x)) (\<lambda>(err, _). f err)) (restore_guard x src) Q h"
    if "wf_target wt" "restore_target x > 0" "skip_visible h" "config_read src (\<lambda>c. c \<noteq> pausedConfig) h"
      "\<And>e h. skip_visible h \<Longrightarrow> config_read src (\<lambda>c. c \<noteq> pausedConfig) h \<Longrightarrow> wp (f e) (restore_guard x src) Q h"
    for f Q h wt
    unfolding wp_bind using that assms
    by (intro wp_scaleWorkload) (auto simp: guard_workload_patch scale_up_def)
  note leaf = prog_simps setStatus_def litestream_cm_def
  show ?thesis
    unfolding reconcileScalingUp_def Let_def
    using assms
    by (auto simp: leaf intro!: wp_setSkipArchiveCheck wp_resumeReplication complete patch_resume
        wp_getTargetWorkloadForRestore scale split: option.splits sum.splits)
qed

section \<open>The reconciler\<close>

text \<open>The source can be restored from.\<close>

definition usable :: "LitestreamReplica \<Rightarrow> bool" where
  "usable src = (bk_Enabled (db_Backup src) \<and> db_S3 src \<noteq> None)"

lemma wp_restore_dispatch:
  assumes "db_S3 src \<noteq> None"
  shows "wp (restore_dispatch k x src) (restore_guard x src) (\<lambda>_ out. out \<noteq> Panicked) h"
  unfolding restore_dispatch_def using assms
  by (auto intro: wp_reconcilePending wp_reconcilePausing wp_reconcileScalingDown
      wp_reconcileRunning wp_reconcileValidating wp_reconcileScalingUp)

definition source_key :: "LitestreamRestore \<Rightarrow> NamespacedName" where
  "source_key x = \<lparr>nn_Namespace = res_Namespace x, nn_Name = re_SourceRef (res_Spec x)\<rparr>"

lemma restore_guard_set: "set h = set h' \<Longrightarrow> restore_guard x src h q = restore_guard x src h' q"
  by (cases q) (simp_all add: edge_evidence_def fail_evidence_def workload_read_def job_read_def
    job_missing_def config_read_def acked_def pods_gone_def job_requested_def skip_visible_def
    scaled_to_zero_def pause_visible_def resume_attempted_def scale_down_def scale_up_def
    scale_cleanup_def replica_patch_def)

lemma restore_dispatch_exec:
  assumes "exec (restore_Reconcile k req)
      ((GetRestore req, RRestore x) # (GetReplica (source_key x), RReplica src) # tr) out"
    and "usable src"
  shows "exec (restore_dispatch k x src) tr out"
  using assms
  by (auto simp: restore_Reconcile_def usable_def source_key_def exec_Call_iff exec_Ret_iff split: if_splits)

lemma restore_writes_guarded:
  assumes "exec (restore_Reconcile k req)
      ((GetRestore req, RRestore x) # (GetReplica (source_key x), RReplica src) # tr) out"
    and "usable src" "i < length tr" "tr ! i = (q, r)"
  shows "restore_guard x src (take i tr) q"
proof -
  from assms(1,2) have "exec (restore_dispatch k x src) tr out" by (rule restore_dispatch_exec)
  with assms(2) have "guarded (restore_guard x src) [] tr"
    using wp_exec [OF wp_restore_dispatch] by (auto simp: usable_def)
  from guarded_nth [OF this assms(3)] assms(4)
  show ?thesis by (simp add: restore_guard_set [of "rev (take i tr)" "take i tr"])
qed

end
