(* ===== verification/Replica_Trace.thy ===== *)
theory Replica_Trace
  imports Replica_Facts
begin

text \<open>
  What an execution of the LitestreamReplica reconciler does, in which order and with which status
  at the end, for every response of the API server: the trace properties of \<open>replica_Reconcile\<close>
  and \<open>updateStatus\<close>.

  \<open>status_leaf\<close> lists the four ways \<open>updateStatus\<close> ends; \<open>wp_updateStatus\<close> is the one symbolic
  execution of it, and the theorems about phases, conditions and panics are its consequences.
\<close>

section \<open>Writes to the workload\<close>

definition annotated_for :: "LitestreamReplica \<Rightarrow> PodTemplateSpec \<Rightarrow> bool" where
  "annotated_for db t =
     (map_get (pt_Annotations t) AnnotationInject = injectEnabled
      \<and> map_get (pt_Annotations t) AnnotationConfig = configRef db
      \<and> map_get (pt_Labels t) AnnotationInject = injectEnabled)"

definition annotated_template :: "LitestreamReplica \<Rightarrow> PodTemplateSpec \<Rightarrow> PodTemplateSpec" where
  "annotated_template db t =
     patch_template t [AnnotationInject \<mapsto> injectEnabled, AnnotationConfig \<mapsto> configRef db]
       [AnnotationInject \<mapsto> injectEnabled]"

text \<open>
  The only write to a workload: one desired replica at most, a template that is not annotated yet,
  and a new object that differs from the one read in the injection annotations and label only.
\<close>

definition annotation_write :: "LitestreamReplica \<Rightarrow> api_req \<Rightarrow> bool" where
  "annotation_write db q =
     (\<exists>v. workload_patch q = Some (v, v\<lparr>wv_Template := annotated_template db (wv_Template v)\<rparr>)
        \<and> view_desired v \<le> 1 \<and> \<not> annotated_for db (wv_Template v))"

lemma annotated_template_annotated: "annotated_for db (annotated_template db t)"
  by (simp add: annotated_for_def annotated_template_def patch_template_def map_get_merge)

lemma no_workload_patch [simp]:
  "all_calls (\<lambda>q. workload_patch q = None) (reconcileLitestreamConfig db)"
  "all_calls (\<lambda>q. workload_patch q = None) (patch_replica_status b n)"
  "all_calls (\<lambda>q. workload_patch q = None) (clearSkipArchiveCheck db)"
  "all_calls (\<lambda>q. workload_patch q = None) (litestreamContainerState db wt)"
  "all_calls (\<lambda>q. workload_patch q = None) (archiveCheckState db wt)"
  by (auto simp: reconcileLitestreamConfig_def patch_replica_status_def clearSkipArchiveCheck_def
      litestreamContainerState_def archiveCheckState_def Let_def split: sum.splits option.splits)

lemma updateStatus_no_workload_patch:
  "all_calls (\<lambda>q. workload_patch q = None) (updateStatus M db)"
  by (auto simp: updateStatus_def update_backup_health_def patch_status_err_def Let_def
      split: sum.splits option.splits prod.splits intro!: all_calls_bindI)

lemma initSQL_no_workload_patch:
  "all_calls (\<lambda>q. workload_patch q = None) (reconcileInitSQLConfig M db)"
  by (auto simp: reconcileInitSQLConfig_def Let_def split: option.splits)

lemma wp_reconcileTargetAnnotation:
  assumes "\<And>h' q. workload_patch q = None \<or> annotation_write db q \<Longrightarrow> G (h' @ h) q"
    and "\<And>h' out. Q (h' @ h) out"
  shows "wp (reconcileTargetAnnotation db) G Q h"
proof -
  note G0 = assms(1) [of _ "[]", simplified] and G1 = assms(1) [of _ "[_]", simplified]
  note Q1 = assms(2) [of "[_]", simplified] and Q2 = assms(2) [of "[_, _]", simplified]
  show ?thesis
    unfolding reconcileTargetAnnotation_def
    by (rule wp_getTargetWorkload)
      (auto simp: G0 G1 Q1 Q2 wl_simps prog_simps annotation_write_def annotated_template_def
        annotated_for_def intro!: wp_patchWorkloadPodTemplate)
qed

lemma wp_reconcileTargetAnnotation_rets:
  assumes "\<And>h' q. G h' q" and "\<And>h' e. Q h' (Returned e)"
  shows "wp (reconcileTargetAnnotation db) G Q h"
  unfolding reconcileTargetAnnotation_def
  by (rule wp_getTargetWorkload)
    (auto simp: wl_simps prog_simps assms intro!: wp_patchWorkloadPodTemplate)

definition seen :: "LitestreamReplica \<Rightarrow> trace \<Rightarrow> bool" where
  "seen db h = (\<exists>q. (q, RReplica db) \<in> set h)"

lemma seen_Cons [simp]: "seen db ((q, RReplica db) # h)"
  by (auto simp: seen_def)

lemma seen_append: "seen db h \<Longrightarrow> seen db (h' @ h)" "seen db h \<Longrightarrow> seen db (e # h)"
  by (auto simp: seen_def)

lemma wp_reconcileInitSQLConfig:
  assumes "seen db h"
    and "\<And>h' q. workload_patch q = None \<Longrightarrow> G (h' @ h) q"
    and "\<And>h' e x. wp (f (Some e, x)) G Q (h' @ h)"
    and "\<And>h' x. seen x (h' @ h) \<Longrightarrow> wp (f (None, x)) G Q (h' @ h)"
  shows "wp (bind (reconcileInitSQLConfig M db) f) G Q h"
proof -
  note G = assms(2) [of _ "[]", simplified] assms(2) [of _ "[_]", simplified]
    assms(2) [of _ "[_, _]", simplified]
  note E = assms(3) [of _ _ "[]", simplified] assms(3) [of _ _ "[_]", simplified]
    assms(3) [of _ _ "[_, _]", simplified] assms(3) [of _ _ "[_, _, _]", simplified]
  note N = assms(4) [of _ "[]", simplified] assms(4) [of _ "[_]", simplified]
    assms(4) [of _ "[_, _]", simplified] assms(4) [of _ "[_, _, _]", simplified]
  show ?thesis
    using assms(1)
    by (auto simp: reconcileInitSQLConfig_def patch_replica_status_def now_def Let_def seen_append
        intro!: G E N split: sum.splits option.splits)
qed

lemma wp_replica_Reconcile_workload:
  "wp (replica_Reconcile M req)
     (\<lambda>h q. workload_patch q = None \<or> (\<exists>db. seen db h \<and> annotation_write db q)) (\<lambda>_ _. True) []"
  (is "wp _ ?G _ _")
proof -
  have status: "wp (bind (updateStatus M db) f) ?G (\<lambda>_ _. True) h" 
    if "\<And>h e. wp (f e) ?G (\<lambda>_ _. True) h" for db h and f :: "go_error option \<Rightarrow> ctrl_result prog"
    by (rule all_calls_wp_bind [OF updateStatus_no_workload_patch]) (simp_all add: that)
  have annot: "wp (bind (reconcileTargetAnnotation db) f) ?G (\<lambda>_ _. True) h" 
    if "seen db h" "\<And>h e. wp (f e) ?G (\<lambda>_ _. True) h" for db h and f :: "go_error option \<Rightarrow> ctrl_result prog"
    unfolding wp_bind
    by (rule wp_reconcileTargetAnnotation) (use that seen_append in \<open>auto split: outcome.splits\<close>)
  show ?thesis
    unfolding replica_Reconcile_def reconcileLitestreamConfig_def
    by (auto simp: Let_def seen_append intro!: wp_reconcileInitSQLConfig annot status
        split: sum.splits option.splits)
qed

section \<open>A sample run\<close>

definition sample_deployment :: Deployment where
  "sample_deployment = \<lparr>dep_Meta = zero_ObjectMeta\<lparr>om_Name := ''web'', om_Namespace := ''paperless''\<rparr>,
     dep_Replicas = Some 1, dep_Selector = Some (Some [''app'' \<mapsto> ''web'']),
     dep_Template = \<lparr>pt_Annotations = None, pt_Labels = None, pt_Spec = zero_PodSpec\<rparr>,
     dep_StatusReplicas = 1, dep_ReadyReplicas = 1\<rparr>"

definition annotated_deployment :: Deployment where
  "annotated_deployment = sample_deployment\<lparr>dep_Template :=
     annotated_template sample_replica (dep_Template sample_deployment)\<rparr>"

definition sample_request :: NamespacedName where
  "sample_request = \<lparr>nn_Namespace = ''paperless'', nn_Name = ''paperless-db''\<rparr>"

text \<open>First reconciliation of a replica whose Deployment is not annotated yet.\<close>

definition sample_run :: "trace \<times> ctrl_result outcome" where
  "sample_run = drive (replica_Reconcile list_conditions sample_request)
     [RReplica sample_replica, ROk, RDeployment sample_deployment, ROk,
      RDeployment annotated_deployment, RTime 7, RPods [], RPods [], RReplica sample_replica]"

lemmas sample_run_defs = sample_run_def sample_request_def sample_deployment_def
  annotated_deployment_def sample_defs

lemma sample_run_exec:
  "exec (replica_Reconcile list_conditions sample_request) (fst sample_run) (snd sample_run)"
  unfolding sample_run_def by (rule drive_exec)

text \<open>
  C7. The reconciler writes to a workload in one way only, whatever the API server answers: the
  object was read with at most one desired replica and without the complete set of injection
  annotations of the replica, and the patch changes nothing but the pod template's injection
  annotations and label, which then refer to a replica the server returned in this execution.
\<close>

theorem replica_writes_workload:
  assumes "exec (replica_Reconcile M req) tr out" "(q, r) \<in> set tr" "workload_patch q \<noteq> None"
  shows "\<exists>db q'. (q', RReplica db) \<in> set tr \<and> annotation_write db q"
proof -
  obtain i where i: "i < length tr" "tr ! i = (q, r)"
    using assms(2) by (auto simp: in_set_conv_nth)
  have "guarded (\<lambda>h q. workload_patch q = None \<or> (\<exists>db. seen db h \<and> annotation_write db q)) [] tr"
    using wp_exec [OF wp_replica_Reconcile_workload assms(1)] by blast
  from guarded_nth [OF this i(1)] i(2) assms(3) obtain db
    where "seen db (rev (take i tr))" "annotation_write db q" by auto
  then show ?thesis by (auto simp: seen_def dest: in_set_takeD)
qed

theorem replica_writes_workload_witness:
  "\<exists>db q'. (q', RReplica db) \<in> set (fst sample_run) \<and> annotation_write db (fst (fst sample_run ! 3))"
proof -
  have "workload_patch (fst (fst sample_run ! 3)) \<noteq> None \<and> 3 < length (fst sample_run)"
    by code_simp
  then show ?thesis
    by (intro replica_writes_workload [OF sample_run_exec, of _ "snd (fst sample_run ! 3)"])
      (simp_all add: nth_mem)
qed

text \<open>
  C16. The sidecar's ConfigMap is the first thing written after the replica is read; it holds the
  paused configuration exactly when the replica carries the pause annotation. If the write fails
  the execution ends there with the error: nothing else is touched.
\<close>

theorem replica_config_first:
  assumes "exec (replica_Reconcile M req) ((GetReplica req, RReplica db) # tr) out"
  shows "\<exists>r tr'. tr = (CreateOrUpdateConfigMap
        \<lparr>nn_Namespace = db_Namespace db, nn_Name = db_Name db @ ''-litestream''\<rparr>
        [litestreamConfigKey \<mapsto> if is_paused db then pausedConfig else buildLitestreamConfigYAML db]
        (ReplicaObj db), r) # tr'
     \<and> (\<forall>e. r = RErr e \<longrightarrow> tr' = [] \<and> out = Returned (0, Some e))"
  using assms
  by (auto simp: replica_Reconcile_def reconcileLitestreamConfig_def prog_simps is_paused_def
      buildLitestreamConfig_def Let_def)

theorem replica_config_first_witness:
  "\<exists>r tr'. tl (fst sample_run) = (CreateOrUpdateConfigMap
        \<lparr>nn_Namespace = ''paperless'', nn_Name = ''paperless-db-litestream''\<rparr>
        [litestreamConfigKey \<mapsto> buildLitestreamConfigYAML sample_replica]
        (ReplicaObj sample_replica), r) # tr'"
proof -
  have "fst sample_run = (GetReplica sample_request, RReplica sample_replica) # tl (fst sample_run)"
    by (simp add: sample_run_def replica_Reconcile_def split: prod.splits)
  with sample_run_exec have "exec (replica_Reconcile list_conditions sample_request)
      ((GetReplica sample_request, RReplica sample_replica) # tl (fst sample_run)) (snd sample_run)"
    by simp
  from replica_config_first [OF this] show ?thesis
    by (simp add: is_paused_def injectEnabled_def sample_defs map_get_def) blast
qed

section \<open>The status\<close>

text \<open>
  The phase the status must show, from the workload, the pause annotation and the archive check.
\<close>

definition phase_spec :: "workload_view \<Rightarrow> bool \<Rightarrow> bool \<Rightarrow> string" where
  "phase_spec v paused archive_failed =
     (if view_desired v > 1 \<or> archive_failed then PhaseError
      else if paused then PhasePaused
      else if map_get (pt_Annotations (wv_Template v)) AnnotationInject = injectEnabled \<and> wv_Ready v > 0
      then PhaseReady else PhasePending)"

fun pods_listed :: "trace \<Rightarrow> Pod list option" where
  "pods_listed [] = None"
| "pods_listed ((ListPods _ _, r) # tr) = (case as_pods r of Inl _ \<Rightarrow> Some [] | Inr pods \<Rightarrow> Some pods)"
| "pods_listed (_ # tr) = pods_listed tr"

definition archive_failed_in :: "trace \<Rightarrow> bool" where
  "archive_failed_in tr = (case pods_listed tr of None \<Rightarrow> False | Some pods \<Rightarrow> archive_failed_pod pods \<noteq> None)"

lemma update_backup_health_rets:
  "all_rets (\<lambda>db'. \<exists>b st re msg.
       db' = set_db_condition M ConditionBackupHealthy st re msg t (set_backup_healthy b db))
     (update_backup_health M wt t db)"
  unfolding update_backup_health_def Let_def
  by (auto intro!: all_rets_bind_any split: prod.splits) blast+

lemmas status_setters = set_db_condition_def remove_db_condition_def set_phase_def
  set_backup_healthy_def

lemma wp_patch_status_err [prog_simps]:
  "wp (patch_status_err b n) G Q h =
     (G h (PatchReplicaStatus b n) \<and>
      (\<forall>r. Q ((PatchReplicaStatus b n, r) # h)
             (Returned (case as_replica r of Inl e \<Rightarrow> Some e | Inr _ \<Rightarrow> None))))"
  by (auto simp: patch_status_err_def patch_replica_status_def split: sum.splits)

lemma wp_archiveCheckState:
  assumes "wf_target wt"
    and "\<And>lbl. G h (ListPods (db_Namespace db) lbl)"
    and "wv_Selector (wt_view wt) = None \<Longrightarrow> Q h Panicked"
    and "\<And>msg. \<not> bk_Enabled (db_Backup db) \<Longrightarrow> wp (f (False, msg)) G Q h"
    and "\<And>lbl r b msg. bk_Enabled (db_Backup db) \<Longrightarrow>
        b = (case as_pods r of Inl _ \<Rightarrow> False | Inr pods \<Rightarrow> archive_failed_pod pods \<noteq> None) \<Longrightarrow>
        wp (f (b, msg)) G Q ((ListPods (db_Namespace db) lbl, r) # h)"
  shows "wp (bind (archiveCheckState db wt) f) G Q h"
  using assms(1-4)
  by (auto simp: archiveCheckState_def wl_simps deref_def intro!: assms(5)
      split: sum.splits option.splits)

lemma status_setter_fields [simp]:
  "db_Meta (set_db_condition M ty st re msg t db) = db_Meta db"
  "db_Spec (set_db_condition M ty st re msg t db) = db_Spec db"
  "db_Meta (remove_db_condition M ty db) = db_Meta db"
  "db_Spec (remove_db_condition M ty db) = db_Spec db"
  "db_Meta (set_phase p b db) = db_Meta db" "db_Spec (set_phase p b db) = db_Spec db"
  "db_Meta (set_backup_healthy b db) = db_Meta db" "db_Spec (set_backup_healthy b db) = db_Spec db"
  by (simp_all add: status_setters)

definition observed :: "LitestreamReplica \<Rightarrow> LitestreamReplica" where
  "observed db = db\<lparr>db_Status := (db_Status db)\<lparr>st_ObservedGeneration := om_Generation (db_Meta db)\<rparr>\<rparr>"

lemma observed_fields [simp]: "db_Meta (observed db) = db_Meta db" "db_Spec (observed db) = db_Spec db"
  by (simp_all add: observed_def)

text \<open>
  The ways \<open>updateStatus\<close> ends: the replica it writes, from the result of the workload read and
  whether an archive check failed in the pods it listed.
\<close>

inductive status_leaf ::
  "meta_lib \<Rightarrow> LitestreamReplica \<Rightarrow> (go_error + workloadTarget) \<Rightarrow> bool \<Rightarrow> LitestreamReplica \<Rightarrow> bool"
  for M db where
  not_found: "status_leaf M db (Inl e) af
    (set_db_condition M ConditionReady ConditionFalse ''WorkloadNotFound'' msg t
      (set_db_condition M ConditionBackupHealthy ConditionFalse ''WorkloadNotFound'' msg t
        (set_db_condition M ConditionSidecarInjected ConditionFalse ''WorkloadNotFound'' msg t
          (set_backup_healthy False (set_phase PhaseError False (observed db))))))"
| exceeded: "desired wt > 1 \<Longrightarrow> status_leaf M db (Inr wt) af
    (set_db_condition M ConditionReplicaCountExceeded ConditionTrue ''TooManyReplicas'' msg t
      (set_phase PhaseError False (observed db)))"
| archive_failed: "\<not> desired wt > 1 \<Longrightarrow> status_leaf M db (Inr wt) True
    (set_phase PhaseError False
      (set_db_condition M ConditionArchiveCheckFailed ConditionTrue ''ArchiveCheckFailed'' msg t
        (set_db_condition M ConditionReplicationPaused pst pre pmsg t
          (remove_db_condition M ConditionReplicaCountExceeded (observed db)))))"
| settled: "\<not> desired wt > 1 \<Longrightarrow> phase = phase_spec (wt_view wt) (is_paused db) False \<Longrightarrow>
    ready \<longleftrightarrow> phase = PhaseReady \<Longrightarrow> rst = (if ready then ConditionTrue else ConditionFalse) \<Longrightarrow>
    status_leaf M db (Inr wt) False
    (set_db_condition M ConditionReady rst rre rmsg t
      (set_phase phase ready
        (set_db_condition M ConditionBackupHealthy hst hre hmsg t (set_backup_healthy healthy
          (set_db_condition M ConditionSidecarInjected sst sre smsg t
            (set_db_condition M ConditionArchiveCheckFailed ConditionFalse ''ArchiveCheckPassed'' amsg t
              (set_db_condition M ConditionReplicationPaused pst pre pmsg t
                (remove_db_condition M ConditionReplicaCountExceeded (observed db)))))))))"

lemma phases_distinct [simp]:
  "PhasePaused \<noteq> PhaseReady" "PhasePending \<noteq> PhaseReady" "PhaseError \<noteq> PhaseReady"
  by (simp_all add: PhasePaused_def PhasePending_def PhaseError_def PhaseReady_def)

lemma archive_failed_in_simps [simp]:
  "archive_failed_in [] = False"
  "archive_failed_in ((Now, r) # tr) = archive_failed_in tr"
  "archive_failed_in ((ListPods ns lbl, r) # tr) =
     (case as_pods r of Inl _ \<Rightarrow> False | Inr pods \<Rightarrow> archive_failed_pod pods \<noteq> None)"
  by (simp_all add: archive_failed_in_def split: sum.splits)

lemma no_panic_clear [simp]: "no_panic (clearSkipArchiveCheck db)"
  by (auto simp: clearSkipArchiveCheck_def split: sum.splits)

lemma no_panic_backup_health:
  "wf_target wt \<Longrightarrow> wv_Selector (wt_view wt) \<noteq> None \<Longrightarrow> no_panic (update_backup_health M wt t db)"
  unfolding update_backup_health_def litestreamContainerState_def Let_def
  by (auto simp: wl_simps intro!: no_panic_bind_any split: sum.splits)

lemma wp_update_backup_health:
  assumes "wf_target wt" "\<And>h' q. G (h' @ h) q"
    and "\<And>h'. wv_Selector (wt_view wt) = None \<Longrightarrow> Q (h' @ h) Panicked"
    and "\<And>h' b st re msg. (\<not> bk_Enabled (db_Backup db) \<Longrightarrow> h' = []) \<Longrightarrow>
      wp (f (set_db_condition M ConditionBackupHealthy st re msg t (set_backup_healthy b db))) G Q (h' @ h)"
  shows "wp (bind (update_backup_health M wt t db) f) G Q h"
proof (cases "bk_Enabled (db_Backup db)")
  case False
  then show ?thesis using assms(4) [of "[]"] by (simp add: update_backup_health_def Let_def)
next
  case True
  show ?thesis
  proof (rule all_rets_wp_bind [OF all_calls_True update_backup_health_rets])
    show "Q (h' @ h) Panicked" if "\<not> no_panic (update_backup_health M wt t db)" for h'
      using that assms(3) no_panic_backup_health [OF assms(1)] by blast
  qed (use assms(2,4) True in auto)
qed

lemma if_set_db:
  "(if c then set_db_condition M ty st re msg t x else set_db_condition M ty st' re' msg' t x) =
     set_db_condition M ty (if c then st else st') (if c then re else re') (if c then msg else msg') t x"
  by simp

lemma wp_updateStatus:
  assumes leaf: "\<And>r mid new r' e. status_leaf M db (workload_resp (target_query db) r)
        (archive_failed_in (rev mid)) new
      \<Longrightarrow> Q ((PatchReplicaStatus db new, r') # mid @ [(target_query db, r)]) (Returned e)"
    and panic: "\<And>r mid wt. workload_resp (target_query db) r = Inr wt \<Longrightarrow> wv_Selector (wt_view wt) = None
      \<Longrightarrow> Q (mid @ [(target_query db, r)]) Panicked"
  shows "wp (updateStatus M db) (\<lambda>_ _. True) Q []"
  unfolding updateStatus_def observed_def [symmetric]
proof (rule wp_getTargetWorkload, goal_cases)
  case (2 r e e')
  then show ?case
    by (auto simp: prog_simps Let_def intro!: leaf [of _ "[_]", simplified] status_leaf.not_found)
next
  case (3 r wt)
  note panic' = panic [OF 3(1), of "[_]", simplified] panic [OF 3(1), of "_ @ [_]", simplified]
     panic [OF 3(1), of "_ @ [_, _]", simplified]
  note leaf1 = leaf [of r "[_]", simplified] 
  note leaf2 = leaf [of r "[_, _]", simplified] 
  note leaf3 = leaf [of r "_ @ [_, _]", simplified] 
  show ?case
    using 3
    apply (simp add: prog_simps wl_simps Let_def if_set_db split del: if_split cong: if_cong)
    apply (intro allI)
    apply (rule if_splits(1) [THEN iffD2], intro conjI impI)
    apply (auto simp: prog_simps intro!: leaf1 exceeded)[]
    apply (rule wp_archiveCheckState, assumption, simp, simp add: panic')
     apply (simp add: wl_simps if_set_db split del: if_split)
     apply (rule wp_update_backup_health, assumption)
     apply simp
     apply (simp add: panic')
     apply (auto simp: prog_simps is_paused_def phase_spec_def intro!: leaf1 settled)[]
     subgoal for ra lbl rb b msg
       apply (cases b)
        apply (auto simp: prog_simps is_paused_def phase_spec_def intro!: leaf2 archive_failed)[]
       apply (simp add: wl_simps if_set_db split del: if_split)
       apply (rule wp_update_backup_health, assumption)
         apply simp
        apply (simp add: panic')
       apply (auto simp: prog_simps is_paused_def phase_spec_def intro!: leaf3 settled)[]
       done
     done
qed simp

text \<open>A status write for a phase: nothing but the status changes.\<close>

definition status_for :: "LitestreamReplica \<Rightarrow> string \<Rightarrow> LitestreamReplica \<Rightarrow> bool" where
  "status_for db phase new =
     (db_Meta new = db_Meta db \<and> db_Spec new = db_Spec db
      \<and> st_Phase (db_Status new) = phase \<and> st_Ready (db_Status new) = (phase = PhaseReady)
      \<and> st_ObservedGeneration (db_Status new) = om_Generation (db_Meta db)
      \<and> st_InitSQLHash (db_Status new) = st_InitSQLHash (db_Status db))"

definition status_phase :: "(go_error + workloadTarget) \<Rightarrow> bool \<Rightarrow> bool \<Rightarrow> string" where
  "status_phase res paused archive_failed =
     (case res of Inl _ \<Rightarrow> PhaseError | Inr wt \<Rightarrow> phase_spec (wt_view wt) paused archive_failed)"

lemma status_leaf_phase:
  "status_leaf M db res af new \<Longrightarrow> status_for db (status_phase res (is_paused db) af) new"
  by (induction rule: status_leaf.induct)
    (simp_all add: status_for_def status_phase_def status_setters observed_def phase_spec_def)

lemma updateStatus_leaf:
  assumes "exec (updateStatus M db) tr (Returned e)"
  shows "\<exists>r mid new r'. tr = (target_query db, r) # mid @ [(PatchReplicaStatus db new, r')]
     \<and> status_leaf M db (workload_resp (target_query db) r) (archive_failed_in mid) new"
    (is "?P tr")
proof -
  have "wp (updateStatus M db) (\<lambda>_ _. True)
     (\<lambda>h out. out \<noteq> Panicked \<longrightarrow> ?P (rev h)) []"
    by (rule wp_updateStatus) auto
  from wp_exec [OF this assms] show ?thesis by simp
qed

text \<open>
  C8. Every execution of \<open>updateStatus\<close> that returns reads the workload first and ends with exactly
  one status write, whose phase is the one the specification prescribes for the workload read, the
  pause annotation and the init containers of the listed pods. The ready flag is set exactly in
  the phase Ready, the observed generation is the current one, and metadata and spec are those of
  the replica given.
\<close>

theorem updateStatus_phase:
  assumes "exec (updateStatus M db) tr (Returned e)"
  shows "\<exists>r mid new r'. tr = (target_query db, r) # mid @ [(PatchReplicaStatus db new, r')]
     \<and> status_for db (status_phase (workload_resp (target_query db) r) (is_paused db)
          (archive_failed_in mid)) new"
  using updateStatus_leaf [OF assms] status_leaf_phase by blast

definition sample_status :: "trace \<times> go_error option outcome" where
  "sample_status = drive (updateStatus list_conditions sample_replica)
     [RDeployment annotated_deployment, RTime 7, RPods [], RPods [], RReplica sample_replica]"

lemma sample_status_exec:
  "exec (updateStatus list_conditions sample_replica) (fst sample_status) (snd sample_status)"
  unfolding sample_status_def by (rule drive_exec)

theorem updateStatus_phase_witness:
  "\<exists>r mid new r'. fst sample_status =
       (target_query sample_replica, r) # mid @ [(PatchReplicaStatus sample_replica new, r')]
     \<and> status_for sample_replica (status_phase (workload_resp (target_query sample_replica) r)
          (is_paused sample_replica) (archive_failed_in mid)) new"
proof -
  have "snd sample_status = Returned None" by code_simp
  with sample_status_exec show ?thesis
    using updateStatus_phase [of list_conditions sample_replica "fst sample_status" None] by simp
qed

text \<open>The two branches of \<^verbatim>\<open>updateStatus\<close> that return before the Ready condition is set.\<close>

definition status_exceptional :: "(go_error + workloadTarget) \<Rightarrow> bool \<Rightarrow> bool" where
  "status_exceptional res archive_failed =
     (case res of Inl _ \<Rightarrow> False | Inr wt \<Rightarrow> desired wt > 1 \<or> archive_failed)"

context status_conditions
begin

lemma conds_setters [simp]:
  "conds (set_phase p b db) = conds db" "conds (set_backup_healthy b db) = conds db"
  "conds (observed db) = conds db"
  by (simp_all add: set_phase_def set_backup_healthy_def observed_def)

lemma ready_setters [simp]:
  "st_Ready (db_Status (set_db_condition M ty st re msg t x)) = st_Ready (db_Status x)"
  "st_Ready (db_Status (set_backup_healthy b x)) = st_Ready (db_Status x)"
  "st_Ready (db_Status (set_phase p b x)) = b"
  by (simp_all add: status_setters)

lemma leaf_ready_condition:
  "status_leaf M db res af new \<Longrightarrow> cond_is ConditionReady st (conds new) =
     (if status_exceptional res af then cond_is ConditionReady st (conds db)
      else st = (if st_Ready (db_Status new) then ConditionTrue else ConditionFalse))"
  by (induction rule: status_leaf.induct)
    (auto simp: status_exceptional_def cond_is_set_db cond_is_remove_db condition_types)

lemma ready_condition:
  assumes "exec (updateStatus M db) ((q, r) # mid @ [(PatchReplicaStatus db new, r')]) (Returned e)"
  shows "cond_is ConditionReady st (conds new) =
     (if status_exceptional (workload_resp q r) (archive_failed_in mid)
      then cond_is ConditionReady st (conds db)
      else st = (if st_Ready (db_Status new) then ConditionTrue else ConditionFalse))"
  using updateStatus_leaf [OF assms] leaf_ready_condition by auto

end

text \<open>
  C21. The Ready condition written with the status agrees with the ready flag, except in the two
  branches that report too many replicas or a failed archive check: there the condition the
  replica had before is kept (so a replica that was Ready keeps the condition \<open>Ready=True\<close> while
  \<open>status.ready\<close> becomes false).
\<close>

theorem updateStatus_ready_condition:
  assumes "status_conditions M"
    and "exec (updateStatus M db) ((q, r) # mid @ [(PatchReplicaStatus db new, r')]) (Returned e)"
  shows "cond_is ConditionReady st (st_Conditions (db_Status new)) =
     (if status_exceptional (workload_resp q r) (archive_failed_in mid)
      then cond_is ConditionReady st (st_Conditions (db_Status db))
      else st = (if st_Ready (db_Status new) then ConditionTrue else ConditionFalse))"
  using assms by (rule status_conditions.ready_condition)

definition stale_replica :: LitestreamReplica where
  "stale_replica = sample_replica\<lparr>db_Status := (db_Status sample_replica)\<lparr>st_Conditions :=
     [\<lparr>cond_Type = ConditionReady, cond_Status = ConditionTrue, cond_ObservedGeneration = 0,
       cond_LastTransitionTime = 3, cond_Reason = ''WorkloadReady'', cond_Message = []\<rparr>]\<rparr>\<rparr>"

definition scaled_deployment :: Deployment where
  "scaled_deployment = annotated_deployment\<lparr>dep_Replicas := Some 2\<rparr>"

text \<open>A replica that was Ready is scaled to two: the condition stays True.\<close>

theorem updateStatus_ready_condition_witness:
  "\<exists>new. exec (updateStatus list_conditions stale_replica)
        ((target_query stale_replica, RDeployment scaled_deployment) # [(Now, RTime 7)]
         @ [(PatchReplicaStatus stale_replica new, RReplica stale_replica)]) (Returned None)
      \<and> cond_is ConditionReady ConditionTrue (st_Conditions (db_Status new))"
proof -
  have "\<exists>new. drive (updateStatus list_conditions stale_replica)
      [RDeployment scaled_deployment, RTime 7, RReplica stale_replica] =
      ((target_query stale_replica, RDeployment scaled_deployment) # [(Now, RTime 7)]
         @ [(PatchReplicaStatus stale_replica new, RReplica stale_replica)], Returned None)"
    by (simp add: updateStatus_def getTargetWorkload_def target_query_def stale_replica_def
        scaled_deployment_def annotated_deployment_def sample_deployment_def sample_defs
        of_deployment_def wt_desiredReplicas_def wt_name_def now_def patch_status_err_def
        patch_replica_status_def Let_def)
  then obtain new where ex: "exec (updateStatus list_conditions stale_replica)
        ((target_query stale_replica, RDeployment scaled_deployment) # [(Now, RTime 7)]
         @ [(PatchReplicaStatus stale_replica new, RReplica stale_replica)]) (Returned None)"
    using drive_execI by blast
  have "status_exceptional
      (workload_resp (target_query stale_replica) (RDeployment scaled_deployment)) False"
    "cond_is ConditionReady ConditionTrue (st_Conditions (db_Status stale_replica))"
    by code_simp+
  with updateStatus_ready_condition [OF list_lib.status_conditions_axioms ex, of ConditionTrue] ex
  show ?thesis by auto
qed

section \<open>Panics and failed reads\<close>

lemma no_panic_config [simp]:
  "no_panic (reconcileLitestreamConfig db)" "no_panic (patch_replica_status b n)"
  "no_panic (reconcileInitSQLConfig M db)"
  by (auto simp: reconcileLitestreamConfig_def patch_replica_status_def reconcileInitSQLConfig_def
      Let_def intro!: no_panic_bind_any split: sum.splits option.splits)

text \<open>A workload without selector was read.\<close>

definition selector_missing :: "trace \<Rightarrow> bool" where
  "selector_missing h =
     (\<exists>(q, r) \<in> set h. \<exists>wt. workload_resp q r = Inr wt \<and> wv_Selector (wt_view wt) = None)"

lemma no_panic_annotation [simp]: "no_panic (reconcileTargetAnnotation db)"
  by (rule wp_no_panic [of _ "\<lambda>_ _. True" "[]"], rule wp_reconcileTargetAnnotation_rets) auto

lemma updateStatus_panics:
  assumes "exec (updateStatus M db) tr Panicked"
  shows "selector_missing tr"
proof -
  have "wp (updateStatus M db) (\<lambda>_ _. True) (\<lambda>h out. out = Panicked \<longrightarrow> selector_missing h) []"
    by (rule wp_updateStatus) (auto simp: selector_missing_def)
  from wp_exec [OF this assms] show ?thesis by (simp add: selector_missing_def)
qed

text \<open>How far an execution gets: each stage stops at its first error.\<close>

lemma replica_stages:
  assumes "exec (replica_Reconcile M req) tr out"
  obtains
    (get) r e where "tr = [(GetReplica req, r)]" "as_replica r = Inl e"
      "out = Returned (0, if errors_IsNotFound e then None else Some e)"
  | (config) db t1 e where "tr = (GetReplica req, RReplica db) # t1"
      "exec (reconcileLitestreamConfig db) t1 (Returned (Some e))" "out = Returned (0, Some e)"
  | (init) db t1 t2 e db' where "tr = (GetReplica req, RReplica db) # t1 @ t2"
      "exec (reconcileLitestreamConfig db) t1 (Returned None)"
      "exec (reconcileInitSQLConfig M db) t2 (Returned (Some e, db'))" "out = Returned (0, Some e)"
  | (annotation) db t1 t2 t3 e db' where "tr = (GetReplica req, RReplica db) # t1 @ t2 @ t3"
      "exec (reconcileLitestreamConfig db) t1 (Returned None)"
      "exec (reconcileInitSQLConfig M db) t2 (Returned (None, db'))"
      "exec (reconcileTargetAnnotation db') t3 (Returned (Some e))" "out = Returned (0, Some e)"
  | (status) db t1 t2 t3 t4 out' db' where
      "tr = (GetReplica req, RReplica db) # t1 @ t2 @ t3 @ t4"
      "exec (reconcileLitestreamConfig db) t1 (Returned None)"
      "exec (reconcileInitSQLConfig M db) t2 (Returned (None, db'))"
      "exec (reconcileTargetAnnotation db') t3 (Returned None)"
      "exec (updateStatus M db') t4 out'"
      "out = (case out' of Panicked \<Rightarrow> Panicked
         | Returned (Some e) \<Rightarrow> Returned (0, Some e)
         | Returned None \<Rightarrow> Returned (statusSyncInterval, None))"
proof -
  from assms obtain r tr' where tr: "tr = (GetReplica req, r) # tr'"
    by (auto simp: replica_Reconcile_def prog_simps)
  show thesis
  proof (cases "as_replica r")
    case (Inl e)
    with assms tr show thesis
      by (auto simp: replica_Reconcile_def prog_simps split: if_splits intro!: get)
  next
    case (Inr db)
    then have r: "r = RReplica db" by simp
    from assms tr r obtain t1 u1 o1 where 1: "tr' = t1 @ u1"
        "exec (reconcileLitestreamConfig db) t1 (Returned o1)"
      and rest1: "exec (case o1 of Some e \<Rightarrow> Ret (0, Some e) | None \<Rightarrow>
         bind (reconcileInitSQLConfig M db) (\<lambda>(err, db). case err of
           Some e \<Rightarrow> Ret (0, Some e)
         | None \<Rightarrow>
         bind (reconcileTargetAnnotation db) (\<lambda>err. case err of
           Some e \<Rightarrow> Ret (0, Some e)
         | None \<Rightarrow>
         bind (updateStatus M db) (\<lambda>err. case err of
           Some e \<Rightarrow> Ret (0, Some e)
         | None \<Rightarrow> Ret (statusSyncInterval, None))))) u1 out"
      by (auto simp: replica_Reconcile_def exec_Call_iff elim!: exec_bind_no_panic)
    show thesis
    proof (cases o1)
      case (Some e)
      with rest1 1 tr r show thesis by (auto simp: prog_simps intro: config)
    next
      case None
      from rest1 [unfolded None] obtain t2 u2 o2 db' where 2: "u1 = t2 @ u2"
          "exec (reconcileInitSQLConfig M db) t2 (Returned (o2, db'))"
        and rest2: "exec (case o2 of Some e \<Rightarrow> Ret (0, Some e) | None \<Rightarrow>
           bind (reconcileTargetAnnotation db') (\<lambda>err. case err of
             Some e \<Rightarrow> Ret (0, Some e)
           | None \<Rightarrow>
           bind (updateStatus M db') (\<lambda>err. case err of
             Some e \<Rightarrow> Ret (0, Some e)
           | None \<Rightarrow> Ret (statusSyncInterval, None)))) u2 out"
        by (auto elim!: exec_bind_no_panic)
      show thesis
      proof (cases o2)
        case (Some e)
        with rest2 1 2 tr r None show thesis by (auto simp: prog_simps intro: init)
      next
        case None2: None
        from rest2 [unfolded None2] obtain t3 u3 o3 where 3: "u2 = t3 @ u3"
            "exec (reconcileTargetAnnotation db') t3 (Returned o3)"
          and rest3: "exec (case o3 of Some e \<Rightarrow> Ret (0, Some e) | None \<Rightarrow>
             bind (updateStatus M db') (\<lambda>err. case err of
               Some e \<Rightarrow> Ret (0, Some e)
             | None \<Rightarrow> Ret (statusSyncInterval, None))) u3 out"
          by (auto elim!: exec_bind_no_panic)
        show thesis
        proof (cases o3)
          case (Some e)
          with rest3 1 2 3 tr r None None2 show thesis by (auto simp: prog_simps intro: annotation)
        next
          case None3: None
          from rest3 [unfolded None3] obtain out' where "exec (updateStatus M db') u3 out'"
            "out = (case out' of Panicked \<Rightarrow> Panicked | Returned (Some e) \<Rightarrow> Returned (0, Some e)
               | Returned None \<Rightarrow> Returned (statusSyncInterval, None))"
            by (auto simp: prog_simps split: option.splits)
          with 1 2 3 tr r None None2 None3 show thesis by (intro status) auto
        qed
      qed
    qed
  qed
qed

text \<open>
  C22. The reconciler panics only if the API server returned a Deployment or StatefulSet without a
  label selector (which the server never stores): no response otherwise makes it dereference nil.
\<close>

theorem replica_panics_only_without_selector:
  assumes "exec (replica_Reconcile M req) tr Panicked"
  shows "selector_missing tr"
  using assms
proof (cases rule: replica_stages)
  case (status db t1 t2 t3 t4 out' db')
  then have "exec (updateStatus M db') t4 Panicked" by (auto split: outcome.splits option.splits)
  from updateStatus_panics [OF this] status(1) show ?thesis by (auto simp: selector_missing_def)
qed (auto split: if_splits)

theorem replica_panics_only_without_selector_witness:
  "selector_missing (fst (drive (replica_Reconcile list_conditions sample_request)
     [RReplica sample_replica, ROk, RDeployment annotated_deployment,
      RDeployment (annotated_deployment\<lparr>dep_Selector := None\<rparr>), RTime 7]))"
proof (rule replica_panics_only_without_selector [of list_conditions sample_request])
  have "snd (drive (replica_Reconcile list_conditions sample_request)
     [RReplica sample_replica, ROk, RDeployment annotated_deployment,
      RDeployment (annotated_deployment\<lparr>dep_Selector := None\<rparr>), RTime 7]) = Panicked"
    by code_simp
  with drive_exec show "exec (replica_Reconcile list_conditions sample_request)
     (fst (drive (replica_Reconcile list_conditions sample_request)
       [RReplica sample_replica, ROk, RDeployment annotated_deployment,
        RDeployment (annotated_deployment\<lparr>dep_Selector := None\<rparr>), RTime 7])) Panicked"
    by metis
qed

lemma no_workload_query [simp]:
  "all_calls (\<lambda>q. \<not> workload_query q) (reconcileLitestreamConfig db)"
  "all_calls (\<lambda>q. \<not> workload_query q) (patch_replica_status b n)"
  "all_calls (\<lambda>q. \<not> workload_query q) (reconcileInitSQLConfig M db)"
  by (auto simp: reconcileLitestreamConfig_def patch_replica_status_def reconcileInitSQLConfig_def
      Let_def split: sum.splits option.splits)

lemma annotation_first_read:
  assumes "exec (reconcileTargetAnnotation db) t out"
  shows "\<exists>r t'. t = (target_query db, r) # t' \<and>
    (\<forall>e. workload_resp (target_query db) r = Inl e \<longrightarrow>
       t' = [] \<and> (\<exists>e'. out = Returned (Some e') \<and> err_Reason e' = err_Reason e))"
proof -
  from getTargetWorkload_Call [of db] obtain pre where "getTargetWorkload db =
     Call (target_query db) (\<lambda>r. Ret (map_sum (wrapf pre) id (workload_resp (target_query db) r)))" ..
  with assms show ?thesis
    by (auto simp: reconcileTargetAnnotation_def exec_Call_iff exec_Ret_iff)
qed

text \<open>
  C24. When the first read of the target workload fails, \<open>replica_Reconcile\<close> stops there with that
  error: no request follows, so the status is not updated. The branch of \<open>updateStatus\<close> that
  reports \<open>WorkloadNotFound\<close> is reached only if the workload disappears between the two reads of
  one reconciliation.
\<close>

theorem replica_read_failure_stops:
  assumes "exec (replica_Reconcile M req) (tr1 @ (q, r) # tr2) out"
    and "\<forall>(q', r') \<in> set tr1. \<not> workload_query q'" and "workload_query q"
    and "workload_resp q r = Inl e"
  shows "tr2 = [] \<and> (\<exists>e'. out = Returned (0, Some e') \<and> err_Reason e' = err_Reason e)"
proof -
  have pre: "\<forall>(q, r) \<in> set ((GetReplica req, RReplica db) # t1 @ t2). \<not> workload_query q"
    if "exec (reconcileLitestreamConfig db) t1 o1" "exec (reconcileInitSQLConfig M db) t2 o2"
    for db t1 t2 o1 o2
    using all_calls_exec [OF no_workload_query(1) that(1)] all_calls_exec [OF no_workload_query(3) that(2)]
    by auto
  have mem: "(q, r) \<in> set (tr1 @ (q, r) # tr2)" by simp
  from assms(1) show ?thesis
  proof (cases rule: replica_stages)
    case (get r' e')
    with mem assms(3) show ?thesis by (auto simp: Cons_eq_append_conv)
  next
    case (config db t1 e')
    with mem assms(3) all_calls_exec [OF no_workload_query(1) config(2)] show ?thesis
      by fastforce
  next
    case (init db t1 t2 e' db')
    with mem assms(3) pre [OF init(2,3)] show ?thesis by fastforce
  next
    case (annotation db t1 t2 t3 e' db')
    from annotation_first_read [OF annotation(4)] obtain r0 t' where t3: "t3 = (target_query db', r0) # t'"
      and err: "\<forall>e. workload_resp (target_query db') r0 = Inl e \<longrightarrow> t' = [] \<and> err_Reason e' = err_Reason e"
      by auto
    have "tr1 @ (q, r) # tr2 = ((GetReplica req, RReplica db) # t1 @ t2) @ (target_query db', r0) # t'"
      using annotation(1) t3 by simp
    from first_query_unique [OF this assms(2,3) pre [OF annotation(2,3)]] err assms(4) annotation(5)
    show ?thesis by auto
  next
    case (status db t1 t2 t3 t4 out' db')
    from annotation_first_read [OF status(4)] obtain r0 t' where t3: "t3 = (target_query db', r0) # t'"
      and err: "\<forall>e. workload_resp (target_query db') r0 \<noteq> Inl e"
      by auto
    have "tr1 @ (q, r) # tr2 =
        ((GetReplica req, RReplica db) # t1 @ t2) @ (target_query db', r0) # t' @ t4"
      using status(1) t3 by simp
    from first_query_unique [OF this assms(2,3) pre [OF status(2,3)]] err assms(4)
    show ?thesis by auto
  qed
qed

theorem replica_read_failure_stops_witness:
  "\<exists>q1 r1 q2 r2 out. exec (replica_Reconcile list_conditions sample_request)
       ([(q1, r1), (q2, r2)] @ (target_query sample_replica, RErr (errorf ''timeout'')) # []) out
     \<and> (\<exists>e'. out = Returned (0, Some e') \<and> err_Reason e' = err_Reason (errorf ''timeout''))"
proof -
  have "\<exists>q r out. exec (replica_Reconcile list_conditions sample_request)
      ([(GetReplica sample_request, RReplica sample_replica), (CreateOrUpdateConfigMap
        \<lparr>nn_Namespace = ''paperless'', nn_Name = ''paperless-db-litestream''\<rparr> q
        (ReplicaObj sample_replica), r)] @ (target_query sample_replica, RErr (errorf ''timeout'')) # []) out"
    using drive_execI [of "replica_Reconcile list_conditions sample_request"
      "[RReplica sample_replica, ROk, RErr (errorf ''timeout'')]"]
    by (fastforce simp: replica_Reconcile_def reconcileLitestreamConfig_def
        reconcileInitSQLConfig_def reconcileTargetAnnotation_def getTargetWorkload_def
        target_query_def sample_defs Let_def)
  then obtain q r out where ex: "exec (replica_Reconcile list_conditions sample_request)
      ([(GetReplica sample_request, RReplica sample_replica), (CreateOrUpdateConfigMap
        \<lparr>nn_Namespace = ''paperless'', nn_Name = ''paperless-db-litestream''\<rparr> q
        (ReplicaObj sample_replica), r)] @ (target_query sample_replica, RErr (errorf ''timeout'')) # []) out"
    by blast
  have "workload_resp (target_query sample_replica) (RErr (errorf ''timeout'')) = Inl (errorf ''timeout'')"
    by (simp add: target_query_def sample_defs)
  from replica_read_failure_stops [OF ex _ target_query_workload this]
  have "\<exists>e'. out = Returned (0, Some e') \<and> err_Reason e' = err_Reason (errorf ''timeout'')" by simp
  with ex show ?thesis by blast
qed

end
