(* ===== verification/Restore_Trace.thy ===== *)
theory Restore_Trace
  imports Restore_Facts Replica_Trace
begin

text \<open>
  What an execution of the LitestreamRestore reconciler does: the phases it moves through and why,
  the Jobs it creates and when, how it scales the workload and what it leaves behind when it fails.
  The theorems hold for every response of the API server; the last sections are about the states
  that a restore can reach.
\<close>

section \<open>Sample runs\<close>

definition restore_in :: "string \<Rightarrow> LitestreamRestore" where
  "restore_in p = sample_restore\<lparr>res_Status := \<lparr>rst_Phase = p, rst_JobName = ''recover-restore'',
     rst_OriginalReplicas = Some 1, rst_StartTime = Some 3, rst_CompletionTime = None,
     rst_Message = []\<rparr>\<rparr>"

definition paused_source :: LitestreamReplica where
  "paused_source = with_annotations sample_replica (Some [AnnotationPause \<mapsto> injectEnabled])"

definition config_of :: "string \<Rightarrow> ConfigMap" where
  "config_of txt = \<lparr>cm_Meta = zero_ObjectMeta, cm_Data = Some [litestreamConfigKey \<mapsto> txt]\<rparr>"

definition idle_deployment :: Deployment where
  "idle_deployment = sample_deployment\<lparr>dep_Replicas := Some 0, dep_StatusReplicas := 0\<rparr>"

lemma sample_source_usable [simp]: "usable paused_source"
  by (simp add: usable_def paused_source_def with_annotations_def sample_defs)

lemma restore_in_simps [simp]:
  "res_Phase (restore_in p) = p" "original_replicas (restore_in p) = Some 1"
  "terminal (restore_in RestorePhasePausing) = False"
  "terminal (restore_in RestorePhaseScalingDown) = False"
  "terminal (restore_in RestorePhaseRunning) = False"
  "terminal (restore_in RestorePhaseValidating) = False"
  "terminal (restore_in RestorePhaseScalingUp) = False"
  by (simp_all add: restore_in_def terminal_def)

lemma drive_restore:
  assumes "\<not> terminal x" "usable src"
  shows "drive (restore_Reconcile k req) (RRestore x # RReplica src # rs) =
    ((GetRestore req, RRestore x) # (GetReplica (source_key x), RReplica src)
       # fst (drive (restore_dispatch k x src) rs), snd (drive (restore_dispatch k x src) rs))"
  using assms by (auto simp: restore_Reconcile_def terminal_def usable_def source_key_def split_beta)

lemma drive_restore_exec:
  assumes "\<not> terminal x" "usable src" "drive (restore_dispatch k x src) rs = (tr, out)"
  shows "exec (restore_Reconcile k req)
    ((GetRestore req, RRestore x) # (GetReplica (source_key x), RReplica src) # tr) out"
  using drive_execI [OF drive_restore [OF assms(1,2)], of k req rs] assms(3) by simp

text \<open>Pausing: the configuration is paused, the workload is scaled to zero.\<close>

definition pausing_run :: "trace \<times> ctrl_result outcome" where
  "pausing_run = drive (restore_dispatch True (restore_in RestorePhasePausing) paused_source)
     [RConfigMap (config_of pausedConfig), RDeployment sample_deployment,
      RDeployment idle_deployment, ROk, ROk]"

definition scalingDown_run :: "trace \<times> ctrl_result outcome" where
  "scalingDown_run = drive (restore_dispatch True (restore_in RestorePhaseScalingDown) paused_source)
     [RDeployment idle_deployment, ROk, ROk, ROk, ROk, RTime 9, ROk]"

text \<open>Scaling up and down when the workload cannot be read.\<close>

definition scalingDown_error_run :: "trace \<times> ctrl_result outcome" where
  "scalingDown_error_run = drive (restore_dispatch True (restore_in RestorePhaseScalingDown) paused_source)
     [RErr (errorf ''timeout''), ROk, RTime 9, ROk]"

definition scalingUp_error_run :: "trace \<times> ctrl_result outcome" where
  "scalingUp_error_run = drive (restore_dispatch True (restore_in RestorePhaseScalingUp) paused_source)
     [RReplica paused_source, ROk, RReplica paused_source, ROk,
      RConfigMap (config_of ''dbs: full''), RErr (errorf ''timeout''),
      ROk, RTime 9, ROk]"

lemma sample_runs_exec:
  "exec (restore_Reconcile True req) ((GetRestore req, RRestore (restore_in RestorePhasePausing))
     # (GetReplica (source_key (restore_in RestorePhasePausing)), RReplica paused_source)
     # fst pausing_run) (snd pausing_run)"
  "exec (restore_Reconcile True req) ((GetRestore req, RRestore (restore_in RestorePhaseScalingDown))
     # (GetReplica (source_key (restore_in RestorePhaseScalingDown)), RReplica paused_source)
     # fst scalingDown_run) (snd scalingDown_run)"
  "exec (restore_Reconcile True req) ((GetRestore req, RRestore (restore_in RestorePhaseScalingDown))
     # (GetReplica (source_key (restore_in RestorePhaseScalingDown)), RReplica paused_source)
     # fst scalingDown_error_run) (snd scalingDown_error_run)"
  "exec (restore_Reconcile True req) ((GetRestore req, RRestore (restore_in RestorePhaseScalingUp))
     # (GetReplica (source_key (restore_in RestorePhaseScalingUp)), RReplica paused_source)
     # fst scalingUp_error_run) (snd scalingUp_error_run)"
  by (rule drive_restore_exec; simp add: pausing_run_def scalingDown_run_def
      scalingDown_error_run_def scalingUp_error_run_def)+

section \<open>Status writes are final\<close>

fun status_write :: "api_req \<Rightarrow> bool" where
  "status_write (PatchRestoreStatus _ _) = True"
| "status_write _ = False"

primrec single_status :: "'a prog \<Rightarrow> bool" where
  "single_status (Ret a) = True"
| "single_status Panic = True"
| "single_status (Call q k) =
     (if status_write q then (\<forall>r. \<exists>a. k r = Ret a) else (\<forall>r. single_status (k r)))"

lemma single_status_bind:
  "all_calls (\<lambda>q. \<not> status_write q) p \<Longrightarrow> (\<And>a. single_status (f a)) \<Longrightarrow> single_status (bind p f)"
  by (induction p) auto

lemma single_status_exec:
  "exec p tr out \<Longrightarrow> single_status p \<Longrightarrow> i < length tr \<Longrightarrow> status_write (fst (tr ! i)) \<Longrightarrow> Suc i = length tr"
proof (induction p arbitrary: tr i)
  case (Call q k)
  from Call.prems(1) obtain r tr' where tr: "tr = (q, r) # tr'" "exec (k r) tr' out"
    by (auto simp: prog_simps)
  show ?case
  proof (cases i)
    case 0
    with Call.prems tr obtain a where "k r = Ret a" by auto
    with tr 0 show ?thesis by (simp add: prog_simps)
  next
    case (Suc j)
    have "\<not> status_write q"
    proof
      assume "status_write q"
      with Call.prems(2) obtain a where "k r = Ret a" by auto
      with tr Call.prems(3) Suc show False by (simp add: prog_simps)
    qed
    with Call.prems tr Suc Call.IH [of "k r" tr' j] show ?thesis by auto
  qed
qed (auto simp: prog_simps)

lemma no_status_calls [simp]:
  "all_calls (\<lambda>q. \<not> status_write q) (pauseReplication src)"
  "all_calls (\<lambda>q. \<not> status_write q) (resumeReplication src)"
  "all_calls (\<lambda>q. \<not> status_write q) (setSkipArchiveCheck src b)"
  "all_calls (\<lambda>q. \<not> status_write q) (scaleWorkload wt n)"
  "all_calls (\<lambda>q. \<not> status_write q) (restoreJobPodLogs k ns nm)"
  "all_calls (\<lambda>q. \<not> status_write q) (reconcileRestoreConfig x src)"
  "\<not> status_write (target_query src)"
  by (auto simp: pauseReplication_def resumeReplication_def setSkipArchiveCheck_def scaleWorkload_def
      restoreJobPodLogs_def reconcileRestoreConfig_def target_query_def Let_def
      split: sum.splits option.splits list.splits)

lemma single_status_Call_Ret:
  "single_status (Call q (\<lambda>r. Ret (g r)))"
  by simp

lemmas unfold_status = failRestore_def failRestoreWithCleanup_def setStatus_def bind_assoc bind.simps

lemma single_cleanup:
  "single_status (bind (failRestoreWithCleanup x src msg) (\<lambda>err. Ret (n, err)))"
  unfolding unfold_status
  by (intro single_status_bind)
    (auto intro!: all_calls_bindI split: sum.splits)

lemma single_failRestore: "single_status (bind (failRestore x msg) (\<lambda>err. Ret (n, err)))"
  unfolding unfold_status by (intro single_status_bind) auto

lemma single_pending: "single_status (reconcilePending x src)"
  unfolding reconcilePending_def unfold_status
  by (intro single_status_bind)
    (auto intro!: all_calls_bindI single_status_bind split: sum.splits option.splits prod.splits)

lemma single_pausing: "single_status (reconcilePausing x src)"
  unfolding reconcilePausing_def unfold_status Let_def
  by (auto intro!: all_calls_bindI single_status_bind split: sum.splits option.splits prod.splits)

lemma single_scalingDown: "single_status (reconcileScalingDown x src)"
  unfolding reconcileScalingDown_def unfold_status Let_def
  by (auto intro!: all_calls_bindI single_status_bind split: sum.splits option.splits prod.splits)

lemma single_running: "single_status (reconcileRunning k x src)"
  unfolding reconcileRunning_def Let_def
  by (auto simp: setStatus_def single_cleanup record_event_def intro!: single_status_bind [OF no_status_calls(5)] split: sum.splits job_verdict.splits)

lemma single_validating: "single_status (reconcileValidating x src)"
  unfolding reconcileValidating_def Let_def
  by (auto simp: setStatus_def single_cleanup record_event_def split: sum.splits option.splits job_verdict.splits)

lemma single_scalingUp: "single_status (reconcileScalingUp x src)"
  unfolding reconcileScalingUp_def unfold_status Let_def
  by (auto intro!: all_calls_bindI single_status_bind split: sum.splits option.splits prod.splits)

lemma single_dispatch: "single_status (restore_dispatch k x src)"
  by (simp add: restore_dispatch_def single_pending single_pausing single_scalingDown
      single_running single_validating single_scalingUp)

section \<open>The first calls\<close>

text \<open>Whatever a reconciliation does to the status, it has read the restore and its source first.\<close>

lemma restore_first_calls:
  assumes "exec (restore_Reconcile k req) tr out" "i < length tr" "tr ! i = (PatchRestoreStatus old new, r)"
  shows "\<exists>x s tr'. tr = (GetRestore req, RRestore x) # (GetReplica (source_key x), s) # tr' \<and> \<not> terminal x
     \<and> ((\<forall>src. as_replica s = Inr src \<longrightarrow> \<not> usable src) \<longrightarrow>
          (\<exists>msg n. exec (bind (failRestore x msg) (\<lambda>err. Ret (n, err))) tr' out))"
proof -
  obtain a tr1 where tr: "tr = (GetRestore req, a) # tr1" and i: "i \<noteq> 0" "i - 1 < length tr1"
    "tr1 ! (i - 1) = (PatchRestoreStatus old new, r)"
    using assms by (cases i) (auto simp: restore_Reconcile_def exec_Call_iff)
  then obtain x where x: "a = RRestore x" "\<not> terminal x"
    using assms(1) by (cases a) (auto simp: restore_Reconcile_def terminal_def exec_Call_iff exec_Ret_iff split: if_splits)
  then obtain s tr' where tr': "tr1 = (GetReplica (source_key x), s) # tr'"
    using assms(1) unfolding tr
    by (auto simp: restore_Reconcile_def terminal_def source_key_def exec_Call_iff exec_Ret_iff split: if_splits)
  have "\<exists>msg n. exec (bind (failRestore x msg) (\<lambda>err. Ret (n, err))) tr' out"
    if "\<forall>src. as_replica s = Inr src \<longrightarrow> \<not> usable src"
  proof (cases "as_replica s")
    case (Inl e)
    with assms(1) x show ?thesis unfolding tr tr'
      by (auto simp: restore_Reconcile_def terminal_def source_key_def exec_Call_iff)
  next
    case (Inr src)
    with assms(1) x that show ?thesis unfolding tr tr'
      by (auto simp: restore_Reconcile_def terminal_def source_key_def usable_def exec_Call_iff)
  qed
  with x tr tr' show ?thesis by blast
qed

lemma failRestore_status:
  assumes "exec (bind (failRestore x msg) (\<lambda>err. Ret (n, err))) tr out" "\<not> terminal x"
    and "i < length tr" "tr ! i = (PatchRestoreStatus old new, r)"
  shows "old = x \<and> restore_edge x new \<and> res_Phase new = RestorePhaseFailed"
proof -
  have "wp (bind (failRestore x msg) (\<lambda>err. Ret (n, err)))
     (\<lambda>h q. \<forall>old new. q = PatchRestoreStatus old new \<longrightarrow>
        old = x \<and> restore_edge x new \<and> res_Phase new = RestorePhaseFailed) (\<lambda>_ _. True) []"
    using assms(2) by (auto simp: wp_failRestore Let_def intro: fail_early)
  from guarded_nth [OF wp_exec [OF this assms(1), THEN conjunct1] assms(3)] assms(4) show ?thesis by simp
qed

section \<open>Phases, workload and Jobs\<close>

lemma status_writes_cases:
  assumes "exec (restore_Reconcile k req) tr out"
    and "i < length tr" "tr ! i = (PatchRestoreStatus old new, r)"
  shows "\<exists>s tr'. tr = (GetRestore req, RRestore old) # (GetReplica (source_key old), s) # tr'
     \<and> restore_edge old new
     \<and> (case as_replica s of
          Inl e \<Rightarrow> res_Phase new = RestorePhaseFailed
        | Inr src \<Rightarrow> if usable src then edge_evidence old src (drop 2 (take i tr)) (res_Phase new)
                     else res_Phase new = RestorePhaseFailed)"
proof -
  obtain x s tr' where tr: "tr = (GetRestore req, RRestore x) # (GetReplica (source_key x), s) # tr'"
    and live: "\<not> terminal x" and fail: "(\<forall>src. as_replica s = Inr src \<longrightarrow> \<not> usable src) \<longrightarrow>
      (\<exists>msg n. exec (bind (failRestore x msg) (\<lambda>err. Ret (n, err))) tr' out)"
    using restore_first_calls [OF assms] by blast
  have i: "i = Suc (Suc (i - 2))" "i - 2 < length tr'" "tr' ! (i - 2) = (PatchRestoreStatus old new, r)"
    using assms(2,3) by (cases i; cases "i - 1"; simp add: tr)+
  have lost: "old = x \<and> restore_edge x new \<and> res_Phase new = RestorePhaseFailed"
    if "\<forall>src. as_replica s = Inr src \<longrightarrow> \<not> usable src"
  proof -
    from fail that obtain msg n where "exec (bind (failRestore x msg) (\<lambda>err. Ret (n, err))) tr' out" by blast
    from failRestore_status [OF this live i(2,3)] show ?thesis .
  qed
  have drop: "drop 2 (take i tr) = take (i - 2) tr'" by (subst i(1)) (simp add: tr)
  show ?thesis
  proof (cases "as_replica s")
    case (Inl e)
    with lost tr show ?thesis by simp
  next
    case (Inr src)
    then have s: "s = RReplica src" by (cases s) auto
    show ?thesis
    proof (cases "usable src")
      case True
      with restore_writes_guarded [OF assms(1) [unfolded tr s] True i(2,3)] tr s drop show ?thesis by auto
    qed (use lost Inr tr in simp)
  qed
qed

text \<open>
  C4. Every status write of a reconciliation, in whatever execution, is an edge of the phase machine
  from the object that the reconciliation read first, and rests on what it saw before the write.
  When the lookup of the source failed, or found a source without backup or S3 destination, the
  phase is Failed. Otherwise it is justified by the calls after the lookup: Pausing by the pause
  annotation, ScalingDown by the paused configuration and the workload at zero, Running by a
  workload whose status counts no replicas (or that is gone), a written configuration and a
  requested Job, Validating and ScalingUp by the completed restore and validation Jobs, Complete by
  a visible skip annotation and an unpaused configuration, Failed by a failed or missing Job or an
  unreadable workload.
\<close>

theorem restore_status_writes:
  assumes "exec (restore_Reconcile k req) tr out"
    and "i < length tr" "tr ! i = (PatchRestoreStatus old new, r)"
  shows "\<exists>s tr'. tr = (GetRestore req, RRestore old) # (GetReplica (source_key old), s) # tr'
     \<and> restore_edge old new
     \<and> (case as_replica s of
          Inl e \<Rightarrow> res_Phase new = RestorePhaseFailed
        | Inr src \<Rightarrow> if usable src then edge_evidence old src (drop 2 (take i tr)) (res_Phase new)
                     else res_Phase new = RestorePhaseFailed)"
  using status_writes_cases [OF assms] .

fun written_phase :: "api_req \<Rightarrow> string" where
  "written_phase (PatchRestoreStatus old new) = res_Phase new"
| "written_phase _ = []"

lemma status_writeE:
  assumes "status_write (fst e)"
  obtains old new r where "e = (PatchRestoreStatus old new, r)"
  using assms by (cases e; cases "fst e") auto

theorem restore_status_writes_witness:
  "\<exists>new r. fst pausing_run ! 4 = (PatchRestoreStatus (restore_in RestorePhasePausing) new, r)
     \<and> restore_edge (restore_in RestorePhasePausing) new
     \<and> edge_evidence (restore_in RestorePhasePausing) paused_source (take 4 (fst pausing_run)) (res_Phase new)"
proof -
  have *: "status_write (fst (fst pausing_run ! 4)) \<and> 4 < length (fst pausing_run)" by code_simp
  then obtain old new r where e: "fst pausing_run ! 4 = (PatchRestoreStatus old new, r)"
    using status_writeE by blast
  have "((GetRestore sample_request, RRestore (restore_in RestorePhasePausing))
     # (GetReplica (source_key (restore_in RestorePhasePausing)), RReplica paused_source)
     # fst pausing_run) ! 6 = (PatchRestoreStatus old new, r)"
    using e by simp
  from restore_status_writes [OF sample_runs_exec(1) _ this] * e
  show ?thesis by auto
qed

text \<open>
  C5. The workload is written in three ways only, and each patch changes nothing but the desired
  replica count: to zero in the phase Pausing, after the source was found paused and its ConfigMap
  was read as paused in this reconciliation; to the recorded count in the phase ScalingUp, after
  the skip annotation is visible and the ConfigMap was read as not paused; and to the recorded
  count when the restore or validation Job failed and no pods run.
\<close>

theorem restore_workload_writes:
  assumes "exec (restore_Reconcile k req)
      ((GetRestore req, RRestore x) # (GetReplica (source_key x), RReplica src) # tr) out"
    and "usable src" "i < length tr" "tr ! i = (q, r)" "workload_patch q = Some (v, v')"
  shows "scale_down x src (take i tr) v v' \<or> scale_up x src (take i tr) v v'
     \<or> scale_cleanup x src (take i tr) v v'"
  using restore_writes_guarded [OF assms(1-4)] guard_workload_patch [OF assms(5)] by simp

theorem restore_workload_writes_witness:
  "\<exists>v v'. workload_patch (fst (fst pausing_run ! 2)) = Some (v, v')
     \<and> v' \<in> {v\<lparr>wv_Replicas := Some 0\<rparr>, v\<lparr>wv_Replicas := Some 1\<rparr>}"
proof -
  have *: "workload_patch (fst (fst pausing_run ! 2)) \<noteq> None \<and> 2 < length (fst pausing_run)"
    by code_simp
  then obtain v v' where p: "workload_patch (fst (fst pausing_run ! 2)) = Some (v, v')" by auto
  have "restore_target (restore_in RestorePhasePausing) = 1" by code_simp
  with restore_workload_writes [OF sample_runs_exec(1) sample_source_usable _ _ p,
      of 2 "snd (fst pausing_run ! 2)"] * p
  show ?thesis by (auto simp: scale_down_def scale_up_def scale_cleanup_def)
qed


fun created_job :: "api_req \<Rightarrow> Job option" where
  "created_job (CreateJob job) = Some job"
| "created_job _ = None"

lemma created_jobE:
  assumes "created_job (fst e) = Some job"
  obtains r where "e = (CreateJob job, r)"
  using assms by (cases e; cases "fst e") auto


text \<open>
  A reconciliation writes the status at most once, and the write is its last call: each
  reconciliation takes at most one step of the machine.
\<close>

theorem restore_single_status:
  assumes "exec (restore_Reconcile k req) tr out" "i < length tr" "tr ! i = (PatchRestoreStatus old new, r)"
  shows "Suc i = length tr"
proof -
  have "single_status (restore_Reconcile k req)"
    unfolding restore_Reconcile_def by (auto simp: single_dispatch single_failRestore split: sum.splits)
  from single_status_exec [OF assms(1) this assms(2)] assms(3) show ?thesis by simp
qed

theorem restore_single_status_witness:
  "Suc 4 = length (fst pausing_run)"
proof -
  have *: "status_write (fst (fst pausing_run ! 4)) \<and> 4 < length (fst pausing_run)" by code_simp
  then obtain old new r where "fst pausing_run ! 4 = (PatchRestoreStatus old new, r)"
    using status_writeE by blast
  with restore_single_status [OF sample_runs_exec(1), of 6] * show ?thesis by simp
qed

text \<open>C14. The reconciler never panics, whatever the API server answers.\<close>

theorem restore_never_panics: "no_panic (restore_Reconcile k req)"
proof -
  have "no_panic (bind (failRestore x msg) (\<lambda>err. Ret (0 :: int, err)))" for x msg
    by (simp add: failRestore_def setStatus_def no_panic_bind)
  moreover have "no_panic (restore_dispatch k x src)" if "db_S3 src \<noteq> None" for x src
    using wp_no_panic [OF wp_restore_dispatch [OF that]] .
  ultimately show ?thesis
    unfolding restore_Reconcile_def by (auto split: sum.splits)
qed

text \<open>A restore that is Complete or Failed is left alone: it is read and nothing else happens.\<close>

theorem restore_terminal_inert:
  assumes "exec (restore_Reconcile k req) ((GetRestore req, RRestore x) # tr) out" "terminal x"
  shows "tr = [] \<and> out = Returned (0, None)"
  using assms by (auto simp: restore_Reconcile_def terminal_def prog_simps)

theorem restore_terminal_inert_witness:
  "\<exists>tr out. exec (restore_Reconcile True sample_request)
      ((GetRestore sample_request, RRestore (restore_in RestorePhaseComplete)) # tr) out
     \<and> tr = [] \<and> out = Returned (0, None)"
proof -
  have "exec (restore_Reconcile True sample_request)
      [(GetRestore sample_request, RRestore (restore_in RestorePhaseComplete))] (Returned (0, None))"
    by (simp add: restore_Reconcile_def exec_Call_iff exec_Ret_iff)
  moreover have "terminal (restore_in RestorePhaseComplete)" by (simp add: terminal_def)
  ultimately show ?thesis using restore_terminal_inert by blast
qed

section \<open>Failures\<close>

lemma lookup_error_calls:
  assumes "exec (restore_Reconcile k req)
      ((GetRestore req, RRestore x) # (GetReplica (source_key x), RErr e) # tr) out" 
  shows "\<exists>msg r1 t r2. tr = [(Event (RestoreObj x) ''Warning'' ''RestoreFailed'' msg, r1), (Now, t),
      (PatchRestoreStatus x (apply_status x RestorePhaseFailed [] msg None (Some (as_time t)) (Some (as_time t))), r2)]"
  using assms
  by (auto simp: restore_Reconcile_def failRestore_def setStatus_def record_event_def now_def prog_simps split: if_splits)

text \<open>
  C25. Any error of the source lookup, also a transient one, fails the restore for good: the calls
  that follow are an event, the time and a status write to Failed. Nothing is scaled back and the
  pause annotation, if it was set, stays.
\<close>

theorem restore_source_error_fails:
  assumes "exec (restore_Reconcile k req)
      ((GetRestore req, RRestore x) # (GetReplica (source_key x), RErr e) # tr) out" 
  shows "\<exists>msg r1 t r2. tr = [(Event (RestoreObj x) ''Warning'' ''RestoreFailed'' msg, r1), (Now, t),
      (PatchRestoreStatus x (apply_status x RestorePhaseFailed [] msg None (Some (as_time t)) (Some (as_time t))), r2)]"
  using lookup_error_calls [OF assms] .

theorem restore_source_error_fails_witness:
  "\<exists>tr out msg r1 t r2. exec (restore_Reconcile True sample_request)
      ((GetRestore sample_request, RRestore (restore_in RestorePhaseRunning))
       # (GetReplica (source_key (restore_in RestorePhaseRunning)), RErr (errorf ''timeout'')) # tr) out
     \<and> tr = [(Event (RestoreObj (restore_in RestorePhaseRunning)) ''Warning'' ''RestoreFailed'' msg, r1),
        (Now, t), (PatchRestoreStatus (restore_in RestorePhaseRunning)
          (apply_status (restore_in RestorePhaseRunning) RestorePhaseFailed [] msg None
            (Some (as_time t)) (Some (as_time t))), r2)]"
proof -
  have "\<exists>tr out. exec (restore_Reconcile True sample_request)
      ((GetRestore sample_request, RRestore (restore_in RestorePhaseRunning))
       # (GetReplica (source_key (restore_in RestorePhaseRunning)), RErr (errorf ''timeout'')) # tr) out"
    using drive_exec [of "restore_Reconcile True sample_request"
      "[RRestore (restore_in RestorePhaseRunning), RErr (errorf ''timeout'')]"]
    by (auto simp: restore_Reconcile_def source_key_def split_beta)
  with restore_source_error_fails show ?thesis by blast
qed

lemma quiet_wp_bind:
  assumes "all_calls P p" "\<And>h a. \<forall>(q, r) \<in> set h. P q \<Longrightarrow> wp (f a) (\<lambda>_ _. True) Q h"
    and "\<And>h. Q h Panicked" "\<forall>(q, r) \<in> set h. P q"
  shows "wp (bind p f) (\<lambda>_ _. True) Q h"
  using assms(1,4) by (induction p arbitrary: h) (auto simp: assms(2,3))

definition quiet :: "api_req \<Rightarrow> bool" where
  "quiet q = (workload_patch q = None \<and> \<not> workload_query q)"

lemma quiet_calls [simp]:
  "all_calls quiet (resumeReplication src)" "all_calls quiet (setSkipArchiveCheck src b)"
  by (auto simp: resumeReplication_def setSkipArchiveCheck_def quiet_def Let_def split: sum.splits)

definition unread :: "LitestreamReplica \<Rightarrow> trace \<Rightarrow> bool" where
  "unread src h = (\<exists>r e. (target_query src, r) \<in> set h \<and> workload_resp (target_query src) r = Inl e)"

lemma unread_quiet: "\<forall>(q, r) \<in> set h. quiet q \<Longrightarrow> \<not> unread src h"
  by (auto simp: unread_def quiet_def dest!: bspec)

lemma unread_Cons [simp]: "unread src ((q, r) # h) \<longleftrightarrow>
   (q = target_query src \<and> (\<exists>e. workload_resp (target_query src) r = Inl e)) \<or> unread src h"
  by (auto simp: unread_def)

definition completed_post :: "LitestreamRestore \<Rightarrow> LitestreamReplica \<Rightarrow> trace \<Rightarrow> ctrl_result outcome \<Rightarrow> bool" where
  "completed_post x src h out =
     (out \<noteq> Panicked \<and> unread src h \<longrightarrow>
      (\<exists>new r'. hd h = (PatchRestoreStatus x new, r') \<and> res_Phase new = RestorePhaseComplete
       \<and> (\<forall>(q, r) \<in> set h. workload_patch q = None)))"

lemma completed_post_quiet [simp]: "\<not> unread src h \<Longrightarrow> completed_post x src h out"
  by (simp add: completed_post_def)

lemma completed_post_panic [simp]: "completed_post x src h Panicked"
  by (simp add: completed_post_def)

lemma quiet_no_patch: "\<forall>(q, r) \<in> set h. quiet q \<Longrightarrow> \<forall>(q, r) \<in> set h. workload_patch q = None"
  by (auto simp: quiet_def)

text \<open>
  C26. When the workload cannot be read in the phase ScalingUp, for whatever reason, the restore is
  still reported as Complete although nothing was scaled: a transient error leaves the application
  at zero replicas.
\<close>

theorem restore_scale_up_error_completes:
  assumes "exec (restore_Reconcile k req)
      ((GetRestore req, RRestore x) # (GetReplica (source_key x), RReplica src) # tr) out"
    and "usable src" "res_Phase x = RestorePhaseScalingUp" "(target_query src, r) \<in> set tr"
    and "workload_resp (target_query src) r = Inl e"
  shows "\<exists>new r'. last tr = (PatchRestoreStatus x new, r') \<and> res_Phase new = RestorePhaseComplete
     \<and> (\<forall>(q, r) \<in> set tr. workload_patch q = None)"
proof -
  note leaf = prog_simps setStatus_def unread_quiet quiet_no_patch completed_post_def [of x src "_ # _"]
  have scale: "wp (bind (scaleWorkload wt n) f) (\<lambda>_ _. True) (completed_post x src) h"
    if "wf_target wt" "\<not> unread src h" "\<And>a h. \<not> unread src h \<Longrightarrow> wp (f a) (\<lambda>_ _. True) (completed_post x src) h"
    for h wt n and f :: "go_error option \<times> workloadTarget \<Rightarrow> ctrl_result prog"
    unfolding wp_bind using that(1,2) by (intro wp_scaleWorkload) (auto intro!: that(3))
  have "wp (reconcileScalingUp x src) (\<lambda>_ _. True) (completed_post x src) []"
    unfolding reconcileScalingUp_def Let_def
    by (rule quiet_wp_bind [where P = quiet])
      (auto simp: leaf quiet_def [of "PatchReplica _ _"]
         intro!: quiet_wp_bind [where P = quiet] wp_getTargetWorkloadForRestore scale
         split: option.splits sum.splits)
  moreover have "exec (reconcileScalingUp x src) tr out"
    using restore_dispatch_exec [OF assms(1,2)] assms(3) by (simp add: restore_dispatch_def)
  ultimately have "completed_post x src (rev tr) out" using wp_exec by fastforce
  moreover have "unread src (rev tr)" using assms(4,5) by (auto simp: unread_def)
  moreover have "out \<noteq> Panicked"
    using exec_no_panic [OF assms(1) restore_never_panics] .
  ultimately show ?thesis by (auto simp: completed_post_def hd_rev)
qed

lemma error_run_reads:
  "(target_query paused_source, RErr (errorf ''timeout'')) \<in> set (fst scalingUp_error_run)"
  "(target_query paused_source, RErr (errorf ''timeout'')) \<in> set (fst scalingDown_error_run)"
  "workload_resp (target_query paused_source) (RErr (errorf ''timeout'')) = Inl (errorf ''timeout'')"
  "\<not> errors_IsNotFound (errorf ''timeout'')"
  by (simp_all add: scalingUp_error_run_def scalingDown_error_run_def restore_dispatch_def
      reconcileScalingUp_def reconcileScalingDown_def getTargetWorkloadForRestore_Call
      setSkipArchiveCheck_def resumeReplication_def paused_source_def with_annotations_def
      target_query_def sample_defs annotation_keys injectEnabled_def restore_target_def
      config_of_def map_get_def litestreamConfigKey_def pausedConfig_def errors_IsNotFound_def
      errorf_def failRestore_def Let_def split_beta)

theorem restore_scale_up_error_completes_witness:
  "\<exists>new r'. last (fst scalingUp_error_run) = (PatchRestoreStatus (restore_in RestorePhaseScalingUp) new, r')
     \<and> res_Phase new = RestorePhaseComplete
     \<and> (\<forall>(q, r) \<in> set (fst scalingUp_error_run). workload_patch q = None)"
  by (rule restore_scale_up_error_completes [OF sample_runs_exec(4) sample_source_usable _
      error_run_reads(1,3)]) simp

text \<open>The calls that undo the preparation of a restore.\<close>

definition cleans_up :: "api_req \<Rightarrow> bool" where
  "cleans_up q = (workload_patch q \<noteq> None \<or> (\<exists>a b. q = PatchReplica a b))"

definition failed_post :: "LitestreamRestore \<Rightarrow> LitestreamReplica \<Rightarrow> trace \<Rightarrow> ctrl_result outcome \<Rightarrow> bool" where
  "failed_post x src h out =
     (\<forall>r e. out \<noteq> Panicked \<and> (target_query src, r) \<in> set h
        \<and> workload_resp (target_query src) r = Inl e \<and> \<not> errors_IsNotFound e \<longrightarrow>
      (\<exists>new r'. hd h = (PatchRestoreStatus x new, r') \<and> res_Phase new = RestorePhaseFailed
       \<and> (\<forall>(q, r) \<in> set h. \<not> cleans_up q)))"



text \<open>
  When a reconciliation in the phase Running or Validating fails the restore because of its
  Job, replication of a paused source was resumed before, as far as the API server let it: the
  source was read again and a patch that removes the pause annotation was sent.
\<close>

theorem restore_cleanup_resumes:
  assumes "exec (restore_Reconcile k req)
      ((GetRestore req, RRestore x) # (GetReplica (source_key x), RReplica src) # tr) out"
    and "usable src" "i < length tr" "tr ! i = (PatchRestoreStatus old new, r)"
    and "res_Phase new = RestorePhaseFailed"
    and "res_Phase x \<in> {RestorePhaseRunning, RestorePhaseValidating}" "is_paused src"
  shows "resume_attempted src (take i tr)"
  using restore_writes_guarded [OF assms(1-4)] assms(5-7) by auto

definition missing_job_run :: "trace \<times> ctrl_result outcome" where
  "missing_job_run = drive (restore_dispatch True (restore_in RestorePhaseRunning) paused_source)
     [RErr \<lparr>err_Reason = NotFound, err_Text = []\<rparr>, RErr (errorf ''timeout''),
      RReplica paused_source, ROk, ROk, RTime 9, ROk]"

theorem restore_cleanup_resumes_witness:
  "resume_attempted paused_source (take 6 (fst missing_job_run))"
proof -
  have *: "status_write (fst (fst missing_job_run ! 6)) \<and> 6 < length (fst missing_job_run)
      \<and> is_paused paused_source" by code_simp
  then obtain old new r where e: "fst missing_job_run ! 6 = (PatchRestoreStatus old new, r)"
    using status_writeE by blast
  have ex: "exec (restore_Reconcile True sample_request)
      ((GetRestore sample_request, RRestore (restore_in RestorePhaseRunning))
       # (GetReplica (source_key (restore_in RestorePhaseRunning)), RReplica paused_source)
       # fst missing_job_run) (snd missing_job_run)"
    by (rule drive_restore_exec) (simp_all add: missing_job_run_def)
  have "written_phase (fst (fst missing_job_run ! 6)) = RestorePhaseFailed" by code_simp
  with restore_cleanup_resumes [OF ex sample_source_usable _ e] * e show ?thesis by simp
qed

section \<open>Reachable states\<close>

definition fresh :: "LitestreamRestore \<Rightarrow> bool" where
  "fresh x = (res_Phase x \<in> {[], RestorePhasePending} \<and> job_name x = [] \<and> original_replicas x = None
     \<and> start_time x = None \<and> completion_time x = None)"

text \<open>
  The states of a restore whose status was written \<open>n\<close> times. Each step is a reconciliation that
  reads the restore as it is and sends a status write, with any answers to its calls; the write
  has its effect even when it is answered by an error. Between reconciliations the spec, the labels
  and the annotations may be edited, but not the status and the name.
\<close>

inductive restore_reach :: "bool \<Rightarrow> nat \<Rightarrow> LitestreamRestore \<Rightarrow> bool" for k where
  reach_init: "fresh x \<Longrightarrow> restore_reach k 0 x"
| reach_write: "restore_reach k n x \<Longrightarrow>
    exec (restore_Reconcile k req) ((GetRestore req, RRestore x) # tr) out \<Longrightarrow>
    (PatchRestoreStatus old new, r) \<in> set tr \<Longrightarrow> restore_reach k (Suc n) (x\<lparr>res_Status := res_Status new\<rparr>)"
| reach_edit: "restore_reach k n x \<Longrightarrow> res_Name y = res_Name x \<Longrightarrow> res_Status y = res_Status x \<Longrightarrow>
    restore_reach k n y"

definition restore_inv :: "LitestreamRestore \<Rightarrow> bool" where
  "restore_inv x =
    (res_Phase x \<in> {[], RestorePhasePending, RestorePhasePausing, RestorePhaseScalingDown,
       RestorePhaseRunning, RestorePhaseValidating, RestorePhaseScalingUp, RestorePhaseComplete,
       RestorePhaseFailed}
     \<and> (completion_time x \<noteq> None \<longleftrightarrow> terminal x)
     \<and> (res_Phase x \<notin> {[], RestorePhasePending} \<longrightarrow> start_time x \<noteq> None)
     \<and> (res_Phase x \<notin> {[], RestorePhasePending, RestorePhaseFailed} \<longrightarrow> original_replicas x \<noteq> None)
     \<and> (res_Phase x \<in> {RestorePhaseRunning, RestorePhaseValidating, RestorePhaseScalingUp, RestorePhaseComplete}
         \<longrightarrow> job_name x = res_Name x @ ''-restore''))"

lemma apply_status_fields [simp]:
  "res_Meta (apply_status x p j m o' s c) = res_Meta x"
  "res_Spec (apply_status x p j m o' s c) = res_Spec x"
  "job_name (apply_status x p j m o' s c) = (if j \<noteq> [] then j else job_name x)"
  "original_replicas (apply_status x p j m o' s c) =
     (if o' \<noteq> None \<and> original_replicas x = None then o' else original_replicas x)"
  "start_time (apply_status x p j m o' s c) = (if s \<noteq> None \<and> start_time x = None then s else start_time x)"
  "completion_time (apply_status x p j m o' s c) = (if c \<noteq> None then c else completion_time x)"
  by (simp_all add: apply_status_def Let_def)

lemma restore_edge_inv: "restore_edge x y \<Longrightarrow> restore_inv x \<Longrightarrow> restore_inv y"
  by (induction rule: restore_edge.induct)
    (simp_all add: restore_inv_def terminal_def, (erule disjE; simp)+)

text \<open>A status write of any execution is an edge from the object that was read.\<close>

lemma status_write_edge:
  assumes "exec (restore_Reconcile k req) ((GetRestore req, RRestore x) # tr) out"
    and "(PatchRestoreStatus old new, r) \<in> set tr"
  shows "old = x \<and> restore_edge x new"
proof -
  let ?tr = "(GetRestore req, RRestore x) # tr"
  from assms(2) obtain i where "i < length ?tr" "?tr ! i = (PatchRestoreStatus old new, r)"
    by (metis in_set_conv_nth list.set_intros(2))
  from status_writes_cases [OF assms(1) this] show ?thesis by auto
qed

text \<open>How far a restore is: the rank grows with every edge and is at most 6.\<close>

definition phase_rank :: "LitestreamRestore \<Rightarrow> nat" where
  "phase_rank x = (let p = res_Phase x in
     if p = RestorePhasePausing then 1 else if p = RestorePhaseScalingDown then 2
     else if p = RestorePhaseRunning then 3 else if p = RestorePhaseValidating then 4
     else if p = RestorePhaseScalingUp then 5
     else if p \<in> {RestorePhaseComplete, RestorePhaseFailed} then 6 else 0)"

lemma phase_rank_le: "phase_rank x \<le> 6"
  by (simp add: phase_rank_def Let_def)

lemma edge_progress:
  "restore_edge x y \<Longrightarrow> phase_rank x < phase_rank y
     \<and> (original_replicas x \<noteq> None \<longrightarrow> original_replicas y = original_replicas x)
     \<and> (start_time x \<noteq> None \<longrightarrow> start_time y = start_time x)
     \<and> res_Meta y = res_Meta x \<and> res_Spec y = res_Spec x"
  by (induction rule: restore_edge.induct)
    (auto simp: phase_rank_def restore_phases terminal_def Let_def)

lemma edge_status: "restore_edge x y \<Longrightarrow> x\<lparr>res_Status := res_Status y\<rparr> = y"
  using edge_progress [of x y] by (cases x; cases y) simp

text \<open>
  C10. Along any sequence of reconciliations that starts from a fresh restore, each reading the
  restore as it is then, the status is consistent: a completion time is present exactly in the
  terminal phases, a start time in every phase after Pending, the original replica count in every
  phase but Pending and Failed, and the name of the restore Job from Running to Complete; and the
  status is written at most six times.
\<close>

theorem restore_reach_inv: "restore_reach k n x \<Longrightarrow> restore_inv x \<and> n \<le> 6"
proof -
  assume "restore_reach k n x"
  then have "restore_inv x \<and> n \<le> phase_rank x"
  proof (induction rule: restore_reach.induct)
    case (reach_init x)
    then show ?case by (auto simp: fresh_def restore_inv_def terminal_def restore_phases)
  next
    case (reach_write n x req tr out old new r)
    have edge: "restore_edge x new" using status_write_edge [OF reach_write(2,3)] by blast
    with reach_write restore_edge_inv edge_progress [OF edge] show ?case
      unfolding edge_status [OF edge] by fastforce
  next
    case (reach_edit n x y)
    then show ?case by (auto simp: restore_inv_def phase_rank_def terminal_def)
  qed
  with phase_rank_le [of x] show ?thesis by simp
qed

theorem restore_reach_inv_witness:
  "\<exists>n x. 0 < (n :: nat) \<and> restore_inv x \<and> n \<le> 6 \<and> res_Phase x = RestorePhaseFailed"
proof -
  let ?x = "sample_restore"
  obtain tr out where ex: "exec (restore_Reconcile True sample_request)
      ((GetRestore sample_request, RRestore ?x)
       # (GetReplica (source_key ?x), RErr (errorf ''timeout'')) # tr) out"
    using drive_exec [of "restore_Reconcile True sample_request" "[RRestore ?x, RErr (errorf ''timeout'')]"]
    by (auto simp: restore_Reconcile_def source_key_def split_beta sample_restore_def)
  from lookup_error_calls [OF ex] obtain new r where
    new: "(PatchRestoreStatus ?x new, r) \<in> set tr" "res_Phase new = RestorePhaseFailed" by auto
  have "fresh ?x" by (simp add: fresh_def sample_restore_def)
  from reach_write [OF reach_init [OF this] ex, of ?x new r] new
  have "restore_reach True (Suc 0) (?x\<lparr>res_Status := res_Status new\<rparr>)" by simp
  from restore_reach_inv [OF this] new(2) show ?thesis
    by (intro exI [of _ "Suc 0"] exI [of _ "?x\<lparr>res_Status := res_Status new\<rparr>"]) simp
qed

text \<open>
  C11. Every status write of a reconciliation, in whatever execution, moves the restore that was
  read strictly forward: its rank, which is at most six, grows. The original replica count and the
  start time, once recorded, are not overwritten; metadata and spec are not touched.
\<close>

theorem restore_status_progress:
  assumes "exec (restore_Reconcile k req) ((GetRestore req, RRestore x) # tr) out"
    and "(PatchRestoreStatus old new, r) \<in> set tr"
  shows "old = x \<and> phase_rank x < phase_rank new \<and> phase_rank new \<le> 6
     \<and> (original_replicas x \<noteq> None \<longrightarrow> original_replicas new = original_replicas x)
     \<and> (start_time x \<noteq> None \<longrightarrow> start_time new = start_time x)
     \<and> res_Meta new = res_Meta x \<and> res_Spec new = res_Spec x"
  using status_write_edge [OF assms] edge_progress phase_rank_le by blast

theorem restore_status_progress_witness:
  "\<exists>new r. fst pausing_run ! 4 = (PatchRestoreStatus (restore_in RestorePhasePausing) new, r)
     \<and> original_replicas new = Some 1 \<and> 1 < phase_rank new"
proof -
  have *: "status_write (fst (fst pausing_run ! 4)) \<and> 4 < length (fst pausing_run)" by code_simp
  then obtain old new r where e: "fst pausing_run ! 4 = (PatchRestoreStatus old new, r)"
    using status_writeE by blast
  with * have "(PatchRestoreStatus old new, r) \<in> set (fst pausing_run)" by (metis nth_mem)
  then have "(PatchRestoreStatus old new, r)
      \<in> set ((GetReplica (source_key (restore_in RestorePhasePausing)), RReplica paused_source) # fst pausing_run)"
    by simp
  from restore_status_progress [OF sample_runs_exec(1) this] e show ?thesis
    by (simp add: phase_rank_def [of "restore_in _"])
qed

end
