(* ===== verification/Cluster.thy ===== *)
theory Cluster
  imports Restore_Trace
begin

text \<open>
  The two controllers together, on one API server. A cluster holds a replica, its ConfigMap and
  workload, a restore of that replica and the Jobs. Both reconcilers run concurrently and
  interleave call by call.

  The manager gives the controllers a client that reads from caches (\<^verbatim>\<open>mgr.GetClient()\<close> in
  \<^verbatim>\<open>src/cmd/main.go\<close>), so a read may be answered from any earlier state of the cluster; the system keeps
  the whole history for this. Writes go to the API server: \<open>served\<close> says how it answers and that a
  merge patch changes only the fields in which the given objects differ. Any call may fail, with or
  without having had its effect, a reconciler may stop at any point and start again, workloads
  report any number of pods, Jobs finish, and users edit the replica.

  Three things are assumed of the caches: that they show states in which the objects have this
  target, that for a replica they do not go back in time, and that a reconciler does not get a second
  answer before a request has had its effect or failed. What outsiders do to the objects a restore
  rests on (the pause annotation, the target, the replica count, the ConfigMap, the Jobs, the restore)
  is possible at any time but is recorded as a disturbance, and so is a cache that does not show the
  restore Job although it exists.
\<close>

section \<open>The cluster\<close>

record cluster =
  cl_replica :: LitestreamReplica
  cl_restore :: LitestreamRestore
  cl_workload :: workload_view
  cl_config :: string
  cl_jobs :: "string \<rightharpoonup> JobCondition list"

definition replica_key :: "LitestreamReplica \<Rightarrow> NamespacedName" where
  "replica_key db = \<lparr>nn_Namespace = db_Namespace db, nn_Name = db_Name db\<rparr>"

definition restore_key :: "LitestreamRestore \<Rightarrow> NamespacedName" where
  "restore_key x = \<lparr>nn_Namespace = res_Namespace x, nn_Name = res_Name x\<rparr>"

text \<open>The annotations after a merge patch from \<open>b\<close> to \<open>n\<close>.\<close>

definition merged :: "strmap \<Rightarrow> strmap \<Rightarrow> strmap \<Rightarrow> strmap \<Rightarrow> bool" where
  "merged b n old new =
     (\<forall>k. map_get new k = (if map_get n k = map_get b k then map_get old k else map_get n k))"

text \<open>The status of a restore after a merge patch: the fields in which the two versions differ.\<close>

definition pick :: "('s \<Rightarrow> 'a) \<Rightarrow> 's \<Rightarrow> 's \<Rightarrow> 's \<Rightarrow> 'a" where
  "pick f b n old = (if f n = f b then f old else f n)"

definition merged_status ::
  "LitestreamRestoreStatus \<Rightarrow> LitestreamRestoreStatus \<Rightarrow> LitestreamRestoreStatus \<Rightarrow> LitestreamRestoreStatus"
where
  "merged_status b n old =
     \<lparr>rst_Phase = pick rst_Phase b n old, rst_JobName = pick rst_JobName b n old,
      rst_OriginalReplicas = pick rst_OriginalReplicas b n old, rst_StartTime = pick rst_StartTime b n old,
      rst_CompletionTime = pick rst_CompletionTime b n old, rst_Message = pick rst_Message b n old\<rparr>"

lemma merged_status_same [simp]: "merged_status b n b = n"
  by (simp add: merged_status_def pick_def)

fun effect :: "api_req \<Rightarrow> cluster \<Rightarrow> cluster \<Rightarrow> bool" where
  "effect (PatchReplica b n) s s' =
     (\<exists>an. s' = s\<lparr>cl_replica := with_annotations (cl_replica s) an\<rparr>
        \<and> merged (db_Annotations b) (db_Annotations n) (db_Annotations (cl_replica s)) an)"
| "effect (PatchReplicaStatus b n) s s' =
     (\<exists>st. s' = s\<lparr>cl_replica := (cl_replica s)\<lparr>db_Status := st\<rparr>\<rparr>)"
| "effect (PatchRestoreStatus b n) s s' =
     (s' = s\<lparr>cl_restore := (cl_restore s)\<lparr>res_Status :=
        merged_status (res_Status b) (res_Status n) (res_Status (cl_restore s))\<rparr>\<rparr>)"
| "effect (CreateOrUpdateConfigMap k d ow) s s' =
     (s' = (if k = litestream_cm (cl_replica s)
            then s\<lparr>cl_config := map_get (Some d) litestreamConfigKey\<rparr> else s))"
| "effect (CreateJob job) s s' =
     (s' = (if cl_jobs s (om_Name (job_Meta job)) = None
            then s\<lparr>cl_jobs := (cl_jobs s)(om_Name (job_Meta job) \<mapsto> job_Conditions job)\<rparr> else s))"
| "effect q s s' =
     (case workload_patch q of
        None \<Rightarrow> s' = s
      | Some (v, v') \<Rightarrow>
          (\<exists>w. s' = s\<lparr>cl_workload := w\<rparr> \<and> wv_Kind w = wv_Kind (cl_workload s)
             \<and> wv_Running w = wv_Running (cl_workload s)
             \<and> wv_Replicas w = (if wv_Replicas v' = wv_Replicas v then wv_Replicas (cl_workload s)
                                 else wv_Replicas v')))"

fun answers :: "cluster \<Rightarrow> api_req \<Rightarrow> api_resp \<Rightarrow> cluster \<Rightarrow> bool" where
  "answers s (GetReplica k) r s' =
     (k = replica_key (cl_replica s) \<longrightarrow> r = RReplica (cl_replica s))"
| "answers s (GetRestore k) r s' = (r = RRestore (cl_restore s))"
| "answers s (GetConfigMap k) r s' =
     (k = litestream_cm (cl_replica s) \<longrightarrow>
        (\<exists>cm. r = RConfigMap cm \<and> map_get (cm_Data cm) litestreamConfigKey = cl_config s))"
| "answers s (GetJob k) r s' =
     (case cl_jobs s (nn_Name k) of
        None \<Rightarrow> (\<exists>e. r = RErr e \<and> errors_IsNotFound e)
      | Some cs \<Rightarrow> (\<exists>job. r = RJob job \<and> job_Conditions job = cs))"
| "answers s (CreateJob job) r s' =
     (case cl_jobs s (om_Name (job_Meta job)) of
        None \<Rightarrow> as_error r = None
      | Some _ \<Rightarrow> (\<exists>e. r = RErr e \<and> errors_IsAlreadyExists e))"
| "answers s (PatchReplica b n) r s' = (r = RReplica (cl_replica s'))"
| "answers s (PatchReplicaStatus b n) r s' = (r = RReplica (cl_replica s'))"
| "answers s q r s' =
     (q = target_query (cl_replica s) \<longrightarrow>
        (\<exists>wt. workload_resp q r = Inr wt \<and> wt_view wt = cl_workload s))"

text \<open>An error that says nothing about the state, such as a timeout.\<close>

definition transient :: "api_resp \<Rightarrow> bool" where
  "transient r = (\<exists>e. r = RErr e \<and> err_Reason e = OtherReason)"

definition served :: "cluster \<Rightarrow> api_req \<Rightarrow> api_resp \<Rightarrow> cluster \<Rightarrow> bool" where
  "served s q r s' =
     (answers s q r s' \<and> effect q s s' \<or> transient r \<and> (s' = s \<or> effect q s s'))"

section \<open>The environment\<close>

text \<open>What a user does not change: the identity, the target and that it can be restored from.\<close>

definition same_source :: "LitestreamReplica \<Rightarrow> LitestreamReplica \<Rightarrow> bool" where
  "same_source a b =
     (replica_key a = replica_key b \<and> target_query a = target_query b \<and> usable a = usable b)"

inductive env_step :: "cluster \<Rightarrow> cluster \<Rightarrow> bool" where
  env_pods: "wv_Replicas w = wv_Replicas (cl_workload s) \<Longrightarrow> wv_Kind w = wv_Kind (cl_workload s) \<Longrightarrow>
    (wv_Replicas w = Some 0 \<Longrightarrow> wv_Running w \<le> wv_Running (cl_workload s)) \<Longrightarrow>
    env_step s (s\<lparr>cl_workload := w\<rparr>)"
| env_job: "cl_jobs s n = Some cs \<Longrightarrow> job_result cs = JobRunning \<Longrightarrow>
    env_step s (s\<lparr>cl_jobs := (cl_jobs s)(n \<mapsto> cs')\<rparr>)"
| env_user: "same_source (cl_replica s) db \<Longrightarrow> pause_value db = pause_value (cl_replica s) \<Longrightarrow>
    env_step s (s\<lparr>cl_replica := db\<rparr>)"

section \<open>The system\<close>

text \<open>The reads that the client answers from its cache.\<close>

fun cached :: "api_req \<Rightarrow> bool" where
  "cached (GetReplica k) = True"
| "cached (GetRestore k) = True"
| "cached (GetConfigMap k) = True"
| "cached (GetJob k) = True"
| "cached (GetDeployment k) = True"
| "cached (GetStatefulSet k) = True"
| "cached q = False"

fun reads_replica :: "api_req \<Rightarrow> bool" where
  "reads_replica (GetReplica k) = True"
| "reads_replica q = False"

text \<open>
  The other calls. \<^verbatim>\<open>CreateOrUpdate\<close> reads the ConfigMap from the cache and writes nothing if it finds
  there what it would write, so it may report success without an effect.
\<close>

definition accepted :: "cluster \<Rightarrow> api_req \<Rightarrow> api_resp \<Rightarrow> cluster \<Rightarrow> bool" where
  "accepted s q r s' = (served s q r s' \<or> (\<exists>k d ow. q = CreateOrUpdateConfigMap k d ow) \<and> s' = s)"

datatype disturbance = OutsideEdit | StaleJobRead

text \<open>A Job that exists is answered as missing.\<close>

fun stale_job :: "cluster \<Rightarrow> api_req \<Rightarrow> api_resp \<Rightarrow> disturbance set" where
  "stale_job c (GetJob k) r =
     (case as_job r of
        Inl e \<Rightarrow> if errors_IsNotFound e \<and> cl_jobs c (nn_Name k) \<noteq> None then {StaleJobRead} else {}
      | Inr job \<Rightarrow> {})"
| "stale_job c q r = {}"

text \<open>
  A reconciliation under way: its calls so far, most recent first, and the rest of its program. The
  history of the cluster starts with its present state; the window holds the states from which the
  cache may still answer for a replica, the present one first.
\<close>

type_synonym process = "(trace \<times> ctrl_result prog) option"

record sys =
  sy_hist :: "cluster list"
  sy_window :: "cluster list"
  sy_notes :: "disturbance set"
  sy_rep :: process
  sy_res :: process

abbreviation sy_cluster :: "sys \<Rightarrow> cluster" where
  "sy_cluster s \<equiv> hd (sy_hist s)"

definition advance :: "cluster \<Rightarrow> sys \<Rightarrow> sys" where
  "advance c s = s\<lparr>sy_hist := c # sy_hist s, sy_window := c # sy_window s\<rparr>"

inductive sys_step :: "meta_lib \<Rightarrow> bool \<Rightarrow> sys \<Rightarrow> sys \<Rightarrow> bool" for M k where
  rep_start: "sy_rep s = None \<Longrightarrow>
    sys_step M k s (s\<lparr>sy_rep := Some ([], replica_Reconcile M (replica_key (cl_replica (sy_cluster s))))\<rparr>)"
| rep_call: "sy_rep s = Some (h, Call q f) \<Longrightarrow> \<not> cached q \<Longrightarrow> accepted (sy_cluster s) q r c \<Longrightarrow>
    sys_step M k s (advance c (s\<lparr>sy_rep := Some ((q, r) # h, f r)\<rparr>))"
| rep_replica: "sy_rep s = Some (h, Call q f) \<Longrightarrow> reads_replica q \<Longrightarrow> sy_window s = ys @ d # zs \<Longrightarrow>
    answers d q r d \<Longrightarrow> sys_step M k s (s\<lparr>sy_window := ys @ [d], sy_rep := Some ((q, r) # h, f r)\<rparr>)"
| rep_cached: "sy_rep s = Some (h, Call q f) \<Longrightarrow> cached q \<Longrightarrow> \<not> reads_replica q \<Longrightarrow> d \<in> set (sy_hist s) \<Longrightarrow>
    answers d q r d \<Longrightarrow> sys_step M k s (s\<lparr>sy_rep := Some ((q, r) # h, f r)\<rparr>)"
| rep_error: "sy_rep s = Some (h, Call q f) \<Longrightarrow> cached q \<Longrightarrow> transient r \<Longrightarrow>
    sys_step M k s (s\<lparr>sy_rep := Some ((q, r) # h, f r)\<rparr>)"
| rep_stop: "sys_step M k s (s\<lparr>sy_rep := None\<rparr>)"
| res_start: "sy_res s = None \<Longrightarrow>
    sys_step M k s (s\<lparr>sy_res := Some ([], restore_Reconcile k (restore_key (cl_restore (sy_cluster s))))\<rparr>)"
| res_call: "sy_res s = Some (h, Call q f) \<Longrightarrow> \<not> cached q \<Longrightarrow> accepted (sy_cluster s) q r c \<Longrightarrow>
    sys_step M k s (advance c (s\<lparr>sy_res := Some ((q, r) # h, f r)\<rparr>))"
| res_cached: "sy_res s = Some (h, Call q f) \<Longrightarrow> cached q \<Longrightarrow> d \<in> set (sy_hist s) \<Longrightarrow> answers d q r d \<Longrightarrow>
    sys_step M k s (s\<lparr>sy_res := Some ((q, r) # h, f r), sy_notes := sy_notes s \<union> stale_job (sy_cluster s) q r\<rparr>)"
| res_error: "sy_res s = Some (h, Call q f) \<Longrightarrow> cached q \<Longrightarrow> transient r \<Longrightarrow>
    sys_step M k s (s\<lparr>sy_res := Some ((q, r) # h, f r)\<rparr>)"
| res_stop: "sys_step M k s (s\<lparr>sy_res := None\<rparr>)"
| env: "env_step (sy_cluster s) c \<Longrightarrow> sys_step M k s (advance c s)"
| pods: "wv_Replicas w = wv_Replicas (cl_workload (sy_cluster s)) \<Longrightarrow>
    wv_Kind w = wv_Kind (cl_workload (sy_cluster s)) \<Longrightarrow>
    sys_step M k s (advance ((sy_cluster s)\<lparr>cl_workload := w\<rparr>) s)"
| outside: "sys_step M k s (advance c (s\<lparr>sy_notes := insert OutsideEdit (sy_notes s)\<rparr>))"

text \<open>
  The start: a new restore of a replica that can be restored from, with another name than the replica
  (the ConfigMap of a restore is named after the restore). In the states that the caches may still
  show, the restore is new as well, there is no Job of its name, the replica is configured without
  pause, and neither its pause nor a replica count of zero was taken back.
\<close>

definition untouched :: "cluster \<Rightarrow> cluster \<Rightarrow> bool" where
  "untouched c d =
     (res_Phase (cl_restore d) \<in> {[], RestorePhasePending} \<and> job_name (cl_restore d) = []
      \<and> res_Meta (cl_restore d) = res_Meta (cl_restore c) \<and> res_Spec (cl_restore d) = res_Spec (cl_restore c)
      \<and> cl_jobs d (res_Name (cl_restore c) @ ''-restore'') = None \<and> cl_config d \<noteq> pausedConfig
      \<and> same_source (cl_replica d) (cl_replica c)
      \<and> (wv_Replicas (cl_workload d) = Some 0 \<longrightarrow> wv_Replicas (cl_workload c) = Some 0))"

definition pause_kept :: "cluster \<Rightarrow> cluster \<Rightarrow> bool" where
  "pause_kept new old = (is_paused (cl_replica old) \<longrightarrow> is_paused (cl_replica new))"

definition initial :: "sys \<Rightarrow> bool" where
  "initial s =
     (sy_rep s = None \<and> sy_res s = None \<and> sy_notes s = {} \<and> sy_hist s \<noteq> [] \<and> sy_window s = sy_hist s
      \<and> sorted_wrt pause_kept (sy_hist s)
      \<and> (let c = sy_cluster s in
           (\<forall>d \<in> set (sy_hist s). untouched c d) \<and> usable (cl_replica c)
           \<and> source_key (cl_restore c) = replica_key (cl_replica c)
           \<and> res_Name (cl_restore c) \<noteq> db_Name (cl_replica c)))"

inductive sys_reach :: "meta_lib \<Rightarrow> bool \<Rightarrow> sys \<Rightarrow> bool" for M k where
  reach_start: "initial s \<Longrightarrow> sys_reach M k s"
| reach_step: "sys_reach M k s \<Longrightarrow> sys_step M k s s' \<Longrightarrow> sys_reach M k s'"

section \<open>What the replica controller can do\<close>

fun rep_other :: "api_req \<Rightarrow> bool" where
  "rep_other (CreateOrUpdateConfigMap k d ow) = (\<exists>n. nn_Name k = n @ ''-init-sql'')"
| "rep_other (PatchReplica b n) = ((\<exists>an. n = with_annotations b an) \<and> pause_value n = pause_value b)"
| "rep_other (PatchRestoreStatus b n) = False"
| "rep_other (CreateJob job) = False"
| "rep_other q = (\<forall>v v'. workload_patch q = Some (v, v') \<longrightarrow> wv_Replicas v' = wv_Replicas v)"

definition config_write :: "LitestreamReplica \<Rightarrow> api_req \<Rightarrow> bool" where
  "config_write db q = (\<exists>ow. q = CreateOrUpdateConfigMap (litestream_cm db)
     [litestreamConfigKey \<mapsto> if is_paused db then pausedConfig else buildLitestreamConfigYAML db] ow)"

definition rep_guard :: "NamespacedName \<Rightarrow> trace \<Rightarrow> api_req \<Rightarrow> bool" where
  "rep_guard req h q =
     (rep_other q \<or> (\<exists>db. h = [(GetReplica req, RReplica db)] \<and> config_write db q))"

lemma rep_other_query [simp]: "rep_other (target_query db)"
  by (simp add: target_query_def)

lemma rep_other_skip:
  "rep_other (PatchReplica db (db\<lparr>db_Meta := (db_Meta db)\<lparr>om_Annotations :=
     map_delete (db_Annotations db) AnnotationSkipArchiveCheck\<rparr>\<rparr>))"
  by (auto simp: pause_value_def with_annotations_def)

lemma rep_other_calls [simp]:
  "all_calls rep_other (patch_replica_status b n)"
  "all_calls rep_other (clearSkipArchiveCheck db)"
  "all_calls rep_other (patch_status_err b n)"
  "all_calls rep_other (litestreamContainerState db wt)"
  "all_calls rep_other (archiveCheckState db wt)"
  using rep_other_skip
  by (auto simp: clearSkipArchiveCheck_def patch_status_err_def patch_replica_status_def
      litestreamContainerState_def archiveCheckState_def simp del: rep_other.simps(2)
      split: sum.splits option.splits)

lemma rep_other_initSQL [simp]: "all_calls rep_other (reconcileInitSQLConfig M db)"
  by (auto simp: reconcileInitSQLConfig_def Let_def split: option.splits)

lemma rep_other_template [simp]: "all_calls rep_other (patchWorkloadPodTemplate wt an lb)"
  by (auto simp: patchWorkloadPodTemplate_def Let_def view_deployment_def view_statefulSet_def
      split: option.splits intro!: all_calls_bindI)

lemma rep_other_annotation [simp]: "all_calls rep_other (reconcileTargetAnnotation db)"
  unfolding reconcileTargetAnnotation_def
  by (auto intro!: all_calls_bindI split: sum.splits)

lemma rep_other_status [simp]: "all_calls rep_other (updateStatus M db)"
  by (auto simp: updateStatus_def update_backup_health_def Let_def
      split: sum.splits option.splits prod.splits intro!: all_calls_bindI)

text \<open>What follows the ConfigMap in a reconciliation.\<close>

lemma rep_other_tail:
  "all_calls rep_other (bind (reconcileInitSQLConfig M db) (\<lambda>(err, db). case err of
       Some e \<Rightarrow> Ret (0, Some e)
     | None \<Rightarrow>
     bind (reconcileTargetAnnotation db) (\<lambda>err. case err of
       Some e \<Rightarrow> Ret (0, Some e)
     | None \<Rightarrow>
     bind (updateStatus M db) (\<lambda>err. case err of
       Some e \<Rightarrow> Ret (0, Some e)
     | None \<Rightarrow> Ret (statusSyncInterval, None)))))"
  by (auto intro!: all_calls_bindI split: option.splits prod.splits)

lemma wp_replica_guard: "wp (replica_Reconcile M req) (rep_guard req) (\<lambda>_ _. True) []"
proof -
  have *: "wp p (rep_guard req) (\<lambda>_ _. True) h" if "all_calls rep_other p" for p :: "'a prog" and h
    using that by (induction p arbitrary: h) (auto simp: rep_guard_def)
  show ?thesis
    unfolding replica_Reconcile_def reconcileLitestreamConfig_def
    by (auto simp: Let_def rep_guard_def config_write_def litestream_cm_def is_paused_def
        buildLitestreamConfig_def intro!: * rep_other_tail split: sum.splits option.splits)
qed

section \<open>What the restore controller can do\<close>

fun writes :: "api_req \<Rightarrow> bool" where
  "writes (PatchReplica _ _) = True"
| "writes (PatchRestoreStatus _ _) = True"
| "writes (CreateOrUpdateConfigMap _ _ _) = True"
| "writes (CreateJob _) = True"
| "writes q = (workload_patch q \<noteq> None)"

definition res_guard :: "NamespacedName \<Rightarrow> trace \<Rightarrow> api_req \<Rightarrow> bool" where
  "res_guard req h q =
     (writes q \<longrightarrow>
       (\<exists>x. (GetRestore req, RRestore x) \<in> set h
         \<and> ((\<exists>new. q = PatchRestoreStatus x new \<and> restore_edge x new \<and> res_Phase new = RestorePhaseFailed)
            \<or> (\<exists>src. (GetReplica (source_key x), RReplica src) \<in> set h \<and> restore_guard x src h q))))"

text \<open>A history only grows, so a guard may refer to what is in it already.\<close>

lemma wp_suffix:
  assumes "wp p G Q h"
  shows "wp p (\<lambda>h' q. G h' q \<and> suffix h h') Q h"
proof -
  have "wp p (\<lambda>h' q. G h' q \<and> suffix h0 h') Q h" if "wp p G Q h" "suffix h0 h" for h0 h
    using that by (induction p arbitrary: h) (auto intro: suffix_ConsI)
  with assms show ?thesis by simp
qed

lemma wp_restore_guard: "wp (restore_Reconcile k req) (res_guard req) (\<lambda>_ _. True) []"
proof -
  have dispatch: "wp (restore_dispatch k x src) (res_guard req) (\<lambda>_ _. True)
      [(GetReplica (source_key x), RReplica src), (GetRestore req, RRestore x)]"
    if "db_S3 src \<noteq> None" for x src
  proof -
    let ?h = "[(GetReplica (source_key x), RReplica src), (GetRestore req, RRestore x)]"
    have "res_guard req h q" if "restore_guard x src h q \<and> suffix ?h h" for h q
      unfolding res_guard_def
      by (intro impI exI [of _ x] conjI disjI2 exI [of _ src]) (use that in \<open>auto simp: suffix_def\<close>)
    then show ?thesis
      by (rule wp_mono [OF wp_suffix [OF wp_restore_dispatch [OF that]]]) simp_all
  qed
  show ?thesis
    unfolding restore_Reconcile_def
    by (auto simp: wp_failRestore res_guard_def source_key_def [symmetric] Let_def terminal_def prog_simps
        intro!: dispatch fail_early split: sum.splits)
qed

end
