(* ===== verification/Isolation.thy ===== *)
theory Isolation
  imports Cluster
begin

text \<open>
  The safety of a restore under concurrency: the invariant of the system of \<open>Cluster\<close>. As long as the
  restore Job has not finished and nobody interfered, everything that a state of the history showed
  about the isolation of the database is still so (\<open>keeps\<close>), and the phase that a state of the
  restore shows has its reason in the present state (\<open>claims\<close>). So it does not matter from which
  state a cache answers.

  Most steps are \<open>calm\<close>: they keep these facts and do not touch the restore. The others are the
  status writes of the restore controller, which end its reconciliation, and the write of the replica
  controller to the ConfigMap, for which the window of its cache is needed.
\<close>

section \<open>The invariant\<close>

abbreviation cl_phase :: "cluster \<Rightarrow> string" where
  "cl_phase c \<equiv> res_Phase (cl_restore c)"

definition job_of :: "cluster \<Rightarrow> string" where
  "job_of c = res_Name (cl_restore c) @ ''-restore''"

definition finished :: "cluster \<Rightarrow> bool" where
  "finished c = (\<exists>cs. cl_jobs c (job_of c) = Some cs \<and> job_result cs \<noteq> JobRunning)"

text \<open>Replication is paused and the workload is to have no pods.\<close>

definition isolated :: "cluster \<Rightarrow> bool" where
  "isolated c = (is_paused (cl_replica c) \<and> cl_config c = pausedConfig
     \<and> wv_Replicas (cl_workload c) = Some 0)"

definition static :: "cluster \<Rightarrow> bool" where
  "static c = (usable (cl_replica c) \<and> source_key (cl_restore c) = replica_key (cl_replica c)
     \<and> res_Name (cl_restore c) \<noteq> db_Name (cl_replica c))"

text \<open>What an older state shows is still so in a newer one.\<close>

definition keeps :: "cluster \<Rightarrow> cluster \<Rightarrow> bool" where
  "keeps d c =
     (same_source (cl_replica d) (cl_replica c)
      \<and> (is_paused (cl_replica d) \<longrightarrow> is_paused (cl_replica c))
      \<and> (cl_config d = pausedConfig \<longrightarrow> cl_config c = pausedConfig)
      \<and> (wv_Replicas (cl_workload d) = Some 0 \<longrightarrow> wv_Replicas (cl_workload c) = Some 0)
      \<and> res_Meta (cl_restore d) = res_Meta (cl_restore c) \<and> res_Spec (cl_restore d) = res_Spec (cl_restore c)
      \<and> (job_name (cl_restore d) = job_of c \<longrightarrow> job_name (cl_restore c) = job_of c)
      \<and> (cl_jobs d (job_of c) \<noteq> None \<longrightarrow> cl_jobs c (job_of c) \<noteq> None))"

text \<open>The reason for the phase that a state shows.\<close>

definition claims :: "cluster \<Rightarrow> cluster \<Rightarrow> bool" where
  "claims d c =
     ((cl_phase d \<in> {RestorePhaseScalingDown, RestorePhaseRunning} \<longrightarrow> isolated c)
      \<and> (cl_phase d = RestorePhaseRunning \<longrightarrow>
           cl_jobs c (job_of c) \<noteq> None \<and> job_name (cl_restore d) = job_of c)
      \<and> cl_phase d \<notin> {RestorePhaseValidating, RestorePhaseScalingUp, RestorePhaseComplete})"

definition job_isolated :: "cluster \<Rightarrow> bool" where
  "job_isolated c = (cl_jobs c (job_of c) \<noteq> None \<longrightarrow> isolated c)"

definition hist_inv :: "cluster list \<Rightarrow> bool" where
  "hist_inv hs = (hs \<noteq> [] \<and> job_isolated (hd hs)
     \<and> (\<forall>d \<in> set hs. keeps d (hd hs) \<and> claims d (hd hs) \<and> \<not> finished d))"

text \<open>
  A paused configuration has its reason in every state that the replica controller may still read,
  and no write that would undo it is under way.
\<close>

definition window_inv :: "cluster list \<Rightarrow> cluster list \<Rightarrow> process \<Rightarrow> bool" where
  "window_inv hs ws pr =
     (ws \<noteq> [] \<and> hd ws = hd hs \<and> set ws \<subseteq> set hs \<and> sorted_wrt pause_kept ws
      \<and> (cl_config (hd hs) = pausedConfig \<longrightarrow> (\<forall>d \<in> set ws. is_paused (cl_replica d)))
      \<and> (\<forall>db p. pr = Some ([(GetReplica (replica_key (cl_replica (hd hs))), RReplica db)], p) \<longrightarrow>
           replica_key db = replica_key (cl_replica (hd hs))
           \<and> (is_paused db \<longrightarrow> (\<forall>d \<in> set ws. is_paused (cl_replica d)))
           \<and> (cl_config (hd hs) = pausedConfig \<longrightarrow> is_paused db)))"

text \<open>What a call of a restore reconciliation has shown is still so.\<close>

definition head_ok :: "cluster list \<Rightarrow> api_req \<Rightarrow> api_resp \<Rightarrow> bool" where
  "head_ok hs q r =
     (let c = hd hs in
      (\<forall>k x. q = GetRestore k \<and> r = RRestore x \<longrightarrow> x \<in> cl_restore ` set hs)
      \<and> (\<forall>src. q = GetReplica (replica_key (cl_replica c)) \<and> r = RReplica src \<longrightarrow>
           same_source src (cl_replica c) \<and> (is_paused src \<longrightarrow> is_paused (cl_replica c)))
      \<and> (config_read (cl_replica c) (\<lambda>t. t = pausedConfig) [(q, r)] \<longrightarrow> cl_config c = pausedConfig)
      \<and> (scaled_to_zero (cl_replica c) [(q, r)] \<longrightarrow> wv_Replicas (cl_workload c) = Some 0)
      \<and> \<not> job_read (cl_restore c) (job_of c) (\<lambda>v. v \<noteq> JobRunning) [(q, r)]
      \<and> (RestorePhaseRunning \<in> cl_phase ` set hs \<longrightarrow> \<not> job_missing (cl_restore c) (job_of c) [(q, r)])
      \<and> (\<forall>job. job_requested job [(q, r)] \<and> om_Name (job_Meta job) = job_of c \<longrightarrow> cl_jobs c (job_of c) \<noteq> None))"

lemma head_okI:
  assumes "\<And>k x. q = GetRestore k \<Longrightarrow> r = RRestore x \<Longrightarrow> x \<in> cl_restore ` set hs"
    and "\<And>src. q = GetReplica (replica_key (cl_replica (hd hs))) \<Longrightarrow> r = RReplica src \<Longrightarrow>
      same_source src (cl_replica (hd hs)) \<and> (is_paused src \<longrightarrow> is_paused (cl_replica (hd hs)))"
    and "config_read (cl_replica (hd hs)) (\<lambda>t. t = pausedConfig) [(q, r)] \<Longrightarrow> cl_config (hd hs) = pausedConfig"
    and "scaled_to_zero (cl_replica (hd hs)) [(q, r)] \<Longrightarrow> wv_Replicas (cl_workload (hd hs)) = Some 0"
    and "\<not> job_read (cl_restore (hd hs)) (job_of (hd hs)) (\<lambda>v. v \<noteq> JobRunning) [(q, r)]"
    and "RestorePhaseRunning \<in> cl_phase ` set hs \<Longrightarrow>
      \<not> job_missing (cl_restore (hd hs)) (job_of (hd hs)) [(q, r)]"
    and "\<And>job. job_requested job [(q, r)] \<Longrightarrow> om_Name (job_Meta job) = job_of (hd hs) \<Longrightarrow>
      cl_jobs (hd hs) (job_of (hd hs)) \<noteq> None"
  shows "head_ok hs q r"
  unfolding head_ok_def Let_def by (intro conjI) (use assms in blast)+

lemma head_okD:
  assumes "head_ok hs q r"
  shows "q = GetRestore k \<Longrightarrow> r = RRestore x \<Longrightarrow> x \<in> cl_restore ` set hs"
    "q = GetReplica (replica_key (cl_replica (hd hs))) \<Longrightarrow> r = RReplica src \<Longrightarrow>
      same_source src (cl_replica (hd hs)) \<and> (is_paused src \<longrightarrow> is_paused (cl_replica (hd hs)))"
    "config_read (cl_replica (hd hs)) (\<lambda>t. t = pausedConfig) [(q, r)] \<Longrightarrow> cl_config (hd hs) = pausedConfig"
    "scaled_to_zero (cl_replica (hd hs)) [(q, r)] \<Longrightarrow> wv_Replicas (cl_workload (hd hs)) = Some 0"
    "\<not> job_read (cl_restore (hd hs)) (job_of (hd hs)) (\<lambda>v. v \<noteq> JobRunning) [(q, r)]"
    "RestorePhaseRunning \<in> cl_phase ` set hs \<Longrightarrow>
      \<not> job_missing (cl_restore (hd hs)) (job_of (hd hs)) [(q, r)]"
    "job_requested job [(q, r)] \<Longrightarrow> om_Name (job_Meta job) = job_of (hd hs) \<Longrightarrow>
      cl_jobs (hd hs) (job_of (hd hs)) \<noteq> None"
  by (insert assms [unfolded head_ok_def Let_def], (elim conjE, blast)+)

definition res_hist :: "cluster list \<Rightarrow> trace \<Rightarrow> bool" where
  "res_hist hs h = (\<forall>(q, r) \<in> set h. head_ok hs q r)"

definition status_done :: "trace \<Rightarrow> bool" where
  "status_done h = (\<exists>e \<in> set h. status_write (fst e))"

definition core :: "cluster list \<Rightarrow> cluster list \<Rightarrow> process \<Rightarrow> process \<Rightarrow> bool" where
  "core hs ws rep res =
     (hist_inv hs \<and> window_inv hs ws rep
      \<and> (\<forall>h p. res = Some (h, p) \<and> \<not> status_done h \<longrightarrow> res_hist hs h))"

text \<open>Both reconciliations are under the control of their guards.\<close>

definition rep_ok :: "cluster \<Rightarrow> process \<Rightarrow> bool" where
  "rep_ok c rep = (\<forall>h p. rep = Some (h, p) \<longrightarrow>
     wp p (rep_guard (replica_key (cl_replica c))) (\<lambda>_ _. True) h)"

definition res_ok :: "cluster \<Rightarrow> process \<Rightarrow> bool" where
  "res_ok c res = (\<forall>h p. res = Some (h, p) \<longrightarrow>
     wp p (res_guard (restore_key (cl_restore c))) (\<lambda>_ _. True) h \<and> single_status p
     \<and> (status_done h \<longrightarrow> (\<exists>a. p = Ret a)))"

definition good :: "cluster list \<Rightarrow> cluster list \<Rightarrow> process \<Rightarrow> process \<Rightarrow> bool" where
  "good hs ws rep res =
     (static (hd hs) \<and> rep_ok (hd hs) rep \<and> res_ok (hd hs) res \<and> (finished (hd hs) \<or> core hs ws rep res))"

definition sys_inv :: "sys \<Rightarrow> bool" where
  "sys_inv s = (sy_notes s = {} \<longrightarrow> good (sy_hist s) (sy_window s) (sy_rep s) (sy_res s))"

section \<open>Older and newer states\<close>

lemma same_source_refl [simp]: "same_source db db"
  by (simp add: same_source_def)

lemma same_source_sym: "same_source a b \<Longrightarrow> same_source b a"
  by (simp add: same_source_def)

lemma litestream_cm_key: "litestream_cm a = litestream_cm b \<longleftrightarrow> replica_key a = replica_key b"
  by (simp add: litestream_cm_def replica_key_def)

lemma same_source_reads:
  assumes "same_source a b"
  shows "config_read a = config_read b" "workload_read a = workload_read b"
    "scaled_to_zero a = scaled_to_zero b" "pods_gone a = pods_gone b"
    "replica_key a = replica_key b" "litestream_cm a = litestream_cm b" "target_query a = target_query b"
proof -
  show "litestream_cm a = litestream_cm b" "target_query a = target_query b" "replica_key a = replica_key b"
    using assms litestream_cm_key [of a b] by (simp_all add: same_source_def)
  then show "config_read a = config_read b" "workload_read a = workload_read b"
    "scaled_to_zero a = scaled_to_zero b" "pods_gone a = pods_gone b"
    by (simp_all add: fun_eq_iff config_read_def workload_read_def scaled_to_zero_def pods_gone_def)
qed

lemma keeps_refl [simp]: "keeps c c"
  by (simp add: keeps_def)

lemma keeps_names:
  assumes "keeps d c"
  shows "job_of d = job_of c" "replica_key (cl_replica d) = replica_key (cl_replica c)"
    "restore_key (cl_restore d) = restore_key (cl_restore c)" "res_Name (cl_restore d) = res_Name (cl_restore c)"
    "res_Namespace (cl_restore d) = res_Namespace (cl_restore c)"
    "source_key (cl_restore d) = source_key (cl_restore c)"
  using assms by (simp_all add: keeps_def job_of_def restore_key_def source_key_def same_source_def)

lemma keeps_trans:
  assumes "keeps a b" "keeps b c"
  shows "keeps a c"
  using assms keeps_names(1) [OF assms(2)] by (simp add: keeps_def same_source_def)

lemma keeps_static: "keeps d c \<Longrightarrow> static d = static c"
  using keeps_names [of d c] by (auto simp: keeps_def static_def same_source_def replica_key_def)

lemma keeps_isolated: "keeps d c \<Longrightarrow> isolated d \<Longrightarrow> isolated c"
  by (simp add: keeps_def isolated_def)

lemma keeps_job: "keeps d c \<Longrightarrow> cl_jobs d (job_of d) \<noteq> None \<Longrightarrow> cl_jobs c (job_of c) \<noteq> None"
  using keeps_names(1) [of d c] by (simp add: keeps_def)

lemma keeps_claims: "claims e d \<Longrightarrow> keeps d c \<Longrightarrow> claims e c"
  using keeps_isolated keeps_job keeps_names(1) [of d c] by (auto simp: claims_def)

lemma hist_invD:
  assumes "hist_inv hs"
  shows "hs \<noteq> []" "hd hs \<in> set hs" "job_isolated (hd hs)" "\<not> finished (hd hs)" "claims (hd hs) (hd hs)"
    "d \<in> set hs \<Longrightarrow> keeps d (hd hs)" "d \<in> set hs \<Longrightarrow> claims d (hd hs)" "d \<in> set hs \<Longrightarrow> \<not> finished d"
  using assms by (simp_all add: hist_inv_def)

lemma hist_inv_Cons:
  assumes "hist_inv hs" "keeps (hd hs) c" "claims c c" "job_isolated c" "\<not> finished c"
  shows "hist_inv (c # hs)"
  unfolding hist_inv_def
  using assms keeps_trans [OF _ assms(2)] keeps_claims [OF _ assms(2)] hist_invD(6-8) [OF assms(1)] by auto

text \<open>The window after a step of the cluster.\<close>

lemma window_inv_Cons:
  assumes inv: "window_inv hs ws pr" and keep: "keeps (hd hs) c"
    and cfg: "cl_config c = pausedConfig \<Longrightarrow> cl_config (hd hs) = pausedConfig"
  shows "window_inv (c # hs) (c # ws) pr"
proof -
  note parts = inv [unfolded window_inv_def]
  have paused: "is_paused (cl_replica (hd hs)) \<Longrightarrow> is_paused (cl_replica c)"
    using keep by (simp add: keeps_def)
  have first: "hd hs \<in> set ws" using parts by (metis list.set_sel(1))
  have kept: "pause_kept c d" if "d \<in> set ws" for d
  proof -
    have "is_paused (cl_replica d) \<longrightarrow> is_paused (cl_replica (hd hs))"
      using parts that by (cases ws) (auto simp: pause_kept_def)
    with paused show ?thesis by (auto simp: pause_kept_def)
  qed
  have all: "\<forall>d \<in> set (c # ws). is_paused (cl_replica d)" if "\<forall>d \<in> set ws. is_paused (cl_replica d)"
    using that first paused by simp
  show ?thesis
    unfolding window_inv_def list.sel(1) keeps_names(2) [OF keep, symmetric]
  proof (intro conjI allI impI)
    show "sorted_wrt pause_kept (c # ws)" using parts kept by simp
    show "set (c # ws) \<subseteq> set (c # hs)" using parts by auto
  qed (use parts all cfg in blast)+
qed

section \<open>Calm steps\<close>

text \<open>Steps that keep what was shown and do not touch the restore.\<close>

definition calm :: "cluster \<Rightarrow> cluster \<Rightarrow> bool" where
  "calm c c' = (keeps c c' \<and> cl_restore c' = cl_restore c)"

definition same_jobs :: "cluster \<Rightarrow> cluster \<Rightarrow> bool" where
  "same_jobs c c' = (\<forall>n. cl_jobs c' n = None \<longleftrightarrow> cl_jobs c n = None)"

lemma calm_refl [simp]: "calm c c" "same_jobs c c"
  by (simp_all add: calm_def same_jobs_def)

lemma calm_job_isolated:
  "calm c c' \<Longrightarrow> same_jobs c c' \<Longrightarrow> job_isolated c \<Longrightarrow> job_isolated c'"
  using keeps_isolated keeps_names(1) [of c c'] by (auto simp: calm_def same_jobs_def job_isolated_def)

lemma calm_hist_inv:
  assumes "hist_inv hs" "calm (hd hs) c" "job_isolated c" "\<not> finished c"
  shows "hist_inv (c # hs)"
proof (rule hist_inv_Cons [OF assms(1) _ _ assms(3,4)])
  show keep: "keeps (hd hs) c" using assms(2) by (simp add: calm_def)
  show "claims c c"
    using keeps_claims [OF hist_invD(5) [OF assms(1)] keep] assms(2)
    by (simp add: claims_def calm_def job_of_def)
qed

lemma calm_res_hist:
  assumes inv: "hist_inv hs" and calm: "calm (hd hs) c" and hist: "res_hist hs h"
  shows "res_hist (c # hs) h"
proof -
  have keep: "keeps (hd hs) c" and same: "cl_restore c = cl_restore (hd hs)"
    using calm by (simp_all add: calm_def)
  have src: "same_source (cl_replica (hd hs)) (cl_replica c)" using keep by (simp add: keeps_def)
  have run: "cl_phase ` set (c # hs) = cl_phase ` set hs"
    using same hist_invD(2) [OF inv] by auto
  have facts: "is_paused (cl_replica (hd hs)) \<Longrightarrow> is_paused (cl_replica c)"
    "cl_config (hd hs) = pausedConfig \<Longrightarrow> cl_config c = pausedConfig"
    "wv_Replicas (cl_workload (hd hs)) = Some 0 \<Longrightarrow> wv_Replicas (cl_workload c) = Some 0"
    "cl_jobs (hd hs) (job_of c) \<noteq> None \<Longrightarrow> cl_jobs c (job_of c) \<noteq> None"
    "same_source s (cl_replica (hd hs)) \<Longrightarrow> same_source s (cl_replica c)"
    "x \<in> cl_restore ` set hs \<Longrightarrow> x \<in> cl_restore ` set (c # hs)" for s x
    using keep by (simp_all add: keeps_def same_source_def)
  have "head_ok (c # hs) q r" if head: "head_ok hs q r" for q r
  proof -
    note D = head_okD [OF head, unfolded same [symmetric] keeps_names(1,2) [OF keep] same_source_reads(1,3) [OF src]]
    show ?thesis
      by (rule head_okI, unfold list.sel(1) run) (use D facts in blast)+
  qed
  with hist show ?thesis by (auto simp: res_hist_def)
qed

lemma calm_core:
  assumes "core hs ws rep res" "calm (hd hs) c" "same_jobs (hd hs) c" "\<not> finished c"
    and "cl_config c = pausedConfig \<Longrightarrow> cl_config (hd hs) = pausedConfig"
  shows "core (c # hs) (c # ws) rep res"
proof -
  note parts = assms(1) [unfolded core_def]
  have inv: "hist_inv hs" using parts by blast
  have "hist_inv (c # hs)"
    using calm_hist_inv [OF inv assms(2) calm_job_isolated [OF assms(2,3) hist_invD(3) [OF inv]] assms(4)] .
  moreover have "window_inv (c # hs) (c # ws) rep"
    using window_inv_Cons [OF _ _ assms(5)] parts assms(2) by (simp add: calm_def)
  ultimately show ?thesis
    using calm_res_hist [OF inv assms(2)] parts by (simp add: core_def)
qed

section \<open>Effects\<close>

lemma env_calm:
  assumes "env_step c c'"
  shows "calm c c' \<and> same_jobs c c' \<and> cl_config c' = cl_config c"
  using assms
  by (induction rule: env_step.induct)
    (auto simp: calm_def keeps_def same_jobs_def same_source_def is_paused_value job_of_def)

lemma env_finished: "env_step c c' \<Longrightarrow> finished c \<Longrightarrow> finished c'"
  by (induction rule: env_step.induct) (auto simp: finished_def job_of_def)

lemma effect_restore: "effect q c c' \<Longrightarrow> res_Meta (cl_restore c') = res_Meta (cl_restore c)
    \<and> res_Spec (cl_restore c') = res_Spec (cl_restore c)"
  by (cases q) auto

lemma effect_jobs: "effect q c c' \<Longrightarrow> cl_jobs c n = Some cs \<Longrightarrow> cl_jobs c' n = Some cs"
  by (cases q) auto

lemma effect_finished:
  assumes "effect q c c'" "finished c"
  shows "finished c'"
  using assms effect_restore [OF assms(1)] effect_jobs [OF assms(1)]
  by (auto simp: finished_def job_of_def)

lemma accepted_effect: "accepted c q r c' \<Longrightarrow> c' = c \<or> effect q c c'"
  by (auto simp: accepted_def served_def)

lemma accepted_finished: "accepted c q r c' \<Longrightarrow> finished c \<Longrightarrow> finished c'"
  using accepted_effect effect_finished by blast

lemma pause_value_merged:
  "merged (db_Annotations b) (db_Annotations n) (db_Annotations db) an \<Longrightarrow>
   pause_value (with_annotations db an) =
     (if pause_value n = pause_value b then pause_value db else pause_value n)"
  by (simp add: merged_def pause_value_def with_annotations_def)

lemma same_source_annotations [simp]:
  "same_source (with_annotations db an) db" "same_source db (with_annotations db an)"
  by (simp_all add: same_source_def with_annotations_def replica_key_def target_query_def usable_def)

lemma same_source_status [simp]:
  "same_source (db\<lparr>db_Status := st\<rparr>) db" "same_source db (db\<lparr>db_Status := st\<rparr>)"
  by (simp_all add: same_source_def replica_key_def target_query_def usable_def)

lemma is_paused_status [simp]: "is_paused (db\<lparr>db_Status := st\<rparr>) = is_paused db"
  by (simp add: is_paused_def)

lemma init_sql_not_config: "n @ ''-init-sql'' \<noteq> m @ ''-litestream''"
proof
  assume "n @ ''-init-sql'' = m @ ''-litestream''"
  then have "last (n @ ''-init-sql'') = last (m @ ''-litestream'')" by (rule arg_cong)
  then show False by simp
qed

lemmas calm_defs = calm_def keeps_def same_jobs_def job_of_def

lemma rep_effect_calm:
  assumes "effect q c c'" "rep_other q"
  shows "calm c c' \<and> same_jobs c c' \<and> cl_config c' = cl_config c"
proof (cases q)
  case (PatchReplica b n)
  with assms show ?thesis
    by (auto simp: calm_defs is_paused_value pause_value_merged)
next
  case (CreateOrUpdateConfigMap k d ow)
  with assms init_sql_not_config show ?thesis
    by (auto simp: litestream_cm_def)
qed (use assms in \<open>auto simp: calm_defs\<close>)

lemma config_write_effect:
  assumes "config_write db q" "effect q c c'" "replica_key db = replica_key (cl_replica c)"
  shows "c' = c\<lparr>cl_config := if is_paused db then pausedConfig else buildLitestreamConfigYAML db\<rparr>"
  using assms litestream_cm_key [of db "cl_replica c"]
  by (auto simp: config_write_def map_get_Some)

section \<open>Calls of the replica controller\<close>

text \<open>A read of the replica lets the window begin at the state that it showed.\<close>

lemma rep_read_window:
  assumes inv: "window_inv hs ws (Some (h, p))" and hist: "hist_inv hs"
    and ws: "ws = ys @ d # zs" and ans: "answers d q r d" "reads_replica q"
  shows "window_inv hs (ys @ [d]) (Some ((q, r) # h, p'))"
proof -
  note parts = inv [unfolded window_inv_def ws]
  have sorted: "\<forall>x \<in> set ys. pause_kept x d" "sorted_wrt pause_kept (ys @ [d])"
    using parts by (auto simp: sorted_wrt_append)
  have "keeps d (hd hs)" using hist_invD(6) [OF hist] parts by auto
  then have key: "replica_key (cl_replica d) = replica_key (cl_replica (hd hs))" by (rule keeps_names(2))
  have read: "db = cl_replica d"
    if "(q, r) # h = [(GetReplica (replica_key (cl_replica (hd hs))), RReplica db)]" for db
    using that ans(1) key by simp
  have paused: "\<forall>x \<in> set (ys @ [d]). is_paused (cl_replica x)" if "is_paused (cl_replica d)"
    using sorted(1) that by (auto simp: pause_kept_def)
  have "hd (ys @ [d]) = hd hs" using parts by (cases ys) auto
  with parts sorted read paused key show ?thesis
    unfolding window_inv_def by auto
qed

text \<open>Every other call leaves no write under way that could undo the pause.\<close>

lemma window_inv_proc:
  assumes "window_inv hs ws (Some (h, p))"
    and "\<And>k db. h' = [(GetReplica k, RReplica db)] \<Longrightarrow> False"
  shows "window_inv hs ws (Some (h', p'))"
  using assms unfolding window_inv_def by blast

lemma window_inv_stop: "window_inv hs ws pr \<Longrightarrow> window_inv hs ws None"
  by (simp add: window_inv_def)

lemma config_write_core:
  assumes inv: "core hs ws (Some ([(GetReplica (replica_key (cl_replica (hd hs))), RReplica db)], p)) res"
    and eff: "config_write db q" "effect q (hd hs) c" and "\<not> finished c"
  shows "core (c # hs) (c # ws) (Some ((q, r) # [(GetReplica (replica_key (cl_replica (hd hs))), RReplica db)], p')) res"
proof -
  let ?txt = "if is_paused db then pausedConfig else buildLitestreamConfigYAML db"
  have hist: "hist_inv hs" and win: "window_inv hs ws (Some ([(GetReplica (replica_key (cl_replica (hd hs))), RReplica db)], p))"
    using inv by (simp_all add: core_def)
  then have pend: "replica_key db = replica_key (cl_replica (hd hs))" 
    "is_paused db \<Longrightarrow> \<forall>d \<in> set ws. is_paused (cl_replica d)" "cl_config (hd hs) = pausedConfig \<Longrightarrow> is_paused db"
    by (auto simp: window_inv_def)
  have c: "c = (hd hs)\<lparr>cl_config := ?txt\<rparr>"
    by (rule config_write_effect [OF eff pend(1)])
  have calm: "calm (hd hs) c" "same_jobs (hd hs) c"
    using pend(3) by (auto simp: c calm_defs)
  have hist': "hist_inv (c # hs)"
    using calm_hist_inv [OF hist calm(1) calm_job_isolated [OF calm hist_invD(3) [OF hist]] assms(4)] .
  have first: "hd hs \<in> set ws" using win by (metis list.set_sel(1) window_inv_def)
  have reason: "\<forall>d \<in> set (c # ws). is_paused (cl_replica d)" if "cl_config c = pausedConfig"
  proof -
    have "is_paused db" using that build_not_paused_text [of db] by (auto simp: c split: if_splits)
    from pend(2) [OF this] first show ?thesis by (auto simp: c)
  qed
  have "window_inv (c # hs) (c # ws) (Some ((q, r) # [(GetReplica (replica_key (cl_replica (hd hs))), RReplica db)], p'))"
    using win first reason unfolding window_inv_def
    by (cases ws) (auto simp: c pause_kept_def)
  then show ?thesis
    using calm_res_hist [OF hist calm(1)] hist' inv by (simp add: core_def)
qed

lemma rep_ok_call: "rep_ok c (Some (h, Call q f)) \<Longrightarrow> rep_ok c (Some ((q, r) # h, f r))"
  by (simp add: rep_ok_def)

lemma core_rep:
  assumes "core hs ws rep res" "window_inv hs ws' rep'"
  shows "core hs ws' rep' res"
  using assms by (simp add: core_def)

lemma rep_call_core:
  assumes ok: "rep_ok (hd hs) (Some (h, Call q f))" and acc: "accepted (hd hs) q r c" "\<not> cached q"
    and inv: "core hs ws (Some (h, Call q f)) res" and "\<not> finished c"
  shows "core (c # hs) (c # ws) (Some ((q, r) # h, f r)) res"
proof -
  have hist: "hist_inv hs" and win: "window_inv hs ws (Some (h, Call q f))" using inv by (simp_all add: core_def)
  have now: "core hs ws (Some ((q, r) # h, f r)) res"
    by (rule core_rep [OF inv window_inv_proc [OF win]]) (use acc(2) in auto)
  have stay: "core (c # hs) (c # ws) (Some ((q, r) # h, f r)) res"
    if "calm (hd hs) c" "same_jobs (hd hs) c" "cl_config c = cl_config (hd hs)"
    using calm_core [OF now that(1,2) assms(5)] that(3) by simp
  have guard: "rep_guard (replica_key (cl_replica (hd hs))) h q"
    using ok by (simp add: rep_ok_def)
  from accepted_effect [OF acc(1)] show ?thesis
  proof
    assume eff: "effect q (hd hs) c"
    from guard consider (other) "rep_other q"
      | (config) db where "h = [(GetReplica (replica_key (cl_replica (hd hs))), RReplica db)]" "config_write db q"
      by (auto simp: rep_guard_def)
    then show ?thesis
    proof cases
      case other
      with rep_effect_calm [OF eff] stay show ?thesis by blast
    next
      case config
      from config_write_core [OF inv [unfolded config(1)] config(2) eff assms(5)] show ?thesis
        by (simp add: config(1))
    qed
  qed (use stay in simp)
qed

section \<open>What the restore controller reads\<close>

lemma evidence_Nil [simp]:
  "\<not> config_read db P []" "\<not> scaled_to_zero db []" "\<not> pods_gone db []" "\<not> job_read x n Q []"
  "\<not> job_missing x n []" "\<not> job_requested job []"
  by (simp_all add: config_read_def scaled_to_zero_def pods_gone_def workload_read_def job_read_def
      job_missing_def job_requested_def acked_def)

lemma res_hist_Cons [simp]: "res_hist hs ((q, r) # h) \<longleftrightarrow> head_ok hs q r \<and> res_hist hs h"
  by (simp add: res_hist_def)

lemma evidence_single:
  "config_read db P h \<Longrightarrow> \<exists>e \<in> set h. config_read db P [e]"
  "scaled_to_zero db h \<Longrightarrow> \<exists>e \<in> set h. scaled_to_zero db [e]"
  "job_read x n Q h \<Longrightarrow> \<exists>e \<in> set h. job_read x n Q [e]"
  "job_missing x n h \<Longrightarrow> \<exists>e \<in> set h. job_missing x n [e]"
  "job_requested job h \<Longrightarrow> \<exists>e \<in> set h. job_requested job [e]"
  by (induction h) auto

lemma res_hist_facts:
  assumes "res_hist hs h"
  shows "(GetRestore k, RRestore x) \<in> set h \<Longrightarrow> x \<in> cl_restore ` set hs"
    "(GetReplica (replica_key (cl_replica (hd hs))), RReplica src) \<in> set h \<Longrightarrow>
       same_source src (cl_replica (hd hs)) \<and> (is_paused src \<longrightarrow> is_paused (cl_replica (hd hs)))"
    "config_read (cl_replica (hd hs)) (\<lambda>t. t = pausedConfig) h \<Longrightarrow> cl_config (hd hs) = pausedConfig"
    "scaled_to_zero (cl_replica (hd hs)) h \<Longrightarrow> wv_Replicas (cl_workload (hd hs)) = Some 0"
    "\<not> job_read (cl_restore (hd hs)) (job_of (hd hs)) (\<lambda>v. v \<noteq> JobRunning) h"
    "RestorePhaseRunning \<in> cl_phase ` set hs \<Longrightarrow> \<not> job_missing (cl_restore (hd hs)) (job_of (hd hs)) h"
    "job_requested job h \<Longrightarrow> om_Name (job_Meta job) = job_of (hd hs) \<Longrightarrow> cl_jobs (hd hs) (job_of (hd hs)) \<noteq> None"
proof -
  have head: "head_ok hs (fst e) (snd e)" if "e \<in> set h" for e
    using assms that by (auto simp: res_hist_def)
  show "(GetRestore k, RRestore x) \<in> set h \<Longrightarrow> x \<in> cl_restore ` set hs"
    "(GetReplica (replica_key (cl_replica (hd hs))), RReplica src) \<in> set h \<Longrightarrow>
       same_source src (cl_replica (hd hs)) \<and> (is_paused src \<longrightarrow> is_paused (cl_replica (hd hs)))"
    using head_okD(1,2) [OF head] by fastforce+
  note D = head_okD [OF head, unfolded prod.collapse]
  show "config_read (cl_replica (hd hs)) (\<lambda>t. t = pausedConfig) h \<Longrightarrow> cl_config (hd hs) = pausedConfig"
    using evidence_single(1) D(3) by blast
  show "scaled_to_zero (cl_replica (hd hs)) h \<Longrightarrow> wv_Replicas (cl_workload (hd hs)) = Some 0"
    using evidence_single(2) D(4) by blast
  show "\<not> job_read (cl_restore (hd hs)) (job_of (hd hs)) (\<lambda>v. v \<noteq> JobRunning) h"
    using evidence_single(3) D(5) by blast
  show "RestorePhaseRunning \<in> cl_phase ` set hs \<Longrightarrow> \<not> job_missing (cl_restore (hd hs)) (job_of (hd hs)) h"
    using evidence_single(4) D(6) by blast
  show "job_requested job h \<Longrightarrow> om_Name (job_Meta job) = job_of (hd hs) \<Longrightarrow> cl_jobs (hd hs) (job_of (hd hs)) \<noteq> None"
    using evidence_single(5) D(7) by blast
qed

lemma transient_resp:
  "transient r \<Longrightarrow> workload_resp q r = Inl e \<Longrightarrow> \<not> errors_IsNotFound e"
  "transient r \<Longrightarrow> \<exists>e. workload_resp q r = Inl e"
  by (induction q r rule: workload_resp.induct)
    (auto simp: transient_def errors_IsNotFound_def bad_response_def errorf_def)

lemma query_answers [simp]:
  "answers c (target_query (cl_replica c)) r c' \<longleftrightarrow>
     (\<exists>wt. workload_resp (target_query (cl_replica c)) r = Inr wt \<and> wt_view wt = cl_workload c)"
  by (cases "rp_TargetStatefulSet (db_Spec (cl_replica c)) = []") (simp_all add: target_query_def)

text \<open>An error that is not about the object shows nothing.\<close>

lemma transient_not_zero:
  assumes "transient r" "workload_patch q = None"
  shows "\<not> scaled_to_zero db [(q, r)]"
proof -
  from transient_resp(2) [OF assms(1)] obtain e where e: "workload_resp (target_query db) r = Inl e" by blast
  with transient_resp(1) [OF assms(1) e] assms(2) show ?thesis by simp
qed

lemma error_head:
  assumes "cached q" "transient r"
  shows "head_ok hs q r"
proof -
  have none: "workload_patch q = None" using assms(1) by (cases q) auto
  note zero = transient_not_zero [OF assms(2) none]
  show ?thesis
  proof (rule head_okI)
    show "wv_Replicas (cl_workload (hd hs)) = Some 0" if "scaled_to_zero (cl_replica (hd hs)) [(q, r)]"
      using zero that by blast
  qed (use assms in \<open>auto simp: transient_def errors_IsNotFound_def\<close>)
qed

text \<open>The answer of the cache, from whatever state of the history.\<close>

lemma cached_head:
  assumes inv: "hist_inv hs" and d: "d \<in> set hs" and ans: "answers d q r d" and "cached q"
    and fresh: "stale_job (hd hs) q r = {}"
  shows "head_ok hs q r"
proof -
  have keep: "keeps d (hd hs)" and fin: "\<not> finished d" using hist_invD(6,8) [OF inv d] by auto
  note names = keeps_names [OF keep]
  have src: "same_source (cl_replica d) (cl_replica (hd hs))" using keep by (simp add: keeps_def)
  note reads = same_source_reads [OF src, symmetric]
  have facts: "is_paused (cl_replica d) \<Longrightarrow> is_paused (cl_replica (hd hs))"
    "cl_config d = pausedConfig \<Longrightarrow> cl_config (hd hs) = pausedConfig"
    "wv_Replicas (cl_workload d) = Some 0 \<Longrightarrow> wv_Replicas (cl_workload (hd hs)) = Some 0"
    using keep by (simp_all add: keeps_def)
  have running: "cl_jobs (hd hs) (job_of (hd hs)) \<noteq> None" if "RestorePhaseRunning \<in> cl_phase ` set hs"
    using that hist_invD(7) [OF inv] by (auto simp: claims_def)
  show ?thesis
  proof (cases "q = target_query (cl_replica (hd hs))")
    case True
    then have "q = target_query (cl_replica d)" using same_source_reads(7) [OF src] by simp
    with ans have "\<exists>wt. workload_resp q r = Inr wt \<and> wt_view wt = cl_workload d" by simp
    with facts(3) True show ?thesis
      by (auto simp: head_ok_def Let_def target_query_def)
  next
    case False
    show ?thesis
    proof (cases q)
      case (GetJob k)
      have "\<not> job_read (cl_restore (hd hs)) (job_of (hd hs)) (\<lambda>v. v \<noteq> JobRunning) [(q, r)]"
        using ans fin names(1) by (auto simp: GetJob finished_def split: option.splits)
      moreover have "\<not> job_missing (cl_restore (hd hs)) (job_of (hd hs)) [(q, r)]"
        if "RestorePhaseRunning \<in> cl_phase ` set hs"
        using running [OF that] fresh by (auto simp: GetJob split: sum.splits if_splits)
      ultimately show ?thesis
        using GetJob False by (auto simp: head_ok_def Let_def)
    next
      case (GetReplica k)
      with ans src facts(1) names(2) show ?thesis by (auto simp: head_ok_def Let_def)
    next
      case (GetRestore k)
      with ans d show ?thesis by (auto simp: head_ok_def Let_def)
    next
      case (GetConfigMap k)
      with ans facts(2) reads(6) show ?thesis by (auto simp: head_ok_def Let_def)
    qed (use False \<open>cached q\<close> in \<open>auto simp: head_ok_def Let_def\<close>)
  qed
qed

section \<open>What the restore controller writes\<close>

lemma plain_calm: "effect q c c' \<Longrightarrow> \<not> writes q \<Longrightarrow> calm c c' \<and> same_jobs c c' \<and> cl_config c' = cl_config c"
  by (cases q) (auto simp: calm_defs)

lemma writes_not_read [simp]: "\<not> writes (target_query db)"
  by (simp add: target_query_def)

lemma query_cached [simp]: "cached (target_query db)"
  by (simp add: target_query_def)

text \<open>A write shows something only when it was acknowledged.\<close>

lemma write_head:
  assumes nc: "\<not> cached q"
    and patch: "\<And>v. as_error r = None \<Longrightarrow> workload_patch q = Some (v, v\<lparr>wv_Replicas := Some 0\<rparr>) \<Longrightarrow>
      wv_Replicas (cl_workload (hd hs)) = Some 0"
    and job: "\<And>job. q = CreateJob job \<Longrightarrow> job_requested job [(q, r)] \<Longrightarrow> om_Name (job_Meta job) = job_of (hd hs) \<Longrightarrow>
      cl_jobs (hd hs) (job_of (hd hs)) \<noteq> None"
  shows "head_ok hs q r"
proof -
  have no: "q \<noteq> target_query db" "q \<noteq> GetRestore k" "q \<noteq> GetReplica k" "q \<noteq> GetConfigMap k" "q \<noteq> GetJob k"
    for db k using nc by auto
  have job': "q = CreateJob job" if "job_requested job [(q, r)]" for job
    using that by simp
  show ?thesis
    by (rule head_okI) (use no patch job job' in \<open>simp_all only: config_read_Cons scaled_to_zero_Cons
        job_read_Cons job_missing_Cons evidence_Nil simp_thms, (blast+)?\<close>)
qed

lemma plain_head:
  assumes "\<not> cached q" "\<not> writes q"
  shows "head_ok hs q r"
proof -
  have "workload_patch q = None" "q \<noteq> CreateJob job" for job using assms(2) by (cases q; auto)+
  then show ?thesis by (intro write_head [OF assms(1)]) auto
qed

lemma transient_silent:
  assumes "transient r"
  shows "as_error r \<noteq> None" "\<not> job_requested job [(q, r)]"
  using assms by (auto simp: transient_def errors_IsAlreadyExists_def)

text \<open>The restore that was read is an earlier version: its name is the same, and clean-up is out of reach.\<close>

lemma read_restore:
  assumes "hist_inv hs" "x \<in> cl_restore ` set hs"
  shows "res_Meta x = res_Meta (cl_restore (hd hs))" "res_Spec x = res_Spec (cl_restore (hd hs))"
    "res_Name x @ ''-restore'' = job_of (hd hs)" "source_key x = source_key (cl_restore (hd hs))"
    "job_read x = job_read (cl_restore (hd hs))" "job_missing x = job_missing (cl_restore (hd hs))"
    "res_Phase x \<in> {RestorePhaseScalingDown, RestorePhaseRunning} \<Longrightarrow> isolated (hd hs)"
    "res_Phase x = RestorePhaseRunning \<Longrightarrow> job_name x = job_of (hd hs) \<and> RestorePhaseRunning \<in> cl_phase ` set hs"
    "res_Phase x \<notin> {RestorePhaseValidating, RestorePhaseScalingUp, RestorePhaseComplete}"
    "job_name x = job_of (hd hs) \<Longrightarrow> job_name (cl_restore (hd hs)) = job_of (hd hs)"
proof -
  from assms(2) obtain d where d: "d \<in> set hs" "x = cl_restore d" by blast
  note keep = hist_invD(6) [OF assms(1) d(1)] and cl = hist_invD(7) [OF assms(1) d(1)]
  show meta: "res_Meta x = res_Meta (cl_restore (hd hs))" and "res_Spec x = res_Spec (cl_restore (hd hs))"
    using keep by (simp_all add: d keeps_def)
  show "res_Name x @ ''-restore'' = job_of (hd hs)" "source_key x = source_key (cl_restore (hd hs))"
    using keeps_names(4,6) [OF keep] by (simp_all add: d job_of_def)
  show "job_read x = job_read (cl_restore (hd hs))" "job_missing x = job_missing (cl_restore (hd hs))"
    using meta by (simp_all add: fun_eq_iff job_read_def job_missing_def)
  show "res_Phase x \<in> {RestorePhaseScalingDown, RestorePhaseRunning} \<Longrightarrow> isolated (hd hs)"
    "res_Phase x = RestorePhaseRunning \<Longrightarrow> job_name x = job_of (hd hs) \<and> RestorePhaseRunning \<in> cl_phase ` set hs"
    "res_Phase x \<notin> {RestorePhaseValidating, RestorePhaseScalingUp, RestorePhaseComplete}"
    using cl image_eqI [OF _ d(1), of _ cl_phase] by (auto simp: d(2) claims_def)
  show "job_name x = job_of (hd hs) \<Longrightarrow> job_name (cl_restore (hd hs)) = job_of (hd hs)"
    using keep by (simp add: d keeps_def)
qed

lemma no_fail_evidence:
  assumes inv: "hist_inv hs" "x \<in> cl_restore ` set hs" "res_hist hs h"
    and ph: "res_Phase x \<in> {RestorePhaseRunning, RestorePhaseValidating}"
  shows "\<not> fail_evidence x src h"
proof -
  have run: "res_Phase x = RestorePhaseRunning" using ph read_restore(9) [OF inv(1,2)] by blast
  note jn = read_restore(8) [OF inv(1,2) run]
  moreover have "\<not> job_read (cl_restore (hd hs)) (job_of (hd hs)) (\<lambda>v. \<exists>m. v = JobFailed m) h"
    using res_hist_facts(5) [OF inv(3)] by (auto simp: job_read_def)
  ultimately show ?thesis
    using res_hist_facts(6) [OF inv(3)] run by (simp add: fail_evidence_phases read_restore(5,6) [OF inv(1,2)])
qed

lemma replica_patch_calm:
  assumes eff: "effect (PatchReplica b n) (hd hs) c" and patch: "replica_patch x src h b n"
    and inv: "hist_inv hs" "x \<in> cl_restore ` set hs" "res_hist hs h"
  shows "calm (hd hs) c \<and> same_jobs (hd hs) c \<and> cl_config c = cl_config (hd hs)"
proof -
  have "pause_value n = pause_value b \<or> is_paused n"
    using patch no_fail_evidence [OF inv] read_restore(9) [OF inv(1,2)] by (auto simp: replica_patch_def)
  with eff show ?thesis
    by (auto simp: calm_defs is_paused_value pause_value_merged)
qed

lemma workload_effect:
  assumes "workload_patch q = Some (v, v')" "effect q c c'"
  obtains w where "c' = c\<lparr>cl_workload := w\<rparr>"
    "wv_Replicas w = (if wv_Replicas v' = wv_Replicas v then wv_Replicas (cl_workload c) else wv_Replicas v')"
  using assms by (cases q) auto

lemma workload_patch_calm:
  assumes patch: "workload_patch q = Some (v, v')" and eff: "effect q (hd hs) c"
    and guard: "restore_guard x src h q" and inv: "hist_inv hs" "x \<in> cl_restore ` set hs" "res_hist hs h"
  shows "calm (hd hs) c \<and> same_jobs (hd hs) c \<and> cl_config c = cl_config (hd hs)
    \<and> wv_Replicas (cl_workload c) = Some 0"
proof -
  have "\<not> scale_up x src h v v'" "\<not> scale_cleanup x src h v v'"
    using read_restore(9) [OF inv(1,2)] no_fail_evidence [OF inv] unfolding scale_up_def scale_cleanup_def by blast+
  then have "wv_Replicas v' = Some 0" "wv_Replicas v \<noteq> Some 0"
    using guard guard_workload_patch [OF patch] unfolding scale_down_def by auto
  moreover obtain w where "c = (hd hs)\<lparr>cl_workload := w\<rparr>"
    "wv_Replicas w = (if wv_Replicas v' = wv_Replicas v then wv_Replicas (cl_workload (hd hs)) else wv_Replicas v')"
    using workload_effect [OF patch eff] .
  ultimately show ?thesis by (simp add: calm_defs)
qed

lemma restore_job_name: "buildRestoreJob x src n = Some job \<Longrightarrow> om_Name (job_Meta job) = n"
  by (auto simp: buildRestoreJob_def Let_def split: option.splits)

lemma create_job_calm:
  assumes eff: "effect (CreateJob job) (hd hs) c" and guard: "restore_guard x src h (CreateJob job)"
    and inv: "hist_inv hs" "x \<in> cl_restore ` set hs"
  shows "calm (hd hs) c" "job_isolated c" "cl_config c = cl_config (hd hs)" "cl_jobs c (job_of c) \<noteq> None"
proof -
  have ph: "res_Phase x = RestorePhaseScalingDown"
    and job: "buildRestoreJob x src (res_Name x @ ''-restore'') = Some job"
    using guard read_restore(9) [OF inv] by auto
  have iso: "isolated (hd hs)" using read_restore(7) [OF inv] ph by simp
  have name: "om_Name (job_Meta job) = job_of (hd hs)"
    using restore_job_name [OF job] read_restore(3) [OF inv] by simp
  define js where "js = cl_jobs c"
  have c: "c = (hd hs)\<lparr>cl_jobs := js\<rparr>" and some: "js (job_of (hd hs)) \<noteq> None"
    using eff name by (simp_all add: js_def split: if_splits)
  show calm: "calm (hd hs) c" using some by (simp add: c calm_defs)
  then have "isolated c" using iso keeps_isolated by (auto simp: calm_def)
  then show "job_isolated c" by (simp add: job_isolated_def)
  show "cl_config c = cl_config (hd hs)" "cl_jobs c (job_of c) \<noteq> None"
    using some by (simp_all add: c job_of_def)
qed

lemma restore_config_other:
  assumes "static c"
  shows "\<lparr>nn_Namespace = ns, nn_Name = res_Name (cl_restore c) @ ''-litestream''\<rparr> \<noteq> litestream_cm (cl_replica c)"
  using assms by (simp add: static_def litestream_cm_def)

text \<open>Every write but the status write is calm, with its effect visible in the history.\<close>

lemma write_calm:
  assumes eff: "effect q (hd hs) c" and guard: "restore_guard x src h q" and kind: "writes q" "\<not> status_write q"
    and inv: "hist_inv hs" "x \<in> cl_restore ` set hs" "res_hist hs h" "static (hd hs)"
  shows "calm (hd hs) c \<and> job_isolated c \<and> cl_config c = cl_config (hd hs) \<and> head_ok (c # hs) q r"
proof -
  have nc: "\<not> cached q" using kind(1) by (cases q) auto
  note iso = calm_job_isolated [OF _ _ hist_invD(3) [OF inv(1)]]
  show ?thesis
  proof (cases "workload_patch q")
    case (Some vv)
    obtain v v' where v: "vv = (v, v')" by fastforce
    note calm = workload_patch_calm [OF Some [unfolded v] eff guard inv(1-3)]
    have "q \<noteq> CreateJob job" for job using Some by auto
    with calm have "head_ok (c # hs) q r" by (intro write_head [OF nc]) auto
    with calm iso show ?thesis by blast
  next
    case None
    show ?thesis
    proof (cases q)
      case (PatchReplica b n)
      with eff guard have "calm (hd hs) c \<and> same_jobs (hd hs) c \<and> cl_config c = cl_config (hd hs)"
        by (intro replica_patch_calm [OF _ _ inv(1-3)]) simp_all
      moreover have "head_ok (c # hs) q r" using None PatchReplica by (intro write_head [OF nc]) auto
      ultimately show ?thesis using iso by blast
    next
      case (CreateOrUpdateConfigMap k d ow)
      have "res_Name x = res_Name (cl_restore (hd hs))" using read_restore(1) [OF inv(1,2)] by simp
      with CreateOrUpdateConfigMap eff guard restore_config_other [OF inv(4)] have "c = hd hs"
        by (auto simp: restore_config_write_def)
      moreover have "head_ok (c # hs) q r" using None CreateOrUpdateConfigMap by (intro write_head [OF nc]) auto
      ultimately show ?thesis using hist_invD(3) [OF inv(1)] by simp
    next
      case (CreateJob job)
      note calm = create_job_calm [OF eff [unfolded CreateJob] guard [unfolded CreateJob] inv(1,2)]
      then have "head_ok (c # hs) q r" using None by (intro write_head [OF nc]) auto
      with calm show ?thesis by blast
    qed (use kind None in auto)
  qed
qed

text \<open>What a write of a restore reconciliation rests on.\<close>

lemma res_guard_now:
  assumes guard: "res_guard (restore_key (cl_restore (hd hs))) h q" and "writes q"
    and inv: "hist_inv hs" "res_hist hs h" "static (hd hs)"
  obtains (fail) x new where "x \<in> cl_restore ` set hs" "q = PatchRestoreStatus x new" "restore_edge x new"
      "res_Phase new = RestorePhaseFailed"
    | (source) x src where "x \<in> cl_restore ` set hs" "restore_guard x src h q" "same_source src (cl_replica (hd hs))"
      "is_paused src \<longrightarrow> is_paused (cl_replica (hd hs))"
proof -
  note facts = res_hist_facts(1,2) [OF inv(2)]
  from guard assms(2) obtain x where x: "(GetRestore (restore_key (cl_restore (hd hs))), RRestore x) \<in> set h"
    "(\<exists>new. q = PatchRestoreStatus x new \<and> restore_edge x new \<and> res_Phase new = RestorePhaseFailed)
     \<or> (\<exists>src. (GetReplica (source_key x), RReplica src) \<in> set h \<and> restore_guard x src h q)"
    by (auto simp: res_guard_def)
  have mem: "x \<in> cl_restore ` set hs" using facts(1) [OF x(1)] .
  have key: "source_key x = replica_key (cl_replica (hd hs))"
    using read_restore(4) [OF inv(1) mem] inv(3) by (simp add: static_def)
  from x(2) show thesis
  proof
    assume "\<exists>new. q = PatchRestoreStatus x new \<and> restore_edge x new \<and> res_Phase new = RestorePhaseFailed"
    with mem fail show thesis by blast
  next
    assume "\<exists>src. (GetReplica (source_key x), RReplica src) \<in> set h \<and> restore_guard x src h q"
    with mem facts(2) key source show thesis by metis
  qed
qed

text \<open>
  The status write ends its reconciliation, so only the cluster matters after it. It may be computed
  from an older version of the restore; the fields that it changes are merged into the present one.
\<close>

lemma edge_fields:
  assumes "restore_edge x new"
  shows "res_Phase new \<noteq> res_Phase x" "job_name new \<in> {job_name x, res_Name x @ ''-restore''}"
    "res_Phase new = RestorePhaseRunning \<Longrightarrow> job_name new = res_Name x @ ''-restore''"
  using assms by (induction rule: restore_edge.induct) (auto simp: restore_phases terminal_def)

lemma merged_fields:
  assumes "restore_edge x new"
  shows "rst_Phase (merged_status (res_Status x) (res_Status new) st) = res_Phase new"
    "rst_JobName (merged_status (res_Status x) (res_Status new) st) =
       (if job_name new = job_name x then rst_JobName st else job_name new)"
  using edge_fields(1) [OF assms] by (simp_all add: merged_status_def pick_def)

lemma status_claims:
  assumes inv: "hist_inv hs" "x \<in> cl_restore ` set hs" "res_hist hs h" and edge: "restore_edge x new"
    and ev: "res_Phase new = RestorePhaseFailed \<or> edge_evidence x src h (res_Phase new)"
    and src: "same_source src (cl_replica (hd hs))" "is_paused src \<longrightarrow> is_paused (cl_replica (hd hs))"
  shows "(res_Phase new = RestorePhaseScalingDown \<longrightarrow> isolated (hd hs))
    \<and> (res_Phase new = RestorePhaseRunning \<longrightarrow> cl_jobs (hd hs) (job_of (hd hs)) \<noteq> None)
    \<and> res_Phase new \<notin> {RestorePhaseValidating, RestorePhaseScalingUp, RestorePhaseComplete}"
proof -
  note hist = res_hist_facts [OF inv(3)] and read = read_restore [OF inv(1,2)]
  from edge show ?thesis
  proof cases
    case (scaling_down msg)
    then have "edge_evidence x src h RestorePhaseScalingDown"
      using ev by (simp add: restore_phases)
    then have "isolated (hd hs)"
      using hist(3,4) src(2) same_source_reads(1,3) [OF src(1)] by (simp add: isolated_def)
    with scaling_down show ?thesis by (simp add: restore_phases)
  next
    case (running msg t)
    then have "edge_evidence x src h RestorePhaseRunning"
      using ev by (simp add: restore_phases)
    then obtain job where job: "buildRestoreJob x src (res_Name x @ ''-restore'') = Some job" "job_requested job h"
      by auto
    with hist(7) restore_job_name [OF job(1)] read(3) have "cl_jobs (hd hs) (job_of (hd hs)) \<noteq> None" by simp
    with running show ?thesis by (simp add: restore_phases)
  next
    case (validating msg)
    then have "edge_evidence x src h RestorePhaseValidating"
      using ev by (simp add: restore_phases)
    then have "job_read x (job_of (hd hs)) (\<lambda>v. v \<noteq> JobRunning) h"
      using read(8) validating by (auto simp: job_read_def)
    with hist(5) read(5) show ?thesis by simp
  next
    case (scaling_up msg)
    with read(9) show ?thesis by simp
  next
    case (complete msg t)
    with read(9) show ?thesis by simp
  qed (simp_all add: restore_phases)
qed

lemma status_write_inv:
  assumes inv: "hist_inv hs" "window_inv hs ws rep" "res_hist hs h" "x \<in> cl_restore ` set hs"
    and edge: "restore_edge x new"
    and ev: "res_Phase new = RestorePhaseFailed \<or> edge_evidence x src h (res_Phase new)"
    and src: "same_source src (cl_replica (hd hs))" "is_paused src \<longrightarrow> is_paused (cl_replica (hd hs))"
    and eff: "effect (PatchRestoreStatus x new) (hd hs) c"
  shows "hist_inv (c # hs) \<and> window_inv (c # hs) (c # ws) rep"
proof -
  define st where "st = merged_status (res_Status x) (res_Status new) (res_Status (cl_restore (hd hs)))"
  have c: "c = (hd hs)\<lparr>cl_restore := (cl_restore (hd hs))\<lparr>res_Status := st\<rparr>\<rparr>"
    using eff by (simp add: st_def)
  note st = merged_fields [OF edge, of "res_Status (cl_restore (hd hs))", folded st_def]
  note read = read_restore [OF inv(1,4)] and claim = status_claims [OF inv(1,4,3) edge ev src]
  have job: "job_of c = job_of (hd hs)" "isolated c = isolated (hd hs)" "cl_jobs c = cl_jobs (hd hs)"
    by (simp_all add: c job_of_def isolated_def)
  have name: "rst_JobName st = job_of (hd hs)"
    if "job_name (cl_restore (hd hs)) = job_of (hd hs) \<or> job_name new = job_of (hd hs)"
    using that edge_fields(2) [OF edge] read(3,10) unfolding st(2) by (auto split: if_splits)
  have keep: "keeps (hd hs) c" using name by (simp add: keeps_def c job_of_def)
  have "claims c c"
  proof -
    have "isolated (hd hs)" if "res_Phase new = RestorePhaseRunning"
      using claim that hist_invD(3) [OF inv(1)] by (simp add: job_isolated_def)
    moreover have "rst_JobName st = job_of (hd hs)" if "res_Phase new = RestorePhaseRunning"
      using name edge_fields(3) [OF edge that] read(3) by simp
    ultimately show ?thesis
      using claim st(1) unfolding claims_def job by (auto simp: c)
  qed
  moreover have "job_isolated c" "\<not> finished c"
    using hist_invD(3,4) [OF inv(1)] by (simp_all add: job_isolated_def finished_def job)
  ultimately have "hist_inv (c # hs)" using hist_inv_Cons [OF inv(1) keep] by blast
  moreover have "window_inv (c # hs) (c # ws) rep"
    using window_inv_Cons [OF inv(2) keep] by (simp add: c)
  ultimately show ?thesis ..
qed

lemma core_res_none: "core hs ws rep res \<Longrightarrow> core hs ws rep None"
  by (simp add: core_def)

lemma status_core:
  assumes "hist_inv (c # hs) \<and> window_inv (c # hs) (c # ws) rep" "status_write q"
  shows "core (c # hs) (c # ws) rep (Some ((q, r) # h, p))"
  using assms by (simp add: core_def status_done_def)

lemma res_status_core:
  assumes st: "status_write q" and guard: "res_guard (restore_key (cl_restore (hd hs))) h q"
    and inv: "hist_inv hs" "window_inv hs ws rep" "res_hist hs h" "static (hd hs)"
    and eff: "effect q (hd hs) c"
  shows "hist_inv (c # hs) \<and> window_inv (c # hs) (c # ws) rep"
proof -
  from st have wr: "writes q" by (cases q) auto
  from guard wr inv(1,3,4) show ?thesis
  proof (rule res_guard_now)
    fix x new assume "x \<in> cl_restore ` set hs" "q = PatchRestoreStatus x new" "restore_edge x new"
      "res_Phase new = RestorePhaseFailed"
    with status_write_inv [OF inv(1-3), of x new "cl_replica (hd hs)" c] eff show ?thesis
      by (simp del: effect.simps)
  next
    fix x src assume src: "x \<in> cl_restore ` set hs" "restore_guard x src h q" "same_source src (cl_replica (hd hs))"
      "is_paused src \<longrightarrow> is_paused (cl_replica (hd hs))"
    from st obtain old new where q: "q = PatchRestoreStatus old new" by (cases q) auto
    with src(2) have "old = x" "restore_edge x new" "edge_evidence x src h (res_Phase new)" by auto
    with status_write_inv [OF inv(1-3) src(1), of new src c] src(3,4) eff q show ?thesis
      by (simp del: effect.simps)
  qed
qed

text \<open>Every call that goes to the API server.\<close>

lemma res_hist_core:
  "core hs ws rep (Some (h, p)) \<Longrightarrow> \<not> status_done h \<Longrightarrow> hist_inv hs \<and> window_inv hs ws rep \<and> res_hist hs h"
  by (simp add: core_def)

lemma core_res:
  "hist_inv hs \<Longrightarrow> window_inv hs ws rep \<Longrightarrow> res_hist hs h \<Longrightarrow> core hs ws rep (Some (h, p))"
  by (simp add: core_def)

lemma res_call_core:
  assumes ok: "res_ok (hd hs) (Some (h, Call q f))" and acc: "accepted (hd hs) q r c" "\<not> cached q"
    and inv: "core hs ws rep (Some (h, Call q f))" "static (hd hs)" and fin: "\<not> finished c"
  shows "core (c # hs) (c # ws) rep (Some ((q, r) # h, f r))"
proof -
  have guard: "res_guard (restore_key (cl_restore (hd hs))) h q" and "\<not> status_done h"
    using ok by (auto simp: res_ok_def)
  with inv(1) have parts: "hist_inv hs" "window_inv hs ws rep" "res_hist hs h" using res_hist_core by blast+
  have calm: "core (c # hs) (c # ws) rep (Some ((q, r) # h, f r))"
    if "calm (hd hs) c" "job_isolated c" "cl_config c = cl_config (hd hs)" "head_ok (c # hs) q r"
  proof (rule core_res)
    show "hist_inv (c # hs)" by (rule calm_hist_inv [OF parts(1) that(1,2) fin])
    show "window_inv (c # hs) (c # ws) rep"
      using window_inv_Cons [OF parts(2)] that(1,3) by (simp add: calm_def)
    show "res_hist (c # hs) ((q, r) # h)"
      using calm_res_hist [OF parts(1) that(1) parts(3)] that(4) by simp
  qed
  have stay: ?thesis if "c = hd hs" "\<not> status_write q" "head_ok (c # hs) q r"
    using calm that hist_invD(3) [OF parts(1)] by simp
  show ?thesis
  proof (cases "writes q")
    case False
    have "calm (hd hs) c \<and> same_jobs (hd hs) c \<and> cl_config c = cl_config (hd hs)"
      using accepted_effect [OF acc(1)] plain_calm [OF _ False] by auto
    then show ?thesis
      using calm calm_job_isolated [OF _ _ hist_invD(3) [OF parts(1)]] plain_head [OF acc(2) False] by blast
  next
    case wr: True
    show ?thesis
    proof (cases "status_write q")
      case True
      have "hist_inv (c # hs) \<and> window_inv (c # hs) (c # ws) rep"
      proof (cases "c = hd hs")
        case True
        have "job_isolated c" "calm (hd hs) c" using hist_invD(3) [OF parts(1)] True by simp_all
        then show ?thesis
          using calm_hist_inv [OF parts(1) _ _ fin] window_inv_Cons [OF parts(2)] True by simp
      next
        case False
        with accepted_effect [OF acc(1)] have "effect q (hd hs) c" by blast
        from res_status_core [OF True guard parts inv(2) this] show ?thesis .
      qed
      from status_core [OF this True] show ?thesis .
    next
      case st: False
      have eff: ?thesis if "effect q (hd hs) c"
        using guard wr parts(1,3) inv(2)
      proof (rule res_guard_now)
        fix x src assume "x \<in> cl_restore ` set hs" "restore_guard x src h q" "same_source src (cl_replica (hd hs))"
        with write_calm [OF that _ wr st parts(1) _ parts(3) inv(2), of x src r] calm show ?thesis by blast
      qed (use st in auto)
      from acc(1) consider "effect q (hd hs) c" | "c = hd hs" "transient r"
        | k d ow where "c = hd hs" "q = CreateOrUpdateConfigMap k d ow"
        by (auto simp: accepted_def served_def)
      then show ?thesis
      proof cases
        case 2
        have "head_ok (c # hs) q r"
          by (rule write_head [OF acc(2)]) (simp_all only: transient_silent [OF 2(2)] simp_thms)
        with stay 2 st show ?thesis by blast
      next
        case 3
        have "head_ok (c # hs) q r" by (rule write_head [OF acc(2)]) (simp_all add: 3)
        with stay 3 st show ?thesis by blast
      qed (rule eff)
    qed
  qed
qed

section \<open>The system keeps the invariant\<close>

lemma effect_names:
  assumes "effect q c c'"
  shows "same_source (cl_replica c') (cl_replica c)" "restore_key (cl_restore c') = restore_key (cl_restore c)"
    "static c' = static c"
proof -
  show same: "same_source (cl_replica c') (cl_replica c)" using assms by (cases q) auto
  then have "db_Name (cl_replica c') = db_Name (cl_replica c)" by (simp add: same_source_def replica_key_def)
  with same effect_restore [OF assms] show "restore_key (cl_restore c') = restore_key (cl_restore c)"
    "static c' = static c"
    by (auto simp: restore_key_def static_def same_source_def source_key_def)
qed

lemma keep_ok:
  assumes "keeps c c'"
  shows "static c' = static c" "rep_ok c' rep = rep_ok c rep" "res_ok c' res = res_ok c res"
  using keeps_static [OF assms] keeps_names(2,3) [OF assms] by (simp_all add: rep_ok_def res_ok_def)

lemma accepted_ok:
  assumes "accepted c q r c'"
  shows "static c' = static c" "rep_ok c' rep = rep_ok c rep" "res_ok c' res = res_ok c res"
proof -
  have "static c' = static c \<and> replica_key (cl_replica c') = replica_key (cl_replica c)
      \<and> restore_key (cl_restore c') = restore_key (cl_restore c)"
    using accepted_effect [OF assms] effect_names [of q c c'] same_source_reads(5) by blast
  then show "static c' = static c" "rep_ok c' rep = rep_ok c rep" "res_ok c' res = res_ok c res"
    by (simp_all add: rep_ok_def res_ok_def)
qed

lemma res_ok_call: "res_ok c (Some (h, Call q f)) \<Longrightarrow> res_ok c (Some ((q, r) # h, f r))"
  by (auto simp: res_ok_def status_done_def split: if_splits)
    (metis single_status.simps(1))+

lemma single_restore: "single_status (restore_Reconcile k req)"
  unfolding restore_Reconcile_def by (auto simp: single_dispatch single_failRestore split: sum.splits)

lemma goodI:
  assumes "static (hd hs)" "rep_ok (hd hs) rep" "res_ok (hd hs) res" "\<not> finished (hd hs) \<Longrightarrow> core hs ws rep res"
  shows "good hs ws rep res"
  using assms by (auto simp: good_def)

lemma goodD:
  assumes "good hs ws rep res"
  shows "static (hd hs)" "rep_ok (hd hs) rep" "res_ok (hd hs) res" "\<not> finished (hd hs) \<Longrightarrow> core hs ws rep res"
  using assms by (simp_all add: good_def)

lemma good_initial:
  assumes "initial s"
  shows "good (sy_hist s) (sy_window s) (sy_rep s) (sy_res s)"
proof -
  let ?c = "sy_cluster s" and ?hs = "sy_hist s"
  have idle: "sy_rep s = None" "sy_res s = None" "sy_window s = ?hs" and hs: "?hs \<noteq> []" "sorted_wrt pause_kept ?hs"
    and fresh: "d \<in> set ?hs \<Longrightarrow> untouched ?c d" and static: "static ?c" for d
    using assms by (simp_all add: initial_def Let_def static_def)
  have first: "?c \<in> set ?hs" using hs(1) by simp
  have kept: "pause_kept ?c d" if "d \<in> set ?hs" for d
    using hs that by (cases ?hs) (auto simp: pause_kept_def)
  have name: "job_of d = job_of ?c" if "d \<in> set ?hs" for d
    using fresh [OF that] by (simp add: untouched_def job_of_def)
  have none: "cl_jobs d (job_of ?c) = None" "cl_config d \<noteq> pausedConfig" if "d \<in> set ?hs" for d
    using fresh [OF that] by (simp_all add: untouched_def job_of_def)
  have "keeps d ?c \<and> claims d ?c \<and> \<not> finished d" if "d \<in> set ?hs" for d
    using fresh [OF that] kept [OF that] none [OF that]
    by (auto simp: untouched_def keeps_def claims_def finished_def name [OF that] pause_kept_def job_of_def restore_phases)
  then have "hist_inv ?hs" using hs none(1) [OF first] by (simp add: hist_inv_def job_isolated_def)
  moreover have "window_inv ?hs ?hs None" using hs none(2) [OF first] by (simp add: window_inv_def)
  ultimately show ?thesis
    using static by (simp add: good_def rep_ok_def res_ok_def core_def idle)
qed

lemma good_start:
  assumes "good hs ws rep res"
  shows "good hs ws (Some ([], replica_Reconcile M (replica_key (cl_replica (hd hs))))) res"
    "good hs ws None res"
    "good hs ws rep (Some ([], restore_Reconcile k (restore_key (cl_restore (hd hs)))))"
    "good hs ws rep None"
  using assms
  by (auto simp: good_def rep_ok_def res_ok_def core_def window_inv_def wp_replica_guard wp_restore_guard
      single_restore status_done_def res_hist_def)

lemma good_env:
  assumes good: "good hs ws rep res" and calm: "calm (hd hs) c" "same_jobs (hd hs) c" "cl_config c = cl_config (hd hs)"
    and fin: "finished (hd hs) \<Longrightarrow> finished c"
  shows "good (c # hs) (c # ws) rep res"
proof -
  have keep: "keeps (hd hs) c" using calm(1) by (simp add: calm_def)
  have "core (c # hs) (c # ws) rep res" if "\<not> finished c"
    using calm_core [OF _ calm(1,2) that] goodD(4) [OF good] fin that calm(3) by auto
  with goodD(1-3) [OF good] show ?thesis
    by (intro goodI) (simp_all add: keep_ok [OF keep])
qed

lemma good_rep_call:
  assumes good: "good hs ws (Some (h, Call q f)) res" and acc: "\<not> cached q" "accepted (hd hs) q r c"
  shows "good (c # hs) (c # ws) (Some ((q, r) # h, f r)) res"
proof -
  have "core (c # hs) (c # ws) (Some ((q, r) # h, f r)) res" if "\<not> finished c"
    using rep_call_core [OF goodD(2) [OF good] acc(2,1) goodD(4) [OF good] that]
      accepted_finished [OF acc(2)] that by blast
  with goodD(1-3) [OF good] show ?thesis
    by (intro goodI) (simp_all add: accepted_ok [OF acc(2)] rep_ok_call)
qed

lemma good_rep_replica:
  assumes good: "good hs ws (Some (h, Call q f)) res" and read: "reads_replica q" "ws = ys @ d # zs" "answers d q r d"
  shows "good hs (ys @ [d]) (Some ((q, r) # h, f r)) res"
proof (rule goodI)
  show "core hs (ys @ [d]) (Some ((q, r) # h, f r)) res" if "\<not> finished (hd hs)"
    using goodD(4) [OF good that] rep_read_window [OF _ _ read(2,3,1)]
    by (intro core_rep [OF goodD(4) [OF good that]]) (auto simp: core_def)
qed (use goodD(1-3) [OF good] in \<open>simp_all add: rep_ok_call\<close>)

lemma good_rep_read:
  assumes good: "good hs ws (Some (h, Call q f)) res" and "\<not> reads_replica q \<or> transient r"
  shows "good hs ws (Some ((q, r) # h, f r)) res"
proof (rule goodI)
  show "core hs ws (Some ((q, r) # h, f r)) res" if "\<not> finished (hd hs)"
  proof (rule core_rep [OF goodD(4) [OF good that]])
    show "window_inv hs ws (Some ((q, r) # h, f r))"
      by (rule window_inv_proc [of hs ws h "Call q f"])
        (use goodD(4) [OF good that] assms(2) in \<open>auto simp: core_def transient_def\<close>)
  qed
qed (use goodD(1-3) [OF good] in \<open>simp_all add: rep_ok_call\<close>)

lemma good_res_call:
  assumes good: "good hs ws rep (Some (h, Call q f))" and acc: "\<not> cached q" "accepted (hd hs) q r c"
  shows "good (c # hs) (c # ws) rep (Some ((q, r) # h, f r))"
proof -
  have "core (c # hs) (c # ws) rep (Some ((q, r) # h, f r))" if "\<not> finished c"
    using res_call_core [OF goodD(3) [OF good] acc(2,1) goodD(4,1) [OF good] that]
      accepted_finished [OF acc(2)] that by blast
  with goodD(1-3) [OF good] show ?thesis
    by (intro goodI) (simp_all add: accepted_ok [OF acc(2)] res_ok_call)
qed

lemma good_res_read:
  assumes good: "good hs ws rep (Some (h, Call q f))" and "hist_inv hs \<Longrightarrow> head_ok hs q r"
  shows "good hs ws rep (Some ((q, r) # h, f r))"
proof (rule goodI)
  show "core hs ws rep (Some ((q, r) # h, f r))" if "\<not> finished (hd hs)"
    using goodD(4) [OF good that] assms(2) by (auto simp: core_def status_done_def)
qed (use goodD(1-3) [OF good] in \<open>simp_all add: res_ok_call\<close>)

lemma advance_simps [simp]:
  "sy_hist (advance c s) = c # sy_hist s" "sy_window (advance c s) = c # sy_window s"
  "sy_notes (advance c s) = sy_notes s" "sy_rep (advance c s) = sy_rep s" "sy_res (advance c s) = sy_res s"
  by (simp_all add: advance_def)

lemma pods_calm:
  assumes "wv_Replicas w = wv_Replicas (cl_workload c)"
  shows "calm c (c\<lparr>cl_workload := w\<rparr>)" "same_jobs c (c\<lparr>cl_workload := w\<rparr>)"
    "finished c \<Longrightarrow> finished (c\<lparr>cl_workload := w\<rparr>)"
  using assms by (auto simp: calm_defs finished_def)

lemma sys_inv_step:
  assumes "sys_step M k s s'" "sys_inv s"
  shows "sys_inv s'"
  using assms
proof (induction rule: sys_step.induct)
  case (rep_call s h q f r c)
  then show ?case using good_rep_call [of "sy_hist s"] by (simp add: sys_inv_def)
next
  case (rep_replica s h q f ys d zs r)
  then show ?case using good_rep_replica [OF _ rep_replica(2,3,4)] by (simp add: sys_inv_def)
next
  case (res_call s h q f r c)
  then show ?case using good_res_call [of "sy_hist s"] by (simp add: sys_inv_def)
next
  case (res_cached s h q f d r)
  then show ?case using good_res_read [of "sy_hist s"] cached_head [OF _ res_cached(3,4,2)] by (simp add: sys_inv_def)
next
  case (res_error s h q f r)
  then show ?case using good_res_read [of "sy_hist s"] error_head [OF res_error(2,3)] by (simp add: sys_inv_def)
next
  case (env s c)
  then show ?case
    using good_env [of "sy_hist s"] env_calm [OF env(1)] env_finished [OF env(1)] by (simp add: sys_inv_def)
next
  case (pods w s)
  then show ?case using good_env [of "sy_hist s"] pods_calm [OF pods(1)] by (simp add: sys_inv_def)
qed (auto simp: sys_inv_def intro: good_start good_rep_read)

lemma reach_sys_inv: "sys_reach M k s \<Longrightarrow> sys_inv s"
proof (induction rule: sys_reach.induct)
  case (reach_start s)
  then show ?case by (simp add: sys_inv_def good_initial)
qed (rule sys_inv_step)

end
