(* ===== verification/Cluster_Runs.thy ===== *)
theory Cluster_Runs
  imports Isolation
begin

text \<open>
  Error-free runs of a reconciler on a cluster: the calls are answered by \<open>clean\<close>, which is
  \<open>answers\<close> and \<open>effect\<close> of \<open>Cluster\<close> without transient errors. \<open>run_to\<close> relates the clusters
  before and after, \<open>ends\<close> is its weakest precondition. Every reconciler has such a run from every
  cluster, and a run of the replica controller brings the ConfigMap in line with the pause.
\<close>

section \<open>Runs without errors\<close>

text \<open>What the calls answer that the relation \<open>answers\<close> leaves open.\<close>

fun well_typed :: "api_req \<Rightarrow> api_resp \<Rightarrow> bool" where
  "well_typed (CreateOrUpdateConfigMap k d ow) r = (as_error r = None)"
| "well_typed (SetControllerReference x job) r = (as_error r = None)"
| "well_typed (PatchRestoreStatus b n) r = (as_error r = None)"
| "well_typed (PatchDeployment b n) r = (\<exists>d. r = RDeployment d)"
| "well_typed (PatchStatefulSet b n) r = (\<exists>d. r = RStatefulSet d)"
| "well_typed q r = True"

definition clean :: "cluster \<Rightarrow> api_req \<Rightarrow> api_resp \<Rightarrow> cluster \<Rightarrow> bool" where
  "clean c q r c' = (answers c q r c' \<and> effect q c c' \<and> well_typed q r)"

text \<open>The clusters in which an error-free execution can end.\<close>

primrec run_to :: "'a prog \<Rightarrow> cluster \<Rightarrow> cluster \<Rightarrow> bool" where
  "run_to (Ret a) c c' = (c' = c)"
| "run_to Panic c c' = (c' = c)"
| "run_to (Call q k) c c' = (\<exists>r d. clean c q r d \<and> run_to (k r) d c')"

primrec ends :: "'a prog \<Rightarrow> cluster \<Rightarrow> (cluster \<Rightarrow> bool) \<Rightarrow> bool" where
  "ends (Ret a) c P = P c"
| "ends Panic c P = P c"
| "ends (Call q k) c P = (\<forall>r d. clean c q r d \<longrightarrow> ends (k r) d P)"

lemma ends_run_to: "ends p c P \<longleftrightarrow> (\<forall>c'. run_to p c c' \<longrightarrow> P c')"
proof (induction p arbitrary: c)
  case (Call q k)
  have "ends (k r) d P \<longleftrightarrow> (\<forall>c'. run_to (k r) d c' \<longrightarrow> P c')" for r d
    by (rule Call) simp
  then show ?case by (simp only: ends.simps run_to.simps) blast
qed simp_all

lemma clean_served: "clean c q r c' \<Longrightarrow> served c q r c'"
  by (simp add: clean_def served_def)

text \<open>The workload has the kind that the replica targets.\<close>

definition kind_ok :: "cluster \<Rightarrow> bool" where
  "kind_ok c = (wv_Kind (cl_workload c) =
     (if rp_TargetStatefulSet (db_Spec (cl_replica c)) \<noteq> [] then ''StatefulSet'' else ''Deployment''))"

lemma view_onto:
  "wv_Kind v = ''Deployment'' \<Longrightarrow> \<exists>d. view_deployment d = v"
  "wv_Kind v = ''StatefulSet'' \<Longrightarrow> \<exists>s. view_statefulSet s = v"
proof -
  show "\<exists>d. view_deployment d = v" if "wv_Kind v = ''Deployment''"
    by (rule exI [of _ "\<lparr>dep_Meta = wv_Meta v, dep_Replicas = wv_Replicas v, dep_Selector = wv_Selector v,
       dep_Template = wv_Template v, dep_StatusReplicas = wv_Running v, dep_ReadyReplicas = wv_Ready v\<rparr>"])
      (simp add: view_deployment_def that [symmetric])
  show "\<exists>s. view_statefulSet s = v" if "wv_Kind v = ''StatefulSet''"
    by (rule exI [of _ "\<lparr>ss_Meta = wv_Meta v, ss_Replicas = wv_Replicas v, ss_Selector = wv_Selector v,
       ss_Template = wv_Template v, ss_StatusReplicas = wv_Running v, ss_ReadyReplicas = wv_Ready v\<rparr>"])
      (simp add: view_statefulSet_def that [symmetric])
qed

lemma query_answer:
  assumes "kind_ok c"
  shows "\<exists>r wt. workload_resp (target_query (cl_replica c)) r = Inr wt \<and> wt_view wt = cl_workload c"
proof (cases "rp_TargetStatefulSet (db_Spec (cl_replica c)) = []")
  case True
  with assms view_onto(1) obtain d where d: "view_deployment d = cl_workload c" by (auto simp: kind_ok_def)
  with True show ?thesis
    by (intro exI [of _ "RDeployment d"] exI [of _ "of_deployment d"])
      (simp add: target_query_def wt_view_def of_deployment_def)
next
  case False
  with assms view_onto(2) obtain s where s: "view_statefulSet s = cl_workload c" by (auto simp: kind_ok_def)
  with False show ?thesis
    by (intro exI [of _ "RStatefulSet s"] exI [of _ "of_statefulSet s"])
      (simp add: target_query_def wt_view_def of_statefulSet_def)
qed

lemma merged_total: "\<exists>an. merged b n old an"
  by (rule exI [of _ "Some (\<lambda>k. Some (if map_get n k = map_get b k then map_get old k else map_get n k))"])
    (simp add: merged_def map_get_def)

lemma workload_effectI:
  assumes "workload_patch q = Some (v, v')" "wv_Kind w = wv_Kind (cl_workload c)"
    "wv_Running w = wv_Running (cl_workload c)"
    "wv_Replicas w = (if wv_Replicas v' = wv_Replicas v then wv_Replicas (cl_workload c) else wv_Replicas v')"
  shows "effect q c (c\<lparr>cl_workload := w\<rparr>)"
  using assms by (cases q) (auto split del: if_split)

lemma effect_total: "\<exists>c'. effect q c c'"
proof (cases "workload_patch q")
  case None
  then show ?thesis using merged_total by (cases q) fastforce+
next
  case (Some vv)
  obtain v v' where v: "vv = (v, v')" by fastforce
  show ?thesis
    by (rule exI, rule workload_effectI [of _ _ _ "(cl_workload c)\<lparr>wv_Replicas :=
          if wv_Replicas v' = wv_Replicas v then wv_Replicas (cl_workload c) else wv_Replicas v'\<rparr>"])
      (simp_all add: Some v)
qed

text \<open>Every call can be answered without an error.\<close>

fun reply :: "cluster \<Rightarrow> api_req \<Rightarrow> cluster \<Rightarrow> api_resp" where
  "reply c (GetReplica k) c' = RReplica (cl_replica c)"
| "reply c (GetRestore k) c' = RRestore (cl_restore c)"
| "reply c (GetConfigMap k) c' =
     RConfigMap \<lparr>cm_Meta = zero_ObjectMeta, cm_Data = Some [litestreamConfigKey \<mapsto> cl_config c]\<rparr>"
| "reply c (GetJob k) c' =
     (case cl_jobs c (nn_Name k) of
        None \<Rightarrow> RErr \<lparr>err_Reason = NotFound, err_Text = []\<rparr>
      | Some cs \<Rightarrow> RJob \<lparr>job_Meta = zero_ObjectMeta, job_BackoffLimit = None,
          job_Template = wv_Template (cl_workload c), job_Conditions = cs\<rparr>)"
| "reply c (CreateJob job) c' =
     (case cl_jobs c (om_Name (job_Meta job)) of
        None \<Rightarrow> ROk
      | Some cs \<Rightarrow> RErr \<lparr>err_Reason = AlreadyExists, err_Text = []\<rparr>)"
| "reply c (PatchReplica b n) c' = RReplica (cl_replica c')"
| "reply c (PatchReplicaStatus b n) c' = RReplica (cl_replica c')"
| "reply c (PatchDeployment b n) c' = RDeployment n"
| "reply c (PatchStatefulSet b n) c' = RStatefulSet n"
| "reply c q c' = ROk"

lemma reply_ok:
  assumes "q \<noteq> target_query (cl_replica c)"
  shows "answers c q (reply c q c') c' \<and> well_typed q (reply c q c')"
  using assms
  by (cases q) (auto simp: map_get_def errors_IsNotFound_def errors_IsAlreadyExists_def split: option.splits)

lemma query_well_typed [simp]: "well_typed (target_query db) r"
  by (simp add: target_query_def)

lemma query_effect [simp]: "effect (target_query db) c c' \<longleftrightarrow> c' = c"
  by (simp add: target_query_def)

lemma clean_total:
  assumes "kind_ok c"
  shows "\<exists>r c'. clean c q r c'"
proof -
  obtain c' where eff: "effect q c c'" using effect_total by blast
  have "\<exists>r. answers c q r c' \<and> well_typed q r"
    using reply_ok [of q c c'] query_answer [OF assms] by (cases "q = target_query (cl_replica c)") auto
  with eff show ?thesis by (auto simp: clean_def)
qed

lemma effect_kind:
  assumes "effect q c c'"
  shows "kind_ok c' = kind_ok c"
  using assms by (cases q) (auto simp: kind_ok_def with_annotations_def)

lemma run_to_total: "kind_ok c \<Longrightarrow> \<exists>c'. run_to p c c'"
proof (induction p arbitrary: c)
  case (Call q k)
  obtain r d where "clean c q r d" using clean_total [OF Call(2)] by blast
  moreover from this have "kind_ok d" using Call(2) effect_kind by (auto simp: clean_def)
  ultimately show ?case using Call(1) by fastforce
qed auto

section \<open>One reconciliation of the replica\<close>

text \<open>What the replica controller changes of a cluster: the configuration, and nothing else that a restore reads.\<close>

definition replica_synced :: "cluster \<Rightarrow> cluster \<Rightarrow> bool" where
  "replica_synced c c' =
     (same_source (cl_replica c') (cl_replica c) \<and> kind_ok c' = kind_ok c
      \<and> is_paused (cl_replica c') = is_paused (cl_replica c)
      \<and> cl_restore c' = cl_restore c \<and> cl_jobs c' = cl_jobs c
      \<and> wv_Replicas (cl_workload c') = wv_Replicas (cl_workload c)
      \<and> wv_Running (cl_workload c') = wv_Running (cl_workload c))"

lemma replica_synced_trans: "replica_synced a b \<Longrightarrow> replica_synced b c \<Longrightarrow> replica_synced a c"
  by (simp add: replica_synced_def same_source_def)

lemma rep_other_synced:
  assumes "effect q c c'" "rep_other q"
  shows "replica_synced c c' \<and> cl_config c' = cl_config c"
proof (cases q)
  case (PatchReplica b n)
  with assms effect_kind [OF assms(1)] show ?thesis
    by (auto simp: replica_synced_def is_paused_value pause_value_merged)
next
  case (CreateOrUpdateConfigMap k d ow)
  with assms init_sql_not_config show ?thesis
    by (auto simp: litestream_cm_def replica_synced_def)
qed (use assms effect_kind [OF assms(1)] in \<open>auto simp: replica_synced_def\<close>)

lemma rep_other_run:
  assumes "all_calls rep_other p" "run_to p c c'"
  shows "replica_synced c c' \<and> cl_config c' = cl_config c"
  using assms
proof (induction p arbitrary: c)
  case (Call q k)
  then obtain r d where "effect q c d" "run_to (k r) d c'" by (auto simp: clean_def)
  with Call(1) [of "k r" d] Call(2) rep_other_synced [of q c d] replica_synced_trans show ?case
    by fastforce
qed (auto simp: replica_synced_def)

lemma replica_run:
  assumes "run_to (replica_Reconcile M (replica_key (cl_replica c))) c c'"
  shows "replica_synced c c' \<and> (cl_config c' = pausedConfig \<longleftrightarrow> is_paused (cl_replica c))"
proof -
  let ?db = "cl_replica c"
  let ?d = "c\<lparr>cl_config := if is_paused ?db then pausedConfig else buildLitestreamConfigYAML ?db\<rparr>"
  from assms have "replica_synced ?d c' \<and> cl_config c' = cl_config ?d"
    unfolding replica_Reconcile_def reconcileLitestreamConfig_def
    by (auto simp: clean_def Let_def map_get_Some litestream_cm_def is_paused_def buildLitestreamConfig_def
        dest!: rep_other_run [OF rep_other_tail])
  moreover have "replica_synced c ?d" by (simp add: replica_synced_def kind_ok_def)
  ultimately show ?thesis
    using replica_synced_trans build_not_paused_text [of ?db] by (auto split: if_splits)
qed

end
