(* ===== verification/Restore_Progress.thy ===== *)
theory Restore_Progress
  imports Cluster_Runs
begin

text \<open>
  The progress of a restore. \<open>restore_step\<close> and \<open>replica_step\<close> are an abstract machine on what a
  restore depends on, and the reconcilers refine it when the API server answers without errors. In
  rounds of both controllers, with pods that follow the workload and Jobs that finish, a restore
  ends: Complete or Failed, with replication resumed and the workload at its former size. The same
  runs show that the states of the safety theorem \<open>restore_isolation\<close> occur.
\<close>

section \<open>The abstract machine\<close>

text \<open>What a restore depends on: the phase, the pause, the workload and the two Jobs.\<close>

record progress =
  pg_phase :: string
  pg_paused :: bool
  pg_config_paused :: bool
  pg_replicas :: "int option"
  pg_running :: int
  pg_original :: "int option"
  pg_restore_job :: "job_verdict option"
  pg_validate_job :: "job_verdict option"

definition progress_of :: "cluster \<Rightarrow> progress" where
  "progress_of c = \<lparr>pg_phase = cl_phase c, pg_paused = is_paused (cl_replica c),
     pg_config_paused = (cl_config c = pausedConfig), pg_replicas = wv_Replicas (cl_workload c),
     pg_running = wv_Running (cl_workload c), pg_original = original_replicas (cl_restore c),
     pg_restore_job = map_option job_result (cl_jobs c (job_of c)),
     pg_validate_job = map_option job_result (cl_jobs c (res_Name (cl_restore c) @ ''-validate''))\<rparr>"

definition pg_desired :: "progress \<Rightarrow> int" where
  "pg_desired p = (case pg_replicas p of Some n \<Rightarrow> n | None \<Rightarrow> 1)"

definition pg_target :: "progress \<Rightarrow> int" where
  "pg_target p = (case pg_original p of Some n \<Rightarrow> n | None \<Rightarrow> 1)"

definition cleanup_step :: "progress \<Rightarrow> progress" where
  "cleanup_step p = p\<lparr>pg_phase := RestorePhaseFailed, pg_paused := False,
     pg_replicas := (if pg_running p = 0 \<and> pg_target p > 0 then Some (pg_target p) else pg_replicas p)\<rparr>"

definition restore_step :: "progress \<Rightarrow> progress" where
  "restore_step p =
     (let ph = pg_phase p in
      if ph \<in> {[], RestorePhasePending} then
        p\<lparr>pg_phase := RestorePhasePausing, pg_paused := True,
          pg_original := (if pg_original p = None then Some (pg_desired p) else pg_original p)\<rparr>
      else if ph = RestorePhasePausing then
        (if \<not> pg_paused p then p\<lparr>pg_paused := True\<rparr>
         else if \<not> pg_config_paused p then p
         else p\<lparr>pg_phase := RestorePhaseScalingDown, pg_replicas := Some 0\<rparr>)
      else if ph = RestorePhaseScalingDown then
        (if pg_running p > 0 then p
         else p\<lparr>pg_phase := RestorePhaseRunning,
                pg_restore_job := (if pg_restore_job p = None then Some JobRunning else pg_restore_job p)\<rparr>)
      else if ph = RestorePhaseRunning then
        (case pg_restore_job p of
           None \<Rightarrow> cleanup_step p
         | Some JobRunning \<Rightarrow> p
         | Some JobComplete \<Rightarrow> p\<lparr>pg_phase := RestorePhaseValidating\<rparr>
         | Some (JobFailed _) \<Rightarrow> cleanup_step p)
      else if ph = RestorePhaseValidating then
        (case pg_validate_job p of
           None \<Rightarrow> p\<lparr>pg_validate_job := Some JobRunning\<rparr>
         | Some JobRunning \<Rightarrow> p
         | Some JobComplete \<Rightarrow> p\<lparr>pg_phase := RestorePhaseScalingUp\<rparr>
         | Some (JobFailed _) \<Rightarrow> cleanup_step p)
      else if ph = RestorePhaseScalingUp then
        (if pg_config_paused p then p\<lparr>pg_paused := False\<rparr>
         else p\<lparr>pg_phase := RestorePhaseComplete, pg_paused := False,
                pg_replicas := (if pg_target p > 0 then Some (pg_target p) else pg_replicas p)\<rparr>)
      else p)"

definition replica_step :: "progress \<Rightarrow> progress" where
  "replica_step p = p\<lparr>pg_config_paused := pg_paused p\<rparr>"

section \<open>One reconciliation of the restore\<close>

text \<open>The cluster is one that the controllers keep: see \<open>static\<close>; the Job name is recorded.\<close>

definition live :: "cluster \<Rightarrow> bool" where
  "live c = (static c \<and> kind_ok c
     \<and> (cl_phase c = RestorePhaseRunning \<longrightarrow> job_name (cl_restore c) = job_of c))"

definition refines :: "cluster \<Rightarrow> (progress \<Rightarrow> progress) \<Rightarrow> cluster \<Rightarrow> bool" where
  "refines c f c' = (progress_of c' = f (progress_of c)
     \<and> (cl_phase c' = RestorePhaseRunning \<longrightarrow> job_name (cl_restore c') = job_of c'))"

lemma effect_other [simp]:
  "effect (Event ob et er em) c c' \<longleftrightarrow> c' = c" "effect Now c c' \<longleftrightarrow> c' = c"
  by simp_all

lemma ends_scaleWorkload:
  assumes wf: "wf_target wt" and view: "wt_view wt = cl_workload c"
    and same: "wv_Replicas (cl_workload c) = Some n \<Longrightarrow> ends (f (None, wt)) c P"
    and set: "\<And>wt' w. wf_target wt' \<Longrightarrow> wv_Replicas w = Some n \<Longrightarrow> wv_Running w = wv_Running (cl_workload c) \<Longrightarrow>
      ends (f (None, wt')) (c\<lparr>cl_workload := w\<rparr>) P"
  shows "ends (bind (scaleWorkload wt n) f) c P"
  using wf
proof (cases rule: wf_target_cases)
  case (dep d)
  with view have v: "cl_workload c = view_deployment d" by (simp add: wt_view_def of_deployment_def)
  then have rep: "dep_Replicas d = wv_Replicas (cl_workload c)" by (simp add: view_deployment_def)
  show ?thesis
  proof (cases "wv_Replicas (cl_workload c) = Some n")
    case True
    with same show ?thesis by (simp add: scaleWorkload_def dep of_deployment_def rep)
  next
    case False
    have "wf_target ((of_deployment d)\<lparr>wt_deployment := Some d'\<rparr>)" for d'
      by (simp add: wf_target_def of_deployment_def)
    with False set show ?thesis
      by (auto simp: scaleWorkload_def Let_def dep rep clean_def view_deployment_def of_deployment_def)
  qed
next
  case (ss d)
  with view have v: "cl_workload c = view_statefulSet d" by (simp add: wt_view_def of_statefulSet_def)
  then have rep: "ss_Replicas d = wv_Replicas (cl_workload c)" by (simp add: view_statefulSet_def)
  show ?thesis
  proof (cases "wv_Replicas (cl_workload c) = Some n")
    case True
    with same show ?thesis by (simp add: scaleWorkload_def ss of_statefulSet_def rep deref_def)
  next
    case False
    have "wf_target ((of_statefulSet d)\<lparr>wt_statefulSet := Some d'\<rparr>)" for d'
      by (simp add: wf_target_def of_statefulSet_def)
    with False set show ?thesis
      by (auto simp: scaleWorkload_def Let_def ss rep clean_def view_statefulSet_def of_statefulSet_def deref_def)
  qed
qed

lemma ends_target:
  assumes "target_query db = target_query (cl_replica c)"
    and "\<And>wt. wf_target wt \<Longrightarrow> wt_view wt = cl_workload c \<Longrightarrow> ends (f (Inr wt)) c P"
  shows "ends (bind (getTargetWorkloadForRestore db) f) c P"
  using assms workload_resp_wf
  by (fastforce simp: getTargetWorkloadForRestore_Call clean_def)

lemma pause_value_simps [simp]:
  "pause_value (with_annotations db (map_set an AnnotationPause v)) = v"
  "pause_value (with_annotations db (map_delete an AnnotationPause)) = []"
  by (simp_all add: pause_value_def with_annotations_def)

lemma inject_nonempty [simp]: "injectEnabled \<noteq> []" "[] \<noteq> injectEnabled"
  by (simp_all add: injectEnabled_def)

lemma ends_mono: "ends p c P \<Longrightarrow> (\<And>c'. P c' \<Longrightarrow> Q c') \<Longrightarrow> ends p c Q"
  by (simp add: ends_run_to)

lemmas run_simps = clean_def Let_def setStatus_def record_event_def now_def prog_simps wl_simps

lemma progress_simps [simp]:
  "pg_phase (progress_of c) = cl_phase c" "pg_paused (progress_of c) = is_paused (cl_replica c)"
  "pg_config_paused (progress_of c) = (cl_config c = pausedConfig)"
  "pg_replicas (progress_of c) = wv_Replicas (cl_workload c)"
  "pg_running (progress_of c) = wv_Running (cl_workload c)"
  "pg_original (progress_of c) = original_replicas (cl_restore c)"
  "pg_restore_job (progress_of c) = map_option job_result (cl_jobs c (job_of c))"
  "pg_validate_job (progress_of c) =
     map_option job_result (cl_jobs c (res_Name (cl_restore c) @ ''-validate''))"
  by (simp_all add: progress_of_def)

lemma refines_iff:
  "refines c f c' \<longleftrightarrow>
     cl_phase c' = pg_phase (f (progress_of c))
     \<and> is_paused (cl_replica c') = pg_paused (f (progress_of c))
     \<and> (cl_config c' = pausedConfig) = pg_config_paused (f (progress_of c))
     \<and> wv_Replicas (cl_workload c') = pg_replicas (f (progress_of c))
     \<and> wv_Running (cl_workload c') = pg_running (f (progress_of c))
     \<and> original_replicas (cl_restore c') = pg_original (f (progress_of c))
     \<and> map_option job_result (cl_jobs c' (job_of c')) = pg_restore_job (f (progress_of c))
     \<and> map_option job_result (cl_jobs c' (res_Name (cl_restore c') @ ''-validate'')) =
         pg_validate_job (f (progress_of c))
     \<and> (cl_phase c' = RestorePhaseRunning \<longrightarrow> job_name (cl_restore c') = job_of c')"
  unfolding refines_def by (cases "f (progress_of c)") (auto simp: progress_of_def)

lemma job_of_simps [simp]:
  "job_of (c\<lparr>cl_replica := db\<rparr>) = job_of c" "job_of (c\<lparr>cl_workload := w\<rparr>) = job_of c"
  "job_of (c\<lparr>cl_jobs := js\<rparr>) = job_of c"
  "res_Name x = res_Name (cl_restore c) \<Longrightarrow> job_of (c\<lparr>cl_restore := x\<rparr>) = job_of c"
  by (simp_all add: job_of_def)

lemma status_simps [simp]:
  "original_replicas (apply_status x ph j m o' s t) =
     (if original_replicas x = None then o' else original_replicas x)"
  "job_name (apply_status x ph j m o' s t) = (if j \<noteq> [] then j else job_name x)"
  "rst_Phase (res_Status (apply_status x ph j m o' s t)) = ph"
  by (auto simp: apply_status_def Let_def)

lemmas pause_defs = pauseReplication_def resumeReplication_def setSkipArchiveCheck_def

lemmas steps = run_simps refines_iff is_paused_value

lemma run_pending:
  assumes "cl_phase c \<in> {[], RestorePhasePending}"
  shows "ends (reconcilePending (cl_restore c) (cl_replica c)) c (refines c restore_step)"
proof -
  have step: "restore_step (progress_of c) = (progress_of c)\<lparr>pg_phase := RestorePhasePausing, pg_paused := True,
     pg_original := (if original_replicas (cl_restore c) = None then Some (view_desired (cl_workload c))
       else original_replicas (cl_restore c))\<rparr>"
    using assms by (simp add: restore_step_def Let_def pg_desired_def view_desired_def)
  show ?thesis
    unfolding reconcilePending_def pause_defs is_paused_def [symmetric]
    by (rule ends_target) (auto simp: steps step dest!: pause_value_merged)
qed

lemma run_pausing:
  assumes "cl_phase c = RestorePhasePausing"
  shows "ends (reconcilePausing (cl_restore c) (cl_replica c)) c (refines c restore_step)"
proof -
  let ?p = "progress_of c"
  have step: "restore_step ?p = (if \<not> is_paused (cl_replica c) then ?p\<lparr>pg_paused := True\<rparr>
       else if cl_config c \<noteq> pausedConfig then ?p
       else ?p\<lparr>pg_phase := RestorePhaseScalingDown, pg_replicas := Some 0\<rparr>)"
    using assms by (simp add: restore_step_def Let_def restore_phases)
  show ?thesis
    unfolding reconcilePausing_def pause_defs is_paused_def [symmetric]
    using assms
    by (auto simp: steps step litestream_cm_def
        dest!: pause_value_merged intro!: ends_target ends_scaleWorkload)
qed

lemma restore_job_new:
  "usable src \<Longrightarrow> \<exists>job. buildRestoreJob x src n = Some job \<and> om_Name (job_Meta job) = n \<and> job_Conditions job = []"
  by (auto simp: usable_def buildRestoreJob_def Let_def split: option.splits)

lemma run_scaling_down:
  assumes "cl_phase c = RestorePhaseScalingDown" "live c"
  shows "ends (reconcileScalingDown (cl_restore c) (cl_replica c)) c (refines c restore_step)"
proof -
  let ?p = "progress_of c"
  have step: "restore_step ?p = (if wv_Running (cl_workload c) > 0 then ?p
       else ?p\<lparr>pg_phase := RestorePhaseRunning, pg_restore_job := (if cl_jobs c (job_of c) = None
         then Some JobRunning else map_option job_result (cl_jobs c (job_of c)))\<rparr>)"
    using assms by (simp add: restore_step_def Let_def restore_phases)
  have "usable (cl_replica c)" using assms(2) by (simp add: live_def static_def)
  then obtain job where job: "buildRestoreJob (cl_restore c) (cl_replica c) (job_of c) = Some job"
    "om_Name (job_Meta job) = job_of c" "job_Conditions job = []"
    using restore_job_new by blast
  have names: "\<lparr>nn_Namespace = ns, nn_Name = res_Name (cl_restore c) @ ''-litestream''\<rparr> \<noteq> litestream_cm (cl_replica c)"
    "res_Name (cl_restore c) @ ''-validate'' \<noteq> job_of c" "job_of c \<noteq> []" for ns
    using assms(2) restore_config_other [of c] by (simp_all add: live_def job_of_def)
  show ?thesis
    unfolding reconcileScalingDown_def reconcileRestoreConfig_def
    using assms(1)
    by (rule_tac ends_target) (auto simp: steps step job names job_of_def [symmetric] split: option.splits)
qed

lemma same_source_names: "same_source a b \<Longrightarrow> db_Namespace a = db_Namespace b \<and> db_Name a = db_Name b"
  by (simp add: same_source_def replica_key_def)

text \<open>The two patches of the source, as steps of a run.\<close>

lemma ends_resume:
  assumes "replica_key db = replica_key (cl_replica c)" "is_paused db = is_paused (cl_replica c)"
    and "\<And>db'. same_source db' (cl_replica c) \<Longrightarrow> \<not> is_paused db' \<Longrightarrow> ends (f None) (c\<lparr>cl_replica := db'\<rparr>) P"
  shows "ends (bind (resumeReplication db) f) c P"
proof (cases "is_paused db")
  case True
  have "ends (f None) (c\<lparr>cl_replica := with_annotations (cl_replica c) an\<rparr>) P"
    if "merged (db_Annotations (cl_replica c)) (db_Annotations (with_annotations (cl_replica c)
      (map_delete (db_Annotations (cl_replica c)) AnnotationPause))) (db_Annotations (cl_replica c)) an" for an
    using pause_value_merged [OF that] True assms(2)
    by (intro assms(3)) (simp_all add: is_paused_value)
  with True assms(1) show ?thesis
    by (auto simp: resumeReplication_def is_paused_def [symmetric] clean_def replica_key_def)
next
  case False
  then show ?thesis
    using assms(2) assms(3) [of "cl_replica c"] by (simp add: resumeReplication_def is_paused_def [symmetric])
qed

lemma ends_setSkip:
  assumes "replica_key db = replica_key (cl_replica c)"
    and "\<And>db'. same_source db' (cl_replica c) \<Longrightarrow> is_paused db' = is_paused (cl_replica c) \<Longrightarrow>
      ends (f None) (c\<lparr>cl_replica := db'\<rparr>) P"
  shows "ends (bind (setSkipArchiveCheck db True) f) c P"
proof -
  have "ends (f None) (c\<lparr>cl_replica := with_annotations (cl_replica c) an\<rparr>) P"
    if "merged (db_Annotations (cl_replica c)) (db_Annotations (with_annotations (cl_replica c)
      (map_set (Some (map_make (db_Annotations (cl_replica c)))) AnnotationSkipArchiveCheck injectEnabled)))
      (db_Annotations (cl_replica c)) an" for an
  proof -
    have "map_get (Some (map_make m)) k = map_get m k" for m k
      by (simp add: map_get_def map_make_def split: option.splits)
    then have "pause_value (with_annotations (cl_replica c) an) = pause_value (cl_replica c)"
      using pause_value_merged [OF that]
      by (simp add: pause_value_def with_annotations_def AnnotationPause_def AnnotationSkipArchiveCheck_def)
    then show ?thesis by (intro assms(2)) (simp_all add: is_paused_value)
  qed
  with assms(1) assms(2) [of "cl_replica c"] show ?thesis
    by (auto simp: setSkipArchiveCheck_def clean_def replica_key_def Let_def)
qed

lemma run_cleanup:
  "ends (bind (failRestoreWithCleanup (cl_restore c) (cl_replica c) msg) (\<lambda>err. Ret (0 :: int, err))) c
     (refines c cleanup_step)"
proof -
  have fin: "ends (bind (resumeReplication (cl_replica c)) (\<lambda>_.
     bind (record_event (RestoreObj (cl_restore c)) ''Warning'' ''RestoreFailed'' msg) (\<lambda>_.
     bind now (\<lambda>t.
     bind (setStatus (cl_restore c) RestorePhaseFailed (job_name (cl_restore c)) msg
       (original_replicas (cl_restore c)) (start_time (cl_restore c)) (Some t)) (\<lambda>err. Ret (0::int, err))))))
     (c\<lparr>cl_workload := w\<rparr>) (refines c cleanup_step)"
    if "wv_Replicas w = pg_replicas (cleanup_step (progress_of c))" "wv_Running w = wv_Running (cl_workload c)" for w
    using that
    by (intro ends_resume) (auto simp: steps cleanup_step_def restore_phases split del: if_split)
  from fin [of "cl_workload c"] show ?thesis
    unfolding failRestoreWithCleanup_def bind_assoc
    by (intro ends_target) (auto simp: wl_simps bind_assoc cleanup_step_def pg_target_def restore_target_def
      intro!: ends_scaleWorkload fin)
qed

lemma run_running:
  assumes "cl_phase c = RestorePhaseRunning" "live c"
  shows "ends (reconcileRunning k (cl_restore c) (cl_replica c)) c (refines c restore_step)"
proof -
  let ?p = "progress_of c"
  have step: "restore_step ?p = (case map_option job_result (cl_jobs c (job_of c)) of
           None \<Rightarrow> cleanup_step ?p
         | Some JobRunning \<Rightarrow> ?p
         | Some JobComplete \<Rightarrow> ?p\<lparr>pg_phase := RestorePhaseValidating\<rparr>
         | Some (JobFailed _) \<Rightarrow> cleanup_step ?p)"
    using assms by (simp add: restore_step_def Let_def restore_phases)
  have clean: "ends (bind (failRestoreWithCleanup (cl_restore c) (cl_replica c) msg) (\<lambda>err. Ret (0 :: int, err))) c
     (refines c restore_step)" if "restore_step ?p = cleanup_step ?p" for msg
    by (rule ends_mono [OF run_cleanup]) (simp add: refines_def that)
  have "job_name (cl_restore c) = job_of c" using assms by (simp add: live_def)
  then show ?thesis
    unfolding reconcileRunning_def restoreJobPodLogs_def
    using assms(1)
    by (auto simp: run_simps step intro!: clean split: option.splits job_verdict.splits sum.splits list.splits)
      (auto simp: refines_iff step)
qed

lemma run_validating:
  assumes "cl_phase c = RestorePhaseValidating"
  shows "ends (reconcileValidating (cl_restore c) (cl_replica c)) c (refines c restore_step)"
proof -
  let ?p = "progress_of c"
  have step: "restore_step ?p = (case map_option job_result (cl_jobs c (res_Name (cl_restore c) @ ''-validate'')) of
           None \<Rightarrow> ?p\<lparr>pg_validate_job := Some JobRunning\<rparr>
         | Some JobRunning \<Rightarrow> ?p
         | Some JobComplete \<Rightarrow> ?p\<lparr>pg_phase := RestorePhaseScalingUp\<rparr>
         | Some (JobFailed _) \<Rightarrow> cleanup_step ?p)"
    using assms by (simp add: restore_step_def Let_def restore_phases)
  have clean: "ends (bind (failRestoreWithCleanup (cl_restore c) (cl_replica c) msg) (\<lambda>err. Ret (0 :: int, err))) c
     (refines c restore_step)" if "restore_step ?p = cleanup_step ?p" for msg
    by (rule ends_mono [OF run_cleanup]) (simp add: refines_def that)
  have job: "om_Name (job_Meta (buildValidationJob x src n)) = n" "job_Conditions (buildValidationJob x src n) = []"
    for x src n by (simp_all add: buildValidationJob_def Let_def)
  have names: "res_Name (cl_restore c) @ ''-validate'' \<noteq> job_of c" by (simp add: job_of_def)
  show ?thesis
    unfolding reconcileValidating_def
    using assms names
    by (auto simp: run_simps step job intro!: clean split: option.splits job_verdict.splits sum.splits list.splits)
      (auto simp: refines_iff step job)
qed

lemma run_scaling_up:
  assumes "cl_phase c = RestorePhaseScalingUp"
  shows "ends (reconcileScalingUp (cl_restore c) (cl_replica c)) c (refines c restore_step)"
proof -
  let ?p = "progress_of c"
  have step: "restore_step ?p = (if cl_config c = pausedConfig then ?p\<lparr>pg_paused := False\<rparr>
         else ?p\<lparr>pg_phase := RestorePhaseComplete, pg_paused := False,
                pg_replicas := (if restore_target (cl_restore c) > 0 then Some (restore_target (cl_restore c))
                  else wv_Replicas (cl_workload c))\<rparr>)"
    using assms by (simp add: restore_step_def Let_def restore_phases restore_target_def pg_target_def)
  show ?thesis
    unfolding reconcileScalingUp_def
    apply (rule ends_setSkip, simp)
    apply (simp only: option.case)
    apply (rule ends_resume)
      apply (simp add: same_source_reads)
     apply simp
    subgoal for db db'
      using assms same_source_names [of db "cl_replica c"] same_source_names [of db' db]
        same_source_reads(7) [of db "cl_replica c"] same_source_reads(7) [of db' db]
      by (auto simp: steps step litestream_cm_def intro!: ends_target ends_scaleWorkload)
    done
qed

lemma restore_step_idle:
  assumes "cl_phase c \<notin> {[], RestorePhasePending, RestorePhasePausing, RestorePhaseScalingDown,
    RestorePhaseRunning, RestorePhaseValidating, RestorePhaseScalingUp}"
  shows "refines c restore_step c"
  using assms by (simp add: refines_def restore_step_def Let_def)

lemma run_restore:
  assumes "live c"
  shows "ends (restore_Reconcile k (restore_key (cl_restore c))) c (refines c restore_step)"
proof (cases "terminal (cl_restore c)")
  case True
  then have "refines c restore_step c"
    by (intro restore_step_idle) (auto simp: terminal_def restore_phases)
  with True show ?thesis by (auto simp: restore_Reconcile_def clean_def terminal_def)
next
  case False
  have src: "usable (cl_replica c)" "source_key (cl_restore c) = replica_key (cl_replica c)"
    using assms by (simp_all add: live_def static_def)
  have "ends (restore_dispatch k (cl_restore c) (cl_replica c)) c (refines c restore_step)"
    unfolding restore_dispatch_def using assms
    by (simp add: run_pending run_pausing run_scaling_down run_running run_validating run_scaling_up
        restore_step_idle)
  moreover have "bk_Enabled (db_Backup (cl_replica c))" "db_S3 (cl_replica c) \<noteq> None"
    using src(1) by (simp_all add: usable_def)
  ultimately show ?thesis
    using False unfolding restore_Reconcile_def source_key_def [symmetric] terminal_def
    by (auto simp: clean_def src(2))
qed

lemma run_to_live:
  assumes "run_to p c c'" "static c \<and> kind_ok c"
  shows "static c' \<and> kind_ok c'"
  using assms
proof (induction p arbitrary: c)
  case (Call q f)
  then obtain r d where d: "effect q c d" "run_to (f r) d c'" by (auto simp: clean_def)
  with effect_names(3) [OF d(1)] effect_kind [OF d(1)] Call(3) have "static d \<and> kind_ok d" by simp
  with d(2) Call(1) show ?case by blast
qed auto

section \<open>Rounds\<close>

text \<open>
  A round: the restore is reconciled, then the replica, then the rest of the cluster moves until
  it has settled: as many pods run as the workload asks for, and the Jobs that exist have finished,
  the restore Job with verdict \<open>v1\<close> and the validation Job with verdict \<open>v2\<close>.
\<close>

definition settled :: "job_verdict \<Rightarrow> job_verdict \<Rightarrow> cluster \<Rightarrow> bool" where
  "settled v1 v2 c =
     (wv_Running (cl_workload c) = view_desired (cl_workload c)
      \<and> (\<forall>cs. cl_jobs c (job_of c) = Some cs \<longrightarrow> job_result cs = v1)
      \<and> (\<forall>cs. cl_jobs c (res_Name (cl_restore c) @ ''-validate'') = Some cs \<longrightarrow> job_result cs = v2))"

definition ctrl_round :: "meta_lib \<Rightarrow> bool \<Rightarrow> job_verdict \<Rightarrow> job_verdict \<Rightarrow> cluster \<Rightarrow> cluster \<Rightarrow> bool" where
  "ctrl_round M k v1 v2 c c' =
     (\<exists>c1 c2. run_to (restore_Reconcile k (restore_key (cl_restore c))) c c1
        \<and> run_to (replica_Reconcile M (replica_key (cl_replica c1))) c1 c2
        \<and> env_step\<^sup>*\<^sup>* c2 c' \<and> settled v1 v2 c')"

definition settle_step :: "job_verdict \<Rightarrow> job_verdict \<Rightarrow> progress \<Rightarrow> progress" where
  "settle_step v1 v2 p = p\<lparr>pg_running := pg_desired p,
     pg_restore_job := map_option (\<lambda>_. v1) (pg_restore_job p),
     pg_validate_job := map_option (\<lambda>_. v2) (pg_validate_job p)\<rparr>"

definition round_step :: "job_verdict \<Rightarrow> job_verdict \<Rightarrow> progress \<Rightarrow> progress" where
  "round_step v1 v2 p = settle_step v1 v2 (replica_step (restore_step p))"

text \<open>What the environment keeps.\<close>

definition env_keeps :: "cluster \<Rightarrow> cluster \<Rightarrow> bool" where
  "env_keeps c c' =
     (same_source (cl_replica c') (cl_replica c) \<and> is_paused (cl_replica c') = is_paused (cl_replica c)
      \<and> cl_config c' = cl_config c \<and> cl_restore c' = cl_restore c \<and> (static c' = static c)
      \<and> wv_Kind (cl_workload c') = wv_Kind (cl_workload c)
      \<and> wv_Replicas (cl_workload c') = wv_Replicas (cl_workload c)
      \<and> (\<forall>n. cl_jobs c' n = None \<longleftrightarrow> cl_jobs c n = None))"

lemma same_source_static:
  assumes "same_source a (cl_replica c)"
  shows "static (c\<lparr>cl_replica := a\<rparr>) = static c"
  using assms same_source_names [OF assms] by (auto simp: static_def same_source_def)

lemma env_step_keeps: "env_step c c' \<Longrightarrow> env_keeps c c'"
proof (induction rule: env_step.induct)
  case (env_user s db)
  then have "same_source db (cl_replica s)" by (simp add: same_source_def)
  with env_user same_source_static [OF this] show ?case by (simp add: env_keeps_def is_paused_value)
qed (auto simp: env_keeps_def static_def)

lemma env_steps_keep: "env_step\<^sup>*\<^sup>* c c' \<Longrightarrow> env_keeps c c'"
proof (induction rule: rtranclp_induct)
  case (step y z)
  from step(3) env_step_keeps [OF step(2)] show ?case by (simp add: env_keeps_def same_source_def)
qed (simp add: env_keeps_def)

lemma env_keeps_live:
  assumes "env_keeps c c'" "live c"
  shows "live c'"
proof -
  have "target_query (cl_replica c') = target_query (cl_replica c)"
    using assms(1) by (simp add: env_keeps_def same_source_def)
  then have "rp_TargetStatefulSet (db_Spec (cl_replica c')) = [] \<longleftrightarrow> rp_TargetStatefulSet (db_Spec (cl_replica c)) = []"
    by (auto simp: target_query_def split: if_splits)
  with assms show ?thesis by (simp add: live_def env_keeps_def kind_ok_def job_of_def)
qed

lemma replica_progress:
  assumes "run_to (replica_Reconcile M (replica_key (cl_replica c))) c c'"
  shows "progress_of c' = replica_step (progress_of c)"
  using replica_run [OF assms]
  by (intro progress.equality) (simp_all add: replica_step_def replica_synced_def job_of_def)

lemma settle_refines:
  assumes "env_keeps c c'" "settled v1 v2 c'"
  shows "progress_of c' = settle_step v1 v2 (progress_of c)"
proof -
  have none: "cl_jobs c' n = None \<longleftrightarrow> cl_jobs c n = None" for n
    using assms(1) by (simp add: env_keeps_def)
  have job: "map_option job_result (cl_jobs c' n) = map_option (\<lambda>_. v) (map_option job_result (cl_jobs c n))"
    if "\<forall>cs. cl_jobs c' n = Some cs \<longrightarrow> job_result cs = v" for n v
    using that none [of n] by (cases "cl_jobs c n"; cases "cl_jobs c' n") auto
  have same: "cl_restore c' = cl_restore c" "job_of c' = job_of c"
    using assms(1) by (simp_all add: env_keeps_def job_of_def)
  show ?thesis
    using assms job
    by (intro progress.equality) (simp_all add: settle_step_def env_keeps_def settled_def same
      pg_desired_def view_desired_def)
qed

lemma round_refines:
  assumes "ctrl_round M k v1 v2 c c'" "live c"
  shows "live c' \<and> progress_of c' = round_step v1 v2 (progress_of c)"
proof -
  from assms(1) obtain c1 c2 where run: "run_to (restore_Reconcile k (restore_key (cl_restore c))) c c1"
    "run_to (replica_Reconcile M (replica_key (cl_replica c1))) c1 c2" "env_step\<^sup>*\<^sup>* c2 c'" "settled v1 v2 c'"
    by (auto simp: ctrl_round_def)
  have one: "refines c restore_step c1"
    using run_restore [OF assms(2)] run(1) by (simp add: ends_run_to)
  note two = replica_progress [OF run(2)]
  have "static c2 \<and> kind_ok c2"
    using run_to_live [OF run(2)] run_to_live [OF run(1)] assms(2) by (simp add: live_def)
  moreover have "cl_restore c2 = cl_restore c1" using replica_run [OF run(2)] by (simp add: replica_synced_def)
  ultimately have "live c2" using one by (simp add: live_def refines_def job_of_def)
  with env_keeps_live env_steps_keep [OF run(3)] have "live c'" by blast
  moreover have "progress_of c' = settle_step v1 v2 (progress_of c2)"
    by (rule settle_refines [OF env_steps_keep [OF run(3)] run(4)])
  ultimately show ?thesis using one two by (simp add: refines_def round_step_def)
qed

text \<open>A cluster can settle when no Job has another verdict already.\<close>

definition open_for :: "job_verdict \<Rightarrow> job_verdict \<Rightarrow> progress \<Rightarrow> bool" where
  "open_for v1 v2 p =
     (pg_restore_job p \<in> {None, Some JobRunning, Some v1} \<and> pg_validate_job p \<in> {None, Some JobRunning, Some v2}
      \<and> 0 \<le> pg_running p \<and> 0 \<le> pg_desired p)"

lemma verdict_exists: "\<exists>cs. job_result cs = v"
proof (cases v)
  case JobComplete
  then show ?thesis
    by (intro exI [of _ "[\<lparr>jc_Type = ''Complete'', jc_Status = ConditionTrue, jc_Message = []\<rparr>]"]) simp
next
  case (JobFailed m)
  then show ?thesis
    by (intro exI [of _ "[\<lparr>jc_Type = ''Failed'', jc_Status = ConditionTrue, jc_Message = m\<rparr>]"]) simp
next
  case JobRunning
  then show ?thesis by (intro exI [of _ "[]"]) simp
qed

lemma finish_job:
  assumes "map_option job_result (cl_jobs c n) \<in> {None, Some JobRunning, Some v}"
  shows "\<exists>js. env_step\<^sup>*\<^sup>* c (c\<lparr>cl_jobs := js\<rparr>) \<and> (\<forall>m. m \<noteq> n \<longrightarrow> js m = cl_jobs c m)
    \<and> (\<forall>cs. js n = Some cs \<longrightarrow> job_result cs = v)"
proof (cases "map_option job_result (cl_jobs c n) = Some JobRunning")
  case True
  then obtain cs where cs: "cl_jobs c n = Some cs" "job_result cs = JobRunning" by auto
  obtain cs' where cs': "job_result cs' = v" using verdict_exists by blast
  show ?thesis
    by (rule exI [of _ "(cl_jobs c)(n \<mapsto> cs')"])
      (use env_job [OF cs, of cs'] cs' in \<open>simp add: r_into_rtranclp\<close>)
next
  case False
  with assms show ?thesis by (intro exI [of _ "cl_jobs c"]) auto
qed

lemma settle_total:
  assumes "open_for v1 v2 (progress_of c)"
  shows "\<exists>c'. env_step\<^sup>*\<^sup>* c c' \<and> settled v1 v2 c'"
proof -
  let ?n = "job_of c" and ?m = "res_Name (cl_restore c) @ ''-validate''"
  let ?w = "(cl_workload c)\<lparr>wv_Running := view_desired (cl_workload c)\<rparr>"
  let ?d = "c\<lparr>cl_workload := ?w\<rparr>"
  have ne: "?m \<noteq> ?n" by (simp add: job_of_def)
  have "env_step c ?d"
    using assms by (intro env_pods) (auto simp: open_for_def view_desired_def)
  then have d: "env_step\<^sup>*\<^sup>* c ?d" by simp
  have "map_option job_result (cl_jobs ?d ?n) \<in> {None, Some JobRunning, Some v1}"
    using assms by (simp add: open_for_def)
  from finish_job [OF this] obtain js where js: "env_step\<^sup>*\<^sup>* ?d (?d\<lparr>cl_jobs := js\<rparr>)"
    "\<forall>m. m \<noteq> ?n \<longrightarrow> js m = cl_jobs ?d m" "\<forall>cs. js ?n = Some cs \<longrightarrow> job_result cs = v1" by blast
  let ?e = "?d\<lparr>cl_jobs := js\<rparr>"
  have "map_option job_result (cl_jobs ?e ?m) \<in> {None, Some JobRunning, Some v2}"
    using assms js(2) ne by (simp add: open_for_def)
  from finish_job [OF this] obtain ks where ks: "env_step\<^sup>*\<^sup>* ?e (?e\<lparr>cl_jobs := ks\<rparr>)"
    "\<forall>m. m \<noteq> ?m \<longrightarrow> ks m = cl_jobs ?e m" "\<forall>cs. ks ?m = Some cs \<longrightarrow> job_result cs = v2" by blast
  have "settled v1 v2 (?e\<lparr>cl_jobs := ks\<rparr>)"
    using js(3) ks(2,3) ne by (simp add: settled_def view_desired_def)
  with d js(1) ks(1) show ?thesis by (blast intro: rtranclp_trans)
qed

text \<open>The step changes little: a case rule for properties that do not depend on the phase.\<close>

lemma restore_step_cases:
  assumes "\<And>ph pa og. P (p\<lparr>pg_phase := ph, pg_paused := pa, pg_original := og\<rparr>)"
    and "\<And>ph pa n. 0 \<le> n \<Longrightarrow> P (p\<lparr>pg_phase := ph, pg_paused := pa, pg_replicas := Some n\<rparr>)"
    and "\<And>ph. pg_restore_job p = None \<Longrightarrow> P (p\<lparr>pg_phase := ph, pg_restore_job := Some JobRunning\<rparr>)"
    and "pg_validate_job p = None \<Longrightarrow> P (p\<lparr>pg_validate_job := Some JobRunning\<rparr>)"
  shows "P (restore_step p)"
proof -
  have keep: "P (p\<lparr>pg_phase := ph, pg_paused := pa\<rparr>)" "P (p\<lparr>pg_phase := ph\<rparr>)" "P (p\<lparr>pg_paused := pa\<rparr>)" "P p" for ph pa
    using assms(1) [where ph = ph and pa = pa and og = "pg_original p"]
      assms(1) [where ph = ph and pa = "pg_paused p" and og = "pg_original p"]
      assms(1) [where ph = "pg_phase p" and pa = pa and og = "pg_original p"]
      assms(1) [where ph = "pg_phase p" and pa = "pg_paused p" and og = "pg_original p"] by simp_all
  have cleanup: "P (cleanup_step p)"
    using assms(2) [where n = "pg_target p"] keep(1) by (auto simp: cleanup_step_def)
  have down: "P (p\<lparr>pg_phase := ph, pg_replicas := Some 0\<rparr>)" for ph
    using assms(2) [where n = 0 and ph = ph and pa = "pg_paused p"] by simp
  have job: "P (p\<lparr>pg_phase := ph, pg_restore_job := if pg_restore_job p = None then Some JobRunning else pg_restore_job p\<rparr>)" for ph
    using assms(3) keep(2) by simp
  have up: "P (p\<lparr>pg_phase := ph, pg_paused := pa, pg_replicas := if pg_target p > 0 then Some (pg_target p) else pg_replicas p\<rparr>)"
    for ph pa
    using assms(2) [where n = "pg_target p"] keep(1) by (auto split: if_splits)
  show ?thesis
    unfolding restore_step_def Let_def
    by (simp only: assms(1) keep cleanup down job up simp_thms if_cancel option.case job_verdict.case
        split: if_split option.split job_verdict.split)
      (rule impI, drule assms(4), simp only: simp_thms)
qed

lemma open_for_step:
  assumes "open_for v1 v2 p"
  shows "open_for v1 v2 (replica_step (restore_step p))" "open_for v1 v2 (round_step v1 v2 p)"
proof -
  have "open_for v1 v2 (restore_step p)"
    by (rule restore_step_cases) (use assms in \<open>auto simp: open_for_def pg_desired_def\<close>)
  then show one: "open_for v1 v2 (replica_step (restore_step p))"
    by (simp add: open_for_def replica_step_def pg_desired_def)
  then show "open_for v1 v2 (round_step v1 v2 p)"
    by (auto simp: open_for_def round_step_def settle_step_def pg_desired_def)
qed

lemma round_total:
  assumes "live c" "open_for v1 v2 (progress_of c)"
  shows "\<exists>c'. ctrl_round M k v1 v2 c c'"
proof -
  have ok: "static c \<and> kind_ok c" using assms(1) by (simp add: live_def)
  then obtain c1 where c1: "run_to (restore_Reconcile k (restore_key (cl_restore c))) c c1"
    using run_to_total by blast
  obtain c2 where c2: "run_to (replica_Reconcile M (replica_key (cl_replica c1))) c1 c2"
    using run_to_total run_to_live [OF c1 ok] by blast
  have "refines c restore_step c1" using run_restore [OF assms(1)] c1 by (simp add: ends_run_to)
  then have "open_for v1 v2 (progress_of c2)"
    using open_for_step(1) [OF assms(2)] replica_progress [OF c2] by (simp add: refines_def)
  with settle_total c1 c2 show ?thesis unfolding ctrl_round_def by blast
qed

lemma rounds_refine:
  "(ctrl_round M k v1 v2 ^^ n) c c' \<Longrightarrow> live c \<Longrightarrow>
   live c' \<and> progress_of c' = (round_step v1 v2 ^^ n) (progress_of c)"
proof (induction n arbitrary: c')
  case (Suc n)
  then obtain d where "(ctrl_round M k v1 v2 ^^ n) c d" "ctrl_round M k v1 v2 d c'" by (auto elim: relpowp_Suc_E)
  with Suc round_refines [of M k v1 v2 d c'] show ?case by simp
qed simp

lemma rounds_total:
  "live c \<Longrightarrow> open_for v1 v2 (progress_of c) \<Longrightarrow> \<exists>c'. (ctrl_round M k v1 v2 ^^ n) c c' \<and> live c' \<and> open_for v1 v2 (progress_of c')"
proof (induction n)
  case (Suc n)
  then obtain d where d: "(ctrl_round M k v1 v2 ^^ n) c d" "live d" "open_for v1 v2 (progress_of d)" by blast
  then obtain c' where "ctrl_round M k v1 v2 d c'" using round_total by blast
  with d round_refines [of M k v1 v2 d c'] open_for_step(2) [OF d(3)] show ?case
    by (auto intro!: exI [of _ c'] relpowp_Suc_I)
qed auto

text \<open>Eight rounds of the abstract machine, from the start of a restore.\<close>

lemma machine_rounds:
  assumes "pg_phase p \<in> {[], RestorePhasePending}" "pg_original p = None"
    "pg_restore_job p = None" "pg_validate_job p = None" "0 \<le> pg_desired p" "v1 \<noteq> JobRunning" "v2 \<noteq> JobRunning"
  defines "q \<equiv> (round_step v1 v2 ^^ 8) p"
  shows "pg_phase q = (if v1 = JobComplete \<and> v2 = JobComplete then RestorePhaseComplete else RestorePhaseFailed)
    \<and> \<not> pg_paused q \<and> \<not> pg_config_paused q \<and> pg_desired q = pg_desired p"
proof -
  let ?n = "pg_desired p"
  let ?st = "\<lambda>ph b r n j1 j2. \<lparr>pg_phase = ph, pg_paused = b, pg_config_paused = b, pg_replicas = r,
     pg_running = n, pg_original = Some ?n, pg_restore_job = j1, pg_validate_job = j2\<rparr>"
  let ?up = "if ?n > 0 then Some ?n else Some 0"
  note defs = round_step_def replica_step_def settle_step_def restore_step_def cleanup_step_def
    pg_desired_def pg_target_def Let_def
  have s1: "round_step v1 v2 p = ?st RestorePhasePausing True (pg_replicas p) ?n None None"
    using assms(1-4) by (cases p) (auto simp: defs)
  have s2: "round_step v1 v2 (?st RestorePhasePausing True (pg_replicas p) ?n None None) =
      ?st RestorePhaseScalingDown True (Some 0) 0 None None"
    by (simp add: defs restore_phases)
  have s3: "round_step v1 v2 (?st RestorePhaseScalingDown True (Some 0) 0 None None) =
      ?st RestorePhaseRunning True (Some 0) 0 (Some v1) None"
    by (simp add: defs restore_phases)
  have s4: "round_step v1 v2 (?st RestorePhaseRunning True (Some 0) 0 (Some v1) None) =
      (if v1 = JobComplete then ?st RestorePhaseValidating True (Some 0) 0 (Some v1) None
       else ?st RestorePhaseFailed False ?up ?n (Some v1) None)"
    using assms(5,6) by (cases v1) (simp_all add: defs restore_phases)
  have s5: "round_step v1 v2 (?st RestorePhaseValidating True (Some 0) 0 (Some v1) None) =
      ?st RestorePhaseValidating True (Some 0) 0 (Some v1) (Some v2)"
    by (simp add: defs restore_phases)
  have s6: "round_step v1 v2 (?st RestorePhaseValidating True (Some 0) 0 (Some v1) (Some v2)) =
      (if v2 = JobComplete then ?st RestorePhaseScalingUp True (Some 0) 0 (Some v1) (Some v2)
       else ?st RestorePhaseFailed False ?up ?n (Some v1) (Some v2))"
    using assms(5,7) by (cases v2) (simp_all add: defs restore_phases)
  have s7: "round_step v1 v2 (?st RestorePhaseScalingUp True (Some 0) 0 (Some v1) (Some v2)) =
      ?st RestorePhaseScalingUp False (Some 0) 0 (Some v1) (Some v2)"
    by (simp add: defs restore_phases)
  have s8: "round_step v1 v2 (?st RestorePhaseScalingUp False (Some 0) 0 (Some v1) (Some v2)) =
      ?st RestorePhaseComplete False ?up ?n (Some v1) (Some v2)"
    using assms(5) by (simp add: defs restore_phases)
  have fin: "round_step v1 v2 (?st RestorePhaseFailed False ?up ?n (Some v1) j) = ?st RestorePhaseFailed False ?up ?n (Some v1) j"
    if "j \<in> {None, Some v2}" for j
    using that assms(5) by (auto simp: defs restore_phases)
  have q8: "q = (let f = round_step v1 v2 in f (f (f (f (f (f (f (f p))))))))"
    by (simp add: q_def numeral_eq_Suc Let_def)
  have "q = (if v1 = JobComplete
     then if v2 = JobComplete then ?st RestorePhaseComplete False ?up ?n (Some v1) (Some v2)
          else ?st RestorePhaseFailed False ?up ?n (Some v1) (Some v2)
     else ?st RestorePhaseFailed False ?up ?n (Some v1) None)"
    unfolding q8 Let_def s1 s2 s3 s4
    by (simp only: if_distrib [where f = "round_step v1 v2"] s5 s6 s7 s8 fin insert_iff simp_thms)
  then show ?thesis using assms(5) by (simp add: pg_desired_def restore_phases)
qed

text \<open>The start of a restore that has not been touched yet.\<close>

definition new_restore :: "cluster \<Rightarrow> bool" where
  "new_restore c =
     (static c \<and> kind_ok c \<and> cl_phase c \<in> {[], RestorePhasePending} \<and> original_replicas (cl_restore c) = None
      \<and> cl_jobs c (res_Name (cl_restore c) @ ''-restore'') = None
      \<and> cl_jobs c (res_Name (cl_restore c) @ ''-validate'') = None
      \<and> 0 \<le> wv_Running (cl_workload c) \<and> 0 \<le> view_desired (cl_workload c))"

definition sample_cluster :: cluster where
  "sample_cluster = \<lparr>cl_replica = sample_replica, cl_restore = sample_restore,
     cl_workload = view_deployment sample_deployment, cl_config = [], cl_jobs = Map.empty\<rparr>"

text \<open>The system that starts in a given cluster, with caches that show it.\<close>

definition starting :: "cluster \<Rightarrow> sys" where
  "starting c = \<lparr>sy_hist = [c], sy_window = [c], sy_notes = {}, sy_rep = None, sy_res = None\<rparr>"

lemma sample_cluster_new: "new_restore sample_cluster" "live sample_cluster"
  "initial (starting sample_cluster)"
  by (simp_all add: new_restore_def live_def static_def kind_ok_def initial_def Let_def sample_cluster_def
      starting_def untouched_def
      sample_restore_def sample_deployment_def sample_defs usable_def source_key_def replica_key_def
      view_deployment_def view_desired_def pausedConfig_def restore_phases)

text \<open>
  A round is a sequence of steps of the concurrent system. Its runs read the present state; the
  history remembers the states before.
\<close>

definition reached :: "meta_lib \<Rightarrow> bool \<Rightarrow> disturbance set \<Rightarrow> cluster \<Rightarrow> cluster \<Rightarrow> process \<Rightarrow> process \<Rightarrow> bool" where
  "reached M k notes c0 c rep res = (\<exists>s. sys_reach M k s \<and> sy_notes s = notes \<and> c0 \<in> set (sy_hist s)
     \<and> sy_hist s \<noteq> [] \<and> sy_cluster s = c \<and> sy_window s \<noteq> [] \<and> hd (sy_window s) = c
     \<and> sy_rep s = rep \<and> sy_res s = res)"

lemma reachedI:
  assumes "sys_reach M k s" "sys_step M k s s'" "sy_notes s' = notes" "c0 \<in> set (sy_hist s')" "sy_hist s' \<noteq> []"
    "sy_cluster s' = c" "sy_window s' \<noteq> []" "hd (sy_window s') = c" "sy_rep s' = rep" "sy_res s' = res"
  shows "reached M k notes c0 c rep res"
  unfolding reached_def using reach_step [OF assms(1,2)] assms(3-) by blast

lemma reachedE:
  assumes "reached M k notes c0 c rep res"
  obtains s where "sys_reach M k s" "sy_notes s = notes" "c0 \<in> set (sy_hist s)" "sy_hist s \<noteq> []" "sy_cluster s = c"
    "sy_window s \<noteq> []" "hd (sy_window s) = c" "sy_rep s = rep" "sy_res s = res"
  using assms unfolding reached_def by blast

lemma cached_clean:
  assumes "clean c q r d" "cached q"
  shows "d = c" "answers c q r c" "stale_job c q r = {}"
proof -
  have eff: "effect q c d" and ans: "answers c q r d" using assms(1) by (simp_all add: clean_def)
  from eff assms(2) show d: "d = c" by (cases q) auto
  with ans show "answers c q r c" by simp
  with assms(2) show "stale_job c q r = {}"
    by (cases q) (auto split: option.splits sum.splits)
qed

lemma reached_res_call:
  assumes "reached M k notes c0 c rp (Some (h, Call q f))" "clean c q r d"
  shows "reached M k notes c0 d rp (Some ((q, r) # h, f r))"
proof -
  from assms(1) obtain s where s: "sys_reach M k s" "sy_notes s = notes" "c0 \<in> set (sy_hist s)" "sy_hist s \<noteq> []"
    "sy_cluster s = c" "sy_window s \<noteq> []" "hd (sy_window s) = c" "sy_rep s = rp" "sy_res s = Some (h, Call q f)"
    by (elim reachedE)
  show ?thesis
  proof (cases "cached q")
    case True
    note d = cached_clean [OF assms(2) True]
    have "c \<in> set (sy_hist s)" using s(4,5) by auto
    from reachedI [OF s(1) res_cached [OF s(9) True this d(2)]] s d show ?thesis by simp
  next
    case False
    have "accepted (sy_cluster s) q r d"
      using clean_served [OF assms(2)] by (simp add: accepted_def s(5))
    from reachedI [OF s(1) res_call [OF s(9) False this]] s show ?thesis by simp
  qed
qed

lemma reached_rep_call:
  assumes "reached M k notes c0 c (Some (h, Call q f)) rs" "clean c q r d"
  shows "reached M k notes c0 d (Some ((q, r) # h, f r)) rs"
proof -
  from assms(1) obtain s where s: "sys_reach M k s" "sy_notes s = notes" "c0 \<in> set (sy_hist s)" "sy_hist s \<noteq> []"
    "sy_cluster s = c" "sy_window s \<noteq> []" "hd (sy_window s) = c" "sy_rep s = Some (h, Call q f)" "sy_res s = rs"
    by (elim reachedE)
  show ?thesis
  proof (cases "cached q")
    case True
    note d = cached_clean [OF assms(2) True]
    show ?thesis
    proof (cases "reads_replica q")
      case rr: True
      have "sy_window s = [] @ c # tl (sy_window s)" using s(6,7) by (cases "sy_window s") auto
      from reachedI [OF s(1) rep_replica [OF s(8) rr this d(2)]] s d show ?thesis by simp
    next
      case False
      have "c \<in> set (sy_hist s)" using s(4,5) by auto
      from reachedI [OF s(1) rep_cached [OF s(8) True False this d(2)]] s d show ?thesis by simp
    qed
  next
    case False
    have "accepted (sy_cluster s) q r d"
      using clean_served [OF assms(2)] by (simp add: accepted_def s(5))
    from reachedI [OF s(1) rep_call [OF s(8) False this]] s show ?thesis by simp
  qed
qed

lemma reached_res_run:
  "reached M k notes c0 c rp (Some (h, p)) \<Longrightarrow> run_to p c c' \<Longrightarrow> \<exists>e. reached M k notes c0 c' rp e"
proof (induction p arbitrary: c h)
  case (Call q f)
  then obtain r d where "clean c q r d" "run_to (f r) d c'" by auto
  with Call(1) reached_res_call [OF Call(2)] show ?case by blast
qed auto

lemma reached_rep_run:
  "reached M k notes c0 c (Some (h, p)) rs \<Longrightarrow> run_to p c c' \<Longrightarrow> \<exists>e. reached M k notes c0 c' e rs"
proof (induction p arbitrary: c h)
  case (Call q f)
  then obtain r d where "clean c q r d" "run_to (f r) d c'" by auto
  with Call(1) reached_rep_call [OF Call(2)] show ?case by blast
qed auto

abbreviation idle :: "meta_lib \<Rightarrow> bool \<Rightarrow> disturbance set \<Rightarrow> cluster \<Rightarrow> cluster \<Rightarrow> bool" where
  "idle M k notes c0 c \<equiv> reached M k notes c0 c None None"

lemma reached_res_start:
  assumes "reached M k notes c0 c rp None"
  shows "reached M k notes c0 c rp (Some ([], restore_Reconcile k (restore_key (cl_restore c))))"
proof -
  from assms obtain s where s: "sys_reach M k s" "sy_notes s = notes" "c0 \<in> set (sy_hist s)" "sy_hist s \<noteq> []"
    "sy_cluster s = c" "sy_window s \<noteq> []" "hd (sy_window s) = c" "sy_rep s = rp" "sy_res s = None"
    by (elim reachedE)
  show ?thesis by (rule reachedI [OF s(1) res_start [OF s(9)]]) (simp_all add: s)
qed

lemma reached_rep_start:
  assumes "reached M k notes c0 c None rs"
  shows "reached M k notes c0 c (Some ([], replica_Reconcile M (replica_key (cl_replica c)))) rs"
proof -
  from assms obtain s where s: "sys_reach M k s" "sy_notes s = notes" "c0 \<in> set (sy_hist s)" "sy_hist s \<noteq> []"
    "sy_cluster s = c" "sy_window s \<noteq> []" "hd (sy_window s) = c" "sy_rep s = None" "sy_res s = rs"
    by (elim reachedE)
  show ?thesis by (rule reachedI [OF s(1) rep_start [OF s(8)]]) (simp_all add: s)
qed

lemma reached_stop:
  assumes "reached M k notes c0 c rp rs"
  shows "reached M k notes c0 c rp None" "reached M k notes c0 c None rs"
proof -
  from assms obtain s where s: "sys_reach M k s" "sy_notes s = notes" "c0 \<in> set (sy_hist s)" "sy_hist s \<noteq> []"
    "sy_cluster s = c" "sy_window s \<noteq> []" "hd (sy_window s) = c" "sy_rep s = rp" "sy_res s = rs"
    by (elim reachedE)
  from reachedI [OF s(1) res_stop] reachedI [OF s(1) rep_stop] s
  show "reached M k notes c0 c rp None" "reached M k notes c0 c None rs" by simp_all
qed

lemma reached_restore:
  assumes "idle M k notes c0 c" "run_to (restore_Reconcile k (restore_key (cl_restore c))) c c'"
  shows "idle M k notes c0 c'"
  using reached_res_run [OF reached_res_start [OF assms(1)] assms(2)] reached_stop(1) by blast

lemma reached_replica:
  assumes "idle M k notes c0 c" "run_to (replica_Reconcile M (replica_key (cl_replica c))) c c'"
  shows "idle M k notes c0 c'"
  using reached_rep_run [OF reached_rep_start [OF assms(1)] assms(2)] reached_stop(2) by blast

lemma reached_env: "env_step\<^sup>*\<^sup>* c c' \<Longrightarrow> idle M k notes c0 c \<Longrightarrow> idle M k notes c0 c'"
proof (induction rule: rtranclp_induct)
  case (step y z)
  then have "idle M k notes c0 y" by blast
  then obtain s where s: "sys_reach M k s" "sy_notes s = notes" "c0 \<in> set (sy_hist s)" "sy_hist s \<noteq> []"
    "sy_cluster s = y" "sy_window s \<noteq> []" "hd (sy_window s) = y" "sy_rep s = None" "sy_res s = None"
    by (elim reachedE)
  from reachedI [OF s(1) env [of s z]] s step(2) show ?case by simp
qed

lemma reached_rounds: "(ctrl_round M k v1 v2 ^^ n) c c' \<Longrightarrow> idle M k notes c0 c \<Longrightarrow> idle M k notes c0 c'"
proof (induction n arbitrary: c')
  case (Suc n)
  then obtain d where "(ctrl_round M k v1 v2 ^^ n) c d" "ctrl_round M k v1 v2 d c'" by (auto elim: relpowp_Suc_E)
  with Suc reached_restore reached_replica reached_env show ?case unfolding ctrl_round_def by blast
qed simp

lemma reached_starting: "initial (starting c) \<Longrightarrow> idle M k {} c c"
  unfolding reached_def by (rule exI [of _ "starting c"]) (simp add: reach_start, simp add: starting_def)

text \<open>Two rounds and a reconciliation of the restore later the Job runs.\<close>

lemma sample_job_running:
  obtains c where "idle M k {} sample_cluster c" "live c" "cl_phase c = RestorePhaseRunning"
    "pg_restore_job (progress_of c) = Some JobRunning" "pg_target (progress_of c) = 1" "pg_running (progress_of c) = 0"
proof -
  let ?r = "ctrl_round M k JobComplete JobComplete"
  let ?p = "progress_of sample_cluster"
  have "open_for JobComplete JobComplete ?p"
    using sample_cluster_new(1) by (simp add: open_for_def new_restore_def job_of_def pg_desired_def view_desired_def)
  then obtain c where c: "(?r ^^ 2) sample_cluster c" "live c"
    using rounds_total [OF sample_cluster_new(2)] by blast
  obtain c' where run: "run_to (restore_Reconcile k (restore_key (cl_restore c))) c c'"
    using run_to_total c(2) by (auto simp: live_def)
  then have ref: "refines c restore_step c'"
    using run_restore [OF c(2), of k] by (simp add: ends_run_to)
  then have "progress_of c' = restore_step ((round_step JobComplete JobComplete ^^ 2) ?p)"
    using rounds_refine [OF c(1) sample_cluster_new(2)] by (simp add: refines_def)
  moreover have "restore_step ((round_step JobComplete JobComplete ^^ 2) ?p)
     = \<lparr>pg_phase = RestorePhaseRunning, pg_paused = True, pg_config_paused = True, pg_replicas = Some 0,
        pg_running = 0, pg_original = Some 1, pg_restore_job = Some JobRunning, pg_validate_job = None\<rparr>"
    by (simp add: numeral_eq_Suc round_step_def replica_step_def settle_step_def restore_step_def pg_desired_def
        Let_def restore_phases progress_of_def sample_cluster_def sample_restore_def view_deployment_def
        sample_deployment_def)
  ultimately have p: "progress_of c' = \<lparr>pg_phase = RestorePhaseRunning, pg_paused = True, pg_config_paused = True,
      pg_replicas = Some 0, pg_running = 0, pg_original = Some 1, pg_restore_job = Some JobRunning,
      pg_validate_job = None\<rparr>" by simp
  show thesis
  proof (rule that [of c'])
    show "idle M k {} sample_cluster c'"
      by (rule reached_restore [OF reached_rounds [OF c(1) reached_starting [OF sample_cluster_new(3)]] run])
    have "static c' \<and> kind_ok c'" using run_to_live [OF run] c(2) by (simp add: live_def)
    with ref show "live c'" by (simp add: live_def refines_def)
    show "cl_phase c' = RestorePhaseRunning" using p by (metis progress.select_convs(1) progress_simps(1))
  qed (simp_all add: p pg_target_def)
qed

section \<open>Properties\<close>

text \<open>
  C3. The controllers refine the abstract machine. In a cluster of a restore and its replica, an
  error-free reconciliation of the restore exists, and each one ends in a cluster whose abstraction
  is the next state of the machine \<open>restore_step\<close>, for every phase and every branch; an error-free
  reconciliation of the replica brings the ConfigMap in line with the pause and changes nothing
  else of the abstraction.
\<close>

theorem controllers_refine:
  assumes "live c"
  shows "(\<exists>c'. run_to (restore_Reconcile k (restore_key (cl_restore c))) c c')
    \<and> (\<forall>c'. run_to (restore_Reconcile k (restore_key (cl_restore c))) c c' \<longrightarrow>
          progress_of c' = restore_step (progress_of c))
    \<and> (\<exists>c'. run_to (replica_Reconcile M (replica_key (cl_replica c))) c c')
    \<and> (\<forall>c'. run_to (replica_Reconcile M (replica_key (cl_replica c))) c c' \<longrightarrow>
          progress_of c' = replica_step (progress_of c))"
proof -
  have "kind_ok c" using assms by (simp add: live_def)
  with run_restore [OF assms, of k] show ?thesis
    by (auto simp: ends_run_to refines_def replica_progress intro: run_to_total)
qed

theorem controllers_refine_witness:
  "\<exists>c'. run_to (restore_Reconcile True (restore_key (cl_restore sample_cluster))) sample_cluster c'
     \<and> res_Phase (cl_restore c') = RestorePhasePausing"
proof -
  have "pg_phase (restore_step (progress_of sample_cluster)) = RestorePhasePausing"
    by (simp add: restore_step_def Let_def sample_cluster_def sample_restore_def)
  with controllers_refine [OF sample_cluster_new(2), of True list_conditions] show ?thesis
    by (metis progress_simps(1))
qed

text \<open>
  C2. A restore ends, and the workload is back whatever the outcome. From a new restore of a
  replica that can be restored from, eight rounds are possible, and after any eight rounds the
  restore is Complete if both Jobs succeeded and Failed otherwise; in both cases the pause is gone
  from the replica and from the ConfigMap and the workload has the replica count it had before.
\<close>

theorem restore_ends:
  assumes "new_restore c" "v1 \<noteq> JobRunning" "v2 \<noteq> JobRunning"
  shows "(\<exists>c'. (ctrl_round M k v1 v2 ^^ 8) c c')
    \<and> (\<forall>c'. (ctrl_round M k v1 v2 ^^ 8) c c' \<longrightarrow>
          res_Phase (cl_restore c') =
            (if v1 = JobComplete \<and> v2 = JobComplete then RestorePhaseComplete else RestorePhaseFailed)
          \<and> \<not> is_paused (cl_replica c') \<and> cl_config c' \<noteq> pausedConfig
          \<and> view_desired (cl_workload c') = view_desired (cl_workload c))"
proof -
  have live: "live c" using assms(1) by (auto simp: new_restore_def live_def restore_phases)
  have desired: "pg_desired (progress_of d) = view_desired (cl_workload d)" for d
    by (simp add: pg_desired_def view_desired_def)
  have "open_for v1 v2 (progress_of c)"
    using assms(1) by (simp add: open_for_def new_restore_def job_of_def desired)
  with rounds_total [OF live] have "\<exists>c'. (ctrl_round M k v1 v2 ^^ 8) c c'" by blast
  moreover have "progress_of c' = (round_step v1 v2 ^^ 8) (progress_of c)" if "(ctrl_round M k v1 v2 ^^ 8) c c'" for c'
    using rounds_refine [OF that live] by simp
  moreover have "pg_phase (progress_of c) \<in> {[], RestorePhasePending}" "pg_original (progress_of c) = None"
    "pg_restore_job (progress_of c) = None" "pg_validate_job (progress_of c) = None" "0 \<le> pg_desired (progress_of c)"
    using assms(1) by (simp_all add: new_restore_def job_of_def desired)
  note machine_rounds [OF this assms(2,3)]
  ultimately show ?thesis by (metis desired progress_simps(1-3))
qed

theorem restore_ends_witness:
  "\<exists>c'. (ctrl_round list_conditions True JobComplete (JobFailed ''corrupt'') ^^ 8) sample_cluster c'
     \<and> res_Phase (cl_restore c') = RestorePhaseFailed \<and> \<not> is_paused (cl_replica c')
     \<and> view_desired (cl_workload c') = 1"
proof -
  have "view_desired (cl_workload sample_cluster) = 1"
    by (simp add: sample_cluster_def view_desired_def view_deployment_def sample_deployment_def)
  with restore_ends [OF sample_cluster_new(1), of JobComplete "JobFailed ''corrupt''" list_conditions True]
  show ?thesis by auto
qed

text \<open>
  C1. While the restore Job runs, the database is kept from the application and from Litestream.
  The two controllers may interleave call by call, read any earlier state of the cluster from their
  caches, fail and restart at any call; pods come and go, Jobs finish, and users edit the replica, but
  not its target, its pause and that it can be restored from. As long as no outsider (another restore
  among them) changed what the restore rests on and no cache hid the Job (\<open>sy_notes s = {}\<close>; see \<open>sys_step\<close>), a Job of the
  restore that exists and has not finished implies that replication is paused in the replica and in
  the ConfigMap and that the workload is set to zero replicas.
\<close>

theorem restore_isolation:
  assumes "sys_reach M k s" "sy_notes s = {}" "c = sy_cluster s"
    and "cl_jobs c (res_Name (cl_restore c) @ ''-restore'') = Some cs" "job_result cs = JobRunning"
  shows "is_paused (cl_replica c) \<and> cl_config c = pausedConfig \<and> wv_Replicas (cl_workload c) = Some 0"
proof -
  have "\<not> finished c" using assms(4,5) by (simp add: finished_def job_of_def)
  with reach_sys_inv [OF assms(1)] have "core (sy_hist s) (sy_window s) (sy_rep s) (sy_res s)"
    using assms(2,3) by (simp add: sys_inv_def good_def)
  then have "job_isolated c" using hist_invD(3) by (simp add: core_def assms(3))
  with assms(4) show ?thesis by (simp add: job_isolated_def isolated_def job_of_def)
qed

theorem restore_isolation_witness:
  "\<exists>s cs. sys_reach list_conditions True s \<and> sy_notes s = {}
     \<and> cl_jobs (sy_cluster s) (res_Name (cl_restore (sy_cluster s)) @ ''-restore'') = Some cs
     \<and> job_result cs = JobRunning \<and> is_paused (cl_replica (sy_cluster s))"
proof -
  obtain c where c: "idle list_conditions True {} sample_cluster c" "pg_restore_job (progress_of c) = Some JobRunning"
    by (rule sample_job_running)
  from c(1) obtain s where s: "sys_reach list_conditions True s" "sy_notes s = {}" "sy_cluster s = c"
    by (elim reachedE)
  obtain cs where "cl_jobs c (res_Name (cl_restore c) @ ''-restore'') = Some cs" "job_result cs = JobRunning"
    using c(2) by (auto simp: job_of_def)
  with restore_isolation [OF s(1,2) s(3) [symmetric]] s show ?thesis by blast
qed

text \<open>The Job is read from a state before it was created, although it exists.\<close>

lemma reached_stale_job:
  assumes "reached M k {} c0 c rp (Some (h, Call (GetJob key) f))" "cl_jobs c0 (nn_Name key) = None"
    and "cl_jobs c (nn_Name key) \<noteq> None"
  shows "reached M k {StaleJobRead} c0 c rp (Some ((GetJob key, RErr \<lparr>err_Reason = NotFound, err_Text = []\<rparr>) # h,
      f (RErr \<lparr>err_Reason = NotFound, err_Text = []\<rparr>)))"
proof -
  let ?r = "RErr \<lparr>err_Reason = NotFound, err_Text = []\<rparr>"
  from assms(1) obtain s where s: "sys_reach M k s" "sy_notes s = {}" "c0 \<in> set (sy_hist s)" "sy_hist s \<noteq> []"
    "sy_cluster s = c" "sy_window s \<noteq> []" "hd (sy_window s) = c" "sy_rep s = rp"
    "sy_res s = Some (h, Call (GetJob key) f)"
    by (elim reachedE)
  have read: "cached (GetJob key)" "answers c0 (GetJob key) ?r c0"
    using assms(2) by (simp_all add: errors_IsNotFound_def)
  have "stale_job c (GetJob key) ?r = {StaleJobRead}" using assms(3) by (simp add: errors_IsNotFound_def)
  then show ?thesis
    by (intro reachedI [OF s(1) res_cached [OF s(9) read(1) s(3) read(2)]]) (simp_all add: s)
qed

text \<open>
  C35. One stale answer is enough to lose the isolation. There is a run in which nobody interferes
  and the only irregular answer is that a cache does not show the restore Job yet when the restore
  controller looks for it in the phase Running: the controller takes the Job for lost, resumes
  replication, scales the application up again and reports Failed, while the Job is still running.
\<close>

theorem stale_job_read_breaks_isolation:
  "\<exists>s c cs. sys_reach list_conditions True s \<and> sy_notes s = {StaleJobRead} \<and> c = sy_cluster s
     \<and> cl_jobs c (res_Name (cl_restore c) @ ''-restore'') = Some cs \<and> job_result cs = JobRunning
     \<and> res_Phase (cl_restore c) = RestorePhaseFailed \<and> \<not> is_paused (cl_replica c)
     \<and> wv_Replicas (cl_workload c) = Some 1"
proof -
  let ?nf = "RErr \<lparr>err_Reason = NotFound, err_Text = []\<rparr>"
  obtain c where c: "idle list_conditions True {} sample_cluster c" "live c" "cl_phase c = RestorePhaseRunning"
    "pg_restore_job (progress_of c) = Some JobRunning" "pg_target (progress_of c) = 1" "pg_running (progress_of c) = 0"
    by (rule sample_job_running)
  let ?x = "cl_restore c" and ?db = "cl_replica c"
  let ?job = "\<lparr>nn_Namespace = res_Namespace ?x, nn_Name = job_name ?x\<rparr>"
  have src: "usable ?db" "source_key ?x = replica_key ?db" and jn: "job_name ?x = job_of c"
    using c(2,3) by (simp_all add: live_def static_def)
  have old: "cl_jobs sample_cluster n = None" for n by (simp add: sample_cluster_def)
  have some: "cl_jobs c (job_of c) \<noteq> None" using c(4) by auto
  have r1: "reached list_conditions True {} sample_cluster c None (Some ([], restore_Reconcile True (restore_key ?x)))"
    by (rule reached_res_start [OF c(1)])
  have "clean c (GetRestore (restore_key ?x)) (RRestore ?x) c" by (simp add: clean_def)
  from reached_res_call [OF r1 [unfolded restore_Reconcile_def] this]
  obtain h where r2: "reached list_conditions True {} sample_cluster c None (Some (h, Call (GetReplica (source_key ?x))
      (\<lambda>r. case as_replica r of
         Inl e \<Rightarrow> bind (failRestore ?x (''LitestreamReplica '' @ fmt_quote (re_SourceRef (res_Spec ?x)) @ '' not found: ''
           @ err_Text e)) (\<lambda>err. Ret (0, err))
       | Inr src \<Rightarrow> if \<not> bk_Enabled (db_Backup src) \<or> db_S3 src = None
           then bind (failRestore ?x (''LitestreamReplica '' @ fmt_quote (re_SourceRef (res_Spec ?x))
             @ '' does not have backup enabled with an S3 destination'')) (\<lambda>err. Ret (0, err))
           else restore_dispatch True ?x src)))"
    using c(3) by (auto simp: source_key_def restore_phases)
  have "clean c (GetReplica (source_key ?x)) (RReplica ?db) c" using src(2) by (simp add: clean_def)
  from reached_res_call [OF r2 this] obtain h where
    r3: "reached list_conditions True {} sample_cluster c None (Some (h, reconcileRunning True ?x ?db))"
    using src(1) c(3) by (auto simp: usable_def restore_dispatch_def restore_phases)
  have "cl_jobs c (nn_Name ?job) \<noteq> None" using some jn by simp
  from reached_stale_job [OF r3 [unfolded reconcileRunning_def] old this] obtain h where
    r4: "reached list_conditions True {StaleJobRead} sample_cluster c None
      (Some (h, bind (failRestoreWithCleanup ?x ?db ''restore Job not found'') (\<lambda>err. Ret (0, err))))"
    by (auto simp: errors_IsNotFound_def)
  have "kind_ok c" using c(2) by (simp add: live_def)
  then obtain c' where run: "run_to (bind (failRestoreWithCleanup ?x ?db ''restore Job not found'')
      (\<lambda>err. Ret (0 :: int, err))) c c'"
    using run_to_total by blast
  have p: "progress_of c' = cleanup_step (progress_of c)"
    using run_cleanup [of c "''restore Job not found''"] run by (simp add: ends_run_to refines_def)
  from reached_res_run [OF r4 run] obtain s where
    s: "sys_reach list_conditions True s" "sy_notes s = {StaleJobRead}" "sy_cluster s = c'"
    by (auto simp: reached_def)
  have "pg_phase (progress_of c') = RestorePhaseFailed" "\<not> pg_paused (progress_of c')"
    "pg_replicas (progress_of c') = Some 1" "pg_restore_job (progress_of c') = Some JobRunning"
    using c(4-6) by (simp_all only: p, simp_all add: cleanup_step_def pg_target_def)
  then show ?thesis using s by (intro exI [of _ s]) (auto simp: progress_of_def job_of_def)
qed

end
