(* ===== verification/Sidecar_Injector.thy ===== *)
theory Sidecar_Injector
  imports Replica_Config Effects
begin

text \<open>
  The mutating webhook that adds the Litestream sidecar to pods
  (\<^verbatim>\<open>src/internal/webhook/sidecar_injector.go\<close>). The pod is changed by explicit state passing.
  Decoding the request and marshalling the pod belong to the API machinery: they are the
  arguments \<open>decode\<close> and \<open>marshal\<close> of \<open>Handle\<close>, over an arbitrary type of raw objects.

  The scripts of the init containers are kept as the text the source renders; the theory
  \<open>Startup_Scripts\<close> gives them a meaning.
\<close>

section \<open>Constants\<close>

definition litestreamContainerName :: string where "litestreamContainerName = ''litestream''"
definition litestreamConfigVolume :: string where "litestreamConfigVolume = ''litestream-config''"
definition litestreamConfigMount :: string where "litestreamConfigMount = ''/etc/litestream''"
definition litestreamDefaultImage :: string where "litestreamDefaultImage = LitestreamDefaultImage"
definition injectTrue :: string where "injectTrue = ''true''"
definition archiveCheckContainerName :: string where
  "archiveCheckContainerName = ''litestream-archive-check''"
definition dbInitContainerName :: string where "dbInitContainerName = ''db-init''"
definition dbInitSQLVolume :: string where "dbInitSQLVolume = ''db-init-sql''"
definition defaultEphemeralStorageLimit :: string where "defaultEphemeralStorageLimit = ''1Gi''"
definition autoRestoreContainerName :: string where "autoRestoreContainerName = ''litestream-restore''"

section \<open>Scripts\<close>

definition archive_check_script :: "string \<Rightarrow> string \<Rightarrow> string" where
  "archive_check_script dbFullPath stateDir = newline # unlines [
     ''DB_PATH=\"'' @ dbFullPath @ ''\"'',
     ''STATE_DIR=\"'' @ stateDir @ ''\"'',
     ''if [ -f \"${DB_PATH}\" ]; then'',
     ''  if [ -d \"${STATE_DIR}\" ]; then'',
     ''    echo \"archive-check: database and litestream state directory exist, skipping check\"'',
     ''    exit 0'',
     ''  fi'',
     ''  echo \"archive-check: database exists but litestream state directory missing at ${STATE_DIR}\"'',
     ''  echo \"archive-check: this may indicate a fresh or recreated database; probing S3 for existing backup...\"'',
     ''fi'',
     ''if [ ! -f \"${DB_PATH}\" ]; then'',
     ''  echo \"archive-check: database file missing at ${DB_PATH}, probing S3 for backup data...\"'',
     ''fi'',
     ''PROBE=\"${DB_PATH}.archive-check-probe\"'',
     ''rm -f \"${PROBE}\"'',
     ''RESTORE_OUTPUT=$(litestream restore -if-replica-exists -config /etc/litestream/litestream.yml -o \"${PROBE}\" \"${DB_PATH}\" 2>&1)'',
     ''RESTORE_EXIT=$?'',
     ''if [ ${RESTORE_EXIT} -ne 0 ]; then'',
     ''  rm -f \"${PROBE}\"'',
     ''  echo \"archive-check FAILED: litestream restore encountered an error.\"'',
     ''  echo \"archive-check: litestream output: ${RESTORE_OUTPUT}\"'',
     ''  echo \"archive-check: Examine the litestream output above for details.\"'',
     ''  echo \"archive-check: To recover: create a LitestreamRestore CR (optionally with -timestamp for an earlier point).\"'',
     ''  echo \"archive-check: To bypass (start fresh): set annotation litestream.io/skip-archive-check=true\"'',
     ''  exit 1'',
     ''fi'',
     ''if [ -f \"${PROBE}\" ]; then'',
     ''  rm -f \"${PROBE}\"'',
     ''  echo \"archive-check FAILED: S3 has existing backup data but local database is missing or untracked.\"'',
     ''  echo \"This likely means data was lost (PVC wiped, DB deleted, or DB recreated without restoring first).\"'',
     ''  echo \"To recover: create a LitestreamRestore CR targeting this PVC.\"'',
     ''  echo \"To bypass (start fresh): set annotation litestream.io/skip-archive-check=true\"'',
     ''  exit 1'',
     ''fi'',
     ''echo \"archive-check: no S3 backup found, safe to proceed (first-time setup)\"'',
     ''exit 0'']"

definition auto_restore_script :: "string \<Rightarrow> string" where
  "auto_restore_script dbFullPath = newline # unlines [
     ''DB_PATH=\"'' @ dbFullPath @ ''\"'',
     ''if [ -f \"${DB_PATH}\" ]; then'',
     ''  echo \"litestream-restore: database exists, skipping restore\"'',
     ''  exit 0'',
     ''fi'',
     ''echo \"litestream-restore: database missing, attempting restore from backup...\"'',
     ''litestream restore -if-db-not-exists -if-replica-exists -config /etc/litestream/litestream.yml \"${DB_PATH}\"'',
     ''RESTORE_EXIT=$?'',
     ''if [ $RESTORE_EXIT -ne 0 ]; then'',
     ''  echo \"litestream-restore: restore failed or no backup found, starting fresh\"'',
     ''  exit 0'',
     ''fi'',
     ''if [ ! -f \"${DB_PATH}\" ]; then'',
     ''  echo \"litestream-restore: no backup found, starting fresh\"'',
     ''  exit 0'',
     ''fi'',
     ''echo \"litestream-restore: restore complete, running integrity check...\"'',
     ''if ! command -v sqlite3 > /dev/null 2>&1; then'',
     ''  echo \"WARNING: sqlite3 not found in image; skipping integrity check\"'',
     ''  exit 0'',
     ''fi'',
     ''if ! sqlite3 \"${DB_PATH}\" \"PRAGMA quick_check;\" | grep -q \"^ok$\"; then'',
     ''  echo \"ERROR: integrity check failed on restored database.\"'',
     ''  echo \"The S3 backup may contain corruption (Litestream upstream issue #1164/#1220).\"'',
     ''  echo \"Options:\"'',
     ''  echo \"  1. Use a LitestreamRestore CR with a different -timestamp to find a clean snapshot.\"'',
     ''  echo \"  2. Set annotation litestream.io/skip-archive-check=true to start fresh.\"'',
     ''  exit 1'',
     ''fi'',
     ''echo \"litestream-restore: integrity check passed\"'',
     ''exit 0'']"

definition db_init_script :: "string \<Rightarrow> string \<Rightarrow> string" where
  "db_init_script databasePath dbFullPath = newline # unlines [
     ''HASH=$(sha256sum /init/init.sql | cut -d'' @ [CHR 0x27, CHR '' '', CHR 0x27] @ '' -f1)'',
     ''MARKER=\"'' @ databasePath @ ''/.db-init-${HASH}\"'',
     ''if [ ! -f \"${MARKER}\" ]; then'',
     ''  sqlite3 \"'' @ dbFullPath @ ''\" < /init/init.sql'',
     ''  touch \"${MARKER}\"'',
     ''  echo \"db-init: applied init SQL (hash ${HASH})\"'',
     ''else'',
     ''  echo \"db-init: already applied (hash ${HASH}), skipping\"'',
     ''fi'']"

section \<open>Changes to the pod\<close>

definition with_spec :: "(PodSpec \<Rightarrow> PodSpec) \<Rightarrow> Pod \<Rightarrow> Pod" where
  "with_spec f pod = pod\<lparr>pod_Spec := f (pod_Spec pod)\<rparr>"

definition add_volume :: "Volume \<Rightarrow> Pod \<Rightarrow> Pod" where
  "add_volume v = with_spec (\<lambda>s. s\<lparr>ps_Volumes := ps_Volumes s @ [v]\<rparr>)"

definition add_container :: "Container \<Rightarrow> Pod \<Rightarrow> Pod" where
  "add_container c = with_spec (\<lambda>s. s\<lparr>ps_Containers := ps_Containers s @ [c]\<rparr>)"

definition prepend_init :: "Container \<Rightarrow> Pod \<Rightarrow> Pod" where
  "prepend_init c = with_spec (\<lambda>s. s\<lparr>ps_InitContainers := c # ps_InitContainers s\<rparr>)"

definition append_init :: "Container \<Rightarrow> Pod \<Rightarrow> Pod" where
  "append_init c = with_spec (\<lambda>s. s\<lparr>ps_InitContainers := ps_InitContainers s @ [c]\<rparr>)"

definition annotate_pod :: "string \<Rightarrow> string \<Rightarrow> Pod \<Rightarrow> Pod" where
  "annotate_pod k v pod =
     pod\<lparr>pod_Meta := (pod_Meta pod)\<lparr>om_Annotations := map_set (om_Annotations (pod_Meta pod)) k v\<rparr>\<rparr>"

definition creds_env :: "string \<Rightarrow> string \<Rightarrow> string \<Rightarrow> EnvVar" where
  "creds_env nm secretRef key =
     \<lparr>ev_Name = nm, ev_Value = [], ev_ValueFrom = Some \<lparr>sk_Name = secretRef, sk_Key = key\<rparr>\<rparr>"

definition s3CredsEnvVars :: "string \<Rightarrow> EnvVar list" where
  "s3CredsEnvVars secretRef =
     [creds_env ''LITESTREAM_ACCESS_KEY_ID'' secretRef ''ACCESS_KEY_ID'',
      creds_env ''LITESTREAM_SECRET_ACCESS_KEY'' secretRef ''SECRET_ACCESS_KEY'']"

definition litestreamResources :: "LitestreamReplica \<Rightarrow> ResourceRequirements" where
  "litestreamResources db =
     (case bk_Resources (db_Backup db) of
        Some r \<Rightarrow> r
      | None \<Rightarrow> zero_ResourceRequirements\<lparr>rr_Limits :=
          [''ephemeral-storage'' \<mapsto> MustParse defaultEphemeralStorageLimit]\<rparr>)"

definition security_context :: "int option \<Rightarrow> int option \<Rightarrow> SecurityContext option" where
  "security_context runAsUser runAsGroup =
     (if runAsUser \<noteq> None \<or> runAsGroup \<noteq> None
      then Some \<lparr>sc_RunAsUser = runAsUser, sc_RunAsGroup = runAsGroup\<rparr> else None)"

definition buildLitestreamInitContainer ::
  "string \<Rightarrow> string \<Rightarrow> string \<Rightarrow> string \<Rightarrow> string \<Rightarrow> EnvVar list \<Rightarrow> int option \<Rightarrow> int option \<Rightarrow> Container"
where
  "buildLitestreamInitContainer nm script img dbPath dataVolumeName envVars runAsUser runAsGroup =
     zero_Container\<lparr>c_Name := nm, c_Image := img, c_Command := [''sh'', ''-c'', script],
       c_Env := envVars,
       c_VolumeMounts :=
         [zero_VolumeMount\<lparr>vm_Name := dataVolumeName, vm_MountPath := dbPath\<rparr>,
          zero_VolumeMount\<lparr>vm_Name := litestreamConfigVolume, vm_MountPath := litestreamConfigMount,
            vm_ReadOnly := True\<rparr>],
       c_SecurityContext := security_context runAsUser runAsGroup\<rparr>"

definition sidecar_image :: "LitestreamReplica \<Rightarrow> string" where
  "sidecar_image db =
     (if rp_Image (db_Spec db) = [] then litestreamDefaultImage else rp_Image (db_Spec db))"

definition db_creds :: "LitestreamReplica \<Rightarrow> EnvVar list" where
  "db_creds db = (case db_S3 db of None \<Rightarrow> [] | Some s3 \<Rightarrow> s3CredsEnvVars (s3_SecretRef s3))"

definition archive_state_dir :: "LitestreamReplica \<Rightarrow> string" where
  "archive_state_dir db =
     rp_DatabasePath (db_Spec db) @ ''/.'' @ rp_DatabaseName (db_Spec db) @ ''-litestream''"

definition injectArchiveCheckContainer :: "LitestreamReplica \<Rightarrow> string \<Rightarrow> Pod \<Rightarrow> Pod" where
  "injectArchiveCheckContainer db dataVolumeName =
     prepend_init (buildLitestreamInitContainer archiveCheckContainerName
       (archive_check_script (db_full_path db) (archive_state_dir db)) (sidecar_image db)
       (rp_DatabasePath (db_Spec db)) dataVolumeName (db_creds db)
       (rp_RunAsUser (db_Spec db)) (rp_RunAsGroup (db_Spec db)))"

definition injectAutoRestoreContainer :: "LitestreamReplica \<Rightarrow> string \<Rightarrow> Pod \<Rightarrow> Pod" where
  "injectAutoRestoreContainer db dataVolumeName =
     prepend_init (buildLitestreamInitContainer autoRestoreContainerName
       (auto_restore_script (db_full_path db)) (sidecar_image db)
       (rp_DatabasePath (db_Spec db)) dataVolumeName (db_creds db)
       (rp_RunAsUser (db_Spec db)) (rp_RunAsGroup (db_Spec db)))"

definition db_init_container :: "LitestreamReplica \<Rightarrow> string \<Rightarrow> Container" where
  "db_init_container db dataVolumeName =
     zero_Container\<lparr>c_Name := dbInitContainerName,
       c_Image := (if rp_InitImage (db_Spec db) = [] then ''keinos/sqlite3:latest''
                   else rp_InitImage (db_Spec db)),
       c_Command := [''sh'', ''-c'', db_init_script (rp_DatabasePath (db_Spec db)) (db_full_path db)],
       c_VolumeMounts :=
         [zero_VolumeMount\<lparr>vm_Name := dataVolumeName, vm_MountPath := rp_DatabasePath (db_Spec db)\<rparr>,
          zero_VolumeMount\<lparr>vm_Name := dbInitSQLVolume, vm_MountPath := ''/init'', vm_ReadOnly := True\<rparr>],
       c_SecurityContext := security_context (rp_RunAsUser (db_Spec db)) (rp_RunAsGroup (db_Spec db))\<rparr>"

definition injectInitContainer :: "LitestreamReplica \<Rightarrow> string \<Rightarrow> Pod \<Rightarrow> Pod" where
  "injectInitContainer db dataVolumeName pod =
     add_volume \<lparr>vol_Name = dbInitSQLVolume,
         vol_Source = ConfigMapSource (db_Name db @ ''-init-sql'')\<rparr>
       (append_init (db_init_container db dataVolumeName) pod)"

text \<open>The first mount of the first container that covers the path.\<close>

definition covers :: "string \<Rightarrow> VolumeMount \<Rightarrow> bool" where
  "covers dbPath vm =
     (vm_MountPath vm = dbPath \<or> strings_HasPrefix dbPath (vm_MountPath vm @ ''/''))"

definition findVolumeForPath :: "Pod \<Rightarrow> string \<Rightarrow> go_error + string" where
  "findVolumeForPath pod dbPath =
     (case ps_Containers (pod_Spec pod) of
        [] \<Rightarrow> Inl (errorf ''pod has no containers'')
      | c # _ \<Rightarrow>
          (case find (covers dbPath) (c_VolumeMounts c) of
             Some vm \<Rightarrow> Inr (vm_Name vm)
           | None \<Rightarrow> Inl (errorf (''no volume mount in container '' @ fmt_quote (c_Name c)
               @ '' covers database path '' @ fmt_quote dbPath
               @ ''; ensure the application mounts a volume at '' @ fmt_quote dbPath))))"

definition sidecar_container :: "LitestreamReplica \<Rightarrow> string \<Rightarrow> Container" where
  "sidecar_container db volumeName =
     zero_Container\<lparr>c_Name := litestreamContainerName, c_Image := sidecar_image db,
       c_Args := [''replicate'', ''-config'', ''/etc/litestream/litestream.yml''],
       c_Ports := [\<lparr>cp_Name = ''metrics'', cp_ContainerPort = 9090, cp_Protocol = ''TCP''\<rparr>],
       c_VolumeMounts :=
         [zero_VolumeMount\<lparr>vm_Name := volumeName, vm_MountPath := rp_DatabasePath (db_Spec db)\<rparr>,
          zero_VolumeMount\<lparr>vm_Name := litestreamConfigVolume, vm_MountPath := litestreamConfigMount,
            vm_ReadOnly := True\<rparr>],
       c_Resources := litestreamResources db,
       c_Env :=
         (if bk_Enabled (db_Backup db) then db_creds db else [])
         @ (if bk_LogLevel (db_Backup db) \<noteq> []
            then [\<lparr>ev_Name = ''LITESTREAM_LOG_LEVEL'', ev_Value = bk_LogLevel (db_Backup db),
                   ev_ValueFrom = None\<rparr>]
            else [])\<rparr>"

definition inject :: "Pod \<Rightarrow> LitestreamReplica \<Rightarrow> go_error + Pod" where
  "inject pod db =
     (case findVolumeForPath pod (rp_DatabasePath (db_Spec db)) of
        Inl err \<Rightarrow> Inl err
      | Inr volumeName \<Rightarrow>
          (let pod = add_container (sidecar_container db volumeName) pod;
               pod = add_volume \<lparr>vol_Name = litestreamConfigVolume,
                       vol_Source = ConfigMapSource (db_Name db @ ''-litestream'')\<rparr> pod;
               pod = annotate_pod ''prometheus.io/scrape'' ''true'' pod;
               pod = annotate_pod ''prometheus.io/port'' ''9090'' pod;
               pod = annotate_pod ''prometheus.io/path'' ''/metrics'' pod;
               pod = (if bk_Enabled (db_Backup db) then
                        (let skipArchive =
                           (map_get (db_Annotations db) AnnotationSkipArchiveCheck = ''true'')
                         in if bk_AutoRestore (db_Backup db)
                            then injectAutoRestoreContainer db volumeName pod
                            else if \<not> skipArchive then injectArchiveCheckContainer db volumeName pod
                            else pod)
                      else pod)
           in Inr (if rp_InitSQL (db_Spec db) \<noteq> [] then injectInitContainer db volumeName pod
                   else pod)))"

section \<open>Handling a request\<close>

definition alreadyInjected :: "Pod \<Rightarrow> bool" where
  "alreadyInjected pod =
     list_ex (\<lambda>c. c_Name c = litestreamContainerName) (ps_Containers (pod_Spec pod))"

text \<open>A nil replica with a nil error is \<open>Inr None\<close>.\<close>

definition resolveLitestreamReplica ::
  "Pod \<Rightarrow> string \<Rightarrow> (go_error + LitestreamReplica option) prog" where
  "resolveLitestreamReplica pod podNamespace =
     (let ref = map_get (om_Annotations (pod_Meta pod)) AnnotationConfig in
      if ref = [] then Ret (Inr None)
      else
        (case strings_Cut ref CHR ''/'' of (ns, name, found) \<Rightarrow>
           if \<not> found then
             Ret (Inl (errorf (''malformed '' @ AnnotationConfig @ '' annotation '' @ fmt_quote ref
               @ '': expected namespace/name'')))
           else
             (let ns = (if ns = [] then podNamespace else ns) in
              Call (GetReplica \<lparr>nn_Namespace = ns, nn_Name = name\<rparr>)
                (\<lambda>r. case as_replica r of
                   Inl e \<Rightarrow> Ret (Inl (wrapf (''getting LitestreamReplica '' @ ns @ ''/'' @ name @ '': '') e))
                 | Inr db \<Rightarrow> Ret (Inr (Some db))))))"

datatype 'raw adm_response =
  Errored int go_error
| Allowed string
| PatchResponseFromRaw 'raw 'raw

definition Handle ::
  "('raw \<Rightarrow> go_error + Pod) \<Rightarrow> (Pod \<Rightarrow> go_error + 'raw) \<Rightarrow> 'raw \<Rightarrow> string \<Rightarrow> 'raw adm_response prog"
where
  "Handle decode marshal req_Object req_Namespace =
     (case decode req_Object of
        Inl e \<Rightarrow> Ret (Errored 400 (wrapf ''decoding pod: '' e))
      | Inr pod \<Rightarrow>
          if map_get (om_Annotations (pod_Meta pod)) AnnotationInject \<noteq> injectTrue
          then Ret (Allowed ''no injection annotation'')
          else if alreadyInjected pod then Ret (Allowed ''sidecar already present'')
          else
            bind (resolveLitestreamReplica pod req_Namespace) (\<lambda>res. case res of
              Inl err \<Rightarrow> Ret (Errored 500 err)
            | Inr None \<Rightarrow> Ret (Allowed ''no LitestreamReplica config reference found'')
            | Inr (Some db) \<Rightarrow>
                (case inject pod db of
                   Inl e \<Rightarrow> Ret (Errored 500 (wrapf ''injecting sidecar: '' e))
                 | Inr pod' \<Rightarrow>
                     (case marshal pod' of
                        Inl e \<Rightarrow> Ret (Errored 500 (wrapf ''marshalling patched pod: '' e))
                      | Inr marshalled \<Rightarrow> Ret (PatchResponseFromRaw req_Object marshalled)))))"

end
