(* ===== verification/Injector_Facts.thy ===== *)
theory Injector_Facts
  imports Sidecar_Injector
begin

text \<open>
  What the injection does to a pod. The three init-container injections are instances of one
  contract, the locale \<open>init_injection\<close>: each adds exactly one init container at one end of the
  list, may add volumes at the end, and touches nothing else. From it follow the exact result of
  \<open>inject\<close>, when injected pods stay well-formed (names are unique and every mount has a volume),
  and that handling an injected pod again changes nothing.
\<close>

named_theorems pod_simps \<open>fields of a changed pod\<close>

abbreviation pod_containers :: "Pod \<Rightarrow> Container list" where
  "pod_containers pod \<equiv> ps_Containers (pod_Spec pod)"
abbreviation pod_inits :: "Pod \<Rightarrow> Container list" where
  "pod_inits pod \<equiv> ps_InitContainers (pod_Spec pod)"
abbreviation pod_volumes :: "Pod \<Rightarrow> Volume list" where
  "pod_volumes pod \<equiv> ps_Volumes (pod_Spec pod)"
abbreviation pod_annotation :: "Pod \<Rightarrow> string \<Rightarrow> string" where
  "pod_annotation pod \<equiv> map_get (om_Annotations (pod_Meta pod))"

section \<open>Single changes\<close>

lemma add_volume_fields [pod_simps]:
  "pod_containers (add_volume v pod) = pod_containers pod"
  "pod_inits (add_volume v pod) = pod_inits pod"
  "pod_volumes (add_volume v pod) = pod_volumes pod @ [v]"
  "pod_Meta (add_volume v pod) = pod_Meta pod"
  by (simp_all add: add_volume_def with_spec_def)

lemma add_container_fields [pod_simps]:
  "pod_containers (add_container c pod) = pod_containers pod @ [c]"
  "pod_inits (add_container c pod) = pod_inits pod"
  "pod_volumes (add_container c pod) = pod_volumes pod"
  "pod_Meta (add_container c pod) = pod_Meta pod"
  by (simp_all add: add_container_def with_spec_def)

lemma prepend_init_fields [pod_simps]:
  "pod_containers (prepend_init c pod) = pod_containers pod"
  "pod_inits (prepend_init c pod) = c # pod_inits pod"
  "pod_volumes (prepend_init c pod) = pod_volumes pod"
  "pod_Meta (prepend_init c pod) = pod_Meta pod"
  by (simp_all add: prepend_init_def with_spec_def)

lemma append_init_fields [pod_simps]:
  "pod_containers (append_init c pod) = pod_containers pod"
  "pod_inits (append_init c pod) = pod_inits pod @ [c]"
  "pod_volumes (append_init c pod) = pod_volumes pod"
  "pod_Meta (append_init c pod) = pod_Meta pod"
  by (simp_all add: append_init_def with_spec_def)

lemma annotate_pod_fields [pod_simps]:
  "pod_Spec (annotate_pod k v pod) = pod_Spec pod"
  "pod_annotation (annotate_pod k v pod) k' = (if k' = k then v else pod_annotation pod k')"
  by (simp_all add: annotate_pod_def)

section \<open>The contract of an init-container injection\<close>

text \<open>
  The specification of a pod whose parts refer to each other correctly: container names are
  unique (init containers included), volume names are unique, and every mount names a volume.
\<close>

definition mounts_of :: "Container list \<Rightarrow> string set" where
  "mounts_of cs = (\<Union>c \<in> set cs. vm_Name ` set (c_VolumeMounts c))"

lemma mounts_of_simps [simp]:
  "mounts_of [] = {}"
  "mounts_of (c # cs) = vm_Name ` set (c_VolumeMounts c) \<union> mounts_of cs"
  "mounts_of (cs @ cs') = mounts_of cs \<union> mounts_of cs'"
  by (auto simp: mounts_of_def)

definition pod_wf :: "Pod \<Rightarrow> bool" where
  "pod_wf pod =
     (distinct (map c_Name (pod_inits pod @ pod_containers pod))
      \<and> distinct (map vol_Name (pod_volumes pod))
      \<and> mounts_of (pod_inits pod @ pod_containers pod) \<subseteq> vol_Name ` set (pod_volumes pod))"

text \<open>\<open>inj db v\<close> adds the init container \<open>ctr db v\<close> and the volumes \<open>vols db\<close>, nothing else.\<close>

locale init_injection =
  fixes inj :: "LitestreamReplica \<Rightarrow> string \<Rightarrow> Pod \<Rightarrow> Pod"
    and ctr :: "LitestreamReplica \<Rightarrow> string \<Rightarrow> Container"
    and vols :: "LitestreamReplica \<Rightarrow> Volume list"
    and nm :: string
  assumes containers: "pod_containers (inj db v pod) = pod_containers pod"
    and meta: "pod_Meta (inj db v pod) = pod_Meta pod"
    and volumes: "pod_volumes (inj db v pod) = pod_volumes pod @ vols db"
    and inits: "pod_inits (inj db v pod) = ctr db v # pod_inits pod
      \<or> pod_inits (inj db v pod) = pod_inits pod @ [ctr db v]"
    and ctr_name: "c_Name (ctr db v) = nm"
    and ctr_mounts: "vm_Name ` set (c_VolumeMounts (ctr db v))
      \<subseteq> {v, litestreamConfigVolume} \<union> vol_Name ` set (vols db)"
begin

lemma injected [simp]: "alreadyInjected (inj db v pod) = alreadyInjected pod"
  by (simp add: alreadyInjected_def containers)

text \<open>The mounts of the new container name a volume of the result when the two volumes it relies on are there.\<close>

lemma mounts_there:
  "{v, litestreamConfigVolume} \<subseteq> vs \<Longrightarrow> vol_Name ` set (vols db) \<subseteq> vs
   \<Longrightarrow> vm_Name ` set (c_VolumeMounts (ctr db v)) \<subseteq> vs"
  by (rule order_trans [OF ctr_mounts]) (rule Un_least)

end

definition archive_check_container :: "LitestreamReplica \<Rightarrow> string \<Rightarrow> Container" where
  "archive_check_container db v =
     buildLitestreamInitContainer archiveCheckContainerName
       (archive_check_script (db_full_path db) (archive_state_dir db)) (sidecar_image db)
       (rp_DatabasePath (db_Spec db)) v (db_creds db)
       (rp_RunAsUser (db_Spec db)) (rp_RunAsGroup (db_Spec db))"

definition auto_restore_container :: "LitestreamReplica \<Rightarrow> string \<Rightarrow> Container" where
  "auto_restore_container db v =
     buildLitestreamInitContainer autoRestoreContainerName
       (auto_restore_script (db_full_path db)) (sidecar_image db)
       (rp_DatabasePath (db_Spec db)) v (db_creds db)
       (rp_RunAsUser (db_Spec db)) (rp_RunAsGroup (db_Spec db))"

definition config_volume :: "LitestreamReplica \<Rightarrow> Volume" where
  "config_volume db = \<lparr>vol_Name = litestreamConfigVolume,
     vol_Source = ConfigMapSource (db_Name db @ ''-litestream'')\<rparr>"

definition init_sql_volume :: "LitestreamReplica \<Rightarrow> Volume" where
  "init_sql_volume db = \<lparr>vol_Name = dbInitSQLVolume,
     vol_Source = ConfigMapSource (db_Name db @ ''-init-sql'')\<rparr>"

lemma archive_check_alt:
  "injectArchiveCheckContainer db v = prepend_init (archive_check_container db v)"
  by (simp add: injectArchiveCheckContainer_def archive_check_container_def)

lemma auto_restore_alt:
  "injectAutoRestoreContainer db v = prepend_init (auto_restore_container db v)"
  by (simp add: injectAutoRestoreContainer_def auto_restore_container_def)

lemma init_sql_alt:
  "injectInitContainer db v pod = add_volume (init_sql_volume db) (append_init (db_init_container db v) pod)"
  by (simp add: injectInitContainer_def init_sql_volume_def)

lemmas inject_alts = archive_check_alt auto_restore_alt init_sql_alt

interpretation archive: init_injection injectArchiveCheckContainer archive_check_container "\<lambda>_. []"
  archiveCheckContainerName
  by unfold_locales
    (auto simp: inject_alts pod_simps archive_check_container_def buildLitestreamInitContainer_def
      zero_VolumeMount_def)

interpretation auto_restore: init_injection injectAutoRestoreContainer auto_restore_container
  "\<lambda>_. []" autoRestoreContainerName
  by unfold_locales
    (auto simp: inject_alts pod_simps auto_restore_container_def buildLitestreamInitContainer_def
      zero_VolumeMount_def)

interpretation db_init: init_injection injectInitContainer db_init_container
  "\<lambda>db. [init_sql_volume db]" dbInitContainerName
  by unfold_locales
    (auto simp: inject_alts pod_simps db_init_container_def init_sql_volume_def zero_VolumeMount_def)

section \<open>The result of an injection\<close>

text \<open>
  The specification of an injected pod. The gate is the init container that must succeed before
  anything else of the pod starts.
\<close>

definition startup_gate :: "LitestreamReplica \<Rightarrow> string \<Rightarrow> Container list" where
  "startup_gate db v =
     (if \<not> bk_Enabled (db_Backup db) then []
      else if bk_AutoRestore (db_Backup db) then [auto_restore_container db v]
      else if map_get (db_Annotations db) AnnotationSkipArchiveCheck = ''true'' then []
      else [archive_check_container db v])"

definition prometheus :: "string \<Rightarrow> string option" where
  "prometheus = [''prometheus.io/scrape'' \<mapsto> ''true'', ''prometheus.io/port'' \<mapsto> ''9090'',
     ''prometheus.io/path'' \<mapsto> ''/metrics'']"

definition injected_with :: "LitestreamReplica \<Rightarrow> string \<Rightarrow> Pod \<Rightarrow> Pod \<Rightarrow> bool" where
  "injected_with db v pod pod' =
     (pod_containers pod' = pod_containers pod @ [sidecar_container db v]
      \<and> pod_inits pod' = startup_gate db v @ pod_inits pod
          @ (if rp_InitSQL (db_Spec db) = [] then [] else [db_init_container db v])
      \<and> pod_volumes pod' = pod_volumes pod @ [config_volume db]
          @ (if rp_InitSQL (db_Spec db) = [] then [] else [init_sql_volume db])
      \<and> (\<forall>k. pod_annotation pod' k = (case prometheus k of Some x \<Rightarrow> x | None \<Rightarrow> pod_annotation pod k))
      \<and> pod' = pod\<lparr>pod_Meta := (pod_Meta pod)\<lparr>om_Annotations := om_Annotations (pod_Meta pod')\<rparr>,
          pod_Spec := (pod_Spec pod)\<lparr>ps_InitContainers := pod_inits pod',
            ps_Containers := pod_containers pod', ps_Volumes := pod_volumes pod'\<rparr>\<rparr>)"

text \<open>The volume that is shared: the first mount of the first container that covers the path.\<close>

definition data_volume :: "Pod \<Rightarrow> string \<Rightarrow> string option" where
  "data_volume pod path =
     (case pod_containers pod of [] \<Rightarrow> None
      | c # _ \<Rightarrow> map_option vm_Name (find (covers path) (c_VolumeMounts c)))"

lemma findVolumeForPath_iff:
  "findVolumeForPath pod path = Inr v \<longleftrightarrow> data_volume pod path = Some v"
  by (auto simp: findVolumeForPath_def data_volume_def split: list.splits option.splits)

lemmas pod_change_defs = add_container_def add_volume_def with_spec_def annotate_pod_def
  prepend_init_def append_init_def

definition with_sidecar :: "LitestreamReplica \<Rightarrow> string \<Rightarrow> Pod \<Rightarrow> Pod" where
  "with_sidecar db v pod =
     annotate_pod ''prometheus.io/path'' ''/metrics''
       (annotate_pod ''prometheus.io/port'' ''9090''
         (annotate_pod ''prometheus.io/scrape'' ''true''
           (add_volume (config_volume db) (add_container (sidecar_container db v) pod))))"

lemma inject_stages:
  assumes "data_volume pod (rp_DatabasePath (db_Spec db)) = Some v"
  shows "inject pod db = Inr
    ((if rp_InitSQL (db_Spec db) = [] then id else injectInitContainer db v)
      (fold prepend_init (startup_gate db v) (with_sidecar db v pod)))"
proof -
  have "findVolumeForPath pod (rp_DatabasePath (db_Spec db)) = Inr v"
    using assms by (simp add: findVolumeForPath_iff)
  then show ?thesis
    by (simp add: inject_def with_sidecar_def [symmetric] config_volume_def [symmetric]
        startup_gate_def archive_check_alt auto_restore_alt Let_def)
qed

lemma prepend_gate:
  "fold prepend_init (startup_gate db v) pod = with_spec (\<lambda>s. s\<lparr>ps_InitContainers := startup_gate db v @ ps_InitContainers s\<rparr>) pod"
  by (simp add: startup_gate_def prepend_init_def with_spec_def)

lemma inject_injected_with:
  assumes "data_volume pod (rp_DatabasePath (db_Spec db)) = Some v"
  obtains pod' where "inject pod db = Inr pod'" "injected_with db v pod pod'"
proof
  show "inject pod db = Inr ((if rp_InitSQL (db_Spec db) = [] then id else injectInitContainer db v)
      (fold prepend_init (startup_gate db v) (with_sidecar db v pod)))"
    by (rule inject_stages [OF assms])
  show "injected_with db v pod ((if rp_InitSQL (db_Spec db) = [] then id else injectInitContainer db v)
      (fold prepend_init (startup_gate db v) (with_sidecar db v pod)))"
    unfolding prepend_gate with_sidecar_def injected_with_def prometheus_def init_sql_alt
    by (cases pod) (simp add: pod_change_defs)
qed

section \<open>Properties of the injection\<close>

text \<open>
  C28. The exact result of an injection. When no mount of the first container covers the database
  path the pod is rejected. Otherwise the application's containers, init containers and volumes
  stay in their order; the sidecar is the last container; the gate chosen by the spec (restore,
  archive check or none) runs before and the init SQL after the pod's own init containers; the
  volumes of the two ConfigMaps are appended; only the three scrape annotations change.
\<close>

theorem inject_spec:
  "case data_volume pod (rp_DatabasePath (db_Spec db)) of
     None \<Rightarrow> \<exists>e. inject pod db = Inl e
   | Some v \<Rightarrow> \<exists>pod'. inject pod db = Inr pod' \<and> injected_with db v pod pod'"
proof (cases "data_volume pod (rp_DatabasePath (db_Spec db))")
  case None
  then show ?thesis
    by (auto simp: inject_def data_volume_def findVolumeForPath_def split: list.splits option.splits)
next
  case (Some v)
  from inject_injected_with [OF Some] show ?thesis by (auto simp: Some)
qed

lemma injectE:
  assumes "inject pod db = Inr pod'"
  obtains v where "data_volume pod (rp_DatabasePath (db_Spec db)) = Some v"
    "injected_with db v pod pod'"
proof -
  from assms obtain v where v: "data_volume pod (rp_DatabasePath (db_Spec db)) = Some v"
    by (auto simp: inject_def findVolumeForPath_iff split: sum.splits)
  from inject_injected_with [OF v] assms v that show thesis by auto
qed

text \<open>The names that the webhook uses for itself.\<close>

definition unreserved :: "Pod \<Rightarrow> bool" where
  "unreserved pod =
     (c_Name ` set (pod_inits pod @ pod_containers pod)
        \<inter> {litestreamContainerName, archiveCheckContainerName, autoRestoreContainerName,
           dbInitContainerName} = {}
      \<and> vol_Name ` set (pod_volumes pod) \<inter> {litestreamConfigVolume, dbInitSQLVolume} = {})"

lemmas reserved_names = litestreamContainerName_def archiveCheckContainerName_def
  autoRestoreContainerName_def dbInitContainerName_def litestreamConfigVolume_def
  dbInitSQLVolume_def

lemma data_volume_mounted:
  assumes "data_volume pod path = Some v" "pod_wf pod"
  shows "v \<in> vol_Name ` set (pod_volumes pod)"
proof -
  from assms(1) obtain c cs vm where "pod_containers pod = c # cs" "vm_Name vm = v"
    "find (covers path) (c_VolumeMounts c) = Some vm"
    by (auto simp: data_volume_def split: list.splits)
  then have "v \<in> mounts_of (pod_containers pod)"
    by (auto simp: find_Some_iff)
  with assms(2) show ?thesis by (auto simp: pod_wf_def)
qed

text \<open>The names that an injection adds for a given replica.\<close>

definition added_containers :: "LitestreamReplica \<Rightarrow> string list" where
  "added_containers db =
     (if \<not> bk_Enabled (db_Backup db) then []
      else if bk_AutoRestore (db_Backup db) then [autoRestoreContainerName]
      else if map_get (db_Annotations db) AnnotationSkipArchiveCheck = ''true'' then []
      else [archiveCheckContainerName])
     @ (if rp_InitSQL (db_Spec db) = [] then [] else [dbInitContainerName]) @ [litestreamContainerName]"

definition added_volumes :: "LitestreamReplica \<Rightarrow> string list" where
  "added_volumes db = litestreamConfigVolume # (if rp_InitSQL (db_Spec db) = [] then [] else [dbInitSQLVolume])"

lemma added_distinct: "distinct (added_containers db)" "distinct (added_volumes db)"
  by (simp_all add: added_containers_def added_volumes_def reserved_names)

lemma gate_names:
  "map c_Name (startup_gate db v) @ (if rp_InitSQL (db_Spec db) = [] then [] else [dbInitContainerName])
     @ [litestreamContainerName] = added_containers db"
  by (simp add: added_containers_def startup_gate_def archive.ctr_name auto_restore.ctr_name)

lemma injected_names:
  assumes "injected_with db v pod pod'"
  shows "distinct (map c_Name (pod_inits pod' @ pod_containers pod')) \<longleftrightarrow>
      distinct (map c_Name (pod_inits pod @ pod_containers pod) @ added_containers db)"
    and "map vol_Name (pod_volumes pod') = map vol_Name (pod_volumes pod) @ added_volumes db"
proof -
  have "map c_Name (pod_inits pod' @ pod_containers pod') = map c_Name (startup_gate db v) @ map c_Name (pod_inits pod)
      @ (if rp_InitSQL (db_Spec db) = [] then [] else [dbInitContainerName]) @ map c_Name (pod_containers pod)
      @ [litestreamContainerName]"
    using assms by (simp add: injected_with_def db_init.ctr_name sidecar_container_def)
  then show "distinct (map c_Name (pod_inits pod' @ pod_containers pod')) \<longleftrightarrow>
      distinct (map c_Name (pod_inits pod @ pod_containers pod) @ added_containers db)"
    unfolding gate_names [of db v, symmetric] by auto
  show "map vol_Name (pod_volumes pod') = map vol_Name (pod_volumes pod) @ added_volumes db"
    using assms by (simp add: injected_with_def added_volumes_def config_volume_def init_sql_volume_def)
qed

lemma injected_mounts:
  assumes "injected_with db v pod pod'" "v \<in> vol_Name ` set (pod_volumes pod)"
    and "mounts_of (pod_inits pod @ pod_containers pod) \<subseteq> vol_Name ` set (pod_volumes pod)"
  shows "mounts_of (pod_inits pod' @ pod_containers pod') \<subseteq> vol_Name ` set (pod_volumes pod')"
proof -
  let ?vs = "vol_Name ` set (pod_volumes pod')"
  have vols: "?vs = vol_Name ` set (pod_volumes pod) \<union> set (added_volumes db)"
    using arg_cong [OF injected_names(2) [OF assms(1)], of set] by simp
  then have base: "{v, litestreamConfigVolume} \<subseteq> ?vs" "mounts_of (pod_inits pod @ pod_containers pod) \<subseteq> ?vs"
    using assms(2,3) by (auto simp: added_volumes_def)
  have gate: "mounts_of (startup_gate db v) \<subseteq> ?vs"
    using archive.mounts_there [OF base(1)] auto_restore.mounts_there [OF base(1)]
    by (simp add: startup_gate_def)
  have sql: "mounts_of [db_init_container db v] \<subseteq> ?vs" if "rp_InitSQL (db_Spec db) \<noteq> []"
    using db_init.mounts_there [OF base(1), of db] that vols by (simp add: added_volumes_def init_sql_volume_def)
  have car: "mounts_of [sidecar_container db v] \<subseteq> ?vs"
    using base(1) by (simp add: sidecar_container_def zero_VolumeMount_def)
  have "mounts_of (pod_inits pod' @ pod_containers pod') =
      mounts_of (startup_gate db v) \<union> mounts_of (pod_inits pod @ pod_containers pod)
      \<union> mounts_of (if rp_InitSQL (db_Spec db) = [] then [] else [db_init_container db v])
      \<union> mounts_of [sidecar_container db v]"
    using assms(1) by (simp add: injected_with_def Un_ac del: mounts_of_simps(2))
  with gate sql car base(2) show ?thesis by (simp split: if_splits)
qed

lemma distinct_added: "distinct ys \<Longrightarrow> distinct (xs @ ys) \<longleftrightarrow> distinct xs \<and> set xs \<inter> set ys = {}"
  by auto

text \<open>
  C29. When injection keeps a pod well-formed (container names and volume names unique, every mount
  names a volume): exactly when the pod does not use one of the names that are added for this
  replica, the sidecar, the init container of its gate and of its init SQL, and the volumes of the
  two ConfigMaps. The webhook does not check these names: a pod that has a container or volume of
  such a name already gets a second one, which the API server rejects. (Every mount names a volume
  in any case.)
\<close>

theorem inject_keeps_wf:
  assumes "inject pod db = Inr pod'" "pod_wf pod"
  shows "pod_wf pod' \<longleftrightarrow>
    c_Name ` set (pod_inits pod @ pod_containers pod) \<inter> set (added_containers db) = {}
    \<and> vol_Name ` set (pod_volumes pod) \<inter> set (added_volumes db) = {}"
proof -
  from assms(1) obtain v where v: "data_volume pod (rp_DatabasePath (db_Spec db)) = Some v"
    and iw: "injected_with db v pod pod'" by (elim injectE)
  note parts = assms(2) [unfolded pod_wf_def]
  have "distinct (map c_Name (pod_inits pod' @ pod_containers pod')) \<longleftrightarrow>
      c_Name ` set (pod_inits pod @ pod_containers pod) \<inter> set (added_containers db) = {}"
    unfolding injected_names(1) [OF iw] distinct_added [OF added_distinct(1)] set_map using parts by blast
  moreover have "distinct (map vol_Name (pod_volumes pod')) \<longleftrightarrow>
      vol_Name ` set (pod_volumes pod) \<inter> set (added_volumes db) = {}"
    unfolding injected_names(2) [OF iw] distinct_added [OF added_distinct(2)] set_map using parts by blast
  moreover have "mounts_of (pod_inits pod' @ pod_containers pod') \<subseteq> vol_Name ` set (pod_volumes pod')"
    using injected_mounts [OF iw data_volume_mounted [OF v assms(2)]] parts by blast
  ultimately show ?thesis by (simp only: pod_wf_def simp_thms)
qed

section \<open>Handling a request\<close>

text \<open>The replica that a pod refers to; a missing namespace is the one of the request.\<close>

definition config_key :: "Pod \<Rightarrow> string \<Rightarrow> NamespacedName option" where
  "config_key pod podNamespace =
     (case strings_Cut (pod_annotation pod AnnotationConfig) CHR ''/'' of (ns, name, found) \<Rightarrow>
        if found then Some \<lparr>nn_Namespace = (if ns = [] then podNamespace else ns), nn_Name = name\<rparr>
        else None)"

definition wants_sidecar :: "Pod \<Rightarrow> bool" where
  "wants_sidecar pod = (pod_annotation pod AnnotationInject = injectTrue \<and> \<not> alreadyInjected pod)"

lemma resolve_Call:
  "resolveLitestreamReplica pod ns =
     (if pod_annotation pod AnnotationConfig = [] then Ret (Inr None)
      else case config_key pod ns of
        None \<Rightarrow> Ret (Inl (errorf (''malformed '' @ AnnotationConfig @ '' annotation ''
          @ fmt_quote (pod_annotation pod AnnotationConfig) @ '': expected namespace/name'')))
      | Some key \<Rightarrow> Call (GetReplica key) (\<lambda>r. case as_replica r of
            Inl e \<Rightarrow> Ret (Inl (wrapf (''getting LitestreamReplica '' @ nn_Namespace key @ ''/''
              @ nn_Name key @ '': '') e))
          | Inr db \<Rightarrow> Ret (Inr (Some db))))"
  by (cases "strings_Cut (pod_annotation pod AnnotationConfig) CHR ''/''")
    (auto simp: resolveLitestreamReplica_def config_key_def Let_def fun_eq_iff split: sum.splits)

lemma config_key_nonempty: "config_key pod ns = Some key \<Longrightarrow> pod_annotation pod AnnotationConfig \<noteq> []"
  by (auto simp: config_key_def)

lemma Handle_patch_alt:
  "exec (Handle decode marshal raw ns) tr (Returned (PatchResponseFromRaw orig patched)) \<longleftrightarrow>
     orig = raw
     \<and> (\<exists>pod key db pod'. decode raw = Inr pod \<and> wants_sidecar pod \<and> config_key pod ns = Some key
         \<and> tr = [(GetReplica key, RReplica db)] \<and> inject pod db = Inr pod' \<and> marshal pod' = Inr patched)"
proof (cases "decode raw")
  case (Inr pod)
  show ?thesis
  proof (cases "wants_sidecar pod \<and> pod_annotation pod AnnotationConfig \<noteq> []")
    case True
    show ?thesis (is "?L \<longleftrightarrow> ?R")
    proof
      assume L: ?L
      then obtain key where key: "config_key pod ns = Some key"
        using True by (auto simp: Inr Handle_def wants_sidecar_def resolve_Call exec_Ret_iff
            split: option.split_asm)
      with L True obtain r tr' where tr: "tr = (GetReplica key, r) # tr'"
        by (auto simp: Inr Handle_def wants_sidecar_def resolve_Call exec_Call_iff)
      with L True key obtain db where "as_replica r = Inr db"
        by (cases "as_replica r")
          (auto simp: Inr Handle_def wants_sidecar_def resolve_Call exec_Ret_iff exec_Call_iff)
      with L True key tr show ?R
        by (cases "inject pod db"; cases "marshal (projr (inject pod db))")
          (auto simp: Inr Handle_def wants_sidecar_def resolve_Call exec_Ret_iff exec_Call_iff)
    next
      assume ?R
      with True show ?L
        by (auto simp: Inr Handle_def wants_sidecar_def resolve_Call exec_Ret_iff exec_Call_iff)
    qed
  next
    case False
    then show ?thesis
      using config_key_nonempty [of pod ns]
      by (auto simp: Inr Handle_def wants_sidecar_def resolve_Call exec_Ret_iff)
  qed
qed (simp add: Handle_def exec_Ret_iff)

text \<open>
  C30. The webhook patches a pod exactly when the pod asks for a sidecar and has none, its reference
  names a replica that the one read returns, the injection succeeds and the result can be
  marshalled; the patch then leads from the request's object to the injected pod.
\<close>

theorem Handle_patch_iff:
  "exec (Handle decode marshal raw ns) tr (Returned (PatchResponseFromRaw orig patched)) \<longleftrightarrow>
     orig = raw
     \<and> (\<exists>pod key db pod'. decode raw = Inr pod \<and> wants_sidecar pod \<and> config_key pod ns = Some key
         \<and> tr = [(GetReplica key, RReplica db)] \<and> inject pod db = Inr pod' \<and> marshal pod' = Inr patched)"
  by (rule Handle_patch_alt)

text \<open>
  The webhook never writes and never panics: it makes at most one call, the read of the
  referenced replica, and none for a pod that does not ask for a sidecar or has one.
\<close>

theorem Handle_reads_only:
  "no_panic (Handle decode marshal raw ns)
   \<and> all_calls (\<lambda>q. \<exists>pod key. decode raw = Inr pod \<and> wants_sidecar pod \<and> config_key pod ns = Some key
       \<and> q = GetReplica key) (Handle decode marshal raw ns)"
  by (auto simp: Handle_def resolve_Call wants_sidecar_def split: sum.splits option.splits)

lemma prometheus_keys [simp]:
  "prometheus AnnotationInject = None" "prometheus AnnotationConfig = None"
  by (simp_all add: prometheus_def annotation_keys)

lemma injected_with_marks:
  assumes "injected_with db v pod pod'"
  shows "alreadyInjected pod'" "pod_annotation pod' AnnotationInject = pod_annotation pod AnnotationInject"
    "pod_annotation pod' AnnotationConfig = pod_annotation pod AnnotationConfig"
  using assms by (simp_all add: injected_with_def alreadyInjected_def sidecar_container_def)

text \<open>
  Injection is idempotent: when decoding inverts marshalling, a pod that was patched is let
  through unchanged, without a call, when it is submitted again.
\<close>

theorem Handle_idempotent:
  assumes roundtrip: "\<And>p r. marshal p = Inr r \<Longrightarrow> decode r = Inr p"
    and patched: "exec (Handle decode marshal raw ns) tr (Returned (PatchResponseFromRaw orig patched))"
  shows "Handle decode marshal patched ns' = Ret (Allowed ''sidecar already present'')"
proof -
  from patched [unfolded Handle_patch_alt] obtain pod db pod'
    where "wants_sidecar pod" "inject pod db = Inr pod'" "marshal pod' = Inr patched" by blast
  then obtain v where "injected_with db v pod pod'" "decode patched = Inr pod'"
    using roundtrip by (auto elim: injectE)
  with \<open>wants_sidecar pod\<close> show ?thesis
    by (simp add: Handle_def wants_sidecar_def injected_with_marks)
qed

section \<open>A sample pod\<close>

definition sample_container :: Container where
  "sample_container = zero_Container\<lparr>c_Name := ''paperless'',
     c_VolumeMounts := [zero_VolumeMount\<lparr>vm_Name := ''tmp'', vm_MountPath := ''/tmp''\<rparr>,
       zero_VolumeMount\<lparr>vm_Name := ''data'', vm_MountPath := ''/data''\<rparr>]\<rparr>"

definition sample_pod :: Pod where
  "sample_pod = \<lparr>
     pod_Meta = zero_ObjectMeta\<lparr>om_Namespace := ''paperless'',
       om_Annotations := Some [AnnotationInject \<mapsto> ''true'', AnnotationConfig \<mapsto> ''paperless/paperless-db'']\<rparr>,
     pod_Spec = zero_PodSpec\<lparr>ps_Containers := [sample_container],
       ps_Volumes := [\<lparr>vol_Name = ''tmp'', vol_Source = OtherSource ''emptyDir''\<rparr>,
         \<lparr>vol_Name = ''data'', vol_Source = PersistentVolumeClaimSource ''paperless-data''\<rparr>]\<rparr>,
     pod_ContainerStatuses = [], pod_InitContainerStatuses = []\<rparr>"

lemmas sample_pod_defs = sample_pod_def sample_container_def zero_Container_def zero_VolumeMount_def
  zero_PodSpec_def zero_ObjectMeta_def

lemma sample_data_volume: "data_volume sample_pod (rp_DatabasePath (db_Spec sample_replica)) = Some ''data''"
  by (simp add: data_volume_def covers_def strings_HasPrefix_def sample_pod_defs sample_defs)

lemma sample_pod_ok: "pod_wf sample_pod" "unreserved sample_pod" "wants_sidecar sample_pod"
  "config_key sample_pod [] = Some \<lparr>nn_Namespace = ''paperless'', nn_Name = ''paperless-db''\<rparr>"
  by (simp_all add: pod_wf_def unreserved_def reserved_names wants_sidecar_def config_key_def
      alreadyInjected_def injectTrue_def annotation_keys map_get_def sample_pod_defs)

text \<open>A pod with a volume of the name that the webhook adds.\<close>

definition clashing_pod :: Pod where
  "clashing_pod = add_volume \<lparr>vol_Name = litestreamConfigVolume, vol_Source = OtherSource ''emptyDir''\<rparr> sample_pod"

theorem inject_keeps_wf_witness:
  "(\<exists>pod'. inject sample_pod sample_replica = Inr pod' \<and> pod_wf pod')
   \<and> (\<exists>pod'. inject clashing_pod sample_replica = Inr pod' \<and> \<not> pod_wf pod')"
proof (intro conjI)
  from inject_injected_with [OF sample_data_volume]
  obtain pod' where "inject sample_pod sample_replica = Inr pod'" by blast
  with inject_keeps_wf [OF this] sample_pod_ok show "\<exists>pod'. inject sample_pod sample_replica = Inr pod' \<and> pod_wf pod'"
    by (auto simp: unreserved_def added_containers_def added_volumes_def split: if_splits)
next
  have vol: "data_volume clashing_pod (rp_DatabasePath (db_Spec sample_replica)) = Some ''data''"
    and wf: "pod_wf clashing_pod"
    by (simp_all add: data_volume_def covers_def strings_HasPrefix_def pod_wf_def clashing_pod_def add_volume_def
        with_spec_def reserved_names sample_pod_defs sample_defs)
  have used: "litestreamConfigVolume \<in> vol_Name ` set (pod_volumes clashing_pod) \<inter> set (added_volumes sample_replica)"
    by (simp add: clashing_pod_def add_volume_def with_spec_def added_volumes_def)
  from inject_injected_with [OF vol] obtain pod' where "inject clashing_pod sample_replica = Inr pod'" by blast
  with inject_keeps_wf [OF this wf] used
  show "\<exists>pod'. inject clashing_pod sample_replica = Inr pod' \<and> \<not> pod_wf pod'" by blast
qed

theorem Handle_idempotent_witness:
  "\<exists>tr patched. exec (Handle Inr Inr sample_pod []) tr
       (Returned (PatchResponseFromRaw sample_pod (patched :: Pod)))
     \<and> Handle Inr Inr patched [] = Ret (Allowed ''sidecar already present'')"
proof -
  from inject_injected_with [OF sample_data_volume]
  obtain pod' where "inject sample_pod sample_replica = Inr pod'" by blast
  with sample_pod_ok
  have "exec (Handle Inr Inr sample_pod [])
      [(GetReplica \<lparr>nn_Namespace = ''paperless'', nn_Name = ''paperless-db''\<rparr>, RReplica sample_replica)]
      (Returned (PatchResponseFromRaw sample_pod pod'))"
    by (simp add: Handle_patch_alt)
  from this Handle_idempotent [OF _ this] show ?thesis by blast
qed

end
