(* ===== verification/Shell.thy ===== *)
theory Shell
  imports Go_Path
begin

text \<open>
  The fragment of the POSIX shell in which the operator's container scripts are written: its
  syntax, its concrete text (\<open>show_cmds\<close> for scripts with one command per line, \<open>show_inline\<close> for
  scripts on one line) and its meaning.

  A script runs on a file system, a map from absolute paths to files and directories. The programs
  of the images (\<^verbatim>\<open>litestream\<close>, \<^verbatim>\<open>sqlite3\<close>, \<^verbatim>\<open>sha256sum\<close>) are arguments: \<open>tool_run\<close> gives, for an
  argument vector, the standard input and the files, what the program does, and \<open>tool_found\<close>
  whether \<^verbatim>\<open>command -v\<close> finds it. The commands \<^verbatim>\<open>echo\<close>, \<^verbatim>\<open>rm -f\<close> and \<^verbatim>\<open>touch\<close> are part of the model, as
  they behave when the volume is writable. The invoked programs are recorded in \<open>sh_log\<close>.

  Errors do not stop a script (no script of the operator sets \<^verbatim>\<open>-e\<close>).
\<close>

named_theorems sh_simps \<open>evaluation of shell scripts\<close>

section \<open>Syntax\<close>

text \<open>An argument is written bare or in double quotes; both expand variables.\<close>

datatype arg = Bare string | Quoted string

datatype test =
  IsFile arg
| NotFile arg
| IsDir arg
| NotZero arg
| Equals arg arg
| NoCommand string
| NoOkLine "arg list"

datatype cmd =
  Run "arg list"
| RunIn "arg list" arg
| Assign string arg
| AssignStatus string
| AssignOut string "arg list"
| AssignBoth string "arg list"
| AssignField string "arg list"
| Exit nat
| If test "cmd list" "cmd list"

section \<open>Concrete text\<close>

fun show_arg :: "arg \<Rightarrow> string" where
  "show_arg (Bare s) = s"
| "show_arg (Quoted s) = ''\"'' @ s @ ''\"''"

definition show_args :: "arg list \<Rightarrow> string" where
  "show_args as = join_with '' '' (map show_arg as)"

definition cut_text :: string where
  "cut_text = '' | cut -d'' @ [CHR 0x27, CHR '' '', CHR 0x27] @ '' -f1''"

fun show_test :: "test \<Rightarrow> string" where
  "show_test (IsFile a) = ''[ -f '' @ show_arg a @ '' ]''"
| "show_test (NotFile a) = ''[ ! -f '' @ show_arg a @ '' ]''"
| "show_test (IsDir a) = ''[ -d '' @ show_arg a @ '' ]''"
| "show_test (NotZero a) = ''[ '' @ show_arg a @ '' -ne 0 ]''"
| "show_test (Equals a b) = ''[ '' @ show_arg a @ '' = '' @ show_arg b @ '' ]''"
| "show_test (NoCommand x) = ''! command -v '' @ x @ '' > /dev/null 2>&1''"
| "show_test (NoOkLine as) = ''! '' @ show_args as @ '' | grep -q \"^ok$\"''"

definition indent :: "string list \<Rightarrow> string list" where
  "indent ls = map (\<lambda>l. ''  '' @ l) ls"

fun show_cmd :: "cmd \<Rightarrow> string list" and show_cmds :: "cmd list \<Rightarrow> string list" where
  "show_cmd (Run as) = [show_args as]"
| "show_cmd (RunIn as f) = [show_args as @ '' < '' @ show_arg f]"
| "show_cmd (Assign x a) = [x @ ''='' @ show_arg a]"
| "show_cmd (AssignStatus x) = [x @ ''=$?'']"
| "show_cmd (AssignOut x as) = [x @ ''=$('' @ show_args as @ '')'']"
| "show_cmd (AssignBoth x as) = [x @ ''=$('' @ show_args as @ '' 2>&1)'']"
| "show_cmd (AssignField x as) = [x @ ''=$('' @ show_args as @ cut_text @ '')'']"
| "show_cmd (Exit n) = [''exit '' @ show_nat n]"
| "show_cmd (If t a b) =
     [''if '' @ show_test t @ ''; then''] @ indent (show_cmds a)
     @ (if b = [] then [] else ''else'' # indent (show_cmds b)) @ [''fi'']"
| "show_cmds [] = []"
| "show_cmds (c # cs) = show_cmd c @ show_cmds cs"

fun show_inline1 :: "cmd \<Rightarrow> string" and show_inline :: "cmd list \<Rightarrow> string" where
  "show_inline1 (If t a b) = ''if '' @ show_test t @ ''; then '' @ show_inline a
     @ (if b = [] then [] else ''; else '' @ show_inline b) @ ''; fi''"
| "show_inline1 c = concat (show_cmd c)"
| "show_inline [] = []"
| "show_inline [c] = show_inline1 c"
| "show_inline (c # d # cs) = show_inline1 c @ ''; '' @ show_inline (d # cs)"

section \<open>Meaning\<close>

datatype node = File string | Dir

type_synonym files = "string \<rightharpoonup> node"

definition is_file :: "files \<Rightarrow> string \<Rightarrow> bool" where
  "is_file fs p = (case fs p of Some (File _) \<Rightarrow> True | _ \<Rightarrow> False)"

definition is_dir :: "files \<Rightarrow> string \<Rightarrow> bool" where
  "is_dir fs p = (fs p = Some Dir)"

text \<open>\<^verbatim>\<open>rm -f\<close> removes a file and leaves a directory; \<^verbatim>\<open>touch\<close> creates an empty file.\<close>

definition rm_f :: "string \<Rightarrow> files \<Rightarrow> files" where
  "rm_f p fs = (if is_dir fs p then fs else fs(p := None))"

definition touch :: "string \<Rightarrow> files \<Rightarrow> files" where
  "touch p fs = (if fs p = None then fs(p \<mapsto> File []) else fs)"

text \<open>\<open>tr_both\<close> is the text on both output streams, \<open>tr_stdout\<close> the one on standard output.\<close>

record tool_result =
  tr_exit :: int
  tr_stdout :: string
  tr_both :: string
  tr_files :: files

record tools =
  tool_found :: "string \<Rightarrow> bool"
  tool_run :: "string list \<Rightarrow> string \<Rightarrow> files \<Rightarrow> tool_result"

record sh =
  sh_vars :: "string \<Rightarrow> string"
  sh_status :: int
  sh_files :: files
  sh_out :: "string list"
  sh_log :: "string list list"

definition name_char :: "char \<Rightarrow> bool" where
  "name_char c =
     (let n = of_char c :: nat in 48 \<le> n \<and> n \<le> 57 \<or> 65 \<le> n \<and> n \<le> 90 \<or> n = 95 \<or> 97 \<le> n \<and> n \<le> 122)"

function expand :: "(string \<Rightarrow> string) \<Rightarrow> string \<Rightarrow> string" where
  "expand \<rho> [] = []"
| "expand \<rho> (c # s) =
     (if c \<noteq> CHR ''$'' then c # expand \<rho> s
      else if s \<noteq> [] \<and> hd s = CHR ''{'' then
        (let x = takeWhile (\<lambda>c. c \<noteq> CHR ''}'') (tl s)
         in \<rho> x @ expand \<rho> (drop (length x + 1) (tl s)))
      else
        (let x = takeWhile name_char s
         in if x = [] then c # expand \<rho> s else \<rho> x @ expand \<rho> (drop (length x) s)))"
  by pat_completeness auto
termination
  by (relation "measure (\<lambda>(\<rho>, s). length s)") (auto simp: less_Suc_eq_le)

fun expand_arg :: "sh \<Rightarrow> arg \<Rightarrow> string" where
  "expand_arg s (Bare t) = expand (sh_vars s) t"
| "expand_arg s (Quoted t) = expand (sh_vars s) t"

text \<open>Running a program with the arguments as they are expanded.\<close>

definition run_prog :: "tools \<Rightarrow> sh \<Rightarrow> string list \<Rightarrow> string \<Rightarrow> tool_result \<times> sh" where
  "run_prog T s argv input =
     (case argv of
        [] \<Rightarrow> (\<lparr>tr_exit = 0, tr_stdout = [], tr_both = [], tr_files = sh_files s\<rparr>, s)
      | prog # rest \<Rightarrow>
          if prog = ''echo'' then
            (\<lparr>tr_exit = 0, tr_stdout = join_with '' '' rest @ [newline],
              tr_both = join_with '' '' rest @ [newline], tr_files = sh_files s\<rparr>, s)
          else if prog = ''rm'' \<and> length rest = 2 \<and> hd rest = ''-f'' then
            (\<lparr>tr_exit = (if is_dir (sh_files s) (last rest) then 1 else 0), tr_stdout = [],
              tr_both = [], tr_files = rm_f (last rest) (sh_files s)\<rparr>, s)
          else if prog = ''touch'' \<and> length rest = 1 then
            (\<lparr>tr_exit = 0, tr_stdout = [], tr_both = [], tr_files = touch (hd rest) (sh_files s)\<rparr>, s)
          else (tool_run T argv input (sh_files s), s\<lparr>sh_log := sh_log s @ [argv]\<rparr>))"

definition run_args :: "tools \<Rightarrow> arg list \<Rightarrow> string \<Rightarrow> sh \<Rightarrow> tool_result \<times> sh" where
  "run_args T as input s =
     (case run_prog T s (map (expand_arg s) as) input of (r, s') \<Rightarrow>
        (r, s'\<lparr>sh_files := tr_files r, sh_status := tr_exit r\<rparr>))"

definition set_var :: "string \<Rightarrow> string \<Rightarrow> sh \<Rightarrow> sh" where
  "set_var x v s = s\<lparr>sh_vars := (sh_vars s)(x := v)\<rparr>"

definition emit :: "string \<Rightarrow> sh \<Rightarrow> sh" where
  "emit t s = s\<lparr>sh_out := sh_out s @ [t]\<rparr>"

text \<open>Command substitution drops trailing line breaks.\<close>

definition substituted :: "string \<Rightarrow> string" where
  "substituted t = strings_TrimRight t [newline]"

text \<open>The filter \<^verbatim>\<open>cut\<close> with a blank as delimiter, first field: on every line.\<close>

definition cut_first :: "string \<Rightarrow> string" where
  "cut_first t = join_with [newline] (map (takeWhile (\<lambda>c. c \<noteq> CHR '' '')) (split_on newline t))"

definition ok_line :: "string \<Rightarrow> bool" where
  "ok_line t = (''ok'' \<in> set (split_on newline t))"

text \<open>\<^verbatim>\<open>[ w -ne 0 ]\<close> holds of the decimal numbers other than zero.\<close>

definition is_digit :: "char \<Rightarrow> bool" where
  "is_digit c = (48 \<le> (of_char c :: nat) \<and> (of_char c :: nat) \<le> 57)"

definition nonzero_number :: "string \<Rightarrow> bool" where
  "nonzero_number w =
     (let ds = (if w \<noteq> [] \<and> hd w = CHR ''-'' then tl w else w)
      in ds \<noteq> [] \<and> list_all is_digit ds \<and> list_ex (\<lambda>c. c \<noteq> CHR ''0'') ds)"

fun eval_test :: "tools \<Rightarrow> test \<Rightarrow> sh \<Rightarrow> bool \<times> sh" where
  "eval_test T (IsFile a) s = (is_file (sh_files s) (expand_arg s a), s)"
| "eval_test T (NotFile a) s = (\<not> is_file (sh_files s) (expand_arg s a), s)"
| "eval_test T (IsDir a) s = (is_dir (sh_files s) (expand_arg s a), s)"
| "eval_test T (NotZero a) s = (nonzero_number (expand_arg s a), s)"
| "eval_test T (Equals a b) s = (expand_arg s a = expand_arg s b, s)"
| "eval_test T (NoCommand x) s = (\<not> tool_found T x, s)"
| "eval_test T (NoOkLine as) s =
     (case run_args T as [] s of (r, s') \<Rightarrow> (\<not> ok_line (tr_stdout r), s'))"

text \<open>The second component is the exit code once the script has exited.\<close>

fun eval_cmd :: "tools \<Rightarrow> cmd \<Rightarrow> sh \<Rightarrow> sh \<times> nat option"
  and eval_cmds :: "tools \<Rightarrow> cmd list \<Rightarrow> sh \<Rightarrow> sh \<times> nat option" where
  "eval_cmd T (Run as) s =
     (case run_args T as [] s of (r, s') \<Rightarrow> (emit (tr_both r) s', None))"
| "eval_cmd T (RunIn as f) s =
     (case run_args T as
        (case sh_files s (expand_arg s f) of Some (File t) \<Rightarrow> t | _ \<Rightarrow> []) s of (r, s') \<Rightarrow>
        (emit (tr_both r) s', None))"
| "eval_cmd T (Assign x a) s = ((set_var x (expand_arg s a) s)\<lparr>sh_status := 0\<rparr>, None)"
| "eval_cmd T (AssignStatus x) s = ((set_var x (show_int (sh_status s)) s)\<lparr>sh_status := 0\<rparr>, None)"
| "eval_cmd T (AssignOut x as) s =
     (case run_args T as [] s of (r, s') \<Rightarrow> (set_var x (substituted (tr_stdout r)) s', None))"
| "eval_cmd T (AssignBoth x as) s =
     (case run_args T as [] s of (r, s') \<Rightarrow> (set_var x (substituted (tr_both r)) s', None))"
| "eval_cmd T (AssignField x as) s =
     (case run_args T as [] s of (r, s') \<Rightarrow>
        ((set_var x (substituted (cut_first (tr_stdout r))) s')\<lparr>sh_status := 0\<rparr>, None))"
| "eval_cmd T (Exit n) s = (s, Some n)"
| "eval_cmd T (If t a b) s =
     (case eval_test T t s of (c, s') \<Rightarrow>
        eval_cmds T (if c then a else b) (s'\<lparr>sh_status := 0\<rparr>))"
| "eval_cmds T [] s = (s, None)"
| "eval_cmds T (c # cs) s =
     (case eval_cmd T c s of
        (s', Some n) \<Rightarrow> (s', Some n)
      | (s', None) \<Rightarrow> eval_cmds T cs s')"

text \<open>
  A container that runs the script: a fresh shell on the given files. Without \<^verbatim>\<open>exit\<close> the status
  of the last command is the exit code.
\<close>

definition fresh_shell :: "files \<Rightarrow> sh" where
  "fresh_shell fs = \<lparr>sh_vars = (\<lambda>_. []), sh_status = 0, sh_files = fs, sh_out = [], sh_log = []\<rparr>"

definition run_script :: "tools \<Rightarrow> cmd list \<Rightarrow> files \<Rightarrow> int \<times> sh" where
  "run_script T cs fs =
     (case eval_cmds T cs (fresh_shell fs) of
        (s, Some n) \<Rightarrow> (int n, s)
      | (s, None) \<Rightarrow> (sh_status s, s))"

section \<open>Lemmas\<close>

text \<open>Text without dollar signs stands for itself.\<close>

lemma expand_append:
  "CHR ''$'' \<notin> set a \<Longrightarrow> expand \<rho> (a @ b) = a @ expand \<rho> b"
  by (induction a) auto

lemma expand_plain: "CHR ''$'' \<notin> set a \<Longrightarrow> expand \<rho> a = a"
  using expand_append [of a \<rho> "[]"] by simp

lemma expand_var:
  "CHR ''}'' \<notin> set x \<Longrightarrow> expand \<rho> (CHR ''$'' # CHR ''{'' # x @ CHR ''}'' # t) = \<rho> x @ expand \<rho> t"
proof -
  assume "CHR ''}'' \<notin> set x"
  then have "takeWhile (\<lambda>c. c \<noteq> CHR ''}'') (x @ CHR ''}'' # t) = x" by (induction x) auto
  then show ?thesis by (simp add: Let_def)
qed

declare expand.simps [simp del]

lemma show_nat_small [simp]: "show_nat 0 = ''0''" "show_nat (Suc 0) = ''1''"
  by code_simp+

lemma digit_char_digit:
  assumes "d < 10"
  shows "is_digit (digit_char d) \<and> (digit_char d = CHR ''0'' \<longleftrightarrow> d = 0)"
proof -
  have "(of_char (digit_char d) :: nat) = 48 + d"
    using assms by (simp add: digit_char_def)
  then show ?thesis
    using assms of_char_eq_iff [where 'a = nat, of "digit_char d" "CHR ''0''"] by (auto simp: is_digit_def)
qed

lemma show_nat_digits:
  "list_all is_digit (show_nat n) \<and> (list_ex (\<lambda>c. c \<noteq> CHR ''0'') (show_nat n) \<longleftrightarrow> n \<noteq> 0)"
proof (induction n rule: show_nat.induct)
  case (1 n)
  show ?case
    using 1 digit_char_digit [of n] digit_char_digit [of "n mod 10"]
    by (subst (1 2) show_nat.simps) auto
qed

lemma show_nat_no_minus: "hd (show_nat n) \<noteq> CHR ''-''"
proof -
  have "is_digit (hd (show_nat n))"
    using show_nat_digits [of n] by (cases "show_nat n") auto
  then show ?thesis by (auto simp: is_digit_def)
qed

lemma nonzero_number_show [sh_simps]: "nonzero_number (show_int i) \<longleftrightarrow> i \<noteq> 0"
  using show_nat_digits [of "nat i"] show_nat_digits [of "nat (- i)"] show_nat_no_minus [of "nat i"]
  by (auto simp: nonzero_number_def show_int_def Let_def)

lemma is_file_rm [sh_simps]: "is_file (rm_f p fs) q = (q \<noteq> p \<and> is_file fs q)"
  by (auto simp: is_file_def rm_f_def is_dir_def)

section \<open>Symbolic execution\<close>

text \<open>
  One rule per command, on the head of a list of commands and on a state given by its
  components; a conditional continues with the commands of its branch in front of the rest.
\<close>

definition mk_sh :: "(string \<Rightarrow> string) \<Rightarrow> int \<Rightarrow> files \<Rightarrow> string list \<Rightarrow> string list list \<Rightarrow> sh" where
  "mk_sh \<rho> st fs out log =
     \<lparr>sh_vars = \<rho>, sh_status = st, sh_files = fs, sh_out = out, sh_log = log\<rparr>"

lemma mk_sh_sel [simp]:
  "sh_vars (mk_sh \<rho> st fs out log) = \<rho>" "sh_status (mk_sh \<rho> st fs out log) = st"
  "sh_files (mk_sh \<rho> st fs out log) = fs" "sh_out (mk_sh \<rho> st fs out log) = out"
  "sh_log (mk_sh \<rho> st fs out log) = log"
  by (simp_all add: mk_sh_def)

lemma mk_sh_upd [simp]:
  "(mk_sh \<rho> st fs out log)\<lparr>sh_vars := \<rho>'\<rparr> = mk_sh \<rho>' st fs out log"
  "(mk_sh \<rho> st fs out log)\<lparr>sh_status := st'\<rparr> = mk_sh \<rho> st' fs out log"
  "(mk_sh \<rho> st fs out log)\<lparr>sh_files := fs'\<rparr> = mk_sh \<rho> st fs' out log"
  "(mk_sh \<rho> st fs out log)\<lparr>sh_out := out'\<rparr> = mk_sh \<rho> st fs out' log"
  "(mk_sh \<rho> st fs out log)\<lparr>sh_log := log'\<rparr> = mk_sh \<rho> st fs out log'"
  by (simp_all add: mk_sh_def)

fun text_of :: "arg \<Rightarrow> string" where
  "text_of (Bare t) = t"
| "text_of (Quoted t) = t"

lemma expand_arg_mk [simp]: "expand_arg (mk_sh \<rho> st fs out log) a = expand \<rho> (text_of a)"
  by (cases a) simp_all

lemma eval_cmds_append:
  "eval_cmds T (as @ bs) s =
     (case eval_cmds T as s of (s', Some n) \<Rightarrow> (s', Some n) | (s', None) \<Rightarrow> eval_cmds T bs s')"
  by (induction as arbitrary: s) (auto split: prod.splits option.splits)

lemma eval_If:
  "eval_cmds T (If t a b # cs) s =
     (case eval_test T t s of (c, s') \<Rightarrow>
        eval_cmds T ((if c then a else b) @ cs) (s'\<lparr>sh_status := 0\<rparr>))"
  by (simp add: eval_cmds_append split: prod.splits)

lemma eval_steps [sh_simps]:
  "eval_cmds T (Assign x a # cs) (mk_sh \<rho> st fs out log) =
     eval_cmds T cs (mk_sh (\<rho>(x := expand \<rho> (text_of a))) 0 fs out log)"
  "eval_cmds T (AssignStatus x # cs) (mk_sh \<rho> st fs out log) =
     eval_cmds T cs (mk_sh (\<rho>(x := show_int st)) 0 fs out log)"
  "eval_cmds T (Exit n # cs) (mk_sh \<rho> st fs out log) = (mk_sh \<rho> st fs out log, Some n)"
  "eval_cmds T [] s = (s, None)"
  by (simp_all add: set_var_def)

lemma eval_echo [sh_simps]:
  "eval_cmds T (Run [Bare ''echo'', Quoted t] # cs) (mk_sh \<rho> st fs out log) =
     eval_cmds T cs (mk_sh \<rho> 0 fs (out @ [expand \<rho> t @ [newline]]) log)"
  by (simp add: run_args_def run_prog_def emit_def expand_plain)

definition rm_status :: "string \<Rightarrow> files \<Rightarrow> int" where
  "rm_status p fs = (if is_dir fs p then 1 else 0)"

lemma eval_rm [sh_simps]:
  "eval_cmds T (Run [Bare ''rm'', Bare ''-f'', Quoted t] # cs) (mk_sh \<rho> st fs out log) =
     eval_cmds T cs (mk_sh \<rho> (rm_status (expand \<rho> t) fs) (rm_f (expand \<rho> t) fs)
       (out @ [[]]) log)"
  by (simp add: run_args_def run_prog_def emit_def expand_plain rm_status_def)

lemma eval_touch [sh_simps]:
  "eval_cmds T (Run [Bare ''touch'', Quoted t] # cs) (mk_sh \<rho> st fs out log) =
     eval_cmds T cs (mk_sh \<rho> 0 (touch (expand \<rho> t) fs) (out @ [[]]) log)"
  by (simp add: run_args_def run_prog_def emit_def expand_plain)

text \<open>A program of the image: not one of the three commands of the model.\<close>

definition external :: "string \<Rightarrow> bool" where
  "external prog = (prog \<notin> {''echo'', ''rm'', ''touch''})"

lemma run_external:
  assumes "external prog" "CHR ''$'' \<notin> set prog"
    and "argv = prog # map (\<lambda>a. expand \<rho> (text_of a)) as"
  shows "run_args T (Bare prog # as) input (mk_sh \<rho> st fs out log) =
     (let r = tool_run T argv input fs in (r, mk_sh \<rho> (tr_exit r) (tr_files r) out (log @ [argv])))"
proof -
  have "map (expand_arg (mk_sh \<rho> st fs out log)) (Bare prog # as) = argv"
    using assms(2,3) by (simp add: expand_plain)
  then show ?thesis
    using assms(1,3) unfolding run_args_def
    by (simp add: run_prog_def external_def Let_def del: list.map)
qed

lemma eval_external:
  assumes "external prog" "CHR ''$'' \<notin> set prog"
    and "argv = prog # map (\<lambda>a. expand \<rho> (text_of a)) as"
  shows "eval_cmds T (Run (Bare prog # as) # cs) (mk_sh \<rho> st fs out log) =
     (let r = tool_run T argv [] fs
      in eval_cmds T cs (mk_sh \<rho> (tr_exit r) (tr_files r) (out @ [tr_both r]) (log @ [argv])))"
    "eval_cmds T (AssignBoth x (Bare prog # as) # cs) (mk_sh \<rho> st fs out log) =
     (let r = tool_run T argv [] fs
      in eval_cmds T cs (mk_sh (\<rho>(x := substituted (tr_both r))) (tr_exit r) (tr_files r) out (log @ [argv])))"
    "eval_cmds T (AssignOut x (Bare prog # as) # cs) (mk_sh \<rho> st fs out log) =
     (let r = tool_run T argv [] fs
      in eval_cmds T cs (mk_sh (\<rho>(x := substituted (tr_stdout r))) (tr_exit r) (tr_files r) out (log @ [argv])))"
    "eval_cmds T (AssignField x (Bare prog # as) # cs) (mk_sh \<rho> st fs out log) =
     (let r = tool_run T argv [] fs
      in eval_cmds T cs (mk_sh (\<rho>(x := substituted (cut_first (tr_stdout r)))) 0 (tr_files r) out (log @ [argv])))"
    "eval_cmds T (RunIn (Bare prog # as) f # cs) (mk_sh \<rho> st fs out log) =
     (let r = tool_run T argv (case fs (expand \<rho> (text_of f)) of Some (File t) \<Rightarrow> t | _ \<Rightarrow> []) fs
      in eval_cmds T cs (mk_sh \<rho> (tr_exit r) (tr_files r) (out @ [tr_both r]) (log @ [argv])))"
    "eval_cmds T (If (NoOkLine (Bare prog # as)) a b # cs) (mk_sh \<rho> st fs out log) =
     (let r = tool_run T argv [] fs
      in eval_cmds T ((if ok_line (tr_stdout r) then b else a) @ cs)
           (mk_sh \<rho> 0 (tr_files r) out (log @ [argv])))"
  by (simp_all only: eval_If eval_cmds.simps eval_cmd.simps eval_test.simps run_external [OF assms]
      mk_sh_sel expand_arg_mk Let_def split_conv option.simps)
    (simp_all add: set_var_def emit_def Let_def eval_cmds_append del: eval_cmds.simps)

lemma eval_tests [sh_simps]:
  "eval_cmds T (If (IsFile a) x y # cs) (mk_sh \<rho> st fs out log) =
     eval_cmds T ((if is_file fs (expand \<rho> (text_of a)) then x else y) @ cs) (mk_sh \<rho> 0 fs out log)"
  "eval_cmds T (If (NotFile a) x y # cs) (mk_sh \<rho> st fs out log) =
     eval_cmds T ((if is_file fs (expand \<rho> (text_of a)) then y else x) @ cs) (mk_sh \<rho> 0 fs out log)"
  "eval_cmds T (If (IsDir a) x y # cs) (mk_sh \<rho> st fs out log) =
     eval_cmds T ((if is_dir fs (expand \<rho> (text_of a)) then x else y) @ cs) (mk_sh \<rho> 0 fs out log)"
  "eval_cmds T (If (NotZero a) x y # cs) (mk_sh \<rho> st fs out log) =
     eval_cmds T ((if nonzero_number (expand \<rho> (text_of a)) then x else y) @ cs) (mk_sh \<rho> 0 fs out log)"
  "eval_cmds T (If (Equals a b) x y # cs) (mk_sh \<rho> st fs out log) =
     eval_cmds T ((if expand \<rho> (text_of a) = expand \<rho> (text_of b) then x else y) @ cs)
       (mk_sh \<rho> 0 fs out log)"
  "eval_cmds T (If (NoCommand p) x y # cs) (mk_sh \<rho> st fs out log) =
     eval_cmds T ((if tool_found T p then y else x) @ cs) (mk_sh \<rho> 0 fs out log)"
  by (simp_all add: eval_If del: eval_cmds.simps)

lemma fresh_shell_mk: "fresh_shell fs = mk_sh (\<lambda>_. []) 0 fs [] []"
  by (simp add: fresh_shell_def mk_sh_def)

declare eval_cmds.simps(2) [simp del]

end
