(* ===== verification/Startup_Scripts.thy ===== *)
theory Startup_Scripts
  imports Shell Sidecar_Injector Restore_Jobs
begin

text \<open>
  The scripts that the injected init containers and the validation Job run, as programs of the
  shell fragment. For each script, its concrete text is shown to be the text that the operator
  puts into the container, and its result is given in closed form.
\<close>

section \<open>The programs\<close>

abbreviation echo :: "string \<Rightarrow> cmd" where
  "echo t \<equiv> Run [Bare ''echo'', Quoted t]"

abbreviation rm_probe :: cmd where
  "rm_probe \<equiv> Run [Bare ''rm'', Bare ''-f'', Quoted ''${PROBE}'']"

definition config_flag :: "arg list" where
  "config_flag = [Bare ''-config'', Bare ''/etc/litestream/litestream.yml'']"

definition archive_check_prog :: "string \<Rightarrow> string \<Rightarrow> cmd list" where
  "archive_check_prog dbFullPath stateDir = [
     Assign ''DB_PATH'' (Quoted dbFullPath),
     Assign ''STATE_DIR'' (Quoted stateDir),
     If (IsFile (Quoted ''${DB_PATH}''))
       [If (IsDir (Quoted ''${STATE_DIR}''))
          [echo ''archive-check: database and litestream state directory exist, skipping check'',
           Exit 0] [],
        echo ''archive-check: database exists but litestream state directory missing at ${STATE_DIR}'',
        echo ''archive-check: this may indicate a fresh or recreated database; probing S3 for existing backup...'']
       [],
     If (NotFile (Quoted ''${DB_PATH}''))
       [echo ''archive-check: database file missing at ${DB_PATH}, probing S3 for backup data...''] [],
     Assign ''PROBE'' (Quoted ''${DB_PATH}.archive-check-probe''),
     rm_probe,
     AssignBoth ''RESTORE_OUTPUT''
       ([Bare ''litestream'', Bare ''restore'', Bare ''-if-replica-exists''] @ config_flag
        @ [Bare ''-o'', Quoted ''${PROBE}'', Quoted ''${DB_PATH}'']),
     AssignStatus ''RESTORE_EXIT'',
     If (NotZero (Bare ''${RESTORE_EXIT}''))
       [rm_probe,
        echo ''archive-check FAILED: litestream restore encountered an error.'',
        echo ''archive-check: litestream output: ${RESTORE_OUTPUT}'',
        echo ''archive-check: Examine the litestream output above for details.'',
        echo ''archive-check: To recover: create a LitestreamRestore CR (optionally with -timestamp for an earlier point).'',
        echo ''archive-check: To bypass (start fresh): set annotation litestream.io/skip-archive-check=true'',
        Exit 1] [],
     If (IsFile (Quoted ''${PROBE}''))
       [rm_probe,
        echo ''archive-check FAILED: S3 has existing backup data but local database is missing or untracked.'',
        echo ''This likely means data was lost (PVC wiped, DB deleted, or DB recreated without restoring first).'',
        echo ''To recover: create a LitestreamRestore CR targeting this PVC.'',
        echo ''To bypass (start fresh): set annotation litestream.io/skip-archive-check=true'',
        Exit 1] [],
     echo ''archive-check: no S3 backup found, safe to proceed (first-time setup)'',
     Exit 0]"

definition auto_restore_prog :: "string \<Rightarrow> cmd list" where
  "auto_restore_prog dbFullPath = [
     Assign ''DB_PATH'' (Quoted dbFullPath),
     If (IsFile (Quoted ''${DB_PATH}''))
       [echo ''litestream-restore: database exists, skipping restore'', Exit 0] [],
     echo ''litestream-restore: database missing, attempting restore from backup...'',
     Run ([Bare ''litestream'', Bare ''restore'', Bare ''-if-db-not-exists'', Bare ''-if-replica-exists'']
       @ config_flag @ [Quoted ''${DB_PATH}'']),
     AssignStatus ''RESTORE_EXIT'',
     If (NotZero (Bare ''$RESTORE_EXIT''))
       [echo ''litestream-restore: restore failed or no backup found, starting fresh'', Exit 0] [],
     If (NotFile (Quoted ''${DB_PATH}''))
       [echo ''litestream-restore: no backup found, starting fresh'', Exit 0] [],
     echo ''litestream-restore: restore complete, running integrity check...'',
     If (NoCommand ''sqlite3'')
       [echo ''WARNING: sqlite3 not found in image; skipping integrity check'', Exit 0] [],
     If (NoOkLine [Bare ''sqlite3'', Quoted ''${DB_PATH}'', Quoted ''PRAGMA quick_check;''])
       [echo ''ERROR: integrity check failed on restored database.'',
        echo ''The S3 backup may contain corruption (Litestream upstream issue #1164/#1220).'',
        echo ''Options:'',
        echo ''  1. Use a LitestreamRestore CR with a different -timestamp to find a clean snapshot.'',
        echo ''  2. Set annotation litestream.io/skip-archive-check=true to start fresh.'',
        Exit 1] [],
     echo ''litestream-restore: integrity check passed'',
     Exit 0]"

definition db_init_prog :: "string \<Rightarrow> string \<Rightarrow> cmd list" where
  "db_init_prog databasePath dbFullPath = [
     AssignField ''HASH'' [Bare ''sha256sum'', Bare ''/init/init.sql''],
     Assign ''MARKER'' (Quoted (databasePath @ ''/.db-init-${HASH}'')),
     If (NotFile (Quoted ''${MARKER}''))
       [RunIn [Bare ''sqlite3'', Quoted dbFullPath] (Bare ''/init/init.sql''),
        Run [Bare ''touch'', Quoted ''${MARKER}''],
        echo ''db-init: applied init SQL (hash ${HASH})'']
       [echo ''db-init: already applied (hash ${HASH}), skipping'']]"

definition validation_prog :: "string \<Rightarrow> cmd list" where
  "validation_prog targetPath = [
     AssignOut ''result'' [Bare ''sqlite3'', Quoted targetPath, Quoted ''PRAGMA quick_check;''],
     If (Equals (Quoted ''$result'') (Quoted ''ok'')) [echo ''ok'', Exit 0] [],
     echo ''integrity check failed: $result'',
     Exit 1]"

section \<open>The programs are the scripts\<close>

lemmas show_simps = show_args_def indent_def cut_text_def unlines_def newline_def config_flag_def

lemma archive_check_text:
  "archive_check_script db dir = newline # unlines (show_cmds (archive_check_prog db dir))"
  by (simp add: archive_check_script_def archive_check_prog_def show_simps)

lemma auto_restore_text:
  "auto_restore_script db = newline # unlines (show_cmds (auto_restore_prog db))"
  by (simp add: auto_restore_script_def auto_restore_prog_def show_simps)

lemma db_init_text:
  "db_init_script path db = newline # unlines (show_cmds (db_init_prog path db))"
  by (simp add: db_init_script_def db_init_prog_def show_simps)

section \<open>Results of the scripts\<close>

text \<open>
  The paths of the spec stand inside double quotes in the scripts: they are taken literally when
  they hold none of the characters that are special there.
\<close>

definition shell_plain :: "string \<Rightarrow> bool" where
  "shell_plain p = list_all (\<lambda>c. c \<notin> {CHR ''$'', CHR 0x60, CHR 0x22, CHR 0x5C}) p"

lemma shell_plain_expand [sh_simps]: "shell_plain p \<Longrightarrow> expand \<rho> p = p"
  by (rule expand_plain) (auto simp: shell_plain_def list_all_iff)

lemma expand_refs [sh_simps]:
  "expand \<rho> ''${DB_PATH}'' = \<rho> ''DB_PATH''" "expand \<rho> ''${STATE_DIR}'' = \<rho> ''STATE_DIR''"
  "expand \<rho> ''${PROBE}'' = \<rho> ''PROBE''" "expand \<rho> ''${RESTORE_EXIT}'' = \<rho> ''RESTORE_EXIT''"
  "expand \<rho> ''$RESTORE_EXIT'' = \<rho> ''RESTORE_EXIT''" "expand \<rho> ''${MARKER}'' = \<rho> ''MARKER''"
  "expand \<rho> ''$result'' = \<rho> ''result''"
  "expand \<rho> ''${DB_PATH}.archive-check-probe'' = \<rho> ''DB_PATH'' @ ''.archive-check-probe''"
  "expand \<rho> ''/.db-init-${HASH}'' = ''/.db-init-'' @ \<rho> ''HASH''"
  by (simp_all add: expand.simps Let_def name_char_def)

lemma expand_words [sh_simps]:
  "expand \<rho> ''echo'' = ''echo''" "expand \<rho> ''rm'' = ''rm''" "expand \<rho> ''-f'' = ''-f''"
  "expand \<rho> ''touch'' = ''touch''" "expand \<rho> ''litestream'' = ''litestream''"
  "expand \<rho> ''restore'' = ''restore''" "expand \<rho> ''-if-replica-exists'' = ''-if-replica-exists''"
  "expand \<rho> ''-if-db-not-exists'' = ''-if-db-not-exists''" "expand \<rho> ''-config'' = ''-config''"
  "expand \<rho> ''/etc/litestream/litestream.yml'' = ''/etc/litestream/litestream.yml''"
  "expand \<rho> ''-o'' = ''-o''" "expand \<rho> ''sqlite3'' = ''sqlite3''" "expand \<rho> ''ok'' = ''ok''"
  "expand \<rho> ''PRAGMA quick_check;'' = ''PRAGMA quick_check;''"
  "expand \<rho> ''sha256sum'' = ''sha256sum''" "expand \<rho> ''/init/init.sql'' = ''/init/init.sql''"
  by (simp_all add: expand_plain)

lemma externals:
  "external ''litestream''" "external ''sqlite3''" "external ''sha256sum''"
  "CHR ''$'' \<notin> set ''litestream''" "CHR ''$'' \<notin> set ''sqlite3''" "CHR ''$'' \<notin> set ''sha256sum''"
  by (simp_all add: external_def)

lemmas eval_tools [sh_simps] =
  eval_external [OF externals(1,4) refl] eval_external [OF externals(2,5) refl]
  eval_external [OF externals(3,6) refl]

lemmas sh_run = run_script_def fresh_shell_mk sh_simps config_flag_def Let_def

text \<open>What a container leaves behind: the exit code, the files, and the programs it ran.\<close>

definition observe :: "int \<times> sh \<Rightarrow> int \<times> files \<times> string list list" where
  "observe r = (fst r, sh_files (snd r), sh_log (snd r))"

definition probe_path :: "string \<Rightarrow> string" where
  "probe_path db = db @ ''.archive-check-probe''"

definition probe_args :: "string \<Rightarrow> string list" where
  "probe_args db = [''litestream'', ''restore'', ''-if-replica-exists'', ''-config'',
     ''/etc/litestream/litestream.yml'', ''-o'', probe_path db, db]"

definition restore_cmd_args :: "string \<Rightarrow> string list" where
  "restore_cmd_args db = [''litestream'', ''restore'', ''-if-db-not-exists'', ''-if-replica-exists'',
     ''-config'', ''/etc/litestream/litestream.yml'', db]"

definition quick_check_args :: "string \<Rightarrow> string list" where
  "quick_check_args db = [''sqlite3'', db, ''PRAGMA quick_check;'']"

definition archive_check_result :: "tools \<Rightarrow> string \<Rightarrow> string \<Rightarrow> files \<Rightarrow> int \<times> files \<times> string list list" where
  "archive_check_result T db dir fs =
     (if is_file fs db \<and> is_dir fs dir then (0, fs, [])
      else
        (let r = tool_run T (probe_args db) [] (rm_f (probe_path db) fs) in
         if tr_exit r \<noteq> 0 \<or> is_file (tr_files r) (probe_path db)
         then (1, rm_f (probe_path db) (tr_files r), [probe_args db])
         else (0, tr_files r, [probe_args db])))"

lemma archive_check_run:
  assumes "shell_plain db" "shell_plain dir"
  shows "observe (run_script T (archive_check_prog db dir) fs) = archive_check_result T db dir fs"
proof -
  let ?r = "tool_run T (probe_args db) [] (rm_f (probe_path db) fs)"
  note run = sh_run assms archive_check_prog_def observe_def archive_check_result_def
    probe_args_def probe_path_def
  consider "is_file fs db" "is_dir fs dir" | "is_file fs db" "\<not> is_dir fs dir" | "\<not> is_file fs db"
    by blast
  then show ?thesis
  proof cases
    case 1
    then show ?thesis by (simp add: run)
  next
    case 2
    then show ?thesis
      by (cases "tr_exit ?r = 0"; cases "is_file (tr_files ?r) (probe_path db)")
        (simp_all add: run)
  next
    case 3
    then show ?thesis
      by (cases "tr_exit ?r = 0"; cases "is_file (tr_files ?r) (probe_path db)")
        (simp_all add: run)
  qed
qed

definition auto_restore_result :: "tools \<Rightarrow> string \<Rightarrow> files \<Rightarrow> int \<times> files \<times> string list list" where
  "auto_restore_result T db fs =
     (if is_file fs db then (0, fs, [])
      else
        (let r = tool_run T (restore_cmd_args db) [] fs in
         if tr_exit r \<noteq> 0 \<or> \<not> is_file (tr_files r) db \<or> \<not> tool_found T ''sqlite3''
         then (0, tr_files r, [restore_cmd_args db])
         else
           (let q = tool_run T (quick_check_args db) [] (tr_files r)
            in (if ok_line (tr_stdout q) then 0 else 1, tr_files q,
                [restore_cmd_args db, quick_check_args db]))))"

lemma auto_restore_run:
  assumes "shell_plain db"
  shows "observe (run_script T (auto_restore_prog db) fs) = auto_restore_result T db fs"
proof -
  let ?r = "tool_run T (restore_cmd_args db) [] fs"
  let ?q = "tool_run T (quick_check_args db) [] (tr_files ?r)"
  note run = sh_run assms auto_restore_prog_def observe_def auto_restore_result_def
    restore_cmd_args_def quick_check_args_def
  show ?thesis
  proof (cases "is_file fs db")
    case True
    then show ?thesis by (simp add: run)
  next
    case False
    show ?thesis
    proof (cases "tr_exit ?r = 0 \<and> is_file (tr_files ?r) db")
      case True
      with False show ?thesis
        by (cases "tool_found T ''sqlite3''"; cases "ok_line (tr_stdout ?q)")
          (simp_all add: run)
    next
      case bad: False
      with False show ?thesis
        by (cases "tr_exit ?r = 0") (simp_all add: run)
    qed
  qed
qed

definition hash_args :: "string list" where
  "hash_args = [''sha256sum'', ''/init/init.sql'']"

definition apply_args :: "string \<Rightarrow> string list" where
  "apply_args db = [''sqlite3'', db]"

definition marker_path :: "string \<Rightarrow> string \<Rightarrow> string" where
  "marker_path path hash = path @ ''/.db-init-'' @ hash"

definition init_sql_text :: "files \<Rightarrow> string" where
  "init_sql_text fs = (case fs ''/init/init.sql'' of Some (File t) \<Rightarrow> t | _ \<Rightarrow> [])"

definition db_init_result :: "tools \<Rightarrow> string \<Rightarrow> string \<Rightarrow> files \<Rightarrow> int \<times> files \<times> string list list" where
  "db_init_result T path db fs =
     (let h = tool_run T hash_args [] fs;
          marker = marker_path path (substituted (cut_first (tr_stdout h)))
      in if is_file (tr_files h) marker then (0, tr_files h, [hash_args])
         else
           (let q = tool_run T (apply_args db) (init_sql_text (tr_files h)) (tr_files h)
            in (0, touch marker (tr_files q), [hash_args, apply_args db])))"

lemma db_init_run:
  assumes "shell_plain path" "shell_plain db"
  shows "observe (run_script T (db_init_prog path db) fs) = db_init_result T path db fs"
proof -
  have *: "expand \<rho> (path @ ''/.db-init-${HASH}'') = path @ ''/.db-init-'' @ \<rho> ''HASH''" for \<rho>
    using assms(1) expand_append [of path \<rho> "''/.db-init-${HASH}''"]
    by (auto simp: sh_simps shell_plain_def list_all_iff)
  note run = sh_run assms * db_init_prog_def observe_def db_init_result_def hash_args_def apply_args_def
    marker_path_def init_sql_text_def
  show ?thesis
    by (cases "is_file (tr_files (tool_run T hash_args [] fs))
        (marker_path path (substituted (cut_first (tr_stdout (tool_run T hash_args [] fs)))))")
      (simp_all add: run)
qed

definition validation_result :: "tools \<Rightarrow> string \<Rightarrow> files \<Rightarrow> int \<times> files \<times> string list list" where
  "validation_result T path fs =
     (let q = tool_run T (quick_check_args path) [] fs
      in (if substituted (tr_stdout q) = ''ok'' then 0 else 1, tr_files q, [quick_check_args path]))"

lemma validation_run:
  assumes "shell_plain path"
  shows "observe (run_script T (validation_prog path) fs) = validation_result T path fs"
  using assms
  by (cases "substituted (tr_stdout (tool_run T (quick_check_args path) [] fs)) = ''ok''")
    (simp_all add: sh_run validation_prog_def observe_def validation_result_def quick_check_args_def)

text \<open>The verb \<^verbatim>\<open>%q\<close> puts printable text without quotes and backslashes between double quotes.\<close>

definition printable :: "string \<Rightarrow> bool" where
  "printable p = list_all (\<lambda>c. 32 \<le> (of_char c :: nat) \<and> (of_char c :: nat) < 127) p"

lemma quote_char_plain:
  assumes "32 \<le> (of_char c :: nat)" "(of_char c :: nat) < 127" "c \<notin> {CHR 0x22, CHR 0x5C}"
  shows "quote_char c = [c]"
proof -
  have "(of_char c :: nat) \<noteq> 34" "(of_char c :: nat) \<noteq> 92"
    using assms(3) of_char_eq_iff [where 'a = nat, of c "CHR 0x22"]
      of_char_eq_iff [where 'a = nat, of c "CHR 0x5C"] by auto
  with assms(1,2) show ?thesis by (simp add: quote_char_def Let_def)
qed

lemma fmt_quote_plain:
  assumes "printable p" "shell_plain p"
  shows "fmt_quote p = ''\"'' @ p @ ''\"''"
proof -
  have "concat (map quote_char p) = p"
    using assms by (induction p) (auto simp: printable_def shell_plain_def quote_char_plain)
  then show ?thesis by (simp add: fmt_quote_def)
qed

lemma validation_text:
  assumes "printable p" "shell_plain p"
  shows "validation_script p = show_inline (validation_prog p)"
  by (simp add: validation_script_def validation_prog_def fmt_quote_plain [OF assms] show_simps)

end
