(* ===== verification/Script_Facts.thy ===== *)
theory Script_Facts
  imports Startup_Scripts
begin

text \<open>
  What the start-up scripts guarantee, given what the documentation of \<^verbatim>\<open>litestream\<close>, \<^verbatim>\<open>sqlite3\<close> and
  \<^verbatim>\<open>sha256sum\<close> promises. The promises are the locales \<open>litestream_restore\<close> and \<open>sqlite_tools\<close>; the
  executable \<open>model_tools\<close> satisfies them.
\<close>

section \<open>Contracts of the programs\<close>

text \<open>What the bucket holds for a database: nothing, restorable data, or something unreadable.\<close>

datatype backup_state = NoBackup | Backup string | Unreadable

text \<open>
  \<^verbatim>\<open>litestream restore -if-replica-exists\<close> into a path that does not exist: it exits with zero
  exactly when it restored the data or found no backup, and writes only the output path and
  temporary files that extend its name.
\<close>

definition absent :: "files \<Rightarrow> string \<Rightarrow> bool" where
  "absent fs p = (fs p = None)"

definition same_outside :: "string \<Rightarrow> files \<Rightarrow> files \<Rightarrow> bool" where
  "same_outside p fs fs' = (\<forall>q. \<not> prefix p q \<longrightarrow> fs' q = fs q)"

definition restore_outcome :: "backup_state \<Rightarrow> string \<Rightarrow> files \<Rightarrow> tool_result \<Rightarrow> bool" where
  "restore_outcome b target fs r =
     (case b of
        NoBackup \<Rightarrow> tr_exit r = 0 \<and> tr_files r = fs
      | Backup c \<Rightarrow> tr_exit r = 0 \<and> tr_files r target = Some (File c) \<and> same_outside target fs (tr_files r)
      | Unreadable \<Rightarrow> tr_exit r \<noteq> 0 \<and> same_outside target fs (tr_files r))"

locale litestream_restore =
  fixes T :: tools and bucket :: "string \<Rightarrow> backup_state"
  assumes probe: "absent fs (probe_path db)
      \<Longrightarrow> restore_outcome (bucket db) (probe_path db) fs (tool_run T (probe_args db) [] fs)"
    and restore: "absent fs db
      \<Longrightarrow> restore_outcome (bucket db) db fs (tool_run T (restore_cmd_args db) [] fs)"

text \<open>
  \<^verbatim>\<open>PRAGMA quick_check\<close> prints the line \<^verbatim>\<open>ok\<close> and nothing else for a sound database, and reads
  only. Applying SQL writes only the database and the files that extend its name.
\<close>

locale sqlite_tools =
  fixes T :: tools and sound :: "string \<Rightarrow> bool"
  assumes quick_check: "fs db = Some (File c)
      \<Longrightarrow> tr_files (tool_run T (quick_check_args db) [] fs) = fs
        \<and> (sound c \<longrightarrow> tr_stdout (tool_run T (quick_check_args db) [] fs) = ''ok\<newline>'')
        \<and> (\<not> sound c \<longrightarrow> \<not> ok_line (tr_stdout (tool_run T (quick_check_args db) [] fs)))"
    and apply_sql: "same_outside db fs (tr_files (tool_run T (apply_args db) input fs))"

text \<open>\<^verbatim>\<open>sha256sum\<close> prints the digest in hexadecimal, two blanks and the name.\<close>

locale sha256_tool =
  fixes T :: tools
  assumes sha256sum: "fs ''/init/init.sql'' = Some (File sql)
      \<Longrightarrow> tr_stdout (tool_run T hash_args [] fs) = initSQLHash sql @ ''  /init/init.sql\<newline>''
        \<and> tr_files (tool_run T hash_args [] fs) = fs"

section \<open>Executable programs with these contracts\<close>

definition model_restore :: "backup_state \<Rightarrow> string \<Rightarrow> files \<Rightarrow> tool_result" where
  "model_restore b target fs =
     (case b of
        NoBackup \<Rightarrow> \<lparr>tr_exit = 0, tr_stdout = [], tr_both = ''no matching backup found'', tr_files = fs\<rparr>
      | Backup c \<Rightarrow> \<lparr>tr_exit = 0, tr_stdout = [], tr_both = [], tr_files = fs(target \<mapsto> File c)\<rparr>
      | Unreadable \<Rightarrow> \<lparr>tr_exit = 1, tr_stdout = [], tr_both = ''cannot restore'', tr_files = fs\<rparr>)"

definition model_run ::
  "(string \<Rightarrow> backup_state) \<Rightarrow> (string \<Rightarrow> bool) \<Rightarrow> string list \<Rightarrow> string \<Rightarrow> files \<Rightarrow> tool_result" where
  "model_run bucket sound argv input fs =
     (let db = last argv; content = (\<lambda>p. case fs p of Some (File c) \<Rightarrow> c | _ \<Rightarrow> []) in
      if argv = probe_args db then model_restore (bucket db) (probe_path db) fs
      else if argv = restore_cmd_args db then model_restore (bucket db) db fs
      else if argv = hash_args then
        \<lparr>tr_exit = 0, tr_stdout = initSQLHash (content ''/init/init.sql'') @ ''  /init/init.sql\<newline>'',
         tr_both = [], tr_files = fs\<rparr>
      else if argv = apply_args db then
        \<lparr>tr_exit = 0, tr_stdout = [], tr_both = [], tr_files = fs(db \<mapsto> File (content db @ input))\<rparr>
      else if argv = quick_check_args (argv ! 1) then
        \<lparr>tr_exit = 0, tr_stdout = (if sound (content (argv ! 1)) then ''ok\<newline>'' else ''malformed\<newline>''),
         tr_both = [], tr_files = fs\<rparr>
      else \<lparr>tr_exit = 127, tr_stdout = [], tr_both = ''not found'', tr_files = fs\<rparr>)"

definition model_tools :: "(string \<Rightarrow> backup_state) \<Rightarrow> (string \<Rightarrow> bool) \<Rightarrow> tools" where
  "model_tools bucket sound = \<lparr>tool_found = (\<lambda>_. True), tool_run = model_run bucket sound\<rparr>"

lemma split_line [simp]: "newline \<notin> set a \<Longrightarrow> split_on newline (a @ [newline]) = [a, []]"
  using split_on_unlines [of "[a]"] by (simp add: unlines_def)

lemma ok_lines [simp]: "ok_line ''ok\<newline>''" "\<not> ok_line ''malformed\<newline>''"
  using split_line [of "''ok''"] split_line [of "''malformed''"]
  by (simp_all add: ok_line_def newline_def)

lemmas arg_defs = probe_args_def restore_cmd_args_def hash_args_def apply_args_def quick_check_args_def

interpretation model_litestream: litestream_restore "model_tools bucket sound" bucket
  for bucket sound
  by unfold_locales
    (auto simp: model_tools_def model_run_def arg_defs restore_outcome_def model_restore_def
      same_outside_def absent_def split: backup_state.splits)

interpretation model_sqlite: sqlite_tools "model_tools bucket sound" sound
  for bucket sound
  by unfold_locales
    (auto simp: model_tools_def model_run_def arg_defs same_outside_def)

interpretation model_sha256: sha256_tool "model_tools bucket sound"
  for bucket sound
  by unfold_locales (auto simp: model_tools_def model_run_def arg_defs)

section \<open>Consequences of the contracts\<close>

lemma same_outside_refl [simp]: "same_outside p fs fs"
  by (simp add: same_outside_def)

lemma same_outside_rm: "same_outside p fs fs' \<Longrightarrow> same_outside p fs (rm_f p fs')"
  by (auto simp: same_outside_def rm_f_def)

lemma same_outside_rm_left: "same_outside p (rm_f p fs) fs' \<Longrightarrow> same_outside p fs fs'"
  by (auto simp: same_outside_def rm_f_def split: if_splits)

lemma probe_not_prefix: "\<not> prefix (probe_path db) db"
  by (auto simp: probe_path_def prefix_def)

context litestream_restore
begin

lemma archive_check_code:
  assumes "\<not> is_dir fs (probe_path db)"
  shows "fst (archive_check_result T db dir fs) =
      (if is_file fs db \<and> is_dir fs dir \<or> bucket db = NoBackup then 0 else 1)"
proof -
  have none: "absent (rm_f (probe_path db) fs) (probe_path db)"
    using assms by (simp add: rm_f_def absent_def)
  show ?thesis
    using probe [OF none] none
    by (cases "bucket db")
      (auto simp: archive_check_result_def restore_outcome_def is_file_def absent_def Let_def)
qed

lemma archive_check_frame:
  assumes "\<not> is_dir fs (probe_path db)"
  shows "same_outside (probe_path db) fs (fst (snd (archive_check_result T db dir fs)))"
proof -
  let ?p = "probe_path db" and ?r = "tool_run T (probe_args db) [] (rm_f (probe_path db) fs)"
  have none: "absent (rm_f ?p fs) ?p"
    using assms by (simp add: rm_f_def absent_def)
  have "same_outside ?p (rm_f ?p fs) (tr_files ?r)"
    using probe [OF none]
    by (cases "bucket db") (auto simp: restore_outcome_def same_outside_def)
  then have "same_outside ?p fs (tr_files ?r)" by (rule same_outside_rm_left)
  then show ?thesis
    by (simp add: archive_check_result_def Let_def same_outside_rm)
qed

end

lemma archive_check_gate_code:
  assumes "litestream_restore T bucket" "shell_plain db" "shell_plain dir" "\<not> is_dir fs (probe_path db)"
  shows "fst (run_script T (archive_check_prog db dir) fs) =
    (if is_file fs db \<and> is_dir fs dir \<or> bucket db = NoBackup then 0 else 1)"
  using archive_check_run [OF assms(2,3), of T fs]
    litestream_restore.archive_check_code [OF assms(1,4), of dir]
  by (metis fst_conv observe_def)

text \<open>The programs of the auto-restore container together.\<close>

locale restore_tools = litestream_restore T bucket + sqlite_tools T sound
  for T :: tools and bucket :: "string \<Rightarrow> backup_state" and sound :: "string \<Rightarrow> bool"
begin

text \<open>The specification of the container, by the state of the bucket.\<close>

lemma auto_restore_by_bucket:
  assumes "absent fs db"
  shows "case bucket db of
      NoBackup \<Rightarrow> auto_restore_result T db fs = (0, fs, [restore_cmd_args db])
    | Backup c \<Rightarrow>
        fst (auto_restore_result T db fs) = (if tool_found T ''sqlite3'' \<and> \<not> sound c then 1 else 0)
        \<and> fst (snd (auto_restore_result T db fs)) db = Some (File c)
    | Unreadable \<Rightarrow> fst (auto_restore_result T db fs) = 0
        \<and> snd (snd (auto_restore_result T db fs)) = [restore_cmd_args db]"
proof (cases "bucket db")
  case (Backup c)
  let ?r = "tool_run T (restore_cmd_args db) [] fs"
  have r: "tr_exit ?r = 0" "tr_files ?r db = Some (File c)"
    using restore [OF assms] Backup by (auto simp: restore_outcome_def)
  with quick_check [where fs = "tr_files ?r" and db = db and c = c, OF r(2)] Backup assms show ?thesis
    by (auto simp: auto_restore_result_def is_file_def absent_def Let_def)
qed (use restore [OF assms] assms in
    \<open>auto simp: auto_restore_result_def restore_outcome_def is_file_def absent_def Let_def\<close>)

text \<open>After a failed check the restored file is still there.\<close>

lemma auto_restore_blocked_file:
  assumes "\<not> is_dir fs db" "fst (auto_restore_result T db fs) \<noteq> 0"
  shows "is_file (fst (snd (auto_restore_result T db fs))) db"
proof -
  have "absent fs db"
    using assms
    by (cases "fs db")
      (auto simp: auto_restore_result_def is_file_def is_dir_def absent_def split: node.splits)
  from auto_restore_by_bucket [OF this] assms(2) show ?thesis
    by (auto simp: is_file_def split: backup_state.splits)
qed

end

interpretation model_restore: restore_tools "model_tools bucket sound" bucket sound
  for bucket sound
  by unfold_locales

section \<open>Properties\<close>

text \<open>
  The scripts that the operator puts into its containers are the programs whose meaning is given
  here: printing each program gives the script, character by character.
\<close>

theorem startup_scripts_text:
  "archive_check_script db dir = newline # unlines (show_cmds (archive_check_prog db dir))
   \<and> auto_restore_script db = newline # unlines (show_cmds (auto_restore_prog db))
   \<and> db_init_script path db = newline # unlines (show_cmds (db_init_prog path db))"
  by (simp only: archive_check_text auto_restore_text db_init_text simp_thms)

text \<open>
  C32. The archive check lets the pod start exactly when the database and Litestream's state directory
  are both there, or the bucket holds no backup; if there is a backup (or it cannot be read) and
  the database is missing or was never replicated, the container fails. Apart from its probe file
  it changes no file, the database included.
\<close>

theorem archive_check_gate:
  assumes "litestream_restore T bucket" "shell_plain db" "shell_plain dir"
    and "\<not> is_dir fs (probe_path db)"
    and "run_script T (archive_check_prog db dir) fs = (code, s)"
  shows "code = (if is_file fs db \<and> is_dir fs dir \<or> bucket db = NoBackup then 0 else 1)
    \<and> same_outside (probe_path db) fs (sh_files s) \<and> sh_files s db = fs db"
proof -
  have "archive_check_result T db dir fs = (code, sh_files s, sh_log s)"
    using archive_check_run [OF assms(2,3), of T fs] assms(5) by (simp add: observe_def)
  then have "same_outside (probe_path db) fs (sh_files s)"
    using litestream_restore.archive_check_frame [OF assms(1,4), of dir] by simp
  with probe_not_prefix archive_check_gate_code [OF assms(1-4)] assms(5) show ?thesis
    by (auto simp: same_outside_def)
qed

text \<open>
  C36. The auto-restore container, by what the bucket holds, when the database is missing: without a
  backup it changes nothing and the pod starts; a backup is restored, and the pod is held back
  exactly when the image has \<^verbatim>\<open>sqlite3\<close> and the data is not sound; when the backup cannot be read
  the pod starts, without a check.
\<close>

theorem auto_restore_outcome:
  assumes "restore_tools T bucket sound" "shell_plain db" "absent fs db"
    and "run_script T (auto_restore_prog db) fs = (code, s)"
  shows "case bucket db of
      NoBackup \<Rightarrow> code = 0 \<and> sh_files s = fs
    | Backup c \<Rightarrow> (code = 1 \<longleftrightarrow> tool_found T ''sqlite3'' \<and> \<not> sound c) \<and> sh_files s db = Some (File c)
    | Unreadable \<Rightarrow> code = 0 \<and> sh_log s = [restore_cmd_args db]"
proof -
  have "auto_restore_result T db fs = (code, sh_files s, sh_log s)"
    using auto_restore_run [OF assms(2), of T fs] assms(4) by (simp add: observe_def)
  with restore_tools.auto_restore_by_bucket [OF assms(1,3)] show ?thesis
    by (auto split: backup_state.splits)
qed

text \<open>
  C37. The integrity gate holds a pod back only once: the unsound file that was restored stays on the
  volume, and when the container is started again it finds the file and succeeds without a check.
\<close>

theorem auto_restore_gate_once:
  assumes "restore_tools T bucket sound" "shell_plain db" "\<not> is_dir fs db"
    and "run_script T (auto_restore_prog db) fs = (code, s)" "code \<noteq> 0"
  shows "observe (run_script T (auto_restore_prog db) (sh_files s)) = (0, sh_files s, [])"
proof -
  have "auto_restore_result T db fs = (code, sh_files s, sh_log s)"
    using auto_restore_run [OF assms(2), of T fs] assms(4) by (simp add: observe_def)
  with restore_tools.auto_restore_blocked_file [OF assms(1,3)] assms(5)
  have "is_file (sh_files s) db" by simp
  then show ?thesis
    using auto_restore_run [OF assms(2)] by (simp add: auto_restore_result_def)
qed

text \<open>A text whose only line is \<^verbatim>\<open>ok\<close> has that line.\<close>

lemma ok_line_substituted:
  assumes "substituted t = ''ok''"
  shows "ok_line t"
proof -
  obtain u where u: "t = ''ok'' @ u" "set u \<subseteq> {newline}"
    using TrimRight_decompose [of t "[newline]"] assms by (auto simp: substituted_def)
  then show ?thesis
    by (cases u) (auto simp: ok_line_def newline_def)
qed

lemma cut_first_line:
  assumes "newline \<notin> set (a @ b)" "CHR '' '' \<notin> set a"
  shows "cut_first (a @ CHR '' '' # b @ [newline]) = a @ [newline]"
proof -
  have "split_on newline ((a @ CHR '' '' # b) @ [newline]) = [a @ CHR '' '' # b, []]"
    by (rule split_line) (use assms(1) in \<open>auto simp: newline_def\<close>)
  moreover have "takeWhile (\<lambda>c. c \<noteq> CHR '' '') (a @ CHR '' '' # b) = a"
    using assms(2) by (induction a) auto
  ultimately show ?thesis by (simp add: cut_first_def)
qed

lemma hash_of_line:
  "substituted (cut_first (initSQLHash sql @ ''  /init/init.sql\<newline>'')) = initSQLHash sql"
proof -
  have hex: "set (initSQLHash sql) \<subseteq> set ''0123456789abcdef''" "initSQLHash sql \<noteq> []"
    using fmt_hex_digits length_fmt_hex [of "sha256_Sum256 (bytes_of sql)"]
    by (auto simp: initSQLHash_def length_Sum256)
  have "cut_first (initSQLHash sql @ CHR '' '' # '' /init/init.sql'' @ [newline]) = initSQLHash sql @ [newline]"
    by (rule cut_first_line) (use hex(1) in \<open>auto simp: newline_def\<close>)
  moreover have "newline \<notin> set (initSQLHash sql)"
    using hex(1) by (auto simp: newline_def)
  ultimately show ?thesis
    using hex(2) by (cases "initSQLHash sql" rule: rev_cases)
      (auto simp: substituted_def strings_TrimRight_def newline_def)
qed

text \<open>
  C38. The init SQL is applied once. The first run marks the volume with the hash that the replica
  controller records in the status; from then on the container exits with zero, runs only
  \<^verbatim>\<open>sha256sum\<close> and changes no file, as long as the SQL is the same. The mark is set, and the
  container succeeds, whatever the exit code of \<^verbatim>\<open>sqlite3\<close> is.
\<close>

theorem db_init_once:
  assumes "sqlite_tools T sound" "sha256_tool T" "shell_plain path" "shell_plain db"
    and "fs ''/init/init.sql'' = Some (File sql)" "\<not> prefix db ''/init/init.sql''"
    and "\<not> is_dir fs (marker_path path (initSQLHash sql))"
      "\<not> prefix db (marker_path path (initSQLHash sql))"
    and "run_script T (db_init_prog path db) fs = (code, s)"
  shows "code = 0
    \<and> is_file (sh_files s) (marker_path path (initSQLHash sql))
    \<and> (apply_args db \<in> set (sh_log s) \<longleftrightarrow> \<not> is_file fs (marker_path path (initSQLHash sql)))
    \<and> observe (run_script T (db_init_prog path db) (sh_files s)) = (0, sh_files s, [hash_args])"
proof -
  let ?m = "marker_path path (initSQLHash sql)"
  let ?q = "tool_run T (apply_args db) (init_sql_text fs) fs"
  have hash: "tr_files (tool_run T hash_args [] gs) = gs"
    "substituted (cut_first (tr_stdout (tool_run T hash_args [] gs))) = initSQLHash sql"
    if "gs ''/init/init.sql'' = Some (File sql)" for gs
    using sha256_tool.sha256sum [OF assms(2), of gs sql] that by (simp_all add: hash_of_line)
  have result: "db_init_result T path db gs =
      (if is_file gs ?m then (0, gs, [hash_args])
       else (0, touch ?m (tr_files (tool_run T (apply_args db) (init_sql_text gs) gs)),
             [hash_args, apply_args db]))"
    if "gs ''/init/init.sql'' = Some (File sql)" for gs
    using hash [where gs = gs, OF that] by (simp add: db_init_result_def Let_def)
  have run: "(code, sh_files s, sh_log s) = db_init_result T path db fs"
    using db_init_run [OF assms(3,4), of T fs] assms(9) by (simp add: observe_def)
  have "tr_files ?q p = fs p" if "\<not> prefix db p" for p
    using sqlite_tools.apply_sql [OF assms(1), of db fs "init_sql_text fs"] that
    by (simp add: same_outside_def)
  then have kept: "tr_files ?q ''/init/init.sql'' = Some (File sql)" "tr_files ?q ?m = fs ?m"
    using assms(5,6,8) by simp_all
  have touched: "is_file (touch ?m (tr_files ?q)) ?m"
      "touch ?m (tr_files ?q) ''/init/init.sql'' = Some (File sql)"
    using kept assms(7) by (auto simp: touch_def is_file_def is_dir_def split: option.splits node.splits)
  have distinct: "apply_args db \<noteq> hash_args" by (simp add: arg_defs)
  have "code = 0 \<and> is_file (sh_files s) ?m \<and> sh_files s ''/init/init.sql'' = Some (File sql)
      \<and> (apply_args db \<in> set (sh_log s) \<longleftrightarrow> \<not> is_file fs ?m)"
    using run touched distinct assms(5) by (auto simp: result split: if_splits)
  then show ?thesis
    using db_init_run [OF assms(3,4), of T "sh_files s"] result [where gs = "sh_files s"] by simp
qed

text \<open>
  The validation container succeeds exactly on a sound database: it agrees with the integrity
  gate of the auto-restore container.
\<close>

theorem validation_gate:
  assumes "sqlite_tools T sound" "printable p" "shell_plain p" "fs p = Some (File c)"
    and "run_script T (validation_prog p) fs = (code, s)"
  shows "validation_script p = show_inline (validation_prog p)
    \<and> code = (if sound c then 0 else 1) \<and> sh_files s = fs"
proof -
  let ?q = "tool_run T (quick_check_args p) [] fs"
  have q: "tr_files ?q = fs" "sound c \<Longrightarrow> tr_stdout ?q = ''ok\<newline>''" "\<not> sound c \<Longrightarrow> \<not> ok_line (tr_stdout ?q)"
    using sqlite_tools.quick_check [OF assms(1), of fs p c] assms(4) by simp_all
  have "substituted (tr_stdout ?q) = ''ok'' \<longleftrightarrow> sound c"
    using q(2,3) ok_line_substituted [of "tr_stdout ?q"]
    by (auto simp: substituted_def strings_TrimRight_def newline_def)
  then show ?thesis
    using validation_run [OF assms(3), of T fs] validation_text [OF assms(2,3)] assms(5) q(1)
    by (simp add: observe_def validation_result_def Let_def)
qed

section \<open>Sample runs\<close>

definition sample_tools :: tools where
  "sample_tools = model_tools (\<lambda>db. if db = ''/data/app.db'' then Backup ''rows'' else NoBackup)
     (\<lambda>c. c \<noteq> ''rows'')"

lemma sample_contracts:
  "litestream_restore sample_tools (\<lambda>db. if db = ''/data/app.db'' then Backup ''rows'' else NoBackup)"
  "restore_tools sample_tools (\<lambda>db. if db = ''/data/app.db'' then Backup ''rows'' else NoBackup)
     (\<lambda>c. c \<noteq> ''rows'')"
  "sqlite_tools sample_tools (\<lambda>c. c \<noteq> ''rows'')" "sha256_tool sample_tools"
  unfolding sample_tools_def
  by (rule model_litestream.litestream_restore_axioms model_restore.restore_tools_axioms
      model_sqlite.sqlite_tools_axioms model_sha256.sha256_tool_axioms)+

lemma sample_paths:
  "shell_plain ''/data/app.db''" "shell_plain ''/data/.app.db-litestream''" "shell_plain ''/data''"
  "printable ''/data/app.db''"
  by (simp_all add: shell_plain_def printable_def)

theorem archive_check_gate_witness:
  "fst (run_script sample_tools (archive_check_prog ''/data/app.db'' ''/data/.app.db-litestream'')
     [''/data/app.db'' \<mapsto> File ''fresh'']) = 1"
  using archive_check_gate [OF sample_contracts(1) sample_paths(1,2), of "[''/data/app.db'' \<mapsto> File ''fresh'']",
      OF _ prod.collapse [symmetric]]
  by (simp add: is_dir_def probe_path_def)

theorem auto_restore_outcome_witness:
  "fst (run_script sample_tools (auto_restore_prog ''/data/app.db'') Map.empty) = 1
   \<and> sh_files (snd (run_script sample_tools (auto_restore_prog ''/data/app.db'') Map.empty)) ''/data/app.db''
     = Some (File ''rows'')"
  using auto_restore_outcome [OF sample_contracts(2) sample_paths(1), of Map.empty, OF _ prod.collapse [symmetric]]
  by (simp add: absent_def sample_tools_def model_tools_def)

lemma sample_unsound: "fst (auto_restore_result sample_tools ''/data/app.db'' Map.empty) = 1"
  using restore_tools.auto_restore_by_bucket [OF sample_contracts(2), of Map.empty "''/data/app.db''"]
  by (simp add: absent_def sample_tools_def model_tools_def)

theorem auto_restore_gate_once_witness:
  "fst (run_script sample_tools (auto_restore_prog ''/data/app.db'') Map.empty) = 1
   \<and> fst (observe (run_script sample_tools (auto_restore_prog ''/data/app.db'')
       (sh_files (snd (run_script sample_tools (auto_restore_prog ''/data/app.db'') Map.empty))))) = 0"
proof -
  have code: "fst (run_script sample_tools (auto_restore_prog ''/data/app.db'') Map.empty) = 1"
    using auto_restore_run [OF sample_paths(1), of sample_tools Map.empty] sample_unsound
    by (simp add: observe_def prod_eq_iff)
  then show ?thesis
    using auto_restore_gate_once [OF sample_contracts(2) sample_paths(1), of Map.empty,
        OF _ prod.collapse [symmetric]]
    by (simp add: is_dir_def)
qed

lemma hash_marker_not_prefix: "\<not> prefix ''/data/app.db'' (marker_path ''/data'' h)"
  by (simp add: marker_path_def)

theorem db_init_once_witness:
  "let r = run_script sample_tools (db_init_prog ''/data'' ''/data/app.db'')
         [''/init/init.sql'' \<mapsto> File ''CREATE TABLE t(x);'']
   in fst r = 0 \<and> apply_args ''/data/app.db'' \<in> set (sh_log (snd r))
      \<and> observe (run_script sample_tools (db_init_prog ''/data'' ''/data/app.db'') (sh_files (snd r)))
        = (0, sh_files (snd r), [hash_args])"
  using db_init_once [OF sample_contracts(3,4) sample_paths(3,1) _ _ _ hash_marker_not_prefix
      prod.collapse [symmetric], of "[''/init/init.sql'' \<mapsto> File ''CREATE TABLE t(x);'']" "''CREATE TABLE t(x);''"]
  by (simp add: is_dir_def is_file_def marker_path_def Let_def)

theorem validation_gate_witness:
  "fst (run_script sample_tools (validation_prog ''/data/app.db'') [''/data/app.db'' \<mapsto> File ''rows'']) = 1"
  using validation_gate [OF sample_contracts(3) sample_paths(4,1) _ prod.collapse [symmetric],
      of "[''/data/app.db'' \<mapsto> File ''rows'']" "''rows''"]
  by simp

end
