(* ===== verification/Replica_Validator.thy ===== *)
theory Replica_Validator
  imports Workload Replica_Config
begin

text \<open>
  The validating webhook of LitestreamReplica
  (\<^verbatim>\<open>src/internal/webhook/litestreamreplica_webhook.go\<close>). A field error keeps its kind, the path of
  the field and the detail; \<^verbatim>\<open>ToAggregate\<close> is the list of them. The client may be nil (argument
  \<open>hasClient\<close>), and an unexpected API error is ignored by the caller.
\<close>

section \<open>The validator\<close>

datatype field_error =
  FieldRequired string string
| FieldInvalid string string string

text \<open>\<^verbatim>\<open>field.NewPath("spec").Child(...)\<close>\<close>

definition spec_child :: "string list \<Rightarrow> string" where
  "spec_child names = join_with ''.'' (''spec'' # names)"

definition writers_text :: "string \<Rightarrow> int \<Rightarrow> string" where
  "writers_text kind n =
     ''target '' @ kind @ '' has '' @ show_int n @ '' replicas; Litestream requires exactly 1 writer''"

definition checkWorkloadReplicas ::
  "LitestreamReplica \<Rightarrow> field_error list \<Rightarrow> (go_error option \<times> field_error list) prog" where
  "checkWorkloadReplicas db errs =
     (let ssn = rp_TargetStatefulSet (db_Spec db); dpn = rp_TargetDeployment (db_Spec db) in
      if ssn \<noteq> [] then
        Call (GetStatefulSet \<lparr>nn_Namespace = db_Namespace db, nn_Name = ssn\<rparr>)
          (\<lambda>r. case as_statefulset r of
             Inl e \<Rightarrow> if errors_IsNotFound e then Ret (None, errs) else Ret (Some e, errs)
           | Inr ss \<Rightarrow>
               (let replicas = (case ss_Replicas ss of Some n \<Rightarrow> n | None \<Rightarrow> 1) in
                if replicas > 1
                then Ret (None, errs @ [FieldInvalid (spec_child [''targetStatefulSet'']) ssn
                       (writers_text ''StatefulSet'' replicas)])
                else Ret (None, errs)))
      else
        Call (GetDeployment \<lparr>nn_Namespace = db_Namespace db, nn_Name = dpn\<rparr>)
          (\<lambda>r. case as_deployment r of
             Inl e \<Rightarrow> if errors_IsNotFound e then Ret (None, errs) else Ret (Some e, errs)
           | Inr dep \<Rightarrow>
               (let replicas = (case dep_Replicas dep of Some n \<Rightarrow> n | None \<Rightarrow> 1) in
                if replicas > 1
                then Ret (None, errs @ [FieldInvalid (spec_child [''targetDeployment'']) dpn
                       (writers_text ''Deployment'' replicas)])
                else Ret (None, errs))))"

text \<open>The checks of the spec alone, in the order of the source.\<close>

definition target_errors :: "LitestreamReplica \<Rightarrow> field_error list" where
  "target_errors db =
     (let bothSet = (rp_TargetDeployment (db_Spec db) \<noteq> [] \<and> rp_TargetStatefulSet (db_Spec db) \<noteq> []);
          neitherSet = (rp_TargetDeployment (db_Spec db) = [] \<and> rp_TargetStatefulSet (db_Spec db) = [])
      in if bothSet then
           [FieldInvalid (spec_child [''targetStatefulSet'']) (rp_TargetStatefulSet (db_Spec db))
              ''targetStatefulSet and targetDeployment are mutually exclusive; set exactly one'']
         else if neitherSet then
           [FieldRequired (spec_child [''targetDeployment''])
              ''one of targetDeployment or targetStatefulSet must reference an existing workload'']
         else [])"

definition field_errors :: "LitestreamReplica \<Rightarrow> field_error list" where
  "field_errors db =
     target_errors db
     @ (if rp_DatabaseName (db_Spec db) = [] then
          [FieldRequired (spec_child [''databaseName'']) ''databaseName must be set (e.g. \"app.db\")'']
        else [])
     @ (if rp_DatabasePath (db_Spec db) = [] then
          [FieldRequired (spec_child [''databasePath'']) ''databasePath must be set (e.g. \"/data\")'']
        else [])
     @ (if bk_Enabled (db_Backup db) then
          (case db_S3 db of
             None \<Rightarrow> [FieldRequired (spec_child [''backup'', ''destination'', ''s3''])
                       ''backup.destination.s3 is required when backup.enabled is true'']
           | Some s3 \<Rightarrow>
               (if s3_Bucket s3 = [] then
                  [FieldRequired (spec_child [''backup'', ''destination'', ''s3'', ''bucket''])
                     ''bucket must be set'']
                else [])
               @ (if s3_SecretRef s3 = [] then
                    [FieldRequired (spec_child [''backup'', ''destination'', ''s3'', ''secretRef''])
                       ''secretRef must name a Secret containing S3 credentials'']
                  else []))
        else [])"

definition autoRestore_warning :: string where
  "autoRestore_warning =
     ''autoRestore: true carries a known restore-corruption risk (Litestream upstream #1164/#1220). ''
     @ ''The integrity gate (PRAGMA quick_check) will catch corruption before the app starts, ''
     @ ''but consider using a LitestreamRestore CR for controlled, auditable recovery instead.''"

text \<open>The result: the warnings, and the aggregated errors if there are any.\<close>

definition validateLitestreamReplica ::
  "bool \<Rightarrow> LitestreamReplica \<Rightarrow> (string list \<times> field_error list option) prog" where
  "validateLitestreamReplica hasClient db =
     (let bothSet = (rp_TargetDeployment (db_Spec db) \<noteq> [] \<and> rp_TargetStatefulSet (db_Spec db) \<noteq> []);
          neitherSet = (rp_TargetDeployment (db_Spec db) = [] \<and> rp_TargetStatefulSet (db_Spec db) = []);
          errs = field_errors db;
          warnings = (if bk_AutoRestore (db_Backup db) then [autoRestore_warning] else [])
      in
      bind (if hasClient \<and> \<not> bothSet \<and> \<not> neitherSet then checkWorkloadReplicas db errs
            else Ret (None, errs)) (\<lambda>(_, errs).
      Ret (warnings, if errs \<noteq> [] then Some errs else None)))"

definition ValidateCreate ::
  "bool \<Rightarrow> LitestreamReplica \<Rightarrow> (string list \<times> field_error list option) prog" where
  "ValidateCreate hasClient db = validateLitestreamReplica hasClient db"

definition ValidateUpdate ::
  "bool \<Rightarrow> LitestreamReplica \<Rightarrow> LitestreamReplica \<Rightarrow> (string list \<times> field_error list option) prog" where
  "ValidateUpdate hasClient oldDB newDB = validateLitestreamReplica hasClient newDB"

definition ValidateDelete ::
  "LitestreamReplica \<Rightarrow> (string list \<times> field_error list option) prog" where
  "ValidateDelete db = Ret ([], None)"

section \<open>What is admitted\<close>

text \<open>The specification of a valid replica.\<close>

definition valid_spec :: "LitestreamReplica \<Rightarrow> bool" where
  "valid_spec db =
     ((rp_TargetDeployment (db_Spec db) = []) \<noteq> (rp_TargetStatefulSet (db_Spec db) = [])
      \<and> rp_DatabaseName (db_Spec db) \<noteq> [] \<and> rp_DatabasePath (db_Spec db) \<noteq> []
      \<and> (bk_Enabled (db_Backup db) \<longrightarrow>
           (\<exists>s3. db_S3 db = Some s3 \<and> s3_Bucket s3 \<noteq> [] \<and> s3_SecretRef s3 \<noteq> [])))"

text \<open>The target was read with more than one desired replica.\<close>

definition too_many_writers :: "LitestreamReplica \<Rightarrow> trace \<Rightarrow> bool" where
  "too_many_writers db tr =
     (\<exists>r wt. (target_query db, r) \<in> set tr \<and> workload_resp (target_query db) r = Inr wt \<and> desired wt > 1)"

lemma field_errors_Nil: "field_errors db = [] \<longleftrightarrow> valid_spec db"
  by (auto simp: field_errors_def target_errors_def valid_spec_def Let_def split: option.splits)

lemma checkWorkloadReplicas_Call:
  "\<exists>e. checkWorkloadReplicas db errs = Call (target_query db) (\<lambda>r.
     case workload_resp (target_query db) r of
       Inl err \<Rightarrow> Ret (if errors_IsNotFound err then None else Some err, errs)
     | Inr wt \<Rightarrow> Ret (None, if desired wt > 1 then errs @ [e wt] else errs))"
proof (cases "rp_TargetStatefulSet (db_Spec db) = []")
  case True
  then show ?thesis
    by (intro exI [of _ "\<lambda>wt. FieldInvalid (spec_child [''targetDeployment''])
          (rp_TargetDeployment (db_Spec db)) (writers_text ''Deployment'' (desired wt))"])
      (auto simp: checkWorkloadReplicas_def target_query_def Let_def fun_eq_iff view_desired_def
        deployment_kind.view_handle view_deployment_def split: sum.splits)
next
  case False
  then show ?thesis
    by (intro exI [of _ "\<lambda>wt. FieldInvalid (spec_child [''targetStatefulSet''])
          (rp_TargetStatefulSet (db_Spec db)) (writers_text ''StatefulSet'' (desired wt))"])
      (auto simp: checkWorkloadReplicas_def target_query_def Let_def fun_eq_iff view_desired_def
        statefulset_kind.view_handle view_statefulSet_def split: sum.splits)
qed

lemma validate_accepts:
  assumes "exec (validateLitestreamReplica hasClient db) tr (Returned (warnings, errs))"
  shows "(errs = None \<longleftrightarrow> valid_spec db \<and> \<not> too_many_writers db tr)
    \<and> (warnings = [autoRestore_warning] \<longleftrightarrow> bk_AutoRestore (db_Backup db))
    \<and> (warnings = [] \<longleftrightarrow> \<not> bk_AutoRestore (db_Backup db))"
proof -
  obtain e where c: "checkWorkloadReplicas db (field_errors db) = Call (target_query db) (\<lambda>r.
     case workload_resp (target_query db) r of
       Inl err \<Rightarrow> Ret (if errors_IsNotFound err then None else Some err, field_errors db)
     | Inr wt \<Rightarrow> Ret (None, if desired wt > 1 then field_errors db @ [e wt] else field_errors db))"
    using checkWorkloadReplicas_Call by blast
  define w where "w = (if bk_AutoRestore (db_Backup db) then [autoRestore_warning] else [])"
  have w: "(w = [autoRestore_warning] \<longleftrightarrow> bk_AutoRestore (db_Backup db))
      \<and> (w = [] \<longleftrightarrow> \<not> bk_AutoRestore (db_Backup db))"
    by (simp add: w_def)
  let ?one = "hasClient \<and> (rp_TargetDeployment (db_Spec db) = []) \<noteq> (rp_TargetStatefulSet (db_Spec db) = [])"
  have run: "validateLitestreamReplica hasClient db =
      bind (if ?one then checkWorkloadReplicas db (field_errors db) else Ret (None, field_errors db))
        (\<lambda>(_, errs). Ret (w, if errs \<noteq> [] then Some errs else None))"
    by (auto simp: validateLitestreamReplica_def Let_def w_def)
  show ?thesis
  proof (cases ?one)
    case True
    with assms obtain r tr' where tr: "tr = (target_query db, r) # tr'"
      and ex: "exec (bind (case workload_resp (target_query db) r of
          Inl err \<Rightarrow> Ret (if errors_IsNotFound err then None else Some err, field_errors db)
        | Inr wt \<Rightarrow> Ret (None, if desired wt > 1 then field_errors db @ [e wt] else field_errors db))
          (\<lambda>(_, errs). Ret (w, if errs \<noteq> [] then Some errs else None))) tr' (Returned (warnings, errs))"
      unfolding run by (simp only: simp_thms if_True c bind.simps exec_Call_iff) blast
    show ?thesis
    proof (cases "workload_resp (target_query db) r")
      case (Inl err)
      with ex tr w show ?thesis
        by (auto simp: exec_Ret_iff too_many_writers_def field_errors_Nil split: if_splits)
    next
      case (Inr wt)
      with ex tr w show ?thesis
        by (auto simp: exec_Ret_iff too_many_writers_def field_errors_Nil split: if_splits)
    qed
  next
    case False
    with assms w show ?thesis unfolding run
      by (auto simp: exec_Ret_iff too_many_writers_def field_errors_Nil split: if_splits)
  qed
qed

text \<open>
  C31. A replica is admitted exactly when its spec is valid (one target, name and path, and a complete
  S3 destination if backup is enabled) and the target was not read with more than one desired
  replica; an unreadable target does not block admission. The warning about \<^verbatim>\<open>autoRestore\<close> is
  given exactly when it is set.
\<close>

theorem validate_accepts_iff:
  assumes "exec (validateLitestreamReplica hasClient db) tr (Returned (warnings, errs))"
  shows "(errs = None \<longleftrightarrow> valid_spec db \<and> \<not> too_many_writers db tr)
    \<and> (warnings = [autoRestore_warning] \<longleftrightarrow> bk_AutoRestore (db_Backup db))
    \<and> (warnings = [] \<longleftrightarrow> \<not> bk_AutoRestore (db_Backup db))"
  by (rule validate_accepts [OF assms])

theorem validate_accepts_iff_witness:
  "snd (drive (validateLitestreamReplica True sample_replica) []) = Returned ([], None)
   \<and> valid_spec sample_replica"
proof -
  have run: "snd (drive (validateLitestreamReplica True sample_replica) []) = Returned ([], None)"
    by code_simp
  with drive_exec [of "validateLitestreamReplica True sample_replica" "[]"]
  have "exec (validateLitestreamReplica True sample_replica)
      (fst (drive (validateLitestreamReplica True sample_replica) [])) (Returned ([], None))"
    by simp
  from validate_accepts_iff [OF this] run show ?thesis by simp
qed

end
