(* ===== verification/Pod_Startup.thy ===== *)
theory Pod_Startup
  imports Injector_Facts Script_Facts Replica_Trace Replica_Validator Restore_Facts
begin

text \<open>
  How the parts fit together when a pod of the target workload is created: the replica controller
  writes the annotations and the ConfigMaps, the webhook resolves the annotation and injects
  containers that mount those ConfigMaps, and the init containers decide whether the pod starts.
\<close>

section \<open>Running the init containers\<close>

text \<open>
  The kubelet runs the init containers one after the other and starts the pod's containers only
  when each has succeeded. What a container does to the files is the argument \<open>runs\<close>; the
  containers of the operator run their scripts.
\<close>

type_synonym runtime = "Container \<Rightarrow> files \<Rightarrow> int \<times> files"

fun run_inits :: "runtime \<Rightarrow> Container list \<Rightarrow> files \<Rightarrow> files option" where
  "run_inits runs [] fs = Some fs"
| "run_inits runs (c # cs) fs =
     (case runs c fs of (code, fs') \<Rightarrow> if code = 0 then run_inits runs cs fs' else None)"

definition runs_script :: "tools \<Rightarrow> runtime \<Rightarrow> Container \<Rightarrow> cmd list \<Rightarrow> bool" where
  "runs_script T runs c prog =
     (\<forall>fs. runs c fs = (fst (run_script T prog fs), sh_files (snd (run_script T prog fs))))"

definition runs_archive_check :: "tools \<Rightarrow> runtime \<Rightarrow> LitestreamReplica \<Rightarrow> bool" where
  "runs_archive_check T runs db =
     (\<forall>v. runs_script T runs (archive_check_container db v)
        (archive_check_prog (db_full_path db) (archive_state_dir db)))"

text \<open>
  C33. No start over lost data: when backup is enabled without automatic restore and the check is not
  skipped, an injected pod starts only if the database and its replication state are on the volume
  or there is no backup, whatever other init containers the pod has.
\<close>

theorem archive_check_protects:
  assumes "litestream_restore T bucket" "runs_archive_check T runs db"
    and "shell_plain (db_full_path db)" "shell_plain (archive_state_dir db)"
    and "inject pod db = Inr pod'"
    and "bk_Enabled (db_Backup db)" "\<not> bk_AutoRestore (db_Backup db)" "\<not> skip_annotation db"
    and "\<not> is_dir fs (probe_path (db_full_path db))"
    and "run_inits runs (pod_inits pod') fs \<noteq> None"
  shows "is_file fs (db_full_path db) \<and> is_dir fs (archive_state_dir db)
    \<or> bucket (db_full_path db) = NoBackup"
proof -
  let ?prog = "archive_check_prog (db_full_path db) (archive_state_dir db)"
  obtain v rest where inits: "pod_inits pod' = archive_check_container db v # rest"
    using injectE [OF assms(5)] assms(6-8)
    by (fastforce simp: injected_with_def startup_gate_def skip_annotation_def injectEnabled_def)
  then have "fst (run_script T ?prog fs) = 0"
    using assms(2,10) by (auto simp: runs_archive_check_def runs_script_def split: if_splits)
  then show ?thesis
    using archive_check_gate_code [OF assms(1,3,4,9)] by (auto split: if_splits)
qed

section \<open>References\<close>

text \<open>The ConfigMap and the key behind a path in a container.\<close>

definition configmap_file :: "Pod \<Rightarrow> Container \<Rightarrow> string \<Rightarrow> (string \<times> string) option" where
  "configmap_file pod c path =
     (case find (\<lambda>vm. prefix (vm_MountPath vm @ ''/'') path) (c_VolumeMounts c) of
        None \<Rightarrow> None
      | Some vm \<Rightarrow>
          (case find (\<lambda>v. vol_Name v = vm_Name vm) (pod_volumes pod) of
             Some v \<Rightarrow>
               (case vol_Source v of
                  ConfigMapSource cm \<Rightarrow> Some (cm, drop (length (vm_MountPath vm) + 1) path)
                | _ \<Rightarrow> None)
           | None \<Rightarrow> None))"

lemma find_append: "find P (xs @ ys) = (case find P xs of None \<Rightarrow> find P ys | Some x \<Rightarrow> Some x)"
  by (induction xs) auto

lemma config_volume_found:
  assumes "injected_with db v pod pod'" "unreserved pod"
  shows "find (\<lambda>x. vol_Name x = litestreamConfigVolume) (pod_volumes pod') = Some (config_volume db)"
proof -
  have "find (\<lambda>x. vol_Name x = litestreamConfigVolume) (pod_volumes pod) = None"
    using assms(2) by (auto simp: unreserved_def find_None_iff image_iff)
  then show ?thesis
    using assms(1) by (simp add: injected_with_def find_append config_volume_def)
qed

lemma init_volume_found:
  assumes "injected_with db v pod pod'" "unreserved pod" "rp_InitSQL (db_Spec db) \<noteq> []"
  shows "find (\<lambda>x. vol_Name x = dbInitSQLVolume) (pod_volumes pod') = Some (init_sql_volume db)"
proof -
  have "find (\<lambda>x. vol_Name x = dbInitSQLVolume) (pod_volumes pod) = None"
    using assms(2) by (auto simp: unreserved_def find_None_iff image_iff)
  then show ?thesis
    using assms(1,3)
    by (simp add: injected_with_def find_append config_volume_def init_sql_volume_def reserved_names)
qed

text \<open>The data volume is mounted away from the two files.\<close>

definition data_apart :: "LitestreamReplica \<Rightarrow> bool" where
  "data_apart db =
     (\<not> prefix (rp_DatabasePath (db_Spec db) @ ''/'') ''/etc/litestream/litestream.yml''
      \<and> \<not> prefix (rp_DatabasePath (db_Spec db) @ ''/'') ''/init/init.sql'')"

text \<open>The ConfigMap entries that a reconciliation of the replica writes.\<close>

definition writes_config :: "LitestreamReplica \<Rightarrow> string \<times> string \<Rightarrow> api_req \<Rightarrow> bool" where
  "writes_config db entry q =
     (\<exists>d. q = CreateOrUpdateConfigMap \<lparr>nn_Namespace = db_Namespace db, nn_Name = fst entry\<rparr> d (ReplicaObj db)
        \<and> snd entry \<in> dom d)"

fun first_request :: "'a prog \<Rightarrow> api_req option" where
  "first_request (Call q k) = Some q"
| "first_request _ = None"

text \<open>
  C34. A pod made from a template that the replica controller has annotated refers to that replica, and
  after injection the files its containers read, the configuration of the sidecar and the SQL of
  the init container, are the ConfigMap entries that the controller writes for the same replica.
\<close>

theorem injected_pod_configuration:
  assumes "annotated_for db t" "om_Annotations (pod_Meta pod) = pt_Annotations t"
    and "CHR ''/'' \<notin> set (db_Namespace db)" "db_Namespace db \<noteq> []"
    and "unreserved pod" "data_apart db" "inject pod db = Inr pod'"
  shows "config_key pod ns = Some \<lparr>nn_Namespace = db_Namespace db, nn_Name = db_Name db\<rparr>
    \<and> (\<exists>entry. configmap_file pod' (last (pod_containers pod')) ''/etc/litestream/litestream.yml'' = Some entry
        \<and> (\<exists>q. first_request (reconcileLitestreamConfig db) = Some q \<and> writes_config db entry q))
    \<and> (rp_InitSQL (db_Spec db) \<noteq> [] \<longrightarrow>
        (\<exists>entry. configmap_file pod' (last (pod_inits pod')) ''/init/init.sql'' = Some entry
          \<and> (\<exists>q. first_request (reconcileInitSQLConfig M db) = Some q \<and> writes_config db entry q)))"
proof -
  have key: "config_key pod ns = Some \<lparr>nn_Namespace = db_Namespace db, nn_Name = db_Name db\<rparr>"
    using assms(1-4) strings_Cut_found [of "CHR ''/''" "db_Namespace db" "db_Name db"]
    by (simp add: config_key_def annotated_for_def configRef_def)
  from assms(7) obtain v where iw: "injected_with db v pod pod'" by (elim injectE)
  have "last (pod_containers pod') = sidecar_container db v"
    using iw by (simp add: injected_with_def)
  then have config: "configmap_file pod' (last (pod_containers pod')) ''/etc/litestream/litestream.yml''
      = Some (db_Name db @ ''-litestream'', litestreamConfigKey)"
    using config_volume_found [OF iw assms(5)] assms(6)
    by (simp add: configmap_file_def sidecar_container_def data_apart_def zero_VolumeMount_def
        litestreamConfigMount_def config_volume_def litestreamConfigKey_def)
  have sql: "configmap_file pod' (last (pod_inits pod')) ''/init/init.sql'' = Some (db_Name db @ ''-init-sql'', ''init.sql'')"
    if "rp_InitSQL (db_Spec db) \<noteq> []"
  proof -
    have "last (pod_inits pod') = db_init_container db v"
      using iw that by (simp add: injected_with_def)
    then show ?thesis
      using init_volume_found [OF iw assms(5) that] assms(6)
      by (simp add: configmap_file_def db_init_container_def data_apart_def zero_VolumeMount_def
          init_sql_volume_def)
  qed
  show ?thesis
    using key config sql
    by (auto simp: reconcileLitestreamConfig_def reconcileInitSQLConfig_def writes_config_def Let_def)
qed

text \<open>
  C39. A replica with backup that the admission webhook accepted can be restored from: the restore
  controller does not reject it as a source.
\<close>

theorem admitted_replica_usable:
  assumes "exec (ValidateCreate hasClient db) tr (Returned (warnings, None))" "bk_Enabled (db_Backup db)"
  shows "usable db \<and> (\<exists>job. buildRestoreJob x db n = Some job)"
proof -
  have "valid_spec db"
    using assms(1) validate_accepts [of hasClient db tr warnings None] by (simp add: ValidateCreate_def)
  then show ?thesis
    using assms(2) buildRestoreJob_panics_iff [of x db n] by (auto simp: valid_spec_def usable_def)
qed

section \<open>Witnesses\<close>

definition sample_runtime :: "tools \<Rightarrow> LitestreamReplica \<Rightarrow> runtime" where
  "sample_runtime T db c fs =
     (if c_Name c = archiveCheckContainerName
      then (let r = run_script T (archive_check_prog (db_full_path db) (archive_state_dir db)) fs
            in (fst r, sh_files (snd r)))
      else (0, fs))"

lemma sample_runtime_archive: "runs_archive_check T (sample_runtime T db) db"
  by (simp add: runs_archive_check_def runs_script_def sample_runtime_def archive.ctr_name Let_def)

definition backed_up :: tools where
  "backed_up = model_tools (\<lambda>_. Backup ''rows'') (\<lambda>_. True)"

definition tracked_files :: files where
  "tracked_files = [''/data/paperless.db'' \<mapsto> File ''rows'', ''/data/.paperless.db-litestream'' \<mapsto> Dir]"

lemma sample_plain:
  "shell_plain (db_full_path sample_replica)" "shell_plain (archive_state_dir sample_replica)"
  "\<not> is_dir tracked_files (probe_path (db_full_path sample_replica))"
  "\<not> skip_annotation sample_replica" "bk_Enabled (db_Backup sample_replica)"
  "\<not> bk_AutoRestore (db_Backup sample_replica)" "data_apart sample_replica"
  by (simp_all add: shell_plain_def db_full_path_def archive_state_dir_def is_dir_def tracked_files_def
      probe_path_def skip_annotation_def injectEnabled_def data_apart_def sample_defs)

theorem archive_check_protects_witness:
  "\<exists>pod'. inject sample_pod sample_replica = Inr pod'
     \<and> run_inits (sample_runtime backed_up sample_replica) (pod_inits pod') tracked_files \<noteq> None
     \<and> is_dir tracked_files (archive_state_dir sample_replica)"
proof -
  from inject_injected_with [OF sample_data_volume] obtain pod'
    where p: "inject sample_pod sample_replica = Inr pod'" "injected_with sample_replica ''data'' sample_pod pod'" .
  have contract: "litestream_restore backed_up (\<lambda>_. Backup ''rows'')"
    unfolding backed_up_def by (rule model_litestream.litestream_restore_axioms)
  have inits: "pod_inits pod' = [archive_check_container sample_replica ''data'']"
    using p(2) sample_plain by (simp add: injected_with_def startup_gate_def skip_annotation_def
        injectEnabled_def sample_pod_defs sample_defs)
  have "fst (run_script backed_up (archive_check_prog (db_full_path sample_replica)
      (archive_state_dir sample_replica)) tracked_files) = 0"
    by (subst archive_check_gate_code [OF contract sample_plain(1-3)])
      (simp add: is_file_def is_dir_def tracked_files_def db_full_path_def archive_state_dir_def sample_defs)
  then have run: "run_inits (sample_runtime backed_up sample_replica) (pod_inits pod') tracked_files \<noteq> None"
    by (simp add: inits sample_runtime_def archive.ctr_name Let_def)
  from archive_check_protects [OF contract sample_runtime_archive sample_plain(1,2) p(1)
      sample_plain(5,6,4,3) run] p(1) run
  show ?thesis by auto
qed

definition sample_template :: PodTemplateSpec where
  "sample_template = \<lparr>
     pt_Annotations = Some [AnnotationInject \<mapsto> ''true'', AnnotationConfig \<mapsto> ''paperless/paperless-db''],
     pt_Labels = Some [AnnotationInject \<mapsto> ''true''], pt_Spec = zero_PodSpec\<rparr>"

theorem injected_pod_configuration_witness:
  "config_key sample_pod [] = Some \<lparr>nn_Namespace = ''paperless'', nn_Name = ''paperless-db''\<rparr>
   \<and> (\<exists>pod' entry. inject sample_pod sample_replica = Inr pod'
     \<and> configmap_file pod' (last (pod_containers pod')) ''/etc/litestream/litestream.yml'' = Some entry)"
proof -
  from inject_injected_with [OF sample_data_volume] obtain pod'
    where p: "inject sample_pod sample_replica = Inr pod'" .
  have a: "annotated_for sample_replica sample_template"
    "om_Annotations (pod_Meta sample_pod) = pt_Annotations sample_template"
    "CHR ''/'' \<notin> set (db_Namespace sample_replica)" "db_Namespace sample_replica \<noteq> []"
    by (simp_all add: annotated_for_def sample_template_def map_get_def configRef_def injectEnabled_def
        annotation_keys sample_defs sample_pod_defs)
  from injected_pod_configuration [OF a sample_pod_ok(2) sample_plain(7) p, of "[]"] p show ?thesis
    by (auto simp: sample_defs)
qed

theorem admitted_replica_usable_witness:
  "usable sample_replica \<and> (\<exists>job. buildRestoreJob sample_restore sample_replica ''recover-restore'' = Some job)"
proof -
  have "snd (drive (ValidateCreate True sample_replica) []) = Returned ([], None)"
    by code_simp
  with drive_exec [of "ValidateCreate True sample_replica" "[]"]
  have "exec (ValidateCreate True sample_replica) (fst (drive (ValidateCreate True sample_replica) []))
      (Returned ([], None))"
    by simp
  from admitted_replica_usable [OF this sample_plain(5)] show ?thesis .
qed

end
