(* ===== verification/Manager_Startup.thy ===== *)
theory Manager_Startup
  imports Go_Path
begin

text \<open>
  The start-up of the manager (\<^verbatim>\<open>src/cmd/main.go\<close>): from the parsed flags to the running manager.
  The calls of the controller runtime are recorded in order; which of them return an error is a
  parameter. The TLS options are Go slices, so they live in a store of arrays: both servers start
  from one slice, and whether the append for one can overwrite the other's depends on the capacity
  that the Go runtime gives a new array, also a parameter (\<open>grow\<close>).
\<close>

section \<open>Go slices\<close>

datatype tls_opt = DisableHTTP2 | GetCertificate string string

type_synonym arrays = "tls_opt option list list"

record slice =
  sl_array :: nat
  sl_len :: nat

definition new_array :: "(nat \<Rightarrow> nat) \<Rightarrow> arrays \<Rightarrow> tls_opt option list \<Rightarrow> tls_opt \<Rightarrow> arrays \<times> slice option" where
  "new_array grow h xs x =
     (let n = Suc (length xs)
      in (h @ [xs @ [Some x] @ replicate (grow n - n) None], Some \<lparr>sl_array = length h, sl_len = n\<rparr>))"

text \<open>\<^verbatim>\<open>append\<close> writes in place while there is capacity; a nil slice has none.\<close>

definition go_append :: "(nat \<Rightarrow> nat) \<Rightarrow> arrays \<Rightarrow> slice option \<Rightarrow> tls_opt \<Rightarrow> arrays \<times> slice option" where
  "go_append grow h s x =
     (case s of
        None \<Rightarrow> new_array grow h [] x
      | Some sl \<Rightarrow>
          (let arr = h ! sl_array sl in
           if sl_len sl < length arr
           then (h[sl_array sl := arr[sl_len sl := Some x]], Some (sl\<lparr>sl_len := Suc (sl_len sl)\<rparr>))
           else new_array grow h (take (sl_len sl) arr) x))"

definition slice_elems :: "arrays \<Rightarrow> slice option \<Rightarrow> tls_opt option list" where
  "slice_elems h s = (case s of None \<Rightarrow> [] | Some sl \<Rightarrow> take (sl_len sl) (h ! sl_array sl))"

section \<open>Flags and options\<close>

record flags =
  fl_metricsAddr :: string
  fl_metricsCertPath :: string
  fl_metricsCertName :: string
  fl_metricsCertKey :: string
  fl_webhookCertPath :: string
  fl_webhookCertName :: string
  fl_webhookCertKey :: string
  fl_enableLeaderElection :: bool
  fl_probeAddr :: string
  fl_secureMetrics :: bool
  fl_enableHTTP2 :: bool

definition default_flags :: flags where
  "default_flags = \<lparr>fl_metricsAddr = ''0'', fl_metricsCertPath = [], fl_metricsCertName = ''tls.crt'',
     fl_metricsCertKey = ''tls.key'', fl_webhookCertPath = [], fl_webhookCertName = ''tls.crt'',
     fl_webhookCertKey = ''tls.key'', fl_enableLeaderElection = False, fl_probeAddr = '':8081'',
     fl_secureMetrics = True, fl_enableHTTP2 = False\<rparr>"

record metrics_options =
  ms_BindAddress :: string
  ms_SecureServing :: bool
  ms_TLSOpts :: "slice option"
  ms_Filtered :: bool

record manager_options =
  mo_Metrics :: metrics_options
  mo_WebhookTLSOpts :: "slice option"
  mo_HealthProbeBindAddress :: string
  mo_LeaderElection :: bool
  mo_LeaderElectionID :: string

text \<open>\<^verbatim>\<open>filepath.Join\<close> of two elements: empty ones are left out.\<close>

definition filepath_Join :: "string \<Rightarrow> string \<Rightarrow> string" where
  "filepath_Join a b =
     (let es = filter (\<lambda>e. e \<noteq> []) [a, b] in if es = [] then [] else filepath_Clean (join_with ''/'' es))"

section \<open>Calls\<close>

datatype setup_call =
  AddToScheme string
| NewCertWatcher string string
| GetConfig
| NewManager manager_options
| SetupReplicaController
| NewKubeClient
| SetupRestoreController
| SetupValidator
| RegisterInjector string
| AddWatcher string string
| AddHealthzCheck string
| AddReadyzCheck string
| StartManager

text \<open>A failed \<^verbatim>\<open>utilruntime.Must\<close> panics, every other error ends the process with status 1.\<close>

datatype exit = GoPanic | OsExit nat

record startup =
  su_calls :: "setup_call list"
  su_arrays :: arrays

type_synonym 'a su = "startup \<Rightarrow> (exit + 'a) \<times> startup"

definition su_ret :: "'a \<Rightarrow> 'a su" where
  "su_ret a s = (Inr a, s)"

definition su_bind :: "'a su \<Rightarrow> ('a \<Rightarrow> 'b su) \<Rightarrow> 'b su" where
  "su_bind m f s = (case m s of (Inl e, s') \<Rightarrow> (Inl e, s') | (Inr a, s') \<Rightarrow> f a s')"

text \<open>\<^verbatim>\<open>Register\<close> returns nothing; the other calls may fail.\<close>

fun can_fail :: "setup_call \<Rightarrow> bool" where
  "can_fail (RegisterInjector _) = False"
| "can_fail _ = True"

fun exit_of :: "setup_call \<Rightarrow> exit" where
  "exit_of (AddToScheme _) = GoPanic"
| "exit_of _ = OsExit 1"

definition attempt :: "(setup_call \<Rightarrow> bool) \<Rightarrow> setup_call \<Rightarrow> unit su" where
  "attempt fails q s =
     (if can_fail q \<and> fails q then (Inl (exit_of q), s) else (Inr (), s\<lparr>su_calls := su_calls s @ [q]\<rparr>))"

definition append_opt :: "(nat \<Rightarrow> nat) \<Rightarrow> slice option \<Rightarrow> tls_opt \<Rightarrow> slice option su" where
  "append_opt grow sl x s =
     (let (h, sl') = go_append grow (su_arrays s) sl x in (Inr sl', s\<lparr>su_arrays := h\<rparr>))"

section \<open>The program\<close>

definition main_init :: "(setup_call \<Rightarrow> bool) \<Rightarrow> unit su" where
  "main_init fails =
     su_bind (attempt fails (AddToScheme ''client-go'')) (\<lambda>_.
     attempt fails (AddToScheme ''database''))"

text \<open>The certificate watcher of a server and its TLS options: the two blocks of the source.\<close>

definition cert_watcher ::
  "(setup_call \<Rightarrow> bool) \<Rightarrow> (nat \<Rightarrow> nat) \<Rightarrow> string \<Rightarrow> string \<Rightarrow> string \<Rightarrow> slice option
   \<Rightarrow> ((string \<times> string) option \<times> slice option) su" where
  "cert_watcher fails grow path name key tls =
     (if path \<noteq> [] then
        (let crt = filepath_Join path name; k = filepath_Join path key in
         su_bind (attempt fails (NewCertWatcher crt k)) (\<lambda>_.
         su_bind (append_opt grow tls (GetCertificate crt k)) (\<lambda>tls.
         su_ret (Some (crt, k), tls))))
      else su_ret (None, tls))"

definition add_watcher :: "(setup_call \<Rightarrow> bool) \<Rightarrow> (string \<times> string) option \<Rightarrow> unit su" where
  "add_watcher fails w = (case w of Some (crt, k) \<Rightarrow> attempt fails (AddWatcher crt k) | None \<Rightarrow> su_ret ())"

definition main_tls :: "(nat \<Rightarrow> nat) \<Rightarrow> flags \<Rightarrow> slice option su" where
  "main_tls grow fl = (if \<not> fl_enableHTTP2 fl then append_opt grow None DisableHTTP2 else su_ret None)"

definition metrics_server_options :: "flags \<Rightarrow> slice option \<Rightarrow> metrics_options" where
  "metrics_server_options fl tls = \<lparr>ms_BindAddress = fl_metricsAddr fl, ms_SecureServing = fl_secureMetrics fl,
     ms_TLSOpts = tls, ms_Filtered = fl_secureMetrics fl\<rparr>"

definition main_options :: "flags \<Rightarrow> slice option \<Rightarrow> slice option \<Rightarrow> manager_options" where
  "main_options fl webhookTLS metricsTLS = \<lparr>mo_Metrics = metrics_server_options fl metricsTLS,
     mo_WebhookTLSOpts = webhookTLS, mo_HealthProbeBindAddress = fl_probeAddr fl,
     mo_LeaderElection = fl_enableLeaderElection fl, mo_LeaderElectionID = ''dc63c944.litestream.io''\<rparr>"

definition main_controllers :: "(setup_call \<Rightarrow> bool) \<Rightarrow> unit su" where
  "main_controllers fails =
     su_bind (attempt fails SetupReplicaController) (\<lambda>_.
     su_bind (attempt fails NewKubeClient) (\<lambda>_.
     attempt fails SetupRestoreController))"

definition main_webhooks :: "(setup_call \<Rightarrow> bool) \<Rightarrow> flags \<Rightarrow> unit su" where
  "main_webhooks fails fl =
     (if fl_webhookCertPath fl \<noteq> [] then
        su_bind (attempt fails SetupValidator) (\<lambda>_.
        attempt fails (RegisterInjector ''/mutate-core-v1-pod''))
      else su_ret ())"

text \<open>The second half of \<^verbatim>\<open>main\<close>, from \<^verbatim>\<open>ctrl.NewManager\<close> on.\<close>

definition main_manager ::
  "(setup_call \<Rightarrow> bool) \<Rightarrow> flags \<Rightarrow> manager_options \<Rightarrow> (string \<times> string) option \<Rightarrow> (string \<times> string) option \<Rightarrow> unit su"
where
  "main_manager fails fl options webhookCertWatcher metricsCertWatcher =
     su_bind (attempt fails GetConfig) (\<lambda>_.
     su_bind (attempt fails (NewManager options)) (\<lambda>_.
     su_bind (main_controllers fails) (\<lambda>_.
     su_bind (main_webhooks fails fl) (\<lambda>_.
     su_bind (add_watcher fails metricsCertWatcher) (\<lambda>_.
     su_bind (add_watcher fails webhookCertWatcher) (\<lambda>_.
     su_bind (attempt fails (AddHealthzCheck ''healthz'')) (\<lambda>_.
     su_bind (attempt fails (AddReadyzCheck ''readyz'')) (\<lambda>_.
     attempt fails StartManager))))))))"

definition main :: "(setup_call \<Rightarrow> bool) \<Rightarrow> (nat \<Rightarrow> nat) \<Rightarrow> flags \<Rightarrow> unit su" where
  "main fails grow fl =
     su_bind (main_tls grow fl) (\<lambda>tlsOpts.
     su_bind (cert_watcher fails grow (fl_webhookCertPath fl) (fl_webhookCertName fl) (fl_webhookCertKey fl)
       tlsOpts) (\<lambda>(webhookCertWatcher, webhookTLSOpts).
     su_bind (cert_watcher fails grow (fl_metricsCertPath fl) (fl_metricsCertName fl) (fl_metricsCertKey fl)
       tlsOpts) (\<lambda>(metricsCertWatcher, metricsTLSOpts).
     main_manager fails fl (main_options fl webhookTLSOpts metricsTLSOpts) webhookCertWatcher
       metricsCertWatcher)))"

text \<open>The process: package initialisation, then \<^verbatim>\<open>main\<close>.\<close>

definition process :: "(setup_call \<Rightarrow> bool) \<Rightarrow> (nat \<Rightarrow> nat) \<Rightarrow> flags \<Rightarrow> (exit + unit) \<times> startup" where
  "process fails grow fl =
     su_bind (main_init fails) (\<lambda>_. main fails grow fl) \<lparr>su_calls = [], su_arrays = []\<rparr>"

section \<open>What it does\<close>

text \<open>The specification: which calls, in which order, with which TLS options.\<close>

definition watcher_calls :: "(string \<Rightarrow> string \<Rightarrow> setup_call) \<Rightarrow> string \<Rightarrow> string \<Rightarrow> string \<Rightarrow> setup_call list" where
  "watcher_calls f path name key = (if path = [] then [] else [f (filepath_Join path name) (filepath_Join path key)])"

definition calls_before :: "flags \<Rightarrow> setup_call list" where
  "calls_before fl = [AddToScheme ''client-go'', AddToScheme ''database'']
     @ watcher_calls NewCertWatcher (fl_webhookCertPath fl) (fl_webhookCertName fl) (fl_webhookCertKey fl)
     @ watcher_calls NewCertWatcher (fl_metricsCertPath fl) (fl_metricsCertName fl) (fl_metricsCertKey fl)
     @ [GetConfig]"

definition calls_after :: "flags \<Rightarrow> setup_call list" where
  "calls_after fl = [SetupReplicaController, NewKubeClient, SetupRestoreController]
     @ (if fl_webhookCertPath fl = [] then [] else [SetupValidator, RegisterInjector ''/mutate-core-v1-pod''])
     @ watcher_calls AddWatcher (fl_metricsCertPath fl) (fl_metricsCertName fl) (fl_metricsCertKey fl)
     @ watcher_calls AddWatcher (fl_webhookCertPath fl) (fl_webhookCertName fl) (fl_webhookCertKey fl)
     @ [AddHealthzCheck ''healthz'', AddReadyzCheck ''readyz'', StartManager]"

definition server_tls :: "flags \<Rightarrow> string \<Rightarrow> string \<Rightarrow> string \<Rightarrow> tls_opt list" where
  "server_tls fl path name key = (if fl_enableHTTP2 fl then [] else [DisableHTTP2])
     @ (if path = [] then [] else [GetCertificate (filepath_Join path name) (filepath_Join path key)])"

definition bad :: "(setup_call \<Rightarrow> bool) \<Rightarrow> setup_call \<Rightarrow> bool" where
  "bad fails q = (can_fail q \<and> fails q)"

definition outcome_of :: "(setup_call \<Rightarrow> bool) \<Rightarrow> setup_call list \<Rightarrow> exit + unit" where
  "outcome_of fails qs = (case find (bad fails) qs of None \<Rightarrow> Inr () | Some q \<Rightarrow> Inl (exit_of q))"

lemma outcome_simps [simp]:
  "outcome_of fails [] = Inr ()"
  "outcome_of fails (q # qs) = (if bad fails q then Inl (exit_of q) else outcome_of fails qs)"
  by (simp_all add: outcome_of_def)

lemma attempt_eq:
  "attempt fails q s =
     (if bad fails q then (Inl (exit_of q), s) else (Inr (), s\<lparr>su_calls := su_calls s @ [q]\<rparr>))"
  by (simp add: attempt_def bad_def)

lemma su_bind_simps:
  "su_bind (attempt fails q) f s =
     (if bad fails q then (Inl (exit_of q), s) else f () (s\<lparr>su_calls := su_calls s @ [q]\<rparr>))"
  "su_bind (su_ret a) f' s = f' a s"
  "su_bind (su_bind m g) f' s = su_bind m (\<lambda>x. su_bind (g x) f') s"
  "su_bind (append_opt grow sl x) f'' s =
     (let (h, sl') = go_append grow (su_arrays s) sl x in f'' sl' (s\<lparr>su_arrays := h\<rparr>))"
  by (auto simp: su_bind_def attempt_eq su_ret_def append_opt_def split: prod.splits sum.splits)

text \<open>From the manager on, whatever the slices: the calls in order up to the first failure.\<close>

lemma calls_run:
  "main_manager fails fl mo ww mw s =
   (let qs = GetConfig # NewManager mo # [SetupReplicaController, NewKubeClient, SetupRestoreController]
       @ (if fl_webhookCertPath fl = [] then [] else [SetupValidator, RegisterInjector ''/mutate-core-v1-pod''])
       @ (case mw of None \<Rightarrow> [] | Some (a, b) \<Rightarrow> [AddWatcher a b])
       @ (case ww of None \<Rightarrow> [] | Some (a, b) \<Rightarrow> [AddWatcher a b])
       @ [AddHealthzCheck ''healthz'', AddReadyzCheck ''readyz'', StartManager]
    in (outcome_of fails qs, s\<lparr>su_calls := su_calls s @ takeWhile (\<lambda>q. \<not> bad fails q) qs\<rparr>))"
  by (simp add: main_manager_def main_controllers_def main_webhooks_def add_watcher_def su_bind_simps attempt_eq Let_def
      split: option.split prod.split)

text \<open>
  The two appends share a slot: both start from the slice that disables HTTP/2, and the Go runtime
  gave its array a spare slot (the language promises a capacity of at least the length, no more).
\<close>

definition tls_shared :: "(nat \<Rightarrow> nat) \<Rightarrow> flags \<Rightarrow> bool" where
  "tls_shared grow fl =
     (\<not> fl_enableHTTP2 fl \<and> fl_webhookCertPath fl \<noteq> [] \<and> fl_metricsCertPath fl \<noteq> [] \<and> 1 < grow 1)"

text \<open>
  C40. Start-up, for every capacity that the Go runtime may choose. The process makes the calls of
  \<open>calls_before\<close>, creates the manager and makes the calls of \<open>calls_after\<close>, in this order, up to
  the first call that fails, which ends it with the status of that call; so the manager is started
  only when everything else succeeded, and both webhooks are registered exactly when a webhook
  certificate is given. The metrics server gets its own TLS options: HTTP/2 disabled unless enabled
  by the flag, and its own certificate. So does the webhook server, unless HTTP/2 is disabled, both
  certificates are given and the first array has a spare slot: then the second append overwrites the
  first, and the webhook server is given the certificate of the metrics server. The metrics endpoint
  is filtered exactly when it is secure.
\<close>

theorem process_start_up:
  "\<exists>mo. let calls = calls_before fl @ [NewManager mo] @ calls_after fl; r = process fails grow fl in
     fst r = outcome_of fails calls \<and> su_calls (snd r) = takeWhile (\<lambda>q. \<not> bad fails q) calls
     \<and> (NewManager mo \<in> set (su_calls (snd r)) \<longrightarrow>
          slice_elems (su_arrays (snd r)) (mo_WebhookTLSOpts mo) =
            map Some (if tls_shared grow fl
              then server_tls fl (fl_metricsCertPath fl) (fl_metricsCertName fl) (fl_metricsCertKey fl)
              else server_tls fl (fl_webhookCertPath fl) (fl_webhookCertName fl) (fl_webhookCertKey fl))
          \<and> slice_elems (su_arrays (snd r)) (ms_TLSOpts (mo_Metrics mo)) =
            map Some (server_tls fl (fl_metricsCertPath fl) (fl_metricsCertName fl) (fl_metricsCertKey fl)))
     \<and> ms_Filtered (mo_Metrics mo) = fl_secureMetrics fl
     \<and> mo_LeaderElection mo = fl_enableLeaderElection fl"
proof -
  define t where "t = (if fl_enableHTTP2 fl then None else Some \<lparr>sl_array = 0, sl_len = 1\<rparr>)"
  define h0 where "h0 = (if fl_enableHTTP2 fl then [] else [Some DisableHTTP2 # replicate (grow 1 - 1) None])"
  define cw where "cw = GetCertificate (filepath_Join (fl_webhookCertPath fl) (fl_webhookCertName fl))
    (filepath_Join (fl_webhookCertPath fl) (fl_webhookCertKey fl))"
  define cm where "cm = GetCertificate (filepath_Join (fl_metricsCertPath fl) (fl_metricsCertName fl))
    (filepath_Join (fl_metricsCertPath fl) (fl_metricsCertKey fl))"
  define wt where "wt = (if fl_webhookCertPath fl = [] then (h0, t) else go_append grow h0 t cw)"
  define mt where "mt = (if fl_metricsCertPath fl = [] then (fst wt, t) else go_append grow (fst wt) t cm)"
  define mo where "mo = main_options fl (snd wt) (snd mt)"
  have tls: "slice_elems (fst mt) (snd wt) =
      map Some (if tls_shared grow fl
        then server_tls fl (fl_metricsCertPath fl) (fl_metricsCertName fl) (fl_metricsCertKey fl)
        else server_tls fl (fl_webhookCertPath fl) (fl_webhookCertName fl) (fl_webhookCertKey fl))"
    "slice_elems (fst mt) (snd mt) =
      map Some (server_tls fl (fl_metricsCertPath fl) (fl_metricsCertName fl) (fl_metricsCertKey fl))"
    by (cases "grow 1 - 1"; simp add: slice_elems_def mt_def wt_def h0_def t_def go_append_def new_array_def
        server_tls_def cw_def cm_def nth_append tls_shared_def Let_def)+
  let ?calls = "calls_before fl @ [NewManager mo] @ calls_after fl"
  have first: "go_append grow [] None DisableHTTP2 = (h0, t)" if "\<not> fl_enableHTTP2 fl"
    using that by (simp add: go_append_def new_array_def h0_def t_def Let_def)
  have start: "su_bind (main_tls grow fl) f s = f t (s\<lparr>su_arrays := h0\<rparr>)" if "su_arrays s = []" for f s
    using first that by (cases s) (auto simp: main_tls_def su_bind_simps Let_def t_def h0_def)
  have "\<exists>A. process fails grow fl = (outcome_of fails ?calls,
      \<lparr>su_calls = takeWhile (\<lambda>q. \<not> bad fails q) ?calls, su_arrays = A\<rparr>)
      \<and> (NewManager mo \<in> set (takeWhile (\<lambda>q. \<not> bad fails q) ?calls) \<longrightarrow> A = fst mt)"
    by (simp add: process_def main_init_def main_def start su_bind_simps cert_watcher_def calls_run calls_before_def
        calls_after_def watcher_calls_def mo_def Let_def case_prod_beta wt_def mt_def cw_def cm_def)
  with tls show ?thesis
    by (intro exI [of _ mo]) (auto simp: mo_def main_options_def metrics_server_options_def)
qed

definition sample_flags :: flags where
  "sample_flags = default_flags\<lparr>fl_webhookCertPath := ''/tmp/certs'', fl_metricsCertPath := ''/tmp/metrics''\<rparr>"

text \<open>Both cases of the TLS options occur, by the capacity of the first array.\<close>

lemma sample_shared: "tls_shared (\<lambda>n. 2 * n) sample_flags" "\<not> tls_shared (\<lambda>n. n) sample_flags"
  by (simp_all add: tls_shared_def sample_flags_def default_flags_def)

theorem process_start_up_witness:
  "fst (process (\<lambda>q. q = SetupValidator) (\<lambda>n. 2 * n) sample_flags) = Inl (OsExit 1)
   \<and> StartManager \<notin> set (su_calls (snd (process (\<lambda>q. q = SetupValidator) (\<lambda>n. 2 * n) sample_flags)))"
proof -
  obtain mo where "let calls = calls_before sample_flags @ [NewManager mo] @ calls_after sample_flags;
       r = process (\<lambda>q. q = SetupValidator) (\<lambda>n. 2 * n) sample_flags in
     fst r = outcome_of (\<lambda>q. q = SetupValidator) calls
     \<and> su_calls (snd r) = takeWhile (\<lambda>q. \<not> bad (\<lambda>q. q = SetupValidator) q) calls"
    using process_start_up [of sample_flags "\<lambda>q. q = SetupValidator" "\<lambda>n. 2 * n"]
    by (auto simp: Let_def)
  then show ?thesis
    by (simp add: Let_def bad_def calls_before_def calls_after_def watcher_calls_def sample_flags_def default_flags_def)
qed

end
