(* ===== verification/Replica_Schema.thy ===== *)
theory Replica_Schema
  imports Replica_Trace
begin

text \<open>
  The schema of the status (\<^verbatim>\<open>src/config/crd/bases/litestream.io_litestreamreplicas.yaml\<close>, generated
  from \<^verbatim>\<open>src/api/v1/litestreamreplica_types.go\<close> and \<^verbatim>\<open>metav1.Condition\<close>): the API server rejects a
  status whose condition list has two entries of one type, or a condition whose type, status,
  reason or observed generation is not of the required form. Every status that the replica
  controller writes satisfies these constraints if the one it started from does. The limit on the
  length of a message is not among them: the controller puts error texts of any length into messages.
\<close>

section \<open>The schema\<close>

definition letter :: "char \<Rightarrow> bool" where
  "letter c = (c \<in> set ''abcdefghijklmnopqrstuvwxyzABCDEFGHIJKLMNOPQRSTUVWXYZ'')"

definition word_char :: "char \<Rightarrow> bool" where
  "word_char c = (letter c \<or> c \<in> set ''0123456789_'')"

text \<open>\<^verbatim>\<open>^[A-Za-z]([A-Za-z0-9_,:]*[A-Za-z0-9_])?$\<close>, with at most 1024 characters.\<close>

definition reason_ok :: "string \<Rightarrow> bool" where
  "reason_ok s = (s \<noteq> [] \<and> letter (hd s) \<and> word_char (last s)
     \<and> list_all (\<lambda>c. word_char c \<or> c \<in> set '',:'') s \<and> length s \<le> 1024)"

text \<open>
  The type of a condition: a name, with at most 316 characters, and before a slash the labels of a
  domain (\<^verbatim>\<open>([a-z0-9]([-a-z0-9]*[a-z0-9])?(\.[a-z0-9]([-a-z0-9]*[a-z0-9])?)*/)?\<close>, then
  \<^verbatim>\<open>([A-Za-z0-9][-A-Za-z0-9_.]*)?[A-Za-z0-9]\<close>).
\<close>

definition alnum :: "char \<Rightarrow> bool" where
  "alnum c = (letter c \<or> c \<in> set ''0123456789'')"

definition lower_alnum :: "char \<Rightarrow> bool" where
  "lower_alnum c = (c \<in> set ''abcdefghijklmnopqrstuvwxyz0123456789'')"

definition label_ok :: "string \<Rightarrow> bool" where
  "label_ok s = (s \<noteq> [] \<and> lower_alnum (hd s) \<and> lower_alnum (last s)
     \<and> list_all (\<lambda>c. lower_alnum c \<or> c = CHR ''-'') s)"

fun domain_ok :: "string \<Rightarrow> string \<Rightarrow> bool" where
  "domain_ok label [] = label_ok (rev label)"
| "domain_ok label (c # cs) =
     (if c = CHR ''.'' then label_ok (rev label) \<and> domain_ok [] cs else domain_ok (c # label) cs)"

definition type_name_ok :: "string \<Rightarrow> bool" where
  "type_name_ok s = (s \<noteq> [] \<and> alnum (hd s) \<and> alnum (last s)
     \<and> list_all (\<lambda>c. alnum c \<or> c \<in> set ''-_.'') s)"

definition type_ok :: "string \<Rightarrow> bool" where
  "type_ok s = (length s \<le> 316 \<and>
     (if CHR ''/'' \<in> set s
      then domain_ok [] (takeWhile (\<lambda>c. c \<noteq> CHR ''/'') s) \<and> type_name_ok (tl (dropWhile (\<lambda>c. c \<noteq> CHR ''/'') s))
      else type_name_ok s))"

definition condition_schema :: "Condition \<Rightarrow> bool" where
  "condition_schema c =
     (type_ok (cond_Type c) \<and> cond_Status c \<in> {ConditionTrue, ConditionFalse, ''Unknown''}
      \<and> reason_ok (cond_Reason c) \<and> 0 \<le> cond_ObservedGeneration c)"

text \<open>
  The phase constants of \<^verbatim>\<open>litestreamreplica_types.go:211-216\<close>, and none before the first status
  write. (The resource definition does not restrict the phase; its description lists all constants
  but Paused.)
\<close>

definition replica_phases :: "string set" where
  "replica_phases = {[], PhaseConfiguring, PhasePending, PhaseReady, PhasePaused, PhaseError}"

definition status_schema :: "LitestreamReplicaStatus \<Rightarrow> bool" where
  "status_schema st =
     (st_Phase st \<in> replica_phases \<and> distinct (map cond_Type (st_Conditions st))
      \<and> list_all condition_schema (st_Conditions st))"

lemma schema_constants [simp]:
  "ConditionTrue \<in> {ConditionTrue, ConditionFalse, ''Unknown''}"
  "ConditionFalse \<in> {ConditionTrue, ConditionFalse, ''Unknown''}"
  "[] \<in> replica_phases" "PhasePending \<in> replica_phases" "PhaseReady \<in> replica_phases"
  "PhasePaused \<in> replica_phases" "PhaseError \<in> replica_phases"
  by (simp_all add: replica_phases_def)

lemma reasons_ok [simp]:
  "reason_ok ''WorkloadNotFound''" "reason_ok ''TooManyReplicas''" "reason_ok ''PauseAnnotationSet''"
  "reason_ok ''ReplicationActive''" "reason_ok ''ArchiveCheckFailed''" "reason_ok ''ArchiveCheckPassed''"
  "reason_ok ''Annotated''" "reason_ok ''AnnotationPending''" "reason_ok ''SidecarRunning''"
  "reason_ok ''SidecarUnhealthy''" "reason_ok ''BackupDisabled''" "reason_ok ''ReplicationPaused''"
  "reason_ok ''WorkloadReady''" "reason_ok ''WorkloadNotReady''" "reason_ok ''NoInitSQL''"
  "reason_ok ''ConfigMapReady''"
  by (simp_all add: reason_ok_def letter_def word_char_def)

lemma types_ok [simp]:
  "type_ok ConditionSidecarInjected" "type_ok ConditionBackupHealthy" "type_ok ConditionInitSQLApplied"
  "type_ok ConditionReplicationPaused" "type_ok ConditionArchiveCheckFailed"
  "type_ok ConditionReplicaCountExceeded" "type_ok ConditionReady"
  by code_simp+

section \<open>The setters keep it\<close>

definition schema_ok :: "LitestreamReplica \<Rightarrow> bool" where
  "schema_ok db = (status_schema (db_Status db) \<and> 0 \<le> om_Generation (db_Meta db))"

lemma find_cond_distinct:
  "distinct (map cond_Type cs) \<Longrightarrow> x \<in> set cs \<longleftrightarrow> find_cond (cond_Type x) cs = Some x"
  by (induction cs) (auto simp: find_cond_def)

context status_conditions
begin

lemma set_members:
  assumes "distinct (map cond_Type cs)" "x \<in> set (SetStatusCondition M cs c)"
  shows "x \<in> set cs \<or> (\<exists>t. x = c\<lparr>cond_LastTransitionTime := t\<rparr>)"
proof (cases "cond_Type x = cond_Type c")
  case True
  then show ?thesis
    using set_same [of c cs] assms(2) find_cond_distinct [OF set_distinct [OF assms(1)], of x c] by auto
next
  case False
  then show ?thesis
    using set_other [OF False] assms find_cond_distinct [OF set_distinct [OF assms(1)]]
      find_cond_distinct [OF assms(1)] by metis
qed

lemma remove_members:
  assumes "distinct (map cond_Type cs)" "x \<in> set (RemoveStatusCondition M cs ty)"
  shows "x \<in> set cs"
proof (cases "cond_Type x = ty")
  case True
  then show ?thesis
    using remove_same [of ty cs] assms find_cond_distinct [OF remove_distinct [OF assms(1)], of x ty] by simp
next
  case False
  then show ?thesis
    using remove_other [OF False] assms find_cond_distinct [OF remove_distinct [OF assms(1)]]
      find_cond_distinct [OF assms(1)] by metis
qed

lemma schema_set:
  assumes "schema_ok db" "type_ok ty" "st \<in> {ConditionTrue, ConditionFalse, ''Unknown''}" "reason_ok re"
  shows "schema_ok (set_db_condition M ty st re msg t db)"
  using assms set_distinct set_members
  by (fastforce simp: schema_ok_def status_schema_def set_db_condition_def setCondition_def list_all_iff
      condition_schema_def)

lemma schema_remove: "schema_ok db \<Longrightarrow> schema_ok (remove_db_condition M ty db)"
  using remove_distinct remove_members
  by (auto simp: schema_ok_def status_schema_def remove_db_condition_def list_all_iff)

end

lemma schema_fields:
  "schema_ok db \<Longrightarrow> p \<in> replica_phases \<Longrightarrow> schema_ok (set_phase p b db)"
  "schema_ok (set_backup_healthy b db) = schema_ok db" "schema_ok (observed db) = schema_ok db"
  "schema_ok (db\<lparr>db_Status := (db_Status db)\<lparr>st_InitSQLHash := hash\<rparr>\<rparr>) = schema_ok db"
  by (simp_all add: schema_ok_def status_schema_def set_phase_def set_backup_healthy_def observed_def)

section \<open>Every status write keeps it\<close>

text \<open>The obligation of a call: what is written is valid if what it was computed from is.\<close>

fun schema_call :: "api_req \<Rightarrow> bool" where
  "schema_call (PatchReplicaStatus b n) = (schema_ok b \<longrightarrow> schema_ok n)"
| "schema_call q = True"

lemma all_calls_bind_rets:
  "all_calls P p \<Longrightarrow> all_rets R p \<Longrightarrow> (\<And>a. R a \<Longrightarrow> all_calls P (f a)) \<Longrightarrow> all_calls P (bind p f)"
  by (induction p) auto

lemma schema_other [simp]:
  "all_calls schema_call (clearSkipArchiveCheck db)" "all_calls schema_call (archiveCheckState db wt)"
  "all_calls schema_call (litestreamContainerState db wt)" "schema_call (target_query db)"
  "all_calls schema_call (patchWorkloadPodTemplate wt an lb)"
  by (auto simp: clearSkipArchiveCheck_def archiveCheckState_def litestreamContainerState_def target_query_def
      patchWorkloadPodTemplate_def split: sum.splits option.splits intro!: all_calls_bindI)

lemma schema_annotation [simp]: "all_calls schema_call (reconcileTargetAnnotation db)"
  unfolding reconcileTargetAnnotation_def by (auto intro!: all_calls_bindI split: sum.splits)

lemma schema_patch:
  "all_calls schema_call (patch_replica_status b n) = (schema_ok b \<longrightarrow> schema_ok n)"
  "all_calls schema_call (patch_status_err b n) = (schema_ok b \<longrightarrow> schema_ok n)"
  by (auto simp: patch_status_err_def patch_replica_status_def split: sum.splits)

context status_conditions
begin

lemma schema_backup_health:
  "all_calls schema_call (update_backup_health M wt t db)"
  "all_rets (\<lambda>db'. schema_ok db \<longrightarrow> schema_ok db') (update_backup_health M wt t db)"
  unfolding update_backup_health_def Let_def
  by (auto simp: schema_fields intro!: all_calls_bindI all_rets_bind_any schema_set split: prod.splits)

lemma schema_init: "all_calls schema_call (reconcileInitSQLConfig M db)"
  unfolding reconcileInitSQLConfig_def Let_def
  by (auto simp: schema_patch schema_fields intro!: all_calls_bindI schema_set split: option.splits)

lemma schema_updateStatus: "all_calls schema_call (updateStatus M db)"
proof -
  note keep = schema_patch schema_fields schema_set schema_remove
  show ?thesis
    unfolding updateStatus_def observed_def [symmetric] Let_def
    by (auto simp: keep split: sum.splits prod.splits if_splits
        intro!: all_calls_bindI all_calls_bind_rets [OF schema_backup_health])
qed

lemma schema_reconcile: "all_calls schema_call (replica_Reconcile M req)"
  unfolding replica_Reconcile_def reconcileLitestreamConfig_def Let_def
  by (auto simp: schema_init schema_updateStatus intro!: all_calls_bindI split: sum.splits option.splits prod.splits)

end

text \<open>
  C12. Whatever the API server answers, every status that a reconciliation of a replica writes is of
  the form that the resource requires if the status it was computed from is (and the generation of
  the object is not negative): the condition types are distinct, and the type, status, reason and
  observed generation of each condition satisfy the constraints of the resource definition; the
  phase is empty or one of the declared constants. The length of messages is not covered.
\<close>

theorem replica_status_schema:
  assumes "status_conditions M" "exec (replica_Reconcile M req) tr out" "(PatchReplicaStatus b n, r) \<in> set tr"
    and "status_schema (db_Status b)" "0 \<le> om_Generation (db_Meta b)"
  shows "status_schema (db_Status n)"
  using all_calls_exec [OF status_conditions.schema_reconcile [OF assms(1)] assms(2,3)] assms(4,5)
  by (simp add: schema_ok_def)

theorem replica_status_schema_witness:
  "\<exists>b n r. (PatchReplicaStatus b n, r) \<in> set (fst sample_run) \<and> st_Conditions (db_Status n) \<noteq> []
     \<and> status_schema (db_Status n)"
proof -
  have "fst sample_run \<noteq> []" by code_simp
  then have last: "last (fst sample_run) \<in> set (fst sample_run)" by simp
  have "case fst (last (fst sample_run)) of PatchReplicaStatus b n \<Rightarrow>
      status_schema (db_Status b) \<and> 0 \<le> om_Generation (db_Meta b) \<and> \<not> List.null (st_Conditions (db_Status n)) | _ \<Rightarrow> False"
    by code_simp
  then obtain b n where bn: "fst (last (fst sample_run)) = PatchReplicaStatus b n" "status_schema (db_Status b)"
    "0 \<le> om_Generation (db_Meta b)" "st_Conditions (db_Status n) \<noteq> []"
    by (auto simp: List.null_iff split: api_req.splits)
  with last have "(PatchReplicaStatus b n, snd (last (fst sample_run))) \<in> set (fst sample_run)"
    by (metis prod.collapse)
  with bn replica_status_schema [OF list_lib.status_conditions_axioms sample_run_exec] show ?thesis by blast
qed

end
