(* ===== verification/Reconcile_Bounds.thy ===== *)
theory Reconcile_Bounds
  imports Restore_Trace
begin

text \<open>
  How much a reconciliation does, and when it is done: a bound on the number of calls of each
  reconciler, and the conditions under which the restore controller gives up its turn without
  asking to be called again.
\<close>

section \<open>Counting calls\<close>

primrec calls_le :: "'a prog \<Rightarrow> nat \<Rightarrow> bool" where
  "calls_le (Ret a) n = True"
| "calls_le Panic n = True"
| "calls_le (Call q k) n = (0 < n \<and> (\<forall>r. calls_le (k r) (n - 1)))"

lemma calls_le_exec: "exec p tr out \<Longrightarrow> calls_le p n \<Longrightarrow> length tr \<le> n"
proof (induction arbitrary: n rule: exec.induct)
  case (exec_call k r tr out q)
  then have "length tr \<le> n - 1" "0 < n" by auto
  then show ?case by simp
qed simp_all

lemma calls_le_mono: "calls_le p m \<Longrightarrow> m \<le> n \<Longrightarrow> calls_le p n"
proof (induction p arbitrary: m n)
  case (Call q k)
  have "calls_le (k r) (n - 1)" for r
    using Call(1) [of "k r" "m - 1" "n - 1"] Call(2,3) by simp
  with Call(2,3) show ?case by auto
qed simp_all

lemma calls_le_bind:
  assumes "calls_le p m" "m \<le> n" "\<And>a. calls_le (f a) (n - m)"
  shows "calls_le (bind p f) n"
  using assms
proof (induction p arbitrary: m n)
  case (Ret a)
  then show ?case using calls_le_mono [of "f a" "n - m" n] by simp
next
  case (Call q k)
  have "calls_le (bind (k r) f) (n - 1)" for r
    using Call(2-) by (intro Call(1) [of _ "m - 1"]) auto
  with Call(2,3) show ?case by auto
qed simp

text \<open>The helpers, as introduction rules: each with the number of calls it needs.\<close>

lemma calls_helpers:
  "calls_le now 1" "calls_le (record_event ob et re m) 1" "calls_le (deref v) 0"
  "calls_le (getTargetWorkload db) 1" "calls_le (getTargetWorkloadForRestore db) 1"
  "calls_le (setStatus x ph j msg o' s c) 1"
  "calls_le (pauseReplication db) 1" "calls_le (resumeReplication db) 2"
  "calls_le (setSkipArchiveCheck db enable) 2" "calls_le (reconcileRestoreConfig x db) 1"
  "calls_le (restoreJobPodLogs k ns n) 2" "calls_le (clearSkipArchiveCheck db) 2"
  "calls_le (patch_replica_status b db) 1" "calls_le (patch_status_err b db) 1"
  "calls_le (reconcileLitestreamConfig db) 1"
  using getTargetWorkload_Call [of db]
  by (auto simp: now_def record_event_def deref_def getTargetWorkloadForRestore_Call setStatus_def pauseReplication_def
      resumeReplication_def setSkipArchiveCheck_def reconcileRestoreConfig_def restoreJobPodLogs_def
      clearSkipArchiveCheck_def patch_replica_status_def patch_status_err_def reconcileLitestreamConfig_def Let_def
      split: option.split sum.split list.split)

lemma calls_accessors:
  "calls_le (wt_name wt) 0" "calls_le (wt_selectorLabels wt) 0" "calls_le (wt_podTemplateAnnotations wt) 0"
  "calls_le (wt_podTemplateLabels wt) 0" "calls_le (wt_desiredReplicas wt) 0"
  "calls_le (wt_runningReplicas wt) 0" "calls_le (wt_readyReplicas wt) 0"
  by (auto simp: wt_name_def wt_selectorLabels_def wt_podTemplateAnnotations_def wt_podTemplateLabels_def
      wt_desiredReplicas_def wt_runningReplicas_def wt_readyReplicas_def deref_def split: option.split)

lemma calls_workload:
  "calls_le (scaleWorkload wt n) 1" "calls_le (patchWorkloadPodTemplate wt an lb) 1"
  by (auto simp: scaleWorkload_def patchWorkloadPodTemplate_def deref_def Let_def split: option.split sum.split)

lemma calls_pods:
  "calls_le (archiveCheckState db wt) 1" "calls_le (litestreamContainerState db wt) 1"
  by (auto simp: archiveCheckState_def litestreamContainerState_def
      intro!: calls_accessors(2) [THEN calls_le_bind] split: option.split sum.split)

lemmas calls_rules = calls_helpers calls_accessors calls_workload calls_pods
lemmas calls_steps = calls_rules [THEN calls_le_bind] calls_rules [THEN calls_le_mono]

section \<open>The restore reconciler\<close>

lemma calls_failRestore: "calls_le (failRestore x msg) 3"
  unfolding failRestore_def by (auto intro!: calls_steps)

lemma calls_cleanup: "calls_le (failRestoreWithCleanup x src msg) 7"
proof -
  have scale: "calls_le (case res of Inl e \<Rightarrow> Ret () | Inr wt \<Rightarrow> bind (wt_runningReplicas wt) (\<lambda>n.
      if n = 0 \<and> restore_target x > 0 then bind (scaleWorkload wt (restore_target x)) (\<lambda>_. Ret ()) else Ret ())) 1"
    for res :: "go_error + workloadTarget"
    by (auto intro!: calls_steps split: sum.split)
  show ?thesis
    unfolding failRestoreWithCleanup_def by (auto intro!: calls_steps scale [THEN calls_le_bind])
qed

lemmas calls_fail = calls_failRestore calls_cleanup
lemmas fail_steps = calls_fail [THEN calls_le_bind] calls_fail [THEN calls_le_mono]

lemma calls_phases:
  "calls_le (reconcilePending x src) 5" "calls_le (reconcilePausing x src) 5"
  "calls_le (reconcileScalingDown x src) 7" "calls_le (reconcileRunning k x src) 10"
  "calls_le (reconcileValidating x src) 8" "calls_le (reconcileScalingUp x src) 10"
proof -
  have pend: "calls_le (case res of Inr wt \<Rightarrow> bind (wt_desiredReplicas wt) (\<lambda>n. Ret (Inr n))
      | Inl e \<Rightarrow> if errors_IsNotFound e then Ret (Inr 0) else Ret (Inl e)) 0" for res
    by (auto intro!: calls_steps split: sum.split)
  show "calls_le (reconcilePending x src) 5"
    unfolding reconcilePending_def
    by (auto intro!: calls_steps fail_steps pend [THEN calls_le_bind] split: sum.split option.split prod.split)
  show "calls_le (reconcilePausing x src) 5"
    unfolding reconcilePausing_def Let_def
    by (auto intro!: calls_steps fail_steps split: sum.split option.split prod.split)
  show "calls_le (reconcileScalingDown x src) 7"
    unfolding reconcileScalingDown_def Let_def
    by (auto intro!: calls_steps fail_steps split: sum.split option.split prod.split)
  show "calls_le (reconcileRunning k x src) 10"
    unfolding reconcileRunning_def Let_def
    by (auto intro!: calls_steps fail_steps split: sum.split option.split prod.split job_verdict.split)
  show "calls_le (reconcileValidating x src) 8"
    unfolding reconcileValidating_def Let_def
    by (auto intro!: calls_steps fail_steps split: sum.split option.split prod.split job_verdict.split)
  show "calls_le (reconcileScalingUp x src) 10"
    unfolding reconcileScalingUp_def Let_def
    by (auto intro!: calls_steps fail_steps split: sum.split option.split prod.split)
qed

lemma calls_restore: "calls_le (restore_Reconcile k req) 12"
proof -
  have "calls_le (restore_dispatch k x src) 10" for x src
    unfolding restore_dispatch_def by (auto intro: calls_phases [THEN calls_le_mono])
  then show ?thesis
    unfolding restore_Reconcile_def by (auto intro!: fail_steps split: sum.split)
qed

section \<open>The replica reconciler\<close>

lemma calls_replica: "calls_le (replica_Reconcile M req) 15"
proof -
  have init: "calls_le (reconcileInitSQLConfig M db) 3" for db
    unfolding reconcileInitSQLConfig_def Let_def by (auto intro!: calls_steps split: option.split)
  have target: "calls_le (reconcileTargetAnnotation db) 2" for db
    unfolding reconcileTargetAnnotation_def by (auto intro!: calls_steps split: sum.split)
  have event: "calls_le (if b then record_event ob et re m else if b' then record_event ob' et' re' m' else Ret ()) 1"
    for b b' ob ob' et et' re re' m m'
    by (auto intro!: calls_steps)
  have clear: "calls_le (if b then bind (clearSkipArchiveCheck db) (\<lambda>_. Ret ()) else Ret ()) 2" for b db
    by (auto intro!: calls_steps)
  have health: "calls_le (update_backup_health M wt t db) 4" for wt t db
    unfolding update_backup_health_def Let_def
    by (simp split: prod.split, intro impI calls_steps event [THEN calls_le_bind] clear [THEN calls_le_bind] allI)
      (auto intro!: event [THEN calls_le_bind] clear [THEN calls_le_bind])
  have status: "calls_le (updateStatus M db) 8" for db
    unfolding updateStatus_def Let_def
    by (auto intro!: calls_steps health [THEN calls_le_bind] split: sum.split prod.split)
  show ?thesis
    unfolding replica_Reconcile_def
    by (auto intro!: calls_steps init [THEN calls_le_bind] target [THEN calls_le_bind] status [THEN calls_le_bind]
        split: sum.split option.split prod.split)
qed

text \<open>
  C23. A reconciliation of a restore makes at most 12 calls and a reconciliation of a replica at most
  15, whatever the API server answers and however many pods, conditions and Job conditions there are.
\<close>

theorem reconcile_call_bounds:
  "(exec (restore_Reconcile k req) tr out \<longrightarrow> length tr \<le> 12)
   \<and> (exec (replica_Reconcile M req') tr' out' \<longrightarrow> length tr' \<le> 15)"
  using calls_le_exec calls_restore calls_replica by blast

text \<open>The bound of a restore is attained: the last reconciliation of a restore.\<close>

definition scalingUp_run :: "trace \<times> ctrl_result outcome" where
  "scalingUp_run = drive (restore_Reconcile True sample_request)
     [RRestore (restore_in RestorePhaseScalingUp), RReplica paused_source, RReplica paused_source, ROk,
      RReplica paused_source, ROk, RConfigMap (config_of ''dbs: full''), RDeployment idle_deployment,
      RDeployment sample_deployment, ROk, RTime 9, ROk]"

lemma scalingUp_run_exec:
  "exec (restore_Reconcile True sample_request) (fst scalingUp_run) (snd scalingUp_run)"
  unfolding scalingUp_run_def by (rule drive_exec)

theorem reconcile_call_bounds_witness:
  "length (fst scalingUp_run) = 12 \<and> length (fst scalingUp_run) \<le> 12 \<and> length (fst sample_run) \<le> 15"
proof -
  have "length (fst scalingUp_run) = 12" by code_simp
  with reconcile_call_bounds [of True sample_request "fst scalingUp_run" "snd scalingUp_run"
      list_conditions sample_request "fst sample_run" "snd sample_run"]
  show ?thesis using scalingUp_run_exec sample_run_exec by blast
qed

section \<open>When a restore is left alone\<close>

text \<open>
  A result without error and without a delay is the last word on a restore until it changes. The
  handlers give it only right after a final phase was written successfully; \<open>concluded\<close> follows the
  program and keeps whether the last call was such a write; its first argument allows a program that
  ends for another reason.
\<close>

fun final_write :: "api_req \<Rightarrow> bool" where
  "final_write (PatchRestoreStatus old new) = terminal new"
| "final_write _ = False"

primrec concluded :: "bool \<Rightarrow> ctrl_result prog \<Rightarrow> bool \<Rightarrow> bool" where
  "concluded c (Ret a) b = (case a of (d, Some e) \<Rightarrow> True | (d, None) \<Rightarrow> d = restoreRequeueInterval \<or> d = 0 \<and> (b \<or> c))"
| "concluded c Panic b = True"
| "concluded c (Call q k) b = (\<forall>r. concluded c (k r) (final_write q \<and> as_error r = None))"

lemma concluded_exec:
  assumes "exec p tr (Returned (d, None))" "concluded c p b" "tr \<noteq> [] \<or> \<not> b"
  shows "d = restoreRequeueInterval
       \<or> d = 0 \<and> (c \<or> tr \<noteq> [] \<and> final_write (fst (last tr)) \<and> as_error (snd (last tr)) = None)"
  using assms
proof (induction p arbitrary: tr b)
  case (Call q k)
  then obtain r tr' where tr: "tr = (q, r) # tr'" "exec (k r) tr' (Returned (d, None))"
    by (auto simp: prog_simps)
  show ?case
  proof (cases "tr' = []")
    case True
    with tr have "k r = Ret (d, None)" by (cases "k r") (auto simp: prog_simps)
    moreover have "concluded c (k r) (final_write q \<and> as_error r = None)" using Call(3) by simp
    ultimately show ?thesis using True tr(1) by auto
  next
    case False
    with Call(1) [OF rangeI tr(2)] Call(3) show ?thesis by (auto simp: tr(1))
  qed
qed (auto simp: prog_simps)

lemma concluded_bind: "(\<And>a b. concluded c (f a) b) \<Longrightarrow> concluded c (bind p f) b"
  by (induction p arbitrary: b) auto

lemma terminal_status [simp]:
  "terminal (apply_status x RestorePhaseFailed j m o' s c)" "terminal (apply_status x RestorePhaseComplete j m o' s c)"
  by (simp_all add: terminal_def)

lemma concluded_ret [simp]:
  "concluded c (Ret (restoreRequeueInterval, e)) b" "concluded c (Ret (0, as_error r)) (as_error r = None)"
  "concluded c (Ret (d, Some e')) b" "concluded True (Ret (0, e)) b"
  by (auto split: option.split)

lemmas unfold_calls = setStatus_def record_event_def now_def

lemma concluded_fail [simp]:
  "concluded c (bind (failRestore x msg) (\<lambda>err. Ret (0, err))) b"
  "concluded c (bind (failRestoreWithCleanup x src msg) (\<lambda>err. Ret (0, err))) b"
  unfolding failRestore_def failRestoreWithCleanup_def bind_assoc
  by (auto simp: unfold_calls simp del: concluded.simps(1) intro!: concluded_bind)

lemma concluded_logs:
  "(\<And>a b. concluded c (f a) b) \<Longrightarrow> concluded c (bind (restoreJobPodLogs k ns n) f) b"
  by (rule concluded_bind)

lemma concluded_running: "concluded c (reconcileRunning k x src) b"
  unfolding reconcileRunning_def Let_def
  by (auto simp: unfold_calls simp del: concluded.simps(1) intro!: concluded_logs
      split: sum.splits option.splits prod.splits job_verdict.splits)

lemma concluded_phases:
  "concluded c (reconcilePending x src) b" "concluded c (reconcilePausing x src) b"
  "concluded c (reconcileScalingDown x src) b"
  "concluded c (reconcileValidating x src) b" "concluded c (reconcileScalingUp x src) b"
  unfolding reconcilePending_def reconcilePausing_def reconcileScalingDown_def
    reconcileValidating_def reconcileScalingUp_def Let_def
  by (auto simp: unfold_calls simp del: concluded.simps(1) intro!: concluded_bind
      split: sum.splits option.splits prod.splits job_verdict.splits)

text \<open>The phases the reconciler acts on, a new restore's empty phase included.\<close>

definition active_phases :: "string set" where
  "active_phases = {[], RestorePhasePending, RestorePhasePausing, RestorePhaseScalingDown,
     RestorePhaseRunning, RestorePhaseValidating, RestorePhaseScalingUp}"

lemma concluded_dispatch: "c \<or> res_Phase x \<in> active_phases \<Longrightarrow> concluded c (restore_dispatch k x src) b"
  unfolding restore_dispatch_def active_phases_def
  by (auto intro: concluded_phases concluded_running)

definition nothing_to_do :: "api_resp \<Rightarrow> bool" where
  "nothing_to_do r = (case as_restore r of Inl e \<Rightarrow> errors_IsNotFound e | Inr x \<Rightarrow> res_Phase x \<notin> active_phases)"

lemma restore_first_call: "\<exists>f. restore_Reconcile k req = Call (GetRestore req) f"
  by (simp add: restore_Reconcile_def)

lemma final_phases_inactive [simp]: "RestorePhaseComplete \<notin> active_phases" "RestorePhaseFailed \<notin> active_phases"
  by (simp_all add: active_phases_def restore_phases)

lemma concluded_answered:
  "concluded (nothing_to_do r) (answered (restore_Reconcile k req) r) False"
  unfolding nothing_to_do_def answered_def
  by (auto simp: restore_Reconcile_def concluded_dispatch
      simp del: concluded.simps(1) split: sum.splits)

text \<open>
  C15. A restore is never dropped half way: a reconciliation that reports success either asks to run
  again after the requeue interval, or asks for nothing because the restore is gone, was read in a
  phase with nothing to do, or the last thing the reconciliation did was to write a final phase
  (complete or failed), acknowledged by the API server.
\<close>

theorem restore_requeued:
  assumes "exec (restore_Reconcile k req) tr (Returned (d, None))"
  shows "d = restoreRequeueInterval
       \<or> d = 0 \<and> (fst (hd tr) = GetRestore req \<and> nothing_to_do (snd (hd tr))
                 \<or> final_write (fst (last tr)) \<and> as_error (snd (last tr)) = None)"
proof -
  obtain f where f: "restore_Reconcile k req = Call (GetRestore req) f" using restore_first_call by blast
  with assms obtain r tr' where tr: "tr = (GetRestore req, r) # tr'" "exec (f r) tr' (Returned (d, None))"
    by (auto simp: prog_simps)
  from concluded_answered [of r k req] have "concluded (nothing_to_do r) (f r) False"
    by (simp add: answered_def f)
  from concluded_exec [OF tr(2) this] show ?thesis by (auto simp: tr(1))
qed

theorem restore_requeued_witness:
  "snd scalingUp_run = Returned (0, None) \<and> \<not> nothing_to_do (snd (hd (fst scalingUp_run)))
   \<and> final_write (fst (last (fst scalingUp_run))) \<and> restoreRequeueInterval \<noteq> 0"
proof -
  have out: "snd scalingUp_run = Returned (0, None)"
    and "\<not> nothing_to_do (snd (hd (fst scalingUp_run)))" "restoreRequeueInterval \<noteq> 0" by code_simp+
  with restore_requeued [OF scalingUp_run_exec [unfolded out]] show ?thesis by auto
qed

end
