(* ===== verification/Go_Heap.thy ===== *)
theory Go_Heap
  imports Api_Types
begin

text \<open>
  The memory of a Go program as far as the custom resources reach it: a heap of cells, a pointer, a
  map or a slice being the address of a cell. The other theories treat an object as a value; here an
  object is a struct whose pointer fields, maps and slices are addresses, so that two objects may
  share memory.

  The locale \<open>deep_copy\<close> is the contract of a \<^verbatim>\<open>DeepCopyInto\<close> or \<^verbatim>\<open>DeepCopy\<close>: from a readable original
  it returns a copy that reads the same and lives in memory that did not exist before. The lemmas of
  the locale show what a client may conclude, and the combinators below it are the statements the
  generated code is made of: a pointer field that is copied when it is not nil, \<^verbatim>\<open>new\<close> followed by a
  copy, and a loop over a slice.
\<close>

section \<open>Structs with addresses\<close>

type_synonym addr = nat

text \<open>
  The structs of \<^verbatim>\<open>src/api/v1\<close> and the Kubernetes structs in them, with the fields of the value
  types; a field that is an option there because it is a pointer is an \<^typ>\<open>addr option\<close> here, \<^const>\<open>None\<close>
  being nil, and so is a map or a slice.
\<close>

record gObjectMeta =
  gom_Name :: string
  gom_Namespace :: string
  gom_Annotations :: "addr option"
  gom_Labels :: "addr option"
  gom_Generation :: int

record TypeMeta =
  tm_Kind :: string
  tm_APIVersion :: string

record gListMeta =
  glm_ResourceVersion :: string
  glm_Continue :: string
  glm_RemainingItemCount :: "addr option"

record gResourceRequirements =
  grr_Limits :: "addr option"
  grr_Requests :: "addr option"

record gBackupDestination =
  gdest_S3 :: "addr option"

record gBackupSpec =
  gbk_Enabled :: bool
  gbk_Destination :: gBackupDestination
  gbk_Retention :: RetentionPolicy
  gbk_SyncInterval :: string
  gbk_LogLevel :: string
  gbk_Resources :: "addr option"
  gbk_AutoRestore :: bool

record gLitestreamReplicaSpec =
  grp_DatabaseName :: string
  grp_DatabasePath :: string
  grp_TargetDeployment :: string
  grp_TargetStatefulSet :: string
  grp_Image :: string
  grp_Backup :: gBackupSpec
  grp_InitSQL :: string
  grp_InitImage :: string
  grp_RunAsUser :: "addr option"
  grp_RunAsGroup :: "addr option"

record gLitestreamReplicaStatus =
  gst_Phase :: string
  gst_Ready :: bool
  gst_BackupHealthy :: bool
  gst_LastBackup :: "addr option"
  gst_ReplicationLag :: string
  gst_InitSQLHash :: string
  gst_ObservedGeneration :: int
  gst_Conditions :: "addr option"

record gLitestreamReplica =
  gdb_TypeMeta :: TypeMeta
  gdb_Meta :: gObjectMeta
  gdb_Spec :: gLitestreamReplicaSpec
  gdb_Status :: gLitestreamReplicaStatus

record gLitestreamReplicaList =
  gdbl_TypeMeta :: TypeMeta
  gdbl_ListMeta :: gListMeta
  gdbl_Items :: "addr option"

record gLitestreamRestoreSpec =
  gre_SourceRef :: string
  gre_TargetPVC :: string
  gre_TargetPath :: string
  gre_Timestamp :: string
  gre_Image :: string
  gre_Force :: bool
  gre_RunAsUser :: "addr option"
  gre_RunAsGroup :: "addr option"

record gLitestreamRestoreStatus =
  grst_Phase :: string
  grst_JobName :: string
  grst_OriginalReplicas :: "addr option"
  grst_StartTime :: "addr option"
  grst_CompletionTime :: "addr option"
  grst_Message :: string

record gLitestreamRestore =
  gres_TypeMeta :: TypeMeta
  gres_Meta :: gObjectMeta
  gres_Spec :: gLitestreamRestoreSpec
  gres_Status :: gLitestreamRestoreStatus

record gLitestreamRestoreList =
  gresl_TypeMeta :: TypeMeta
  gresl_ListMeta :: gListMeta
  gresl_Items :: "addr option"

section \<open>The heap\<close>

datatype cell =
  StringMapCell "string \<rightharpoonup> string"
| QuantityMapCell "string \<rightharpoonup> quantity"
| Int64Cell int
| Int32Cell int
| TimeCell time
| ConditionsCell "Condition list"
| ResourcesCell gResourceRequirements
| S3Cell S3Destination
| RetentionCell RetentionPolicy
| DestinationCell gBackupDestination
| BackupCell gBackupSpec
| ReplicaSpecCell gLitestreamReplicaSpec
| ReplicaStatusCell gLitestreamReplicaStatus
| ReplicaCell gLitestreamReplica
| ReplicasCell "gLitestreamReplica list"
| ReplicaListCell gLitestreamReplicaList
| RestoreSpecCell gLitestreamRestoreSpec
| RestoreStatusCell gLitestreamRestoreStatus
| RestoreCell gLitestreamRestore
| RestoresCell "gLitestreamRestore list"
| RestoreListCell gLitestreamRestoreList

type_synonym heap = "cell list"

definition lookup_cell :: "heap \<Rightarrow> addr \<Rightarrow> cell option" where
  "lookup_cell h a = (if a < length h then Some (h ! a) else None)"

lemma lookup_append [simp]: "a < length h \<Longrightarrow> lookup_cell (h @ t) a = lookup_cell h a"
  by (simp add: lookup_cell_def nth_append)

lemma lookup_update [simp]: "a \<noteq> b \<Longrightarrow> lookup_cell (h[b := c]) a = lookup_cell h a"
  by (simp add: lookup_cell_def)

lemma lookup_updated [simp]: "a < length h \<Longrightarrow> lookup_cell (h[a := c]) a = Some c"
  by (simp add: lookup_cell_def)

lemma lookup_new [simp]: "lookup_cell (h @ c # t) (length h) = Some c"
  by (simp add: lookup_cell_def)

lemma lookup_allocated: "lookup_cell h a = Some c \<Longrightarrow> a < length h"
  by (simp add: lookup_cell_def split: if_splits)

text \<open>What a running program does to the heap: it writes cells and creates new ones.\<close>

datatype mutation = Write addr cell | New cell

fun mutate :: "mutation \<Rightarrow> heap \<Rightarrow> heap" where
  "mutate (Write a c) h = h[a := c]"
| "mutate (New c) h = h @ [c]"

fun written :: "mutation \<Rightarrow> addr set" where
  "written (Write a c) = {a}"
| "written (New c) = {}"

section \<open>The contract of a copy\<close>

text \<open>
  \<open>read h x\<close> is the value of \<open>x\<close>, none when an address is dangling or leads to a cell of another type
  (which Go's type system and memory safety exclude); \<open>refs h x\<close> are the addresses \<open>x\<close> reaches.
\<close>

locale deep_copy =
  fixes copy :: "'p \<Rightarrow> heap \<Rightarrow> ('p \<times> heap) option"
    and read :: "heap \<Rightarrow> 'p \<Rightarrow> 'v option"
    and refs :: "heap \<Rightarrow> 'p \<Rightarrow> addr set"
  assumes read_local: "read h x = Some v \<Longrightarrow> (\<And>a. a \<in> refs h x \<Longrightarrow> lookup_cell h' a = lookup_cell h a)
      \<Longrightarrow> read h' x = Some v \<and> refs h' x = refs h x"
    and refs_allocated: "read h x = Some v \<Longrightarrow> refs h x \<subseteq> {..<length h}"
    and copy_fresh: "read h x = Some v \<Longrightarrow>
      \<exists>y t. copy x h = Some (y, h @ t) \<and> read (h @ t) y = Some v \<and> refs (h @ t) y \<subseteq> {length h..}"
begin

lemma read_append:
  assumes "read h x = Some v"
  shows "read (h @ t) x = Some v" "refs (h @ t) x = refs h x"
  using read_local [OF assms, of "h @ t"] refs_allocated [OF assms] by (auto simp: subset_eq)

lemma mutate_elsewhere:
  assumes "read h x = Some v" "written m \<inter> refs h x = {}"
  shows "read (mutate m h) x = Some v \<and> refs (mutate m h) x = refs h x"
proof (cases m)
  case (Write a c)
  with assms show ?thesis by (auto intro!: read_local [OF assms(1)] lookup_update)
next
  case (New c)
  then show ?thesis using read_append [OF assms(1)] by simp
qed

text \<open>Whatever the program does afterwards, as long as it writes nothing \<open>x\<close> reaches, \<open>x\<close> reads the same.\<close>

lemma mutations_elsewhere:
  assumes "read h x = Some v" "\<And>m. m \<in> set ms \<Longrightarrow> written m \<inter> refs h x = {}"
  shows "read (fold mutate ms h) x = Some v \<and> refs (fold mutate ms h) x = refs h x"
  using assms
proof (induction ms arbitrary: h)
  case (Cons m ms)
  then have m: "read (mutate m h) x = Some v" "refs (mutate m h) x = refs h x"
    using mutate_elsewhere [of h x v m] by auto
  with Cons.IH [of "mutate m h"] Cons.prems(2) show ?case by simp
qed simp

lemma copy_total: "read h x = Some v \<Longrightarrow> \<exists>y h'. copy x h = Some (y, h')"
  using copy_fresh by blast

lemma copy_apart:
  assumes "read h x = Some v" "copy x h = Some (y, h')"
  shows "read h' y = Some v" "read h' x = Some v" "refs h' x \<inter> refs h' y = {}"
    "\<exists>t. h' = h @ t"
  using copy_fresh [OF assms(1)] read_append [OF assms(1)] refs_allocated [OF assms(1)] assms(2)
  by fastforce+

text \<open>The copy outlives every change of the original, and the original every change of the copy.\<close>

lemma copy_isolated:
  assumes "read h x = Some v" "copy x h = Some (y, h')" "\<And>m. m \<in> set ms \<Longrightarrow> written m \<subseteq> refs h' x"
  shows "read (fold mutate ms h') y = Some v"
  using mutations_elsewhere [OF copy_apart(1) [OF assms(1,2)], of ms] assms(3) copy_apart(3) [OF assms(1,2)]
  by blast

lemma original_isolated:
  assumes "read h x = Some v" "copy x h = Some (y, h')" "\<And>m. m \<in> set ms \<Longrightarrow> written m \<subseteq> refs h' y"
  shows "read (fold mutate ms h') x = Some v"
  using mutations_elsewhere [OF copy_apart(2) [OF assms(1,2)], of ms] assms(3) copy_apart(3) [OF assms(1,2)]
  by blast

end

section \<open>The statements of the generated code\<close>

text \<open>\<^verbatim>\<open>*out = *in\<close> for a struct without pointers.\<close>

definition plain_copy :: "'p \<Rightarrow> heap \<Rightarrow> ('p \<times> heap) option" where
  "plain_copy x h = Some (x, h)"

definition plain_read :: "heap \<Rightarrow> 'p \<Rightarrow> 'p option" where
  "plain_read h x = Some x"

definition no_refs :: "heap \<Rightarrow> 'p \<Rightarrow> addr set" where
  "no_refs h x = {}"

interpretation plain: deep_copy plain_copy plain_read no_refs
  by unfold_locales (auto simp: plain_copy_def plain_read_def no_refs_def)

text \<open>\<^verbatim>\<open>if in.F != nil { ... }\<close> around the copy of a field \<^verbatim>\<open>F\<close> that is an address.\<close>

definition ptr_copy :: "('p \<Rightarrow> heap \<Rightarrow> ('p \<times> heap) option) \<Rightarrow> 'p option \<Rightarrow> heap \<Rightarrow> ('p option \<times> heap) option" where
  "ptr_copy copy p h =
     (case p of None \<Rightarrow> Some (None, h) | Some x \<Rightarrow> map_option (\<lambda>(y, h). (Some y, h)) (copy x h))"

definition ptr_read :: "(heap \<Rightarrow> 'p \<Rightarrow> 'v option) \<Rightarrow> heap \<Rightarrow> 'p option \<Rightarrow> 'v option option" where
  "ptr_read read h p = (case p of None \<Rightarrow> Some None | Some x \<Rightarrow> map_option Some (read h x))"

definition ptr_refs :: "(heap \<Rightarrow> 'p \<Rightarrow> addr set) \<Rightarrow> heap \<Rightarrow> 'p option \<Rightarrow> addr set" where
  "ptr_refs refs h p = (case p of None \<Rightarrow> {} | Some x \<Rightarrow> refs h x)"

text \<open>
  \<^verbatim>\<open>*out = new(T)\<close> and the copy of the struct behind the pointer into it: the new cell first, then what
  \<open>into\<close> allocates, and the cell holds what \<open>into\<close> wrote. \<open>into\<close> begins with \<^verbatim>\<open>*out = *in\<close>, which is why
  the new cell starts as the original. The same for \<^verbatim>\<open>make([]T, len(*in))\<close> and the loop that copies the
  elements, with \<open>into\<close> the copy of every element.
\<close>

definition new_copy ::
  "('p \<Rightarrow> cell) \<Rightarrow> (cell \<Rightarrow> 'p option) \<Rightarrow> ('p \<Rightarrow> heap \<Rightarrow> ('p \<times> heap) option) \<Rightarrow> addr \<Rightarrow> heap \<Rightarrow> (addr \<times> heap) option"
where
  "new_copy wrap unwrap into a h =
     Option.bind (Option.bind (lookup_cell h a) unwrap) (\<lambda>x.
     Option.bind (into x (h @ [wrap x])) (\<lambda>(y, h').
     Some (length h, h'[length h := wrap y])))"

definition cell_read :: "(cell \<Rightarrow> 'p option) \<Rightarrow> (heap \<Rightarrow> 'p \<Rightarrow> 'v option) \<Rightarrow> heap \<Rightarrow> addr \<Rightarrow> 'v option" where
  "cell_read unwrap read h a = Option.bind (Option.bind (lookup_cell h a) unwrap) (read h)"

definition cell_refs :: "(cell \<Rightarrow> 'p option) \<Rightarrow> (heap \<Rightarrow> 'p \<Rightarrow> addr set) \<Rightarrow> heap \<Rightarrow> addr \<Rightarrow> addr set" where
  "cell_refs unwrap refs h a =
     insert a (case Option.bind (lookup_cell h a) unwrap of None \<Rightarrow> {} | Some x \<Rightarrow> refs h x)"

text \<open>\<^verbatim>\<open>for i := range *in { (*in)[i].DeepCopyInto(&(*out)[i]) }\<close>\<close>

fun each_copy :: "('p \<Rightarrow> heap \<Rightarrow> ('p \<times> heap) option) \<Rightarrow> 'p list \<Rightarrow> heap \<Rightarrow> ('p list \<times> heap) option" where
  "each_copy copy [] h = Some ([], h)"
| "each_copy copy (x # xs) h =
     Option.bind (copy x h) (\<lambda>(y, h).
     Option.bind (each_copy copy xs h) (\<lambda>(ys, h).
     Some (y # ys, h)))"

fun each_read :: "(heap \<Rightarrow> 'p \<Rightarrow> 'v option) \<Rightarrow> heap \<Rightarrow> 'p list \<Rightarrow> 'v list option" where
  "each_read read h [] = Some []"
| "each_read read h (x # xs) =
     Option.bind (read h x) (\<lambda>v. Option.bind (each_read read h xs) (\<lambda>vs. Some (v # vs)))"

definition each_refs :: "(heap \<Rightarrow> 'p \<Rightarrow> addr set) \<Rightarrow> heap \<Rightarrow> 'p list \<Rightarrow> addr set" where
  "each_refs refs h xs = (\<Union>x\<in>set xs. refs h x)"

section \<open>Each statement keeps the contract\<close>

context deep_copy
begin

lemma ptr: "deep_copy (ptr_copy copy) (ptr_read read) (ptr_refs refs)"
proof
  fix h h' p v
  assume r: "ptr_read read h p = Some v"
  show "ptr_refs refs h p \<subseteq> {..<length h}"
    using r by (auto simp: ptr_read_def ptr_refs_def split: option.splits dest: refs_allocated)
  show "\<exists>y t. ptr_copy copy p h = Some (y, h @ t) \<and> ptr_read read (h @ t) y = Some v
      \<and> ptr_refs refs (h @ t) y \<subseteq> {length h..}"
    using r copy_fresh by (cases p) (fastforce simp: ptr_copy_def ptr_read_def ptr_refs_def)+
  assume "\<And>a. a \<in> ptr_refs refs h p \<Longrightarrow> lookup_cell h' a = lookup_cell h a"
  with r read_local [of h _ _ h'] show "ptr_read read h' p = Some v \<and> ptr_refs refs h' p = ptr_refs refs h p"
    by (cases p) (auto simp: ptr_read_def ptr_refs_def)
qed

lemma each: "deep_copy (each_copy copy) (each_read read) (each_refs refs)"
proof
  fix h h' xs vs
  assume r: "each_read read h xs = Some vs"
  show "each_refs refs h xs \<subseteq> {..<length h}"
    using r by (induction xs arbitrary: vs)
      (auto simp: each_refs_def Option.bind_eq_Some_conv dest: refs_allocated)
  show "\<exists>ys t. each_copy copy xs h = Some (ys, h @ t) \<and> each_read read (h @ t) ys = Some vs
      \<and> each_refs refs (h @ t) ys \<subseteq> {length h..}"
    using r
  proof (induction xs arbitrary: h vs)
    case (Cons x xs)
    then obtain v ws where v: "read h x = Some v" and ws: "each_read read h xs = Some ws" "vs = v # ws"
      by (auto simp: Option.bind_eq_Some_conv)
    from copy_fresh [OF v] obtain y t where
      y: "copy x h = Some (y, h @ t)" "read (h @ t) y = Some v" "refs (h @ t) y \<subseteq> {length h..}" by blast
    have ext: "each_read read (h @ t) xs = Some ws"
      using ws(1) by (induction xs arbitrary: ws) (auto simp: Option.bind_eq_Some_conv dest: read_append(1))
    from Cons.IH [OF this] obtain ys u where
      ys: "each_copy copy xs (h @ t) = Some (ys, h @ t @ u)" "each_read read (h @ t @ u) ys = Some ws"
        "each_refs refs (h @ t @ u) ys \<subseteq> {length h + length t..}" by auto
    from y ys ws(2) show ?case
      using read_append [OF y(2), of u]
      by (intro exI [of _ "y # ys"] exI [of _ "t @ u"]) (auto simp: each_refs_def)
  qed (simp add: each_refs_def)
  assume "\<And>a. a \<in> each_refs refs h xs \<Longrightarrow> lookup_cell h' a = lookup_cell h a"
  with r show "each_read read h' xs = Some vs \<and> each_refs refs h' xs = each_refs refs h xs"
  proof (induction xs arbitrary: vs)
    case (Cons x xs)
    then obtain v ws where v: "read h x = Some v" and ws: "each_read read h xs = Some ws" "vs = v # ws"
      by (auto simp: Option.bind_eq_Some_conv)
    with Cons.IH [OF ws(1)] Cons.prems(2) read_local [OF v, of h'] show ?case
      by (simp add: each_refs_def)
  qed (simp add: each_refs_def)
qed

end

text \<open>A type of cells: how a value is stored in a cell and found in it again.\<close>

locale cell_type =
  fixes wrap :: "'p \<Rightarrow> cell"
    and unwrap :: "cell \<Rightarrow> 'p option"
  assumes unwrap_wrap [simp]: "unwrap (wrap x) = Some x"

locale cell_copy = deep_copy copy read refs + cell_type wrap unwrap
  for copy :: "'p \<Rightarrow> heap \<Rightarrow> ('p \<times> heap) option" and read :: "heap \<Rightarrow> 'p \<Rightarrow> 'v option" and refs
    and wrap :: "'p \<Rightarrow> cell" and unwrap :: "cell \<Rightarrow> 'p option"
begin

lemma new: "deep_copy (new_copy wrap unwrap copy) (cell_read unwrap read) (cell_refs unwrap refs)"
proof
  fix h h' a v
  assume "cell_read unwrap read h a = Some v"
  then obtain c x where c: "lookup_cell h a = Some c" "unwrap c = Some x" and x: "read h x = Some v"
    by (auto simp: cell_read_def Option.bind_eq_Some_conv)
  show "cell_refs unwrap refs h a \<subseteq> {..<length h}"
    using c refs_allocated [OF x] by (auto simp: cell_refs_def lookup_allocated)
  from copy_fresh [OF read_append(1) [OF x, of "[wrap x]"]] obtain y t where
    y: "copy x (h @ [wrap x]) = Some (y, h @ wrap x # t)" "read (h @ wrap x # t) y = Some v"
      "refs (h @ wrap x # t) y \<subseteq> {Suc (length h)..}" by auto
  have "read (h @ wrap y # t) y = Some v \<and> refs (h @ wrap y # t) y = refs (h @ wrap x # t) y"
    using y(3) by (intro read_local [OF y(2)]) (auto simp: lookup_cell_def nth_append nth_Cons')
  with y show "\<exists>b t. new_copy wrap unwrap copy a h = Some (b, h @ t) \<and> cell_read unwrap read (h @ t) b = Some v
      \<and> cell_refs unwrap refs (h @ t) b \<subseteq> {length h..}"
    by (intro exI [of _ "length h"] exI [of _ "wrap y # t"])
      (auto simp: new_copy_def cell_read_def cell_refs_def c list_update_append)
  assume "\<And>b. b \<in> cell_refs unwrap refs h a \<Longrightarrow> lookup_cell h' b = lookup_cell h b"
  then show "cell_read unwrap read h' a = Some v \<and> cell_refs unwrap refs h' a = cell_refs unwrap refs h a"
    using read_local [OF x, of h'] by (auto simp: cell_read_def cell_refs_def c)
qed

end

section \<open>Structs\<close>

text \<open>
  A struct is copied by \<^verbatim>\<open>*out = *in\<close> and the copies of the fields that hold addresses, one after the
  other. The components \<open>p1\<close>, \<open>p2\<close> and \<open>p3\<close> are these fields, \<open>upd\<close> stores their copies and \<open>mk\<close> is the
  value of the struct.
\<close>

lemma struct1_copy:
  assumes "deep_copy c1 r1 f1"
    and "\<And>x a. p1 (upd x a) = a" "\<And>x a u. mk (upd x a) u = mk x u"
  shows "deep_copy (\<lambda>x h. Option.bind (c1 (p1 x) h) (\<lambda>(a, h). Some (upd x a, h)))
      (\<lambda>h x. Option.bind (r1 h (p1 x)) (\<lambda>u. Some (mk x u))) (\<lambda>h x. f1 h (p1 x))"
proof
  fix h h' x v
  assume "Option.bind (r1 h (p1 x)) (\<lambda>u. Some (mk x u)) = Some v"
  then obtain u where u: "r1 h (p1 x) = Some u" "v = mk x u" by (auto simp: Option.bind_eq_Some_conv)
  show "f1 h (p1 x) \<subseteq> {..<length h}" using deep_copy.refs_allocated [OF assms(1) u(1)] .
  obtain a t where "c1 (p1 x) h = Some (a, h @ t)" "r1 (h @ t) a = Some u" "f1 (h @ t) a \<subseteq> {length h..}"
    using deep_copy.copy_fresh [OF assms(1) u(1)] by blast
  then show "\<exists>y t. Option.bind (c1 (p1 x) h) (\<lambda>(a, h). Some (upd x a, h)) = Some (y, h @ t)
      \<and> Option.bind (r1 (h @ t) (p1 y)) (\<lambda>u. Some (mk y u)) = Some v \<and> f1 (h @ t) (p1 y) \<subseteq> {length h..}"
    by (intro exI [of _ "upd x a"] exI [of _ t]) (simp add: assms(2,3) u(2))
  assume "\<And>a. a \<in> f1 h (p1 x) \<Longrightarrow> lookup_cell h' a = lookup_cell h a"
  with deep_copy.read_local [OF assms(1) u(1), of h'] u(2)
  show "Option.bind (r1 h' (p1 x)) (\<lambda>u. Some (mk x u)) = Some v \<and> f1 h' (p1 x) = f1 h (p1 x)" by simp
qed

lemma struct2_copy:
  assumes "deep_copy c1 r1 f1" "deep_copy c2 r2 f2"
    and "\<And>x a b. p1 (upd x a b) = a" "\<And>x a b. p2 (upd x a b) = b" "\<And>x a b u w. mk (upd x a b) u w = mk x u w"
  shows "deep_copy
      (\<lambda>x h. Option.bind (c1 (p1 x) h) (\<lambda>(a, h). Option.bind (c2 (p2 x) h) (\<lambda>(b, h). Some (upd x a b, h))))
      (\<lambda>h x. Option.bind (r1 h (p1 x)) (\<lambda>u. Option.bind (r2 h (p2 x)) (\<lambda>w. Some (mk x u w))))
      (\<lambda>h x. f1 h (p1 x) \<union> f2 h (p2 x))"
proof
  fix h h' x v
  assume "Option.bind (r1 h (p1 x)) (\<lambda>u. Option.bind (r2 h (p2 x)) (\<lambda>w. Some (mk x u w))) = Some v"
  then obtain u w where u: "r1 h (p1 x) = Some u" and w: "r2 h (p2 x) = Some w" and v: "v = mk x u w"
    by (auto simp: Option.bind_eq_Some_conv)
  show "f1 h (p1 x) \<union> f2 h (p2 x) \<subseteq> {..<length h}"
    using deep_copy.refs_allocated [OF assms(1) u] deep_copy.refs_allocated [OF assms(2) w] by simp
  obtain a s where a: "c1 (p1 x) h = Some (a, h @ s)" "r1 (h @ s) a = Some u" "f1 (h @ s) a \<subseteq> {length h..}"
    using deep_copy.copy_fresh [OF assms(1) u] by blast
  obtain b t where b: "c2 (p2 x) (h @ s) = Some (b, h @ s @ t)" "r2 (h @ s @ t) b = Some w"
      "f2 (h @ s @ t) b \<subseteq> {length h + length s..}"
    using deep_copy.copy_fresh [OF assms(2) deep_copy.read_append(1) [OF assms(2) w, of s]] by auto
  have "r1 (h @ s @ t) a = Some u" "f1 (h @ s @ t) a \<subseteq> {length h..}"
    using deep_copy.read_append [OF assms(1) a(2), of t] a(3) by simp_all
  with a(1) b show "\<exists>y t. Option.bind (c1 (p1 x) h)
        (\<lambda>(a, h). Option.bind (c2 (p2 x) h) (\<lambda>(b, h). Some (upd x a b, h))) = Some (y, h @ t)
      \<and> Option.bind (r1 (h @ t) (p1 y)) (\<lambda>u. Option.bind (r2 (h @ t) (p2 y)) (\<lambda>w. Some (mk y u w))) = Some v
      \<and> f1 (h @ t) (p1 y) \<union> f2 (h @ t) (p2 y) \<subseteq> {length h..}"
    by (intro exI [of _ "upd x a b"] exI [of _ "s @ t"]) (auto simp: assms(3-5) v)
  assume "\<And>a. a \<in> f1 h (p1 x) \<union> f2 h (p2 x) \<Longrightarrow> lookup_cell h' a = lookup_cell h a"
  then show "Option.bind (r1 h' (p1 x)) (\<lambda>u. Option.bind (r2 h' (p2 x)) (\<lambda>w. Some (mk x u w))) = Some v
      \<and> f1 h' (p1 x) \<union> f2 h' (p2 x) = f1 h (p1 x) \<union> f2 h (p2 x)"
    using deep_copy.read_local [OF assms(1) u, of h'] deep_copy.read_local [OF assms(2) w, of h'] v by simp
qed

text \<open>Three components are two, the second of them a pair.\<close>

lemma struct3_copy:
  assumes c1: "deep_copy c1 r1 f1" and c2: "deep_copy c2 r2 f2" and c3: "deep_copy c3 r3 f3"
    and upd: "\<And>x a b c. p1 (upd x a b c) = a" "\<And>x a b c. p2 (upd x a b c) = b" "\<And>x a b c. p3 (upd x a b c) = c"
      "\<And>x a b c u v w. mk (upd x a b c) u v w = mk x u v w"
  shows "deep_copy
      (\<lambda>x h. Option.bind (c1 (p1 x) h) (\<lambda>(a, h). Option.bind (c2 (p2 x) h) (\<lambda>(b, h).
        Option.bind (c3 (p3 x) h) (\<lambda>(c, h). Some (upd x a b c, h)))))
      (\<lambda>h x. Option.bind (r1 h (p1 x)) (\<lambda>u. Option.bind (r2 h (p2 x)) (\<lambda>v.
        Option.bind (r3 h (p3 x)) (\<lambda>w. Some (mk x u v w)))))
      (\<lambda>h x. f1 h (p1 x) \<union> f2 h (p2 x) \<union> f3 h (p3 x))"
proof -
  have "deep_copy
      (\<lambda>x h. Option.bind (c2 (fst x) h) (\<lambda>(b, h). Option.bind (c3 (snd x) h) (\<lambda>(c, h). Some ((b, c), h))))
      (\<lambda>h x. Option.bind (r2 h (fst x)) (\<lambda>v. Option.bind (r3 h (snd x)) (\<lambda>w. Some (v, w))))
      (\<lambda>h x. f2 h (fst x) \<union> f3 h (snd x))"
    by (rule struct2_copy [OF c2 c3]) simp_all
  from struct2_copy [OF c1 this, where ?p1.0 = p1 and ?p2.0 = "\<lambda>x. (p2 x, p3 x)"
      and upd = "\<lambda>x a bc. upd x a (fst bc) (snd bc)" and mk = "\<lambda>x u vw. mk x u (fst vw) (snd vw)"]
  show ?thesis by (simp add: upd Option.bind_assoc case_prod_unfold Un_assoc)
qed

end
