(* ===== verification/Deep_Copy.thy ===== *)
theory Deep_Copy
  imports Go_Heap Restore_Controller
begin

text \<open>
  The deep copies of the custom resources (\<^verbatim>\<open>src/api/v1/zz_generated.deepcopy.go\<close>) on the heap of
  \<open>Go_Heap\<close>, one definition per generated method. \<^verbatim>\<open>x.DeepCopyInto(out)\<close> is a function of the struct \<open>x\<close>
  and the heap that returns the struct it leaves in \<^verbatim>\<open>out\<close>; \<^verbatim>\<open>p.DeepCopy()\<close> is a function of a pointer,
  nil included.

  The copies of the Kubernetes structs belong to the API machinery: they are the argument \<open>A\<close>, with the
  contract of a deep copy for each of them as the locale \<open>api_copies\<close>. Every generated copy then has the
  contract (the sublocales below), and the controllers' habit to keep a deep copy as the base of a patch
  while they change the object in place is shown to send the pair of values that \<open>Restore_Controller\<close> and
  \<open>Replica_Controller\<close> send.
\<close>

section \<open>Cells of one type\<close>

definition as_StringMap where "as_StringMap c = (case c of StringMapCell x \<Rightarrow> Some x | _ \<Rightarrow> None)"
definition as_QuantityMap where "as_QuantityMap c = (case c of QuantityMapCell x \<Rightarrow> Some x | _ \<Rightarrow> None)"
definition as_Int64 where "as_Int64 c = (case c of Int64Cell x \<Rightarrow> Some x | _ \<Rightarrow> None)"
definition as_Int32 where "as_Int32 c = (case c of Int32Cell x \<Rightarrow> Some x | _ \<Rightarrow> None)"
definition as_Time where "as_Time c = (case c of TimeCell x \<Rightarrow> Some x | _ \<Rightarrow> None)"
definition as_Conditions where "as_Conditions c = (case c of ConditionsCell x \<Rightarrow> Some x | _ \<Rightarrow> None)"
definition as_Resources where "as_Resources c = (case c of ResourcesCell x \<Rightarrow> Some x | _ \<Rightarrow> None)"
definition as_S3 where "as_S3 c = (case c of S3Cell x \<Rightarrow> Some x | _ \<Rightarrow> None)"
definition as_Retention where "as_Retention c = (case c of RetentionCell x \<Rightarrow> Some x | _ \<Rightarrow> None)"
definition as_Destination where "as_Destination c = (case c of DestinationCell x \<Rightarrow> Some x | _ \<Rightarrow> None)"
definition as_Backup where "as_Backup c = (case c of BackupCell x \<Rightarrow> Some x | _ \<Rightarrow> None)"
definition as_ReplicaSpec where "as_ReplicaSpec c = (case c of ReplicaSpecCell x \<Rightarrow> Some x | _ \<Rightarrow> None)"
definition as_ReplicaStatus where "as_ReplicaStatus c = (case c of ReplicaStatusCell x \<Rightarrow> Some x | _ \<Rightarrow> None)"
definition as_Replica where "as_Replica c = (case c of ReplicaCell x \<Rightarrow> Some x | _ \<Rightarrow> None)"
definition as_Replicas where "as_Replicas c = (case c of ReplicasCell x \<Rightarrow> Some x | _ \<Rightarrow> None)"
definition as_ReplicaList where "as_ReplicaList c = (case c of ReplicaListCell x \<Rightarrow> Some x | _ \<Rightarrow> None)"
definition as_RestoreSpec where "as_RestoreSpec c = (case c of RestoreSpecCell x \<Rightarrow> Some x | _ \<Rightarrow> None)"
definition as_RestoreStatus where "as_RestoreStatus c = (case c of RestoreStatusCell x \<Rightarrow> Some x | _ \<Rightarrow> None)"
definition as_Restore where "as_Restore c = (case c of RestoreCell x \<Rightarrow> Some x | _ \<Rightarrow> None)"
definition as_Restores where "as_Restores c = (case c of RestoresCell x \<Rightarrow> Some x | _ \<Rightarrow> None)"
definition as_RestoreList where "as_RestoreList c = (case c of RestoreListCell x \<Rightarrow> Some x | _ \<Rightarrow> None)"

lemmas cell_views =
  as_StringMap_def as_QuantityMap_def as_Int64_def as_Int32_def as_Time_def as_Conditions_def
  as_Resources_def as_S3_def as_Retention_def as_Destination_def as_Backup_def as_ReplicaSpec_def
  as_ReplicaStatus_def as_Replica_def as_Replicas_def as_ReplicaList_def as_RestoreSpec_def
  as_RestoreStatus_def as_Restore_def as_Restores_def as_RestoreList_def

text \<open>The cells that hold no addresses: what they hold is read as it is.\<close>

abbreviation flat_read :: "(cell \<Rightarrow> 'p option) \<Rightarrow> heap \<Rightarrow> addr \<Rightarrow> 'p option" where
  "flat_read unwrap \<equiv> cell_read unwrap plain_read"

abbreviation flat_refs :: "(cell \<Rightarrow> 'p option) \<Rightarrow> heap \<Rightarrow> addr \<Rightarrow> addr set" where
  "flat_refs unwrap \<equiv> cell_refs unwrap no_refs"

abbreviation flat_copy :: "('p \<Rightarrow> cell) \<Rightarrow> (cell \<Rightarrow> 'p option) \<Rightarrow> addr \<Rightarrow> heap \<Rightarrow> (addr \<times> heap) option" where
  "flat_copy wrap unwrap \<equiv> new_copy wrap unwrap plain_copy"

interpretation string_map: cell_copy plain_copy plain_read no_refs StringMapCell as_StringMap
  by unfold_locales (simp add: cell_views)

interpretation quantity_map: cell_copy plain_copy plain_read no_refs QuantityMapCell as_QuantityMap
  by unfold_locales (simp add: cell_views)

interpretation int64: cell_copy plain_copy plain_read no_refs Int64Cell as_Int64
  by unfold_locales (simp add: cell_views)

interpretation int32: cell_copy plain_copy plain_read no_refs Int32Cell as_Int32
  by unfold_locales (simp add: cell_views)

interpretation time_cell: cell_copy plain_copy plain_read no_refs TimeCell as_Time
  by unfold_locales (simp add: cell_views)

interpretation s3: cell_copy plain_copy plain_read no_refs S3Cell as_S3
  by unfold_locales (simp add: cell_views)

interpretation retention: cell_copy plain_copy plain_read no_refs RetentionCell as_Retention
  by unfold_locales (simp add: cell_views)

section \<open>Kubernetes structs\<close>

record ListMeta =
  lm_ResourceVersion :: string
  lm_Continue :: string
  lm_RemainingItemCount :: "int option"

definition read_meta :: "heap \<Rightarrow> gObjectMeta \<Rightarrow> ObjectMeta option" where
  "read_meta h x =
     Option.bind (ptr_read (flat_read as_StringMap) h (gom_Annotations x)) (\<lambda>an.
     Option.bind (ptr_read (flat_read as_StringMap) h (gom_Labels x)) (\<lambda>ls.
     Some \<lparr>om_Name = gom_Name x, om_Namespace = gom_Namespace x, om_Annotations = an, om_Labels = ls,
       om_Generation = gom_Generation x\<rparr>))"

definition meta_refs :: "heap \<Rightarrow> gObjectMeta \<Rightarrow> addr set" where
  "meta_refs h x =
     ptr_refs (flat_refs as_StringMap) h (gom_Annotations x) \<union> ptr_refs (flat_refs as_StringMap) h (gom_Labels x)"

definition read_list_meta :: "heap \<Rightarrow> gListMeta \<Rightarrow> ListMeta option" where
  "read_list_meta h x =
     Option.bind (ptr_read (flat_read as_Int64) h (glm_RemainingItemCount x)) (\<lambda>n.
     Some \<lparr>lm_ResourceVersion = glm_ResourceVersion x, lm_Continue = glm_Continue x, lm_RemainingItemCount = n\<rparr>)"

definition list_meta_refs :: "heap \<Rightarrow> gListMeta \<Rightarrow> addr set" where
  "list_meta_refs h x = ptr_refs (flat_refs as_Int64) h (glm_RemainingItemCount x)"

text \<open>A nil resource list reads as the empty map, a nil slice as the empty list.\<close>

definition read_resources :: "heap \<Rightarrow> gResourceRequirements \<Rightarrow> ResourceRequirements option" where
  "read_resources h x =
     Option.bind (ptr_read (flat_read as_QuantityMap) h (grr_Limits x)) (\<lambda>ls.
     Option.bind (ptr_read (flat_read as_QuantityMap) h (grr_Requests x)) (\<lambda>rs.
     Some \<lparr>rr_Limits = case_option Map.empty id ls, rr_Requests = case_option Map.empty id rs\<rparr>))"

definition resources_refs :: "heap \<Rightarrow> gResourceRequirements \<Rightarrow> addr set" where
  "resources_refs h x =
     ptr_refs (flat_refs as_QuantityMap) h (grr_Limits x) \<union> ptr_refs (flat_refs as_QuantityMap) h (grr_Requests x)"

text \<open>The copies the API machinery provides, and what they promise.\<close>

record api_machinery =
  ObjectMeta_DeepCopyInto :: "gObjectMeta \<Rightarrow> heap \<Rightarrow> (gObjectMeta \<times> heap) option"
  ListMeta_DeepCopyInto :: "gListMeta \<Rightarrow> heap \<Rightarrow> (gListMeta \<times> heap) option"
  ResourceRequirements_DeepCopyInto ::
    "gResourceRequirements \<Rightarrow> heap \<Rightarrow> (gResourceRequirements \<times> heap) option"
  Time_DeepCopy :: "addr \<Rightarrow> heap \<Rightarrow> (addr \<times> heap) option"
  Condition_DeepCopyInto :: "Condition \<Rightarrow> heap \<Rightarrow> (Condition \<times> heap) option"

locale api_copies =
  fixes A :: api_machinery
  assumes meta_copy: "deep_copy (ObjectMeta_DeepCopyInto A) read_meta meta_refs"
    and list_meta_copy: "deep_copy (ListMeta_DeepCopyInto A) read_list_meta list_meta_refs"
    and resources_copy: "deep_copy (ResourceRequirements_DeepCopyInto A) read_resources resources_refs"
    and time_copy: "deep_copy (Time_DeepCopy A) (flat_read as_Time) (flat_refs as_Time)"
    and condition_copy: "deep_copy (Condition_DeepCopyInto A) plain_read no_refs"

section \<open>Backup structs\<close>

definition S3Destination_DeepCopyInto :: "S3Destination \<Rightarrow> heap \<Rightarrow> (S3Destination \<times> heap) option" where
  "S3Destination_DeepCopyInto x h = Some (x, h)"

definition S3Destination_DeepCopy :: "addr option \<Rightarrow> heap \<Rightarrow> (addr option \<times> heap) option" where
  "S3Destination_DeepCopy = ptr_copy (new_copy S3Cell as_S3 S3Destination_DeepCopyInto)"

definition RetentionPolicy_DeepCopyInto :: "RetentionPolicy \<Rightarrow> heap \<Rightarrow> (RetentionPolicy \<times> heap) option" where
  "RetentionPolicy_DeepCopyInto x h = Some (x, h)"

definition RetentionPolicy_DeepCopy :: "addr option \<Rightarrow> heap \<Rightarrow> (addr option \<times> heap) option" where
  "RetentionPolicy_DeepCopy = ptr_copy (new_copy RetentionCell as_Retention RetentionPolicy_DeepCopyInto)"

definition BackupDestination_DeepCopyInto ::
  "gBackupDestination \<Rightarrow> heap \<Rightarrow> (gBackupDestination \<times> heap) option" where
  "BackupDestination_DeepCopyInto x h =
     Option.bind (ptr_copy (flat_copy S3Cell as_S3) (gdest_S3 x) h) (\<lambda>(s3, h).
     Some (x\<lparr>gdest_S3 := s3\<rparr>, h))"

definition BackupDestination_DeepCopy :: "addr option \<Rightarrow> heap \<Rightarrow> (addr option \<times> heap) option" where
  "BackupDestination_DeepCopy = ptr_copy (new_copy DestinationCell as_Destination BackupDestination_DeepCopyInto)"

definition read_destination :: "heap \<Rightarrow> gBackupDestination \<Rightarrow> BackupDestination option" where
  "read_destination h x = Option.bind (ptr_read (flat_read as_S3) h (gdest_S3 x)) (\<lambda>s3. Some \<lparr>dest_S3 = s3\<rparr>)"

definition destination_refs :: "heap \<Rightarrow> gBackupDestination \<Rightarrow> addr set" where
  "destination_refs h x = ptr_refs (flat_refs as_S3) h (gdest_S3 x)"

interpretation destination: cell_copy BackupDestination_DeepCopyInto read_destination destination_refs
    DestinationCell as_Destination
proof (rule cell_copy.intro)
  show "deep_copy BackupDestination_DeepCopyInto read_destination destination_refs"
    unfolding BackupDestination_DeepCopyInto_def [abs_def] read_destination_def [abs_def] destination_refs_def [abs_def]
    by (rule struct1_copy [OF deep_copy.ptr [OF s3.new]]) simp_all
qed (unfold_locales, simp add: cell_views)

definition BackupSpec_DeepCopyInto :: "api_machinery \<Rightarrow> gBackupSpec \<Rightarrow> heap \<Rightarrow> (gBackupSpec \<times> heap) option" where
  "BackupSpec_DeepCopyInto A x h =
     Option.bind (BackupDestination_DeepCopyInto (gbk_Destination x) h) (\<lambda>(dest, h).
     Option.bind (ptr_copy (new_copy ResourcesCell as_Resources (ResourceRequirements_DeepCopyInto A))
       (gbk_Resources x) h) (\<lambda>(res, h).
     Some (x\<lparr>gbk_Destination := dest, gbk_Retention := gbk_Retention x, gbk_Resources := res\<rparr>, h)))"

definition BackupSpec_DeepCopy :: "api_machinery \<Rightarrow> addr option \<Rightarrow> heap \<Rightarrow> (addr option \<times> heap) option" where
  "BackupSpec_DeepCopy A = ptr_copy (new_copy BackupCell as_Backup (BackupSpec_DeepCopyInto A))"

definition read_backup :: "heap \<Rightarrow> gBackupSpec \<Rightarrow> BackupSpec option" where
  "read_backup h x =
     Option.bind (read_destination h (gbk_Destination x)) (\<lambda>dest.
     Option.bind (ptr_read (cell_read as_Resources read_resources) h (gbk_Resources x)) (\<lambda>res.
     Some \<lparr>bk_Enabled = gbk_Enabled x, bk_Destination = dest, bk_Retention = gbk_Retention x,
       bk_SyncInterval = gbk_SyncInterval x, bk_LogLevel = gbk_LogLevel x, bk_Resources = res,
       bk_AutoRestore = gbk_AutoRestore x\<rparr>))"

definition backup_refs :: "heap \<Rightarrow> gBackupSpec \<Rightarrow> addr set" where
  "backup_refs h x =
     destination_refs h (gbk_Destination x)
     \<union> ptr_refs (cell_refs as_Resources resources_refs) h (gbk_Resources x)"

sublocale api_copies \<subseteq> resources: cell_copy "ResourceRequirements_DeepCopyInto A" read_resources resources_refs
    ResourcesCell as_Resources
  by (intro cell_copy.intro resources_copy) (unfold_locales, simp add: cell_views)

sublocale api_copies \<subseteq> backup: cell_copy "BackupSpec_DeepCopyInto A" read_backup backup_refs BackupCell as_Backup
proof (rule cell_copy.intro)
  show "deep_copy (BackupSpec_DeepCopyInto A) read_backup backup_refs"
    unfolding BackupSpec_DeepCopyInto_def [abs_def] read_backup_def [abs_def] backup_refs_def [abs_def]
    by (rule struct2_copy [OF destination.deep_copy_axioms deep_copy.ptr [OF resources.new]]) simp_all
qed (unfold_locales, simp add: cell_views)

section \<open>LitestreamReplica\<close>

definition LitestreamReplicaSpec_DeepCopyInto ::
  "api_machinery \<Rightarrow> gLitestreamReplicaSpec \<Rightarrow> heap \<Rightarrow> (gLitestreamReplicaSpec \<times> heap) option" where
  "LitestreamReplicaSpec_DeepCopyInto A x h =
     Option.bind (BackupSpec_DeepCopyInto A (grp_Backup x) h) (\<lambda>(backup, h).
     Option.bind (ptr_copy (flat_copy Int64Cell as_Int64) (grp_RunAsUser x) h) (\<lambda>(user, h).
     Option.bind (ptr_copy (flat_copy Int64Cell as_Int64) (grp_RunAsGroup x) h) (\<lambda>(group, h).
     Some (x\<lparr>grp_Backup := backup, grp_RunAsUser := user, grp_RunAsGroup := group\<rparr>, h))))"

definition LitestreamReplicaSpec_DeepCopy ::
  "api_machinery \<Rightarrow> addr option \<Rightarrow> heap \<Rightarrow> (addr option \<times> heap) option" where
  "LitestreamReplicaSpec_DeepCopy A =
     ptr_copy (new_copy ReplicaSpecCell as_ReplicaSpec (LitestreamReplicaSpec_DeepCopyInto A))"

definition LitestreamReplicaStatus_DeepCopyInto ::
  "api_machinery \<Rightarrow> gLitestreamReplicaStatus \<Rightarrow> heap \<Rightarrow> (gLitestreamReplicaStatus \<times> heap) option" where
  "LitestreamReplicaStatus_DeepCopyInto A x h =
     Option.bind (ptr_copy (Time_DeepCopy A) (gst_LastBackup x) h) (\<lambda>(last, h).
     Option.bind (ptr_copy (new_copy ConditionsCell as_Conditions (each_copy (Condition_DeepCopyInto A)))
       (gst_Conditions x) h) (\<lambda>(conds, h).
     Some (x\<lparr>gst_LastBackup := last, gst_Conditions := conds\<rparr>, h)))"

definition LitestreamReplicaStatus_DeepCopy ::
  "api_machinery \<Rightarrow> addr option \<Rightarrow> heap \<Rightarrow> (addr option \<times> heap) option" where
  "LitestreamReplicaStatus_DeepCopy A =
     ptr_copy (new_copy ReplicaStatusCell as_ReplicaStatus (LitestreamReplicaStatus_DeepCopyInto A))"

definition LitestreamReplica_DeepCopyInto ::
  "api_machinery \<Rightarrow> gLitestreamReplica \<Rightarrow> heap \<Rightarrow> (gLitestreamReplica \<times> heap) option" where
  "LitestreamReplica_DeepCopyInto A x h =
     Option.bind (ObjectMeta_DeepCopyInto A (gdb_Meta x) h) (\<lambda>(meta, h).
     Option.bind (LitestreamReplicaSpec_DeepCopyInto A (gdb_Spec x) h) (\<lambda>(spec, h).
     Option.bind (LitestreamReplicaStatus_DeepCopyInto A (gdb_Status x) h) (\<lambda>(status, h).
     Some (x\<lparr>gdb_TypeMeta := gdb_TypeMeta x, gdb_Meta := meta, gdb_Spec := spec, gdb_Status := status\<rparr>, h))))"

definition LitestreamReplica_DeepCopy ::
  "api_machinery \<Rightarrow> addr option \<Rightarrow> heap \<Rightarrow> (addr option \<times> heap) option" where
  "LitestreamReplica_DeepCopy A =
     ptr_copy (new_copy ReplicaCell as_Replica (LitestreamReplica_DeepCopyInto A))"

text \<open>
  A value of the interface \<^verbatim>\<open>runtime.Object\<close>: nil, or a pointer together with its type, where the pointer
  itself may be nil.
\<close>

datatype runtime_Object =
  NilObject
| LitestreamReplicaObject "addr option"
| LitestreamReplicaListObject "addr option"
| LitestreamRestoreObject "addr option"
| LitestreamRestoreListObject "addr option"

definition LitestreamReplica_DeepCopyObject ::
  "api_machinery \<Rightarrow> addr option \<Rightarrow> heap \<Rightarrow> (runtime_Object \<times> heap) option" where
  "LitestreamReplica_DeepCopyObject A p h =
     Option.bind (LitestreamReplica_DeepCopy A p h) (\<lambda>(c, h).
     Some (if c \<noteq> None then LitestreamReplicaObject c else NilObject, h))"

definition LitestreamReplicaList_DeepCopyInto ::
  "api_machinery \<Rightarrow> gLitestreamReplicaList \<Rightarrow> heap \<Rightarrow> (gLitestreamReplicaList \<times> heap) option" where
  "LitestreamReplicaList_DeepCopyInto A x h =
     Option.bind (ListMeta_DeepCopyInto A (gdbl_ListMeta x) h) (\<lambda>(meta, h).
     Option.bind (ptr_copy (new_copy ReplicasCell as_Replicas (each_copy (LitestreamReplica_DeepCopyInto A)))
       (gdbl_Items x) h) (\<lambda>(items, h).
     Some (x\<lparr>gdbl_TypeMeta := gdbl_TypeMeta x, gdbl_ListMeta := meta, gdbl_Items := items\<rparr>, h)))"

definition LitestreamReplicaList_DeepCopy ::
  "api_machinery \<Rightarrow> addr option \<Rightarrow> heap \<Rightarrow> (addr option \<times> heap) option" where
  "LitestreamReplicaList_DeepCopy A =
     ptr_copy (new_copy ReplicaListCell as_ReplicaList (LitestreamReplicaList_DeepCopyInto A))"

definition LitestreamReplicaList_DeepCopyObject ::
  "api_machinery \<Rightarrow> addr option \<Rightarrow> heap \<Rightarrow> (runtime_Object \<times> heap) option" where
  "LitestreamReplicaList_DeepCopyObject A p h =
     Option.bind (LitestreamReplicaList_DeepCopy A p h) (\<lambda>(c, h).
     Some (if c \<noteq> None then LitestreamReplicaListObject c else NilObject, h))"

text \<open>The values behind these structs.\<close>

definition read_replica_spec :: "heap \<Rightarrow> gLitestreamReplicaSpec \<Rightarrow> LitestreamReplicaSpec option" where
  "read_replica_spec h x =
     Option.bind (read_backup h (grp_Backup x)) (\<lambda>backup.
     Option.bind (ptr_read (flat_read as_Int64) h (grp_RunAsUser x)) (\<lambda>user.
     Option.bind (ptr_read (flat_read as_Int64) h (grp_RunAsGroup x)) (\<lambda>group.
     Some \<lparr>rp_DatabaseName = grp_DatabaseName x, rp_DatabasePath = grp_DatabasePath x,
       rp_TargetDeployment = grp_TargetDeployment x, rp_TargetStatefulSet = grp_TargetStatefulSet x,
       rp_Image = grp_Image x, rp_Backup = backup, rp_InitSQL = grp_InitSQL x, rp_InitImage = grp_InitImage x,
       rp_RunAsUser = user, rp_RunAsGroup = group\<rparr>)))"

definition replica_spec_refs :: "heap \<Rightarrow> gLitestreamReplicaSpec \<Rightarrow> addr set" where
  "replica_spec_refs h x =
     backup_refs h (grp_Backup x) \<union> ptr_refs (flat_refs as_Int64) h (grp_RunAsUser x)
     \<union> ptr_refs (flat_refs as_Int64) h (grp_RunAsGroup x)"

definition read_replica_status :: "heap \<Rightarrow> gLitestreamReplicaStatus \<Rightarrow> LitestreamReplicaStatus option" where
  "read_replica_status h x =
     Option.bind (ptr_read (flat_read as_Time) h (gst_LastBackup x)) (\<lambda>last.
     Option.bind (ptr_read (cell_read as_Conditions (each_read plain_read)) h (gst_Conditions x)) (\<lambda>conds.
     Some \<lparr>st_Phase = gst_Phase x, st_Ready = gst_Ready x, st_BackupHealthy = gst_BackupHealthy x,
       st_LastBackup = last, st_ReplicationLag = gst_ReplicationLag x, st_InitSQLHash = gst_InitSQLHash x,
       st_ObservedGeneration = gst_ObservedGeneration x, st_Conditions = case_option [] id conds\<rparr>))"

definition replica_status_refs :: "heap \<Rightarrow> gLitestreamReplicaStatus \<Rightarrow> addr set" where
  "replica_status_refs h x =
     ptr_refs (flat_refs as_Time) h (gst_LastBackup x)
     \<union> ptr_refs (cell_refs as_Conditions (each_refs no_refs)) h (gst_Conditions x)"

definition read_replica :: "heap \<Rightarrow> gLitestreamReplica \<Rightarrow> (TypeMeta \<times> LitestreamReplica) option" where
  "read_replica h x =
     Option.bind (read_meta h (gdb_Meta x)) (\<lambda>meta.
     Option.bind (read_replica_spec h (gdb_Spec x)) (\<lambda>spec.
     Option.bind (read_replica_status h (gdb_Status x)) (\<lambda>status.
     Some (gdb_TypeMeta x, \<lparr>db_Meta = meta, db_Spec = spec, db_Status = status\<rparr>))))"

definition replica_refs :: "heap \<Rightarrow> gLitestreamReplica \<Rightarrow> addr set" where
  "replica_refs h x =
     meta_refs h (gdb_Meta x) \<union> replica_spec_refs h (gdb_Spec x) \<union> replica_status_refs h (gdb_Status x)"

record LitestreamReplicaList =
  dbl_TypeMeta :: TypeMeta
  dbl_ListMeta :: ListMeta
  dbl_Items :: "(TypeMeta \<times> LitestreamReplica) list"

definition read_replica_list :: "heap \<Rightarrow> gLitestreamReplicaList \<Rightarrow> LitestreamReplicaList option" where
  "read_replica_list h x =
     Option.bind (read_list_meta h (gdbl_ListMeta x)) (\<lambda>meta.
     Option.bind (ptr_read (cell_read as_Replicas (each_read read_replica)) h (gdbl_Items x)) (\<lambda>items.
     Some \<lparr>dbl_TypeMeta = gdbl_TypeMeta x, dbl_ListMeta = meta, dbl_Items = case_option [] id items\<rparr>))"

definition replica_list_refs :: "heap \<Rightarrow> gLitestreamReplicaList \<Rightarrow> addr set" where
  "replica_list_refs h x =
     list_meta_refs h (gdbl_ListMeta x)
     \<union> ptr_refs (cell_refs as_Replicas (each_refs replica_refs)) h (gdbl_Items x)"

sublocale api_copies \<subseteq> replica_spec: cell_copy "LitestreamReplicaSpec_DeepCopyInto A" read_replica_spec
    replica_spec_refs ReplicaSpecCell as_ReplicaSpec
proof (rule cell_copy.intro)
  show "deep_copy (LitestreamReplicaSpec_DeepCopyInto A) read_replica_spec replica_spec_refs"
    unfolding LitestreamReplicaSpec_DeepCopyInto_def [abs_def] read_replica_spec_def [abs_def]
      replica_spec_refs_def [abs_def]
    by (rule struct3_copy [OF backup.deep_copy_axioms deep_copy.ptr [OF int64.new] deep_copy.ptr [OF int64.new]])
      simp_all
qed (unfold_locales, simp add: cell_views)

sublocale api_copies \<subseteq> conditions: cell_copy "each_copy (Condition_DeepCopyInto A)" "each_read plain_read"
    "each_refs no_refs" ConditionsCell as_Conditions
  by (intro cell_copy.intro deep_copy.each [OF condition_copy]) (unfold_locales, simp add: cell_views)

sublocale api_copies \<subseteq> replica_status: cell_copy "LitestreamReplicaStatus_DeepCopyInto A" read_replica_status
    replica_status_refs ReplicaStatusCell as_ReplicaStatus
proof (rule cell_copy.intro)
  show "deep_copy (LitestreamReplicaStatus_DeepCopyInto A) read_replica_status replica_status_refs"
    unfolding LitestreamReplicaStatus_DeepCopyInto_def [abs_def] read_replica_status_def [abs_def]
      replica_status_refs_def [abs_def]
    by (rule struct2_copy [OF deep_copy.ptr [OF time_copy] deep_copy.ptr [OF conditions.new]]) simp_all
qed (unfold_locales, simp add: cell_views)

sublocale api_copies \<subseteq> replica: cell_copy "LitestreamReplica_DeepCopyInto A" read_replica replica_refs
    ReplicaCell as_Replica
proof (rule cell_copy.intro)
  show "deep_copy (LitestreamReplica_DeepCopyInto A) read_replica replica_refs"
    unfolding LitestreamReplica_DeepCopyInto_def [abs_def] read_replica_def [abs_def] replica_refs_def [abs_def]
    by (rule struct3_copy [OF meta_copy replica_spec.deep_copy_axioms replica_status.deep_copy_axioms]) simp_all
qed (unfold_locales, simp add: cell_views)

sublocale api_copies \<subseteq> replicas: cell_copy "each_copy (LitestreamReplica_DeepCopyInto A)" "each_read read_replica"
    "each_refs replica_refs" ReplicasCell as_Replicas
  by (intro cell_copy.intro replica.each) (unfold_locales, simp add: cell_views)

sublocale api_copies \<subseteq> replica_list: cell_copy "LitestreamReplicaList_DeepCopyInto A" read_replica_list
    replica_list_refs ReplicaListCell as_ReplicaList
proof (rule cell_copy.intro)
  show "deep_copy (LitestreamReplicaList_DeepCopyInto A) read_replica_list replica_list_refs"
    unfolding LitestreamReplicaList_DeepCopyInto_def [abs_def] read_replica_list_def [abs_def]
      replica_list_refs_def [abs_def]
    by (rule struct2_copy [OF list_meta_copy deep_copy.ptr [OF replicas.new]]) simp_all
qed (unfold_locales, simp add: cell_views)

section \<open>LitestreamRestore\<close>

definition LitestreamRestoreSpec_DeepCopyInto ::
  "gLitestreamRestoreSpec \<Rightarrow> heap \<Rightarrow> (gLitestreamRestoreSpec \<times> heap) option" where
  "LitestreamRestoreSpec_DeepCopyInto x h =
     Option.bind (ptr_copy (flat_copy Int64Cell as_Int64) (gre_RunAsUser x) h) (\<lambda>(user, h).
     Option.bind (ptr_copy (flat_copy Int64Cell as_Int64) (gre_RunAsGroup x) h) (\<lambda>(group, h).
     Some (x\<lparr>gre_RunAsUser := user, gre_RunAsGroup := group\<rparr>, h)))"

definition LitestreamRestoreSpec_DeepCopy :: "addr option \<Rightarrow> heap \<Rightarrow> (addr option \<times> heap) option" where
  "LitestreamRestoreSpec_DeepCopy =
     ptr_copy (new_copy RestoreSpecCell as_RestoreSpec LitestreamRestoreSpec_DeepCopyInto)"

definition LitestreamRestoreStatus_DeepCopyInto ::
  "api_machinery \<Rightarrow> gLitestreamRestoreStatus \<Rightarrow> heap \<Rightarrow> (gLitestreamRestoreStatus \<times> heap) option" where
  "LitestreamRestoreStatus_DeepCopyInto A x h =
     Option.bind (ptr_copy (flat_copy Int32Cell as_Int32) (grst_OriginalReplicas x) h) (\<lambda>(replicas, h).
     Option.bind (ptr_copy (Time_DeepCopy A) (grst_StartTime x) h) (\<lambda>(start, h).
     Option.bind (ptr_copy (Time_DeepCopy A) (grst_CompletionTime x) h) (\<lambda>(completion, h).
     Some (x\<lparr>grst_OriginalReplicas := replicas, grst_StartTime := start, grst_CompletionTime := completion\<rparr>, h))))"

definition LitestreamRestoreStatus_DeepCopy ::
  "api_machinery \<Rightarrow> addr option \<Rightarrow> heap \<Rightarrow> (addr option \<times> heap) option" where
  "LitestreamRestoreStatus_DeepCopy A =
     ptr_copy (new_copy RestoreStatusCell as_RestoreStatus (LitestreamRestoreStatus_DeepCopyInto A))"

definition LitestreamRestore_DeepCopyInto ::
  "api_machinery \<Rightarrow> gLitestreamRestore \<Rightarrow> heap \<Rightarrow> (gLitestreamRestore \<times> heap) option" where
  "LitestreamRestore_DeepCopyInto A x h =
     Option.bind (ObjectMeta_DeepCopyInto A (gres_Meta x) h) (\<lambda>(meta, h).
     Option.bind (LitestreamRestoreSpec_DeepCopyInto (gres_Spec x) h) (\<lambda>(spec, h).
     Option.bind (LitestreamRestoreStatus_DeepCopyInto A (gres_Status x) h) (\<lambda>(status, h).
     Some (x\<lparr>gres_TypeMeta := gres_TypeMeta x, gres_Meta := meta, gres_Spec := spec, gres_Status := status\<rparr>, h))))"

definition LitestreamRestore_DeepCopy ::
  "api_machinery \<Rightarrow> addr option \<Rightarrow> heap \<Rightarrow> (addr option \<times> heap) option" where
  "LitestreamRestore_DeepCopy A =
     ptr_copy (new_copy RestoreCell as_Restore (LitestreamRestore_DeepCopyInto A))"

definition LitestreamRestore_DeepCopyObject ::
  "api_machinery \<Rightarrow> addr option \<Rightarrow> heap \<Rightarrow> (runtime_Object \<times> heap) option" where
  "LitestreamRestore_DeepCopyObject A p h =
     Option.bind (LitestreamRestore_DeepCopy A p h) (\<lambda>(c, h).
     Some (if c \<noteq> None then LitestreamRestoreObject c else NilObject, h))"

definition LitestreamRestoreList_DeepCopyInto ::
  "api_machinery \<Rightarrow> gLitestreamRestoreList \<Rightarrow> heap \<Rightarrow> (gLitestreamRestoreList \<times> heap) option" where
  "LitestreamRestoreList_DeepCopyInto A x h =
     Option.bind (ListMeta_DeepCopyInto A (gresl_ListMeta x) h) (\<lambda>(meta, h).
     Option.bind (ptr_copy (new_copy RestoresCell as_Restores (each_copy (LitestreamRestore_DeepCopyInto A)))
       (gresl_Items x) h) (\<lambda>(items, h).
     Some (x\<lparr>gresl_TypeMeta := gresl_TypeMeta x, gresl_ListMeta := meta, gresl_Items := items\<rparr>, h)))"

definition LitestreamRestoreList_DeepCopy ::
  "api_machinery \<Rightarrow> addr option \<Rightarrow> heap \<Rightarrow> (addr option \<times> heap) option" where
  "LitestreamRestoreList_DeepCopy A =
     ptr_copy (new_copy RestoreListCell as_RestoreList (LitestreamRestoreList_DeepCopyInto A))"

definition LitestreamRestoreList_DeepCopyObject ::
  "api_machinery \<Rightarrow> addr option \<Rightarrow> heap \<Rightarrow> (runtime_Object \<times> heap) option" where
  "LitestreamRestoreList_DeepCopyObject A p h =
     Option.bind (LitestreamRestoreList_DeepCopy A p h) (\<lambda>(c, h).
     Some (if c \<noteq> None then LitestreamRestoreListObject c else NilObject, h))"

definition read_restore_spec :: "heap \<Rightarrow> gLitestreamRestoreSpec \<Rightarrow> LitestreamRestoreSpec option" where
  "read_restore_spec h x =
     Option.bind (ptr_read (flat_read as_Int64) h (gre_RunAsUser x)) (\<lambda>user.
     Option.bind (ptr_read (flat_read as_Int64) h (gre_RunAsGroup x)) (\<lambda>group.
     Some \<lparr>re_SourceRef = gre_SourceRef x, re_TargetPVC = gre_TargetPVC x, re_TargetPath = gre_TargetPath x,
       re_Timestamp = gre_Timestamp x, re_Image = gre_Image x, re_Force = gre_Force x,
       re_RunAsUser = user, re_RunAsGroup = group\<rparr>))"

definition restore_spec_refs :: "heap \<Rightarrow> gLitestreamRestoreSpec \<Rightarrow> addr set" where
  "restore_spec_refs h x =
     ptr_refs (flat_refs as_Int64) h (gre_RunAsUser x) \<union> ptr_refs (flat_refs as_Int64) h (gre_RunAsGroup x)"

definition read_restore_status :: "heap \<Rightarrow> gLitestreamRestoreStatus \<Rightarrow> LitestreamRestoreStatus option" where
  "read_restore_status h x =
     Option.bind (ptr_read (flat_read as_Int32) h (grst_OriginalReplicas x)) (\<lambda>replicas.
     Option.bind (ptr_read (flat_read as_Time) h (grst_StartTime x)) (\<lambda>start.
     Option.bind (ptr_read (flat_read as_Time) h (grst_CompletionTime x)) (\<lambda>completion.
     Some \<lparr>rst_Phase = grst_Phase x, rst_JobName = grst_JobName x, rst_OriginalReplicas = replicas,
       rst_StartTime = start, rst_CompletionTime = completion, rst_Message = grst_Message x\<rparr>)))"

definition restore_status_refs :: "heap \<Rightarrow> gLitestreamRestoreStatus \<Rightarrow> addr set" where
  "restore_status_refs h x =
     ptr_refs (flat_refs as_Int32) h (grst_OriginalReplicas x) \<union> ptr_refs (flat_refs as_Time) h (grst_StartTime x)
     \<union> ptr_refs (flat_refs as_Time) h (grst_CompletionTime x)"

definition read_restore :: "heap \<Rightarrow> gLitestreamRestore \<Rightarrow> (TypeMeta \<times> LitestreamRestore) option" where
  "read_restore h x =
     Option.bind (read_meta h (gres_Meta x)) (\<lambda>meta.
     Option.bind (read_restore_spec h (gres_Spec x)) (\<lambda>spec.
     Option.bind (read_restore_status h (gres_Status x)) (\<lambda>status.
     Some (gres_TypeMeta x, \<lparr>res_Meta = meta, res_Spec = spec, res_Status = status\<rparr>))))"

definition restore_refs :: "heap \<Rightarrow> gLitestreamRestore \<Rightarrow> addr set" where
  "restore_refs h x =
     meta_refs h (gres_Meta x) \<union> restore_spec_refs h (gres_Spec x) \<union> restore_status_refs h (gres_Status x)"

record LitestreamRestoreList =
  resl_TypeMeta :: TypeMeta
  resl_ListMeta :: ListMeta
  resl_Items :: "(TypeMeta \<times> LitestreamRestore) list"

definition read_restore_list :: "heap \<Rightarrow> gLitestreamRestoreList \<Rightarrow> LitestreamRestoreList option" where
  "read_restore_list h x =
     Option.bind (read_list_meta h (gresl_ListMeta x)) (\<lambda>meta.
     Option.bind (ptr_read (cell_read as_Restores (each_read read_restore)) h (gresl_Items x)) (\<lambda>items.
     Some \<lparr>resl_TypeMeta = gresl_TypeMeta x, resl_ListMeta = meta, resl_Items = case_option [] id items\<rparr>))"

definition restore_list_refs :: "heap \<Rightarrow> gLitestreamRestoreList \<Rightarrow> addr set" where
  "restore_list_refs h x =
     list_meta_refs h (gresl_ListMeta x)
     \<union> ptr_refs (cell_refs as_Restores (each_refs restore_refs)) h (gresl_Items x)"

interpretation restore_spec: cell_copy LitestreamRestoreSpec_DeepCopyInto read_restore_spec restore_spec_refs
    RestoreSpecCell as_RestoreSpec
proof (rule cell_copy.intro)
  show "deep_copy LitestreamRestoreSpec_DeepCopyInto read_restore_spec restore_spec_refs"
    unfolding LitestreamRestoreSpec_DeepCopyInto_def [abs_def] read_restore_spec_def [abs_def]
      restore_spec_refs_def [abs_def]
    by (rule struct2_copy [OF deep_copy.ptr [OF int64.new] deep_copy.ptr [OF int64.new]]) simp_all
qed (unfold_locales, simp add: cell_views)

sublocale api_copies \<subseteq> restore_status: cell_copy "LitestreamRestoreStatus_DeepCopyInto A" read_restore_status
    restore_status_refs RestoreStatusCell as_RestoreStatus
proof (rule cell_copy.intro)
  show "deep_copy (LitestreamRestoreStatus_DeepCopyInto A) read_restore_status restore_status_refs"
    unfolding LitestreamRestoreStatus_DeepCopyInto_def [abs_def] read_restore_status_def [abs_def]
      restore_status_refs_def [abs_def]
    by (rule struct3_copy [OF deep_copy.ptr [OF int32.new] deep_copy.ptr [OF time_copy] deep_copy.ptr [OF time_copy]])
      simp_all
qed (unfold_locales, simp add: cell_views)

sublocale api_copies \<subseteq> restore: cell_copy "LitestreamRestore_DeepCopyInto A" read_restore restore_refs
    RestoreCell as_Restore
proof (rule cell_copy.intro)
  show "deep_copy (LitestreamRestore_DeepCopyInto A) read_restore restore_refs"
    unfolding LitestreamRestore_DeepCopyInto_def [abs_def] read_restore_def [abs_def] restore_refs_def [abs_def]
    by (rule struct3_copy [OF meta_copy restore_spec.deep_copy_axioms restore_status.deep_copy_axioms]) simp_all
qed (unfold_locales, simp add: cell_views)

sublocale api_copies \<subseteq> restores: cell_copy "each_copy (LitestreamRestore_DeepCopyInto A)" "each_read read_restore"
    "each_refs restore_refs" RestoresCell as_Restores
  by (intro cell_copy.intro restore.each) (unfold_locales, simp add: cell_views)

sublocale api_copies \<subseteq> restore_list: cell_copy "LitestreamRestoreList_DeepCopyInto A" read_restore_list
    restore_list_refs RestoreListCell as_RestoreList
proof (rule cell_copy.intro)
  show "deep_copy (LitestreamRestoreList_DeepCopyInto A) read_restore_list restore_list_refs"
    unfolding LitestreamRestoreList_DeepCopyInto_def [abs_def] read_restore_list_def [abs_def]
      restore_list_refs_def [abs_def]
    by (rule struct2_copy [OF list_meta_copy deep_copy.ptr [OF restores.new]]) simp_all
qed (unfold_locales, simp add: cell_views)

end
