(* ===== verification/Patch_Base.thy ===== *)
theory Patch_Base
  imports Deep_Copy
begin

text \<open>
  Why a controller may keep \<^verbatim>\<open>client.MergeFrom(db.DeepCopy())\<close> and then change \<^verbatim>\<open>db\<close> in place. The theory
  first collects what the contract of \<open>Go_Heap\<close> gives for each pointer type, and then follows the code
  that does it (annotations of a replica, status of a restore) on the heap: the request these
  statements send is the one the value-level model sends.
\<close>

section \<open>Copies of pointers\<close>

text \<open>
  The copy succeeds, leaves the old memory as it was, reads the same value, and shares no cell with the
  original.
\<close>

definition copied_apart ::
  "('p \<Rightarrow> heap \<Rightarrow> ('p \<times> heap) option) \<Rightarrow> (heap \<Rightarrow> 'p \<Rightarrow> 'v option) \<Rightarrow> (heap \<Rightarrow> 'p \<Rightarrow> addr set)
   \<Rightarrow> heap \<Rightarrow> 'p \<Rightarrow> 'v \<Rightarrow> bool"
where
  "copied_apart copy read refs h p v =
     (case copy p h of
        None \<Rightarrow> False
      | Some (q, h') \<Rightarrow> take (length h) h' = h \<and> read h' p = Some v \<and> read h' q = Some v
          \<and> refs h' p \<inter> refs h' q = {})"

context deep_copy
begin

lemma apart:
  assumes "read h p = Some v"
  shows "copied_apart copy read refs h p v"
proof -
  obtain q h' where q: "copy p h = Some (q, h')" using copy_total [OF assms] by blast
  with copy_apart [OF assms q] show ?thesis by (auto simp: copied_apart_def)
qed

text \<open>A copy reads the same as long as nothing is written to the memory it was given.\<close>

lemma kept:
  assumes "read h x = Some v"
  shows "\<exists>y t. copy x h = Some (y, h @ t)
    \<and> (\<forall>h'. (\<forall>c. length h \<le> c \<and> c < length (h @ t) \<longrightarrow> lookup_cell h' c = lookup_cell (h @ t) c)
        \<longrightarrow> read h' y = Some v)"
proof -
  obtain y t where y: "copy x h = Some (y, h @ t)" "read (h @ t) y = Some v" "refs (h @ t) y \<subseteq> {length h..}"
    using copy_fresh [OF assms] by blast
  have "read h' y = Some v"
    if "\<forall>c. length h \<le> c \<and> c < length (h @ t) \<longrightarrow> lookup_cell h' c = lookup_cell (h @ t) c" for h'
    using read_local [OF y(2), of h'] refs_allocated [OF y(2)] y(3) that by (metis atLeast_iff lessThan_iff subsetD)
  with y(1) show ?thesis by blast
qed

end

text \<open>The types of pointers with a generated \<^verbatim>\<open>DeepCopy\<close>: what a pointer reads as, and what it reaches.\<close>

abbreviation "read_at unwrap read \<equiv> ptr_read (cell_read unwrap read)"
abbreviation "refs_at unwrap refs \<equiv> ptr_refs (cell_refs unwrap refs)"

context api_copies
begin

lemma replica_DeepCopy:
  "deep_copy (LitestreamReplica_DeepCopy A) (read_at as_Replica read_replica) (refs_at as_Replica replica_refs)"
  unfolding LitestreamReplica_DeepCopy_def by (rule deep_copy.ptr [OF replica.new])

lemma replica_list_DeepCopy:
  "deep_copy (LitestreamReplicaList_DeepCopy A) (read_at as_ReplicaList read_replica_list)
     (refs_at as_ReplicaList replica_list_refs)"
  unfolding LitestreamReplicaList_DeepCopy_def by (rule deep_copy.ptr [OF replica_list.new])

lemma restore_DeepCopy:
  "deep_copy (LitestreamRestore_DeepCopy A) (read_at as_Restore read_restore) (refs_at as_Restore restore_refs)"
  unfolding LitestreamRestore_DeepCopy_def by (rule deep_copy.ptr [OF restore.new])

lemma restore_list_DeepCopy:
  "deep_copy (LitestreamRestoreList_DeepCopy A) (read_at as_RestoreList read_restore_list)
     (refs_at as_RestoreList restore_list_refs)"
  unfolding LitestreamRestoreList_DeepCopy_def by (rule deep_copy.ptr [OF restore_list.new])

lemma struct_DeepCopies:
  "deep_copy (BackupSpec_DeepCopy A) (read_at as_Backup read_backup) (refs_at as_Backup backup_refs)"
  "deep_copy (LitestreamReplicaSpec_DeepCopy A) (read_at as_ReplicaSpec read_replica_spec)
     (refs_at as_ReplicaSpec replica_spec_refs)"
  "deep_copy (LitestreamReplicaStatus_DeepCopy A) (read_at as_ReplicaStatus read_replica_status)
     (refs_at as_ReplicaStatus replica_status_refs)"
  "deep_copy (LitestreamRestoreStatus_DeepCopy A) (read_at as_RestoreStatus read_restore_status)
     (refs_at as_RestoreStatus restore_status_refs)"
  unfolding BackupSpec_DeepCopy_def LitestreamReplicaSpec_DeepCopy_def LitestreamReplicaStatus_DeepCopy_def
    LitestreamRestoreStatus_DeepCopy_def
  by (intro deep_copy.ptr backup.new replica_spec.new replica_status.new restore_status.new)+

end

lemma flat_into: "S3Destination_DeepCopyInto = plain_copy" "RetentionPolicy_DeepCopyInto = plain_copy"
  by (simp_all add: fun_eq_iff S3Destination_DeepCopyInto_def RetentionPolicy_DeepCopyInto_def plain_copy_def)

lemma flat_DeepCopies:
  "deep_copy S3Destination_DeepCopy (read_at as_S3 plain_read) (refs_at as_S3 no_refs)"
  "deep_copy RetentionPolicy_DeepCopy (read_at as_Retention plain_read) (refs_at as_Retention no_refs)"
  "deep_copy BackupDestination_DeepCopy (read_at as_Destination read_destination)
     (refs_at as_Destination destination_refs)"
  "deep_copy LitestreamRestoreSpec_DeepCopy (read_at as_RestoreSpec read_restore_spec)
     (refs_at as_RestoreSpec restore_spec_refs)"
  unfolding S3Destination_DeepCopy_def RetentionPolicy_DeepCopy_def BackupDestination_DeepCopy_def
    LitestreamRestoreSpec_DeepCopy_def flat_into
  by (intro deep_copy.ptr s3.new retention.new destination.new restore_spec.new)+

text \<open>A copy through the interface: the interface is nil exactly for a nil pointer.\<close>

lemma ptr_copy_nil: "ptr_copy copy p h = Some (q, h') \<Longrightarrow> q = None \<longleftrightarrow> p = None"
  by (auto simp: ptr_copy_def split: option.splits)

lemma DeepCopyObject_nil:
  "LitestreamReplica_DeepCopyObject A p h = Some (ob, h') \<Longrightarrow> ob = NilObject \<longleftrightarrow> p = None"
  "LitestreamReplicaList_DeepCopyObject A p h = Some (ob, h') \<Longrightarrow> ob = NilObject \<longleftrightarrow> p = None"
  "LitestreamRestore_DeepCopyObject A p h = Some (ob, h') \<Longrightarrow> ob = NilObject \<longleftrightarrow> p = None"
  "LitestreamRestoreList_DeepCopyObject A p h = Some (ob, h') \<Longrightarrow> ob = NilObject \<longleftrightarrow> p = None"
  unfolding LitestreamReplica_DeepCopyObject_def LitestreamReplicaList_DeepCopyObject_def
    LitestreamRestore_DeepCopyObject_def LitestreamRestoreList_DeepCopyObject_def
    LitestreamReplica_DeepCopy_def LitestreamReplicaList_DeepCopy_def
    LitestreamRestore_DeepCopy_def LitestreamRestoreList_DeepCopy_def
  by (auto simp: Option.bind_eq_Some_conv dest: ptr_copy_nil split: if_splits)

section \<open>Changes in place\<close>

definition load_replica :: "heap \<Rightarrow> addr \<Rightarrow> gLitestreamReplica option" where
  "load_replica h a = Option.bind (lookup_cell h a) as_Replica"

definition load_map :: "heap \<Rightarrow> addr \<Rightarrow> (string \<rightharpoonup> string) option" where
  "load_map h a = Option.bind (lookup_cell h a) as_StringMap"

abbreviation annotations_of :: "gLitestreamReplica \<Rightarrow> addr option" where
  "annotations_of x \<equiv> gom_Annotations (gdb_Meta x)"

text \<open>\<^verbatim>\<open>db.Annotations[k]\<close>; a nil map has no keys.\<close>

definition annotations_get :: "addr \<Rightarrow> string \<Rightarrow> heap \<Rightarrow> string option" where
  "annotations_get a k h =
     Option.bind (load_replica h a) (\<lambda>x. case annotations_of x of
       None \<Rightarrow> Some []
     | Some m \<Rightarrow> Option.bind (load_map h m) (\<lambda>f. Some (map_get (Some f) k)))"

text \<open>\<^verbatim>\<open>if db.Annotations == nil { db.Annotations = map[string]string{} }\<close>\<close>

definition annotations_make :: "addr \<Rightarrow> heap \<Rightarrow> heap option" where
  "annotations_make a h =
     Option.bind (load_replica h a) (\<lambda>x. case annotations_of x of
       None \<Rightarrow> Some ((h @ [StringMapCell Map.empty])
         [a := ReplicaCell (x\<lparr>gdb_Meta := (gdb_Meta x)\<lparr>gom_Annotations := Some (length h)\<rparr>\<rparr>)])
     | Some m \<Rightarrow> Some h)"

text \<open>\<^verbatim>\<open>db.Annotations[k] = v\<close>; none for the write to a nil map, which panics.\<close>

definition annotations_put :: "addr \<Rightarrow> string \<Rightarrow> string \<Rightarrow> heap \<Rightarrow> heap option" where
  "annotations_put a k v h =
     Option.bind (load_replica h a) (\<lambda>x. Option.bind (annotations_of x) (\<lambda>m.
     Option.bind (load_map h m) (\<lambda>f. Some (h[m := StringMapCell (f(k \<mapsto> v))]))))"

text \<open>\<^verbatim>\<open>delete(db.Annotations, k)\<close>\<close>

definition annotations_delete :: "addr \<Rightarrow> string \<Rightarrow> heap \<Rightarrow> heap option" where
  "annotations_delete a k h =
     Option.bind (load_replica h a) (\<lambda>x. case annotations_of x of
       None \<Rightarrow> Some h
     | Some m \<Rightarrow> Option.bind (load_map h m) (\<lambda>f. Some (h[m := StringMapCell (f(k := None))])))"

text \<open>The value of the object at an address, and that its annotations are a map of their own.\<close>

abbreviation replica_at :: "heap \<Rightarrow> addr \<Rightarrow> (TypeMeta \<times> LitestreamReplica) option" where
  "replica_at \<equiv> cell_read as_Replica read_replica"

definition own_annotations :: "heap \<Rightarrow> addr \<Rightarrow> bool" where
  "own_annotations h a = (case load_replica h a of
     None \<Rightarrow> False
   | Some x \<Rightarrow> annotations_of x = None \<or> annotations_of x \<noteq> gom_Labels (gdb_Meta x))"

section \<open>What a change in place does to the value\<close>

text \<open>No part of a replica's spec or status is a map of strings or a replica.\<close>

lemma flat_typed:
  "ptr_read (flat_read unwrap) h p = Some v \<Longrightarrow> lookup_cell h m = Some c \<Longrightarrow> unwrap c = None
   \<Longrightarrow> m \<notin> ptr_refs (flat_refs unwrap) h p"
  by (auto simp: ptr_read_def ptr_refs_def cell_read_def cell_refs_def no_refs_def Option.bind_eq_Some_conv
      split: option.splits)

lemma cell_typed:
  assumes "ptr_read (cell_read unwrap read) h p = Some v" "lookup_cell h m = Some c" "unwrap c = None"
    and "\<And>x w. read h x = Some w \<Longrightarrow> m \<notin> refs h x"
  shows "m \<notin> ptr_refs (cell_refs unwrap refs) h p"
  using assms by (auto simp: ptr_read_def ptr_refs_def cell_read_def cell_refs_def Option.bind_eq_Some_conv
      split: option.splits)

lemma foreign_cell:
  assumes "as_StringMap c \<noteq> None \<or> as_Replica c \<noteq> None"
  shows "as_QuantityMap c = None" "as_Int64 c = None" "as_Time c = None" "as_Conditions c = None"
    "as_Resources c = None" "as_S3 c = None"
  using assms by (cases c; simp add: cell_views)+

lemma replica_parts_typed:
  assumes m: "lookup_cell h m = Some c" "as_StringMap c \<noteq> None \<or> as_Replica c \<noteq> None"
  shows "read_replica_spec h s = Some v \<Longrightarrow> m \<notin> replica_spec_refs h s"
    "read_replica_status h st = Some w \<Longrightarrow> m \<notin> replica_status_refs h st"
proof -
  note foreign = foreign_cell [OF m(2)]
  have "m \<notin> resources_refs h x" if "read_resources h x = Some u" for x u
    using that flat_typed [where unwrap = as_QuantityMap, OF _ m(1) foreign(1)]
    by (auto simp: read_resources_def resources_refs_def Option.bind_eq_Some_conv)
  then show "m \<notin> replica_spec_refs h s" if "read_replica_spec h s = Some v"
    using that flat_typed [where unwrap = as_Int64, OF _ m(1) foreign(2)]
      flat_typed [where unwrap = as_S3, OF _ m(1) foreign(6)]
      cell_typed [where unwrap = as_Resources and read = read_resources and refs = resources_refs, OF _ m(1) foreign(5)]
    by (auto simp: read_replica_spec_def replica_spec_refs_def read_backup_def backup_refs_def
        read_destination_def destination_refs_def Option.bind_eq_Some_conv)
  show "m \<notin> replica_status_refs h st" if "read_replica_status h st = Some w"
    using that flat_typed [where unwrap = as_Time, OF _ m(1) foreign(3)]
      cell_typed [where unwrap = as_Conditions and read = "each_read plain_read" and refs = "each_refs no_refs", OF _ m(1) foreign(4)]
    by (auto simp: read_replica_status_def replica_status_refs_def each_refs_def no_refs_def
        Option.bind_eq_Some_conv)
qed

lemma view_iff:
  "as_Replica c = Some x \<longleftrightarrow> c = ReplicaCell x" "as_StringMap c = Some f \<longleftrightarrow> c = StringMapCell f"
  "as_Restore c = Some r \<longleftrightarrow> c = RestoreCell r"
  by (cases c; simp add: cell_views)+

lemma replica_at_iff:
  "replica_at h a = Some w \<longleftrightarrow> (\<exists>x. load_replica h a = Some x \<and> read_replica h x = Some w)"
  by (auto simp: cell_read_def load_replica_def Option.bind_eq_Some_conv)

lemma load_replica_iff: "load_replica h a = Some x \<longleftrightarrow> lookup_cell h a = Some (ReplicaCell x)"
  by (auto simp: load_replica_def Option.bind_eq_Some_conv view_iff)

lemma load_map_iff: "load_map h a = Some f \<longleftrightarrow> lookup_cell h a = Some (StringMapCell f)"
  by (auto simp: load_map_def Option.bind_eq_Some_conv view_iff)

lemma read_map_iff: "ptr_read (flat_read as_StringMap) h p = Some u
    \<longleftrightarrow> (case p of None \<Rightarrow> u = None | Some m \<Rightarrow> \<exists>f. lookup_cell h m = Some (StringMapCell f) \<and> u = Some f)"
  by (auto simp: ptr_read_def cell_read_def plain_read_def view_iff Option.bind_eq_Some_conv
      split: option.splits)

lemmas read_parts = read_replica_def read_meta_def Option.bind_eq_Some_conv read_map_iff

lemma annotations_read:
  assumes "read_replica h x = Some (tm, v)"
  shows "annotations_of x = None \<Longrightarrow> db_Annotations v = None"
    "annotations_of x = Some m \<Longrightarrow> \<exists>f. lookup_cell h m = Some (StringMapCell f) \<and> db_Annotations v = Some f"
  using assms by (auto simp: read_parts)

context api_copies
begin

text \<open>The spec and the status of a replica read the same when only maps of strings and replicas change.\<close>

lemma parts_unchanged:
  assumes "read_replica_spec h s = Some v" "read_replica_status h st = Some w"
    and "\<And>b. lookup_cell h' b = lookup_cell h b
      \<or> (\<exists>c. lookup_cell h b = Some c \<and> (as_StringMap c \<noteq> None \<or> as_Replica c \<noteq> None)) \<or> length h \<le> b"
  shows "read_replica_spec h' s = Some v" "read_replica_status h' st = Some w"
proof -
  have "lookup_cell h' b = lookup_cell h b" if "b \<in> replica_spec_refs h s" for b
    using assms(3) [of b] that replica_parts_typed(1) [OF _ _ assms(1)] replica_spec.refs_allocated [OF assms(1)] by fastforce
  from replica_spec.read_local [OF assms(1) this] show "read_replica_spec h' s = Some v" by simp
  have "lookup_cell h' b = lookup_cell h b" if "b \<in> replica_status_refs h st" for b
    using assms(3) [of b] that replica_parts_typed(2) [OF _ _ assms(2)] replica_status.refs_allocated [OF assms(2)] by fastforce
  from replica_status.read_local [OF assms(2) this] show "read_replica_status h' st = Some w" by simp
qed

lemma write_map:
  assumes x: "load_replica h a = Some x" "read_replica h x = Some (tm, v)" "annotations_of x = Some m"
    and own: "gom_Labels (gdb_Meta x) \<noteq> Some m"
  shows "load_replica (h[m := StringMapCell g]) a = Some x"
    "read_replica (h[m := StringMapCell g]) x = Some (tm, with_annotations v (Some g))"
proof -
  let ?h = "h[m := StringMapCell g]"
  obtain f where m: "lookup_cell h m = Some (StringMapCell f)" using annotations_read(2) [OF x(2,3)] by blast
  with x(1) have "a \<noteq> m" by (auto simp: load_replica_iff)
  with x(1) show "load_replica ?h a = Some x" by (simp add: load_replica_iff)
  have other: "lookup_cell ?h b = lookup_cell h b \<or> (\<exists>c. lookup_cell h b = Some c \<and>
      (as_StringMap c \<noteq> None \<or> as_Replica c \<noteq> None)) \<or> length h \<le> b" for b
    using m by (cases "b = m") (auto simp: as_StringMap_def)
  obtain spec st where parts: "read_replica_spec h (gdb_Spec x) = Some spec"
      "read_replica_status h (gdb_Status x) = Some st"
    using x(2) by (auto simp: read_parts)
  from parts_unchanged [OF parts, of ?h] other
  have "read_replica_spec ?h (gdb_Spec x) = Some spec" "read_replica_status ?h (gdb_Status x) = Some st" by blast+
  with x parts own m show "read_replica ?h x = Some (tm, with_annotations v (Some g))"
    by (auto simp: read_parts with_annotations_def lookup_allocated split: option.splits)
qed

lemma new_map:
  assumes x: "load_replica h a = Some x" "read_replica h x = Some (tm, v)" "annotations_of x = None"
    and h': "annotations_make a h = Some h'"
  shows "\<exists>x'. load_replica h' a = Some x' \<and> read_replica h' x' = Some (tm, with_annotations v (Some Map.empty))
      \<and> annotations_of x' = Some (length h) \<and> gom_Labels (gdb_Meta x') \<noteq> Some (length h)"
proof -
  let ?x = "x\<lparr>gdb_Meta := (gdb_Meta x)\<lparr>gom_Annotations := Some (length h)\<rparr>\<rparr>"
  have a: "lookup_cell h a = Some (ReplicaCell x)" "a < length h"
    using x(1) lookup_allocated by (auto simp: load_replica_iff)
  have h'_def: "h' = (h @ [StringMapCell Map.empty])[a := ReplicaCell ?x]"
    using h' x by (simp add: annotations_make_def)
  have old: "lookup_cell h' b = lookup_cell h b" if "b < length h" "b \<noteq> a" for b using that by (simp add: h'_def)
  have new: "lookup_cell h' (length h) = Some (StringMapCell Map.empty)" "lookup_cell h' a = Some (ReplicaCell ?x)"
    using a(2) by (simp_all add: h'_def)
  obtain spec st where parts: "read_replica_spec h (gdb_Spec x) = Some spec"
      "read_replica_status h (gdb_Status x) = Some st"
    using x(2) by (auto simp: read_parts)
  have "lookup_cell h' b = lookup_cell h b \<or> (\<exists>c. lookup_cell h b = Some c \<and>
      (as_StringMap c \<noteq> None \<or> as_Replica c \<noteq> None)) \<or> length h \<le> b" for b
    using old [of b] a(1) by (cases "b = a") (auto simp: as_Replica_def)
  from parts_unchanged [OF parts, of h'] this
  have "read_replica_spec h' (gdb_Spec x) = Some spec" "read_replica_status h' (gdb_Status x) = Some st" by blast+
  moreover have "gom_Labels (gdb_Meta x) = Some l \<Longrightarrow> l < length h \<and> l \<noteq> a" for l
    using x(2) a(1) by (auto simp: read_parts dest: lookup_allocated)
  ultimately show ?thesis
    using x(2,3) parts new old
    by (intro exI [of _ ?x]) (auto simp: read_parts load_replica_iff with_annotations_def split: option.splits)
qed

end

text \<open>An object with annotations of its own, at \<open>p\<close>; what the operations on its annotations do to it.\<close>

definition holds :: "heap \<Rightarrow> addr \<Rightarrow> TypeMeta \<times> LitestreamReplica \<Rightarrow> addr option \<Rightarrow> bool" where
  "holds h a w p = (\<exists>x. load_replica h a = Some x \<and> read_replica h x = Some w \<and> annotations_of x = p
     \<and> (p = None \<or> gom_Labels (gdb_Meta x) \<noteq> p))"

lemma holds_at: "holds h a w p \<Longrightarrow> replica_at h a = Some w"
  by (auto simp: holds_def replica_at_iff)

lemma at_holds: "replica_at h a = Some w \<Longrightarrow> own_annotations h a \<Longrightarrow> \<exists>p. holds h a w p"
  by (auto simp: holds_def replica_at_iff own_annotations_def)

lemma holds_allocated: "holds h a w p \<Longrightarrow> a < length h" "holds h a w (Some m) \<Longrightarrow> m < length h"
  by (cases w, auto simp: holds_def load_replica_iff dest: lookup_allocated annotations_read(2))+

lemma holds_get: "holds h a (tm, v) p \<Longrightarrow> annotations_get a k h = Some (map_get (db_Annotations v) k)"
  by (cases p) (auto simp: holds_def annotations_get_def load_map_def view_iff map_get_def Option.bind_eq_Some_conv
      as_StringMap_def dest: annotations_read)

context api_copies
begin

lemma holds_append: "holds h a w p \<Longrightarrow> holds (h @ t) a w p"
  using holds_allocated(1) [of h a w p] by (auto simp: holds_def load_replica_iff intro: replica.read_append(1))

lemma holds_make:
  assumes "holds h a (tm, v) p"
  shows "\<exists>h' m. annotations_make a h = Some h' \<and> holds h' a (tm, with_annotations v (Some (map_make (db_Annotations v)))) (Some m)
      \<and> (p = Some m \<or> m = length h) \<and> (\<forall>b<length h. b \<noteq> a \<longrightarrow> lookup_cell h' b = lookup_cell h b)"
proof (cases p)
  case None
  with assms obtain x h' where x: "load_replica h a = Some x" "read_replica h x = Some (tm, v)" "annotations_of x = None"
      and h': "annotations_make a h = Some h'"
    by (auto simp: holds_def annotations_make_def)
  moreover have "\<forall>b<length h. b \<noteq> a \<longrightarrow> lookup_cell h' b = lookup_cell h b"
    using h' x by (auto simp: annotations_make_def)
  ultimately show ?thesis
    using new_map [OF x h'] annotations_read(1) [OF x(2,3)] by (auto simp: holds_def map_make_def)
next
  case (Some m)
  with assms obtain x where x: "load_replica h a = Some x" "read_replica h x = Some (tm, v)" "annotations_of x = Some m"
    by (auto simp: holds_def)
  have "with_annotations v (Some (map_make (db_Annotations v))) = v"
    using annotations_read(2) [OF x(2,3)] by (auto simp: with_annotations_def map_make_def)
  with assms Some x show ?thesis
    by (auto simp: annotations_make_def intro!: exI [of _ h] exI [of _ m])
qed

lemma holds_write:
  assumes "holds h a (tm, v) (Some m)"
  shows "holds (h[m := StringMapCell g]) a (tm, with_annotations v (Some g)) (Some m)"
  using assms write_map [of h a _ tm v m g] by (auto simp: holds_def)

lemma holds_put:
  assumes "holds h a (tm, v) (Some m)"
  shows "\<exists>h'. annotations_put a k u h = Some h' \<and> holds h' a (tm, with_annotations v (map_set (db_Annotations v) k u)) (Some m)
      \<and> (\<forall>b. b \<noteq> m \<longrightarrow> lookup_cell h' b = lookup_cell h b)"
proof -
  from assms obtain x f where x: "load_replica h a = Some x" "annotations_of x = Some m"
      and f: "load_map h m = Some f" "db_Annotations v = Some f"
    by (auto simp: holds_def load_map_iff dest: annotations_read(2))
  then have "annotations_put a k u h = Some (h[m := StringMapCell (f(k \<mapsto> u))])" by (simp add: annotations_put_def)
  with holds_write [OF assms] f(2) show ?thesis by (simp add: map_set_def map_make_def)
qed

lemma holds_delete:
  assumes "holds h a (tm, v) p"
  shows "\<exists>h'. annotations_delete a k h = Some h' \<and> holds h' a (tm, with_annotations v (map_delete (db_Annotations v) k)) p
      \<and> (\<forall>b. Some b \<noteq> p \<longrightarrow> lookup_cell h' b = lookup_cell h b)"
proof (cases p)
  case None
  with assms obtain x where "load_replica h a = Some x" "annotations_of x = None" "db_Annotations v = None"
    by (auto simp: holds_def dest: annotations_read(1))
  moreover from this(3) have "with_annotations v (map_delete (db_Annotations v) k) = v"
    by (simp add: with_annotations_def map_delete_def)
  ultimately show ?thesis using assms None by (simp add: annotations_delete_def)
next
  case (Some m)
  with assms obtain x f where x: "load_replica h a = Some x" "annotations_of x = Some m"
      and f: "load_map h m = Some f" "db_Annotations v = Some f"
    by (auto simp: holds_def load_map_iff dest: annotations_read(2))
  then have "annotations_delete a k h = Some (h[m := StringMapCell (f(k := None))])" by (simp add: annotations_delete_def)
  with holds_write [of h a tm v m "f(k := None)"] assms Some f(2) show ?thesis by (simp add: map_delete_def)
qed

text \<open>The bases of the patches.\<close>

lemma base_copy:
  assumes "replica_at h a = Some w"
  shows "\<exists>b t. LitestreamReplica_DeepCopy A (Some a) h = Some (Some b, h @ t)
    \<and> (\<forall>h'. (\<forall>c. length h \<le> c \<and> c < length (h @ t) \<longrightarrow> lookup_cell h' c = lookup_cell (h @ t) c)
        \<longrightarrow> replica_at h' b = Some w)"
  using deep_copy.kept [OF replica.new assms] by (fastforce simp: LitestreamReplica_DeepCopy_def ptr_copy_def)

lemma base_copy_restore:
  assumes "cell_read as_Restore read_restore h a = Some w"
  shows "\<exists>b t. LitestreamRestore_DeepCopy A (Some a) h = Some (Some b, h @ t)
    \<and> (\<forall>h'. (\<forall>c. length h \<le> c \<and> c < length (h @ t) \<longrightarrow> lookup_cell h' c = lookup_cell (h @ t) c)
        \<longrightarrow> cell_read as_Restore read_restore h' b = Some w)"
  using deep_copy.kept [OF restore.new assms] by (fastforce simp: LitestreamRestore_DeepCopy_def ptr_copy_def)

end

section \<open>The patches of a replica's annotations\<close>

text \<open>
  The statements of the controllers between the read and the patch, on the heap: the object is at
  \<open>a\<close>, the result is the base of the patch, nil when the code returns without a patch.
\<close>

definition pauseReplication_mem :: "api_machinery \<Rightarrow> addr \<Rightarrow> heap \<Rightarrow> (addr option \<times> heap) option" where
  "pauseReplication_mem A a h =
     Option.bind (annotations_get a AnnotationPause h) (\<lambda>v.
       if v = injectEnabled then Some (None, h)
       else
         Option.bind (LitestreamReplica_DeepCopy A (Some a) h) (\<lambda>(base, h).
         Option.bind (annotations_make a h) (\<lambda>h.
         Option.bind (annotations_put a AnnotationPause injectEnabled h) (\<lambda>h.
         Some (base, h)))))"

definition resumeReplication_mem :: "api_machinery \<Rightarrow> addr \<Rightarrow> addr \<Rightarrow> heap \<Rightarrow> (addr option \<times> heap) option" where
  "resumeReplication_mem A db latest h =
     Option.bind (annotations_get db AnnotationPause h) (\<lambda>v.
       if v \<noteq> injectEnabled then Some (None, h)
       else
         Option.bind (LitestreamReplica_DeepCopy A (Some latest) h) (\<lambda>(base, h).
         Option.bind (annotations_delete latest AnnotationPause h) (\<lambda>h.
         Some (base, h))))"

definition setSkipArchiveCheck_mem :: "api_machinery \<Rightarrow> bool \<Rightarrow> addr \<Rightarrow> heap \<Rightarrow> (addr option \<times> heap) option" where
  "setSkipArchiveCheck_mem A enable a h =
     Option.bind (annotations_get a AnnotationSkipArchiveCheck h) (\<lambda>v.
       if enable \<and> v = injectEnabled \<or> \<not> enable \<and> v \<noteq> injectEnabled then Some (None, h)
       else
         Option.bind (LitestreamReplica_DeepCopy A (Some a) h) (\<lambda>(base, h).
         Option.bind (annotations_make a h) (\<lambda>h.
         Option.bind
           (if enable then annotations_put a AnnotationSkipArchiveCheck injectEnabled h
            else annotations_delete a AnnotationSkipArchiveCheck h) (\<lambda>h.
         Some (base, h)))))"

definition clearSkipArchiveCheck_mem :: "api_machinery \<Rightarrow> addr \<Rightarrow> heap \<Rightarrow> (addr option \<times> heap) option" where
  "clearSkipArchiveCheck_mem A a h =
     Option.bind (annotations_get a AnnotationSkipArchiveCheck h) (\<lambda>v.
       if v \<noteq> injectEnabled then Some (None, h)
       else
         Option.bind (LitestreamReplica_DeepCopy A (Some a) h) (\<lambda>(base, h).
         Option.bind (annotations_delete a AnnotationSkipArchiveCheck h) (\<lambda>h.
         Some (base, h))))"

text \<open>
  What \<^verbatim>\<open>r.Patch(ctx, latest, patch)\<close> sends is read from the heap at the time of the call. \<open>sends\<close>: the
  code reaches the end without a panic, and sends the request the value-level program starts with.
\<close>

definition patch_request :: "heap \<Rightarrow> addr option \<Rightarrow> addr \<Rightarrow> api_req option" where
  "patch_request h base a =
     Option.bind base (\<lambda>b. Option.bind (replica_at h b) (\<lambda>old. Option.bind (replica_at h a) (\<lambda>new.
     Some (PatchReplica (snd old) (snd new)))))"

definition sends :: "'a prog \<Rightarrow> addr \<Rightarrow> (addr option \<times> heap) option \<Rightarrow> bool" where
  "sends p a m = (case m of
     None \<Rightarrow> False
   | Some (base, h) \<Rightarrow> (case p of
       Ret _ \<Rightarrow> base = None
     | Panic \<Rightarrow> False
     | Call q k \<Rightarrow> patch_request h base a = Some q))"

context api_copies
begin

lemma copy_then_delete:
  assumes "holds h a (tm, v) p"
  shows "\<exists>b h1 h2. LitestreamReplica_DeepCopy A (Some a) h = Some (Some b, h1) \<and> annotations_delete a k h1 = Some h2
    \<and> patch_request h2 (Some b) a = Some (PatchReplica v (with_annotations v (map_delete (db_Annotations v) k)))"
proof -
  obtain b t where b: "LitestreamReplica_DeepCopy A (Some a) h = Some (Some b, h @ t)"
    and base: "\<And>h'. (\<forall>c. length h \<le> c \<and> c < length (h @ t) \<longrightarrow> lookup_cell h' c = lookup_cell (h @ t) c)
        \<Longrightarrow> replica_at h' b = Some (tm, v)"
    using base_copy [OF holds_at [OF assms]] by blast
  obtain h2 where h2: "annotations_delete a k (h @ t) = Some h2"
      "holds h2 a (tm, with_annotations v (map_delete (db_Annotations v) k)) p"
      "\<forall>c. Some c \<noteq> p \<longrightarrow> lookup_cell h2 c = lookup_cell (h @ t) c"
    using holds_delete [OF holds_append [OF assms]] by blast
  have "lookup_cell h2 c = lookup_cell (h @ t) c" if "length h \<le> c" for c
    using h2(3) that holds_allocated(2) [of h a "(tm, v)" c] assms by (cases "p = Some c") auto
  then have "replica_at h2 b = Some (tm, v)" by (intro base) auto
  with b h2(1) holds_at [OF h2(2)] show ?thesis by (simp add: patch_request_def)
qed

lemma copy_then_make:
  assumes "holds h a (tm, v) p"
  shows "\<exists>b h1 h2 m. LitestreamReplica_DeepCopy A (Some a) h = Some (Some b, h1) \<and> annotations_make a h1 = Some h2
    \<and> holds h2 a (tm, with_annotations v (Some (map_make (db_Annotations v)))) (Some m)
    \<and> (\<forall>h'. (\<forall>c. c \<noteq> m \<longrightarrow> lookup_cell h' c = lookup_cell h2 c) \<longrightarrow> replica_at h' b = Some (tm, v))"
proof -
  obtain b t where b: "LitestreamReplica_DeepCopy A (Some a) h = Some (Some b, h @ t)"
    and base: "\<And>h'. (\<forall>c. length h \<le> c \<and> c < length (h @ t) \<longrightarrow> lookup_cell h' c = lookup_cell (h @ t) c)
        \<Longrightarrow> replica_at h' b = Some (tm, v)"
    using base_copy [OF holds_at [OF assms]] by blast
  obtain h2 m where h2: "annotations_make a (h @ t) = Some h2"
      "holds h2 a (tm, with_annotations v (Some (map_make (db_Annotations v)))) (Some m)"
      "p = Some m \<or> m = length (h @ t)"
      "\<forall>c<length (h @ t). c \<noteq> a \<longrightarrow> lookup_cell h2 c = lookup_cell (h @ t) c"
    using holds_make [OF holds_append [OF assms]] by blast
  have "a < length h" "m < length h \<or> length (h @ t) \<le> m"
    using holds_allocated [of h a "(tm, v)"] assms h2(3) by auto
  then have "replica_at h' b = Some (tm, v)" if "\<forall>c. c \<noteq> m \<longrightarrow> lookup_cell h' c = lookup_cell h2 c" for h'
    using that h2(4) by (intro base) auto
  with b h2(1,2) show ?thesis by blast
qed

lemma with_annotations_twice [simp]:
  "with_annotations (with_annotations v an) an' = with_annotations v an'"
  "db_Annotations (with_annotations v an) = an"
  by (simp_all add: with_annotations_def)

lemma map_make_again [simp]: "map_set (Some (map_make m)) k u = map_set m k u"
  by (simp add: map_set_def map_make_def)

lemma copy_make_put:
  assumes "holds h a (tm, v) p"
  shows "\<exists>b h1 h2 h3. LitestreamReplica_DeepCopy A (Some a) h = Some (Some b, h1) \<and> annotations_make a h1 = Some h2
    \<and> annotations_put a k u h2 = Some h3
    \<and> patch_request h3 (Some b) a = Some (PatchReplica v (with_annotations v (map_set (db_Annotations v) k u)))"
proof -
  from copy_then_make [OF assms] obtain b h1 h2 m where
    b: "LitestreamReplica_DeepCopy A (Some a) h = Some (Some b, h1)" "annotations_make a h1 = Some h2"
    and h2: "holds h2 a (tm, with_annotations v (Some (map_make (db_Annotations v)))) (Some m)"
    and base: "\<And>h'. \<forall>c. c \<noteq> m \<longrightarrow> lookup_cell h' c = lookup_cell h2 c \<Longrightarrow> replica_at h' b = Some (tm, v)" by blast
  from holds_put [OF h2, of k u] obtain h3 where h3: "annotations_put a k u h2 = Some h3"
    "holds h3 a (tm, with_annotations v (map_set (db_Annotations v) k u)) (Some m)"
    "\<forall>c. c \<noteq> m \<longrightarrow> lookup_cell h3 c = lookup_cell h2 c" by auto
  with b base [OF h3(3)] holds_at [OF h3(2)] show ?thesis by (simp add: patch_request_def)
qed

lemma copy_make_delete:
  assumes "holds h a (tm, v) p"
  shows "\<exists>b h1 h2 h3. LitestreamReplica_DeepCopy A (Some a) h = Some (Some b, h1) \<and> annotations_make a h1 = Some h2
    \<and> annotations_delete a k h2 = Some h3
    \<and> patch_request h3 (Some b) a
        = Some (PatchReplica v (with_annotations v (map_delete (Some (map_make (db_Annotations v))) k)))"
proof -
  from copy_then_make [OF assms] obtain b h1 h2 m where
    b: "LitestreamReplica_DeepCopy A (Some a) h = Some (Some b, h1)" "annotations_make a h1 = Some h2"
    and h2: "holds h2 a (tm, with_annotations v (Some (map_make (db_Annotations v)))) (Some m)"
    and base: "\<And>h'. \<forall>c. c \<noteq> m \<longrightarrow> lookup_cell h' c = lookup_cell h2 c \<Longrightarrow> replica_at h' b = Some (tm, v)" by blast
  from holds_delete [OF h2, of k] obtain h3 where h3: "annotations_delete a k h2 = Some h3"
    "holds h3 a (tm, with_annotations v (map_delete (Some (map_make (db_Annotations v))) k)) (Some m)"
    "\<forall>c. c \<noteq> m \<longrightarrow> lookup_cell h3 c = lookup_cell h2 c" by auto
  with b base [OF h3(3)] holds_at [OF h3(2)] show ?thesis by (simp add: patch_request_def)
qed

lemma pause_sends:
  assumes "holds h a (tm, v) p"
  shows "sends (pauseReplication v) a (pauseReplication_mem A a h)"
  using copy_make_put [OF assms, of AnnotationPause injectEnabled]
  by (auto simp: pauseReplication_mem_def holds_get [OF assms] sends_def pauseReplication_def Let_def)

lemma resume_sends:
  assumes "holds h a (tm, v) p" "holds h d (tm', v') p'"
  shows "sends (answered (resumeReplication v') (RReplica v)) a (resumeReplication_mem A d a h)"
  using copy_then_delete [OF assms(1), of AnnotationPause]
  by (auto simp: resumeReplication_mem_def holds_get [OF assms(2)] sends_def resumeReplication_def answered_def)

lemma set_skip_sends:
  assumes "holds h a (tm, v) p"
  shows "sends (answered (setSkipArchiveCheck v' e) (RReplica v)) a (setSkipArchiveCheck_mem A e a h)"
  using copy_make_put [OF assms, of AnnotationSkipArchiveCheck injectEnabled]
    copy_make_delete [OF assms, of AnnotationSkipArchiveCheck]
  by (auto simp: setSkipArchiveCheck_mem_def holds_get [OF assms] sends_def setSkipArchiveCheck_def answered_def
      Let_def)

lemma clear_skip_sends:
  assumes "holds h a (tm, v) p"
  shows "sends (answered (clearSkipArchiveCheck v') (RReplica v)) a (clearSkipArchiveCheck_mem A a h)"
  using copy_then_delete [OF assms, of AnnotationSkipArchiveCheck]
  by (auto simp: clearSkipArchiveCheck_mem_def holds_get [OF assms] sends_def clearSkipArchiveCheck_def
      answered_def with_annotations_def)

end

section \<open>The status of a restore\<close>

definition load_restore :: "heap \<Rightarrow> addr \<Rightarrow> gLitestreamRestore option" where
  "load_restore h a = Option.bind (lookup_cell h a) as_Restore"

abbreviation restore_at :: "heap \<Rightarrow> addr \<Rightarrow> (TypeMeta \<times> LitestreamRestore) option" where
  "restore_at \<equiv> cell_read as_Restore read_restore"

text \<open>The replica count and the times are pointers, stored as they are: the object shares them with the caller.\<close>

definition assign_status ::
  "string \<Rightarrow> string \<Rightarrow> string \<Rightarrow> addr option \<Rightarrow> addr option \<Rightarrow> addr option
   \<Rightarrow> gLitestreamRestoreStatus \<Rightarrow> gLitestreamRestoreStatus"
where
  "assign_status phase jobName message originalReplicas startTime completionTime s =
     (let s = s\<lparr>grst_Phase := phase\<rparr>;
          s = (if jobName \<noteq> [] then s\<lparr>grst_JobName := jobName\<rparr> else s);
          s = s\<lparr>grst_Message := message\<rparr>;
          s = (if originalReplicas \<noteq> None \<and> grst_OriginalReplicas s = None
               then s\<lparr>grst_OriginalReplicas := originalReplicas\<rparr> else s);
          s = (if startTime \<noteq> None \<and> grst_StartTime s = None then s\<lparr>grst_StartTime := startTime\<rparr> else s)
      in if completionTime \<noteq> None then s\<lparr>grst_CompletionTime := completionTime\<rparr> else s)"

definition setStatus_mem ::
  "api_machinery \<Rightarrow> addr \<Rightarrow> string \<Rightarrow> string \<Rightarrow> string \<Rightarrow> addr option \<Rightarrow> addr option \<Rightarrow> addr option \<Rightarrow> heap
   \<Rightarrow> (addr option \<times> heap) option"
where
  "setStatus_mem A restore phase jobName message originalReplicas startTime completionTime h =
     Option.bind (LitestreamRestore_DeepCopy A (Some restore) h) (\<lambda>(base, h).
     Option.bind (load_restore h restore) (\<lambda>x.
     Some (base, h[restore := RestoreCell (x\<lparr>gres_Status :=
       assign_status phase jobName message originalReplicas startTime completionTime (gres_Status x)\<rparr>)])))"

definition status_request :: "heap \<Rightarrow> addr option \<Rightarrow> addr \<Rightarrow> api_req option" where
  "status_request h base a =
     Option.bind base (\<lambda>b. Option.bind (restore_at h b) (\<lambda>old. Option.bind (restore_at h a) (\<lambda>new.
     Some (PatchRestoreStatus (snd old) (snd new)))))"

definition sends_status :: "'a prog \<Rightarrow> addr \<Rightarrow> (addr option \<times> heap) option \<Rightarrow> bool" where
  "sends_status p a m = (case m of
     None \<Rightarrow> False
   | Some (base, h) \<Rightarrow> (case p of Call q k \<Rightarrow> status_request h base a = Some q | _ \<Rightarrow> False))"

lemma flat_update:
  "ptr_read (flat_read unwrap) h p = Some v \<Longrightarrow> lookup_cell h a = Some c \<Longrightarrow> unwrap c = None
   \<Longrightarrow> ptr_read (flat_read unwrap) (h[a := c']) p = Some v"
  by (cases "p = Some a") (auto simp: ptr_read_def cell_read_def plain_read_def Option.bind_eq_Some_conv
      split: option.splits)

lemma flat_append:
  "ptr_read (flat_read unwrap) h p = Some v \<Longrightarrow> ptr_read (flat_read unwrap) (h @ t) p = Some v"
  by (auto simp: ptr_read_def cell_read_def plain_read_def Option.bind_eq_Some_conv lookup_allocated
      split: option.splits)

lemma flat_nil: "ptr_read (flat_read unwrap) h p = Some v \<Longrightarrow> p = None \<longleftrightarrow> v = None"
  by (auto simp: ptr_read_def split: option.splits)

lemma ptr_read_nil [simp]: "ptr_read read h None = Some None"
  by (simp add: ptr_read_def)

lemma assign_status_fields [simp]:
  "grst_Phase (assign_status ph j m op sp cp s) = ph"
  "grst_JobName (assign_status ph j m op sp cp s) = (if j \<noteq> [] then j else grst_JobName s)"
  "grst_Message (assign_status ph j m op sp cp s) = m"
  "grst_OriginalReplicas (assign_status ph j m op sp cp s)
     = (if op \<noteq> None \<and> grst_OriginalReplicas s = None then op else grst_OriginalReplicas s)"
  "grst_StartTime (assign_status ph j m op sp cp s)
     = (if sp \<noteq> None \<and> grst_StartTime s = None then sp else grst_StartTime s)"
  "grst_CompletionTime (assign_status ph j m op sp cp s) = (if cp \<noteq> None then cp else grst_CompletionTime s)"
  by (auto simp: assign_status_def Let_def)

lemma write_status:
  assumes a: "lookup_cell h a = Some (RestoreCell x)" and x: "read_restore h x = Some (tm, v)"
    and args: "ptr_read (flat_read as_Int32) h op = Some o'" "ptr_read (flat_read as_Time) h sp = Some s'"
      "ptr_read (flat_read as_Time) h cp = Some c'"
  fixes phase jobName message :: string
  defines "st \<equiv> assign_status phase jobName message op sp cp (gres_Status x)"
  shows "restore_at (h[a := RestoreCell (x\<lparr>gres_Status := st\<rparr>)]) a
       = Some (tm, apply_status v phase jobName message o' s' c')"
proof -
  let ?h = "h[a := RestoreCell (x\<lparr>gres_Status := st\<rparr>)]"
  have same: "ptr_read (flat_read as_StringMap) ?h p = Some m" if "ptr_read (flat_read as_StringMap) h p = Some m" for p m
    by (rule flat_update [OF that a]) (simp add: cell_views)
  have same': "ptr_read (flat_read as_Int64) ?h p = Some m" if "ptr_read (flat_read as_Int64) h p = Some m" for p m
    by (rule flat_update [OF that a]) (simp add: cell_views)
  have same32: "ptr_read (flat_read as_Int32) ?h p = Some m" if "ptr_read (flat_read as_Int32) h p = Some m" for p m
    by (rule flat_update [OF that a]) (simp add: cell_views)
  have samet: "ptr_read (flat_read as_Time) ?h p = Some m" if "ptr_read (flat_read as_Time) h p = Some m" for p m
    by (rule flat_update [OF that a]) (simp add: cell_views)
  obtain meta spec ost where v: "read_meta h (gres_Meta x) = Some meta" "read_restore_spec h (gres_Spec x) = Some spec"
      "read_restore_status h (gres_Status x) = Some ost" "tm = gres_TypeMeta x"
      "v = \<lparr>res_Meta = meta, res_Spec = spec, res_Status = ost\<rparr>"
    using x by (auto simp: read_restore_def Option.bind_eq_Some_conv)
  have "read_meta ?h (gres_Meta x) = Some meta" "read_restore_spec ?h (gres_Spec x) = Some spec"
    using v(1,2) same same' by (auto simp: read_meta_def read_restore_spec_def Option.bind_eq_Some_conv)
  moreover obtain r0 s0 c0 where old: "ptr_read (flat_read as_Int32) h (grst_OriginalReplicas (gres_Status x)) = Some r0"
      "ptr_read (flat_read as_Time) h (grst_StartTime (gres_Status x)) = Some s0"
      "ptr_read (flat_read as_Time) h (grst_CompletionTime (gres_Status x)) = Some c0"
      "rst_OriginalReplicas ost = r0" "rst_StartTime ost = s0" "rst_CompletionTime ost = c0"
      "rst_JobName ost = grst_JobName (gres_Status x)"
    using v(3) by (auto simp: read_restore_status_def Option.bind_eq_Some_conv)
  then have "ptr_read (flat_read as_Int32) ?h (grst_OriginalReplicas st) = Some (if o' \<noteq> None \<and> r0 = None then o' else r0)"
    "ptr_read (flat_read as_Time) ?h (grst_StartTime st) = Some (if s' \<noteq> None \<and> s0 = None then s' else s0)"
    "ptr_read (flat_read as_Time) ?h (grst_CompletionTime st) = Some (if c' \<noteq> None then c' else c0)"
    using args same32 samet flat_nil [OF args(1)] flat_nil [OF args(2)] flat_nil [OF args(3)]
      flat_nil [OF old(1)] flat_nil [OF old(2)]
    by (simp_all add: st_def)
  then have "read_restore_status ?h st = Some (res_Status (apply_status v phase jobName message o' s' c'))"
    by (simp add: read_restore_status_def apply_status_def v(5) old(4-7) st_def)
  ultimately show ?thesis
    using lookup_allocated [OF a]
    by (simp add: cell_read_def as_Restore_def read_restore_def v(4,5) apply_status_def)
qed

context api_copies
begin

lemma status_sends:
  assumes r: "restore_at h a = Some (tm, v)"
    and args: "ptr_read (flat_read as_Int32) h op = Some o'" "ptr_read (flat_read as_Time) h sp = Some s'"
      "ptr_read (flat_read as_Time) h cp = Some c'"
  shows "sends_status (setStatus v phase jobName message o' s' c') a
      (setStatus_mem A a phase jobName message op sp cp h)"
proof -
  obtain b t where b: "LitestreamRestore_DeepCopy A (Some a) h = Some (Some b, h @ t)"
    and base: "\<And>h'. (\<forall>c. length h \<le> c \<and> c < length (h @ t) \<longrightarrow> lookup_cell h' c = lookup_cell (h @ t) c)
        \<Longrightarrow> restore_at h' b = Some (tm, v)"
    using base_copy_restore [OF r] by blast
  obtain x where x: "lookup_cell h a = Some (RestoreCell x)" "read_restore h x = Some (tm, v)"
    using r by (auto simp: cell_read_def view_iff Option.bind_eq_Some_conv)
  then have a: "a < length h" "lookup_cell (h @ t) a = Some (RestoreCell x)" by (simp_all add: lookup_allocated)
  have kept: "restore_at ((h @ t)[a := c]) b = Some (tm, v)" for c using a(1) by (intro base) auto
  show ?thesis
    unfolding sends_status_def setStatus_mem_def b setStatus_def
    using write_status [where phase = phase and jobName = jobName and message = message, OF a(2)
        restore.read_append(1) [OF x(2)] flat_append [OF args(1)] flat_append [OF args(2)] flat_append [OF args(3)]]
      kept
    by (auto simp: a load_restore_def as_Restore_def status_request_def)
qed

end

section \<open>Properties\<close>

text \<open>
  C13. A deep copy of a LitestreamReplica or a LitestreamRestore, or of a list of them, from a pointer to
  a well-formed object (or nil): it succeeds, leaves all existing memory as it was, reads the same value
  through the new pointer as through the old one, and shares no cell with the original, however deeply
  nested: annotations, S3 destination, resources, user and group, times, conditions and items.
\<close>

theorem deep_copies_apart:
  assumes "api_copies A"
  shows
    "(read_at as_Replica read_replica h p = Some v
      \<longrightarrow> copied_apart (LitestreamReplica_DeepCopy A) (read_at as_Replica read_replica)
            (refs_at as_Replica replica_refs) h p v)
   \<and> (read_at as_Restore read_restore h p = Some v'
      \<longrightarrow> copied_apart (LitestreamRestore_DeepCopy A) (read_at as_Restore read_restore)
            (refs_at as_Restore restore_refs) h p v')
   \<and> (read_at as_ReplicaList read_replica_list h p = Some w
      \<longrightarrow> copied_apart (LitestreamReplicaList_DeepCopy A) (read_at as_ReplicaList read_replica_list)
            (refs_at as_ReplicaList replica_list_refs) h p w)
   \<and> (read_at as_RestoreList read_restore_list h p = Some w'
      \<longrightarrow> copied_apart (LitestreamRestoreList_DeepCopy A) (read_at as_RestoreList read_restore_list)
            (refs_at as_RestoreList restore_list_refs) h p w')"
  using assms
  by (blast intro: deep_copy.apart api_copies.replica_DeepCopy api_copies.restore_DeepCopy
      api_copies.replica_list_DeepCopy api_copies.restore_list_DeepCopy)

text \<open>
  C9. Keeping a deep copy as the base of a patch and changing the object in place sends what the
  value-level model sends: when the code pauses or resumes a replica, sets or clears its
  skip-archive-check annotation, or writes the status of a restore, the base still reads as the
  object did before the change and the object as the changed value, also when the annotations were a
  nil map, which would panic on a write. The annotations and the labels of the object are different
  maps, as in every decoded object.
\<close>

theorem patches_refine:
  assumes "api_copies A"
    and "replica_at h a = Some (tm, v)" "own_annotations h a"
    and "replica_at h d = Some (tm', v')" "own_annotations h d"
    and "restore_at h r = Some (tm'', x)"
    and "ptr_read (flat_read as_Int32) h op = Some o'" "ptr_read (flat_read as_Time) h sp = Some s'"
      "ptr_read (flat_read as_Time) h cp = Some c'"
  shows "sends (pauseReplication v) a (pauseReplication_mem A a h)
    \<and> sends (answered (resumeReplication v') (RReplica v)) a (resumeReplication_mem A d a h)
    \<and> sends (answered (setSkipArchiveCheck v' e) (RReplica v)) a (setSkipArchiveCheck_mem A e a h)
    \<and> sends (answered (clearSkipArchiveCheck v') (RReplica v)) a (clearSkipArchiveCheck_mem A a h)
    \<and> sends_status (setStatus x phase jobName message o' s' c') r
        (setStatus_mem A r phase jobName message op sp cp h)"
proof -
  obtain p p' where "holds h a (tm, v) p" "holds h d (tm', v') p'"
    using at_holds [OF assms(2,3)] at_holds [OF assms(4,5)] by blast
  with assms show ?thesis
    by (intro conjI api_copies.pause_sends api_copies.resume_sends api_copies.set_skip_sends
        api_copies.clear_skip_sends api_copies.status_sends)
qed

section \<open>Instances\<close>

text \<open>
  Copies with the contract of the API machinery, and a heap with a replica whose annotations are nil, a
  paused one, a restore, and a list of the two replicas.
\<close>

definition sample_machinery :: api_machinery where
  "sample_machinery = \<lparr>
     ObjectMeta_DeepCopyInto = (\<lambda>x h.
       Option.bind (ptr_copy (flat_copy StringMapCell as_StringMap) (gom_Annotations x) h) (\<lambda>(an, h).
       Option.bind (ptr_copy (flat_copy StringMapCell as_StringMap) (gom_Labels x) h) (\<lambda>(ls, h).
       Some (x\<lparr>gom_Annotations := an, gom_Labels := ls\<rparr>, h)))),
     ListMeta_DeepCopyInto = (\<lambda>x h.
       Option.bind (ptr_copy (flat_copy Int64Cell as_Int64) (glm_RemainingItemCount x) h) (\<lambda>(n, h).
       Some (x\<lparr>glm_RemainingItemCount := n\<rparr>, h))),
     ResourceRequirements_DeepCopyInto = (\<lambda>x h.
       Option.bind (ptr_copy (flat_copy QuantityMapCell as_QuantityMap) (grr_Limits x) h) (\<lambda>(ls, h).
       Option.bind (ptr_copy (flat_copy QuantityMapCell as_QuantityMap) (grr_Requests x) h) (\<lambda>(rs, h).
       Some (x\<lparr>grr_Limits := ls, grr_Requests := rs\<rparr>, h)))),
     Time_DeepCopy = flat_copy TimeCell as_Time,
     Condition_DeepCopyInto = plain_copy\<rparr>"

interpretation sample: api_copies sample_machinery
proof (rule api_copies.intro)
  show "deep_copy (ObjectMeta_DeepCopyInto sample_machinery) read_meta meta_refs"
    unfolding sample_machinery_def api_machinery.simps read_meta_def [abs_def] meta_refs_def [abs_def]
    by (rule struct2_copy [OF string_map.new [THEN deep_copy.ptr] string_map.new [THEN deep_copy.ptr]]) simp_all
  show "deep_copy (ListMeta_DeepCopyInto sample_machinery) read_list_meta list_meta_refs"
    unfolding sample_machinery_def api_machinery.simps read_list_meta_def [abs_def] list_meta_refs_def [abs_def]
    by (rule struct1_copy [OF int64.new [THEN deep_copy.ptr]]) simp_all
  show "deep_copy (ResourceRequirements_DeepCopyInto sample_machinery) read_resources resources_refs"
    unfolding sample_machinery_def api_machinery.simps read_resources_def [abs_def] resources_refs_def [abs_def]
    by (rule struct2_copy [OF quantity_map.new [THEN deep_copy.ptr] quantity_map.new [THEN deep_copy.ptr]]) simp_all
  show "deep_copy (Time_DeepCopy sample_machinery) (flat_read as_Time) (flat_refs as_Time)"
    by (simp add: sample_machinery_def time_cell.new)
  show "deep_copy (Condition_DeepCopyInto sample_machinery) plain_read no_refs"
    by (simp add: sample_machinery_def plain.deep_copy_axioms)
qed

definition sample_type :: "string \<Rightarrow> TypeMeta" where
  "sample_type kind = \<lparr>tm_Kind = kind, tm_APIVersion = ''litestream.io/v1''\<rparr>"

definition stored_replica :: "addr option \<Rightarrow> gLitestreamReplica" where
  "stored_replica an = \<lparr>gdb_TypeMeta = sample_type ''LitestreamReplica'',
     gdb_Meta = \<lparr>gom_Name = ''paperless-db'', gom_Namespace = ''paperless'', gom_Annotations = an, gom_Labels = Some 7,
       gom_Generation = 1\<rparr>,
     gdb_Spec = \<lparr>grp_DatabaseName = ''paperless'', grp_DatabasePath = ''/data'', grp_TargetDeployment = ''paperless'',
       grp_TargetStatefulSet = [], grp_Image = [],
       grp_Backup = \<lparr>gbk_Enabled = True, gbk_Destination = \<lparr>gdest_S3 = Some 3\<rparr>,
         gbk_Retention = \<lparr>ret_Duration = ''24h''\<rparr>, gbk_SyncInterval = [], gbk_LogLevel = [], gbk_Resources = None,
         gbk_AutoRestore = False\<rparr>,
       grp_InitSQL = [], grp_InitImage = [], grp_RunAsUser = Some 4, grp_RunAsGroup = Some 4\<rparr>,
     gdb_Status = \<lparr>gst_Phase = PhaseReady, gst_Ready = True, gst_BackupHealthy = True, gst_LastBackup = Some 6,
       gst_ReplicationLag = [], gst_InitSQLHash = [], gst_ObservedGeneration = 1, gst_Conditions = None\<rparr>\<rparr>"

definition stored_restore :: gLitestreamRestore where
  "stored_restore = \<lparr>gres_TypeMeta = sample_type ''LitestreamRestore'',
     gres_Meta = \<lparr>gom_Name = ''recover'', gom_Namespace = ''paperless'', gom_Annotations = None, gom_Labels = None,
       gom_Generation = 1\<rparr>,
     gres_Spec = \<lparr>gre_SourceRef = ''paperless-db'', gre_TargetPVC = ''paperless-data'',
       gre_TargetPath = ''/data/paperless.db'', gre_Timestamp = [], gre_Image = [], gre_Force = True,
       gre_RunAsUser = None, gre_RunAsGroup = None\<rparr>,
     gres_Status = \<lparr>grst_Phase = RestorePhaseRunning, grst_JobName = ''recover-restore'',
       grst_OriginalReplicas = Some 5, grst_StartTime = Some 6, grst_CompletionTime = None, grst_Message = []\<rparr>\<rparr>"

definition sample_heap :: heap where
  "sample_heap = [ReplicaCell (stored_replica None), ReplicaCell (stored_replica (Some 2)),
     StringMapCell [AnnotationPause \<mapsto> injectEnabled],
     S3Cell \<lparr>s3_Endpoint = [], s3_Bucket = ''backups'', s3_Path = ''db'', s3_SecretRef = ''s3''\<rparr>,
     Int64Cell 1000, Int32Cell 1, TimeCell 3, StringMapCell [''app'' \<mapsto> ''paperless''],
     RestoreCell stored_restore, ReplicasCell [stored_replica None, stored_replica (Some 2)],
     ReplicaListCell \<lparr>gdbl_TypeMeta = sample_type ''LitestreamReplicaList'',
       gdbl_ListMeta = \<lparr>glm_ResourceVersion = ''7'', glm_Continue = [], glm_RemainingItemCount = None\<rparr>,
       gdbl_Items = Some 9\<rparr>]"

lemmas heap_eval = sample_heap_def stored_replica_def stored_restore_def read_replica_def read_meta_def
  read_replica_spec_def read_backup_def read_destination_def read_resources_def read_replica_status_def
  read_restore_def read_restore_spec_def read_restore_status_def read_replica_list_def read_list_meta_def
  ptr_read_def cell_read_def plain_read_def lookup_cell_def cell_views

lemma sample_reads:
  "\<exists>v. replica_at sample_heap 0 = Some (sample_type ''LitestreamReplica'', v) \<and> db_Annotations v = None"
  "\<exists>v. replica_at sample_heap 1 = Some (sample_type ''LitestreamReplica'', v)
     \<and> db_Annotations v = Some [AnnotationPause \<mapsto> injectEnabled]"
  "\<exists>x. restore_at sample_heap 8 = Some (sample_type ''LitestreamRestore'', x) \<and> res_Phase x = RestorePhaseRunning"
  "\<exists>w. read_at as_ReplicaList read_replica_list sample_heap (Some 10) = Some (Some w) \<and> length (dbl_Items w) = 2"
  by (simp_all add: heap_eval)

lemma sample_own: "own_annotations sample_heap 0" "own_annotations sample_heap 1"
  by (simp_all add: own_annotations_def load_replica_def heap_eval)

theorem deep_copies_apart_witness:
  "\<exists>w. length (dbl_Items w) = 2
     \<and> copied_apart (LitestreamReplicaList_DeepCopy sample_machinery) (read_at as_ReplicaList read_replica_list)
         (refs_at as_ReplicaList replica_list_refs) sample_heap (Some 10) (Some w)"
  using sample_reads(4) deep_copies_apart [OF sample.api_copies_axioms, of sample_heap "Some 10"] by blast

theorem patches_refine_witness:
  "\<exists>v v'. replica_at sample_heap 0 = Some (sample_type ''LitestreamReplica'', v) \<and> db_Annotations v = None
     \<and> sends (pauseReplication v) 0 (pauseReplication_mem sample_machinery 0 sample_heap)
     \<and> replica_at sample_heap 1 = Some (sample_type ''LitestreamReplica'', v')
     \<and> sends (answered (resumeReplication v') (RReplica v)) 0 (resumeReplication_mem sample_machinery 1 0 sample_heap)"
proof -
  obtain v v' x where at: "replica_at sample_heap 0 = Some (sample_type ''LitestreamReplica'', v)" "db_Annotations v = None"
      "replica_at sample_heap 1 = Some (sample_type ''LitestreamReplica'', v')"
      "restore_at sample_heap 8 = Some (sample_type ''LitestreamRestore'', x)"
    using sample_reads by blast
  have nil: "ptr_read (flat_read as_Int32) sample_heap None = Some None" "ptr_read (flat_read as_Time) sample_heap None = Some None"
    by simp_all
  from patches_refine [OF sample.api_copies_axioms at(1) sample_own(1) at(3) sample_own(2) at(4) nil(1) nil(2) nil(2),
      of True RestorePhaseFailed "[]" "''gone''"] at
  show ?thesis by blast
qed

end
