(* ===== verification/Watches.thy ===== *)
theory Watches
  imports Replica_Trace Restore_Trace
begin

text \<open>
  How changes in the cluster come back to the controllers: their \<^verbatim>\<open>SetupWithManager\<close> functions. What
  they pass to the builder is a record; which requests the manager queues for the change of an object
  belongs to the controller runtime and is the parameter \<open>enqueue\<close>, with its documented behaviour as the
  locale \<open>controller_runtime\<close>.

  The ConfigMaps of a replica and the Jobs of a restore are owned by the resource that is reconciled
  and watched, so that their changes queue this resource again. The ConfigMap of a restore is owned
  but not watched by the restore controller, and the workload is not watched at all: the controllers
  see their changes only because they ask to run again after an interval.
\<close>

section \<open>Objects and registrations\<close>

datatype client_Object =
  LitestreamReplicaOb LitestreamReplica
| LitestreamRestoreOb LitestreamRestore
| ConfigMapOb ConfigMap
| PodOb Pod
| JobOb Job
| DeploymentOb Deployment
| StatefulSetOb StatefulSet

datatype kind = KLitestreamReplica | KLitestreamRestore | KConfigMap | KPod | KJob | KDeployment | KStatefulSet

fun kind_of :: "client_Object \<Rightarrow> kind" where
  "kind_of (LitestreamReplicaOb x) = KLitestreamReplica"
| "kind_of (LitestreamRestoreOb x) = KLitestreamRestore"
| "kind_of (ConfigMapOb x) = KConfigMap"
| "kind_of (PodOb x) = KPod"
| "kind_of (JobOb x) = KJob"
| "kind_of (DeploymentOb x) = KDeployment"
| "kind_of (StatefulSetOb x) = KStatefulSet"

fun meta_of :: "client_Object \<Rightarrow> ObjectMeta" where
  "meta_of (LitestreamReplicaOb x) = db_Meta x"
| "meta_of (LitestreamRestoreOb x) = res_Meta x"
| "meta_of (ConfigMapOb x) = cm_Meta x"
| "meta_of (PodOb x) = pod_Meta x"
| "meta_of (JobOb x) = job_Meta x"
| "meta_of (DeploymentOb x) = dep_Meta x"
| "meta_of (StatefulSetOb x) = ss_Meta x"

definition key_of :: "ObjectMeta \<Rightarrow> NamespacedName" where
  "key_of m = \<lparr>nn_Namespace = om_Namespace m, nn_Name = om_Name m\<rparr>"

text \<open>A changed object with its controller owner reference, the kind and name of an object of its namespace.\<close>

record changed =
  ch_Object :: client_Object
  ch_Controller :: "(kind \<times> string) option"

text \<open>\<^verbatim>\<open>ctrl.NewControllerManagedBy(mgr)\<close> and the calls on it.\<close>

record builder =
  b_For :: kind
  b_Owns :: "kind list"
  b_Watches :: "(kind \<times> (client_Object \<Rightarrow> NamespacedName list)) list"
  b_Named :: string

text \<open>The type assertion of the map function: an object that is not a pod has no requests.\<close>

definition map_pod :: "client_Object \<Rightarrow> NamespacedName list" where
  "map_pod ob = (case ob of PodOb pod \<Rightarrow> podToLitestreamReplica pod | _ \<Rightarrow> [])"

definition replica_SetupWithManager :: builder where
  "replica_SetupWithManager = \<lparr>b_For = KLitestreamReplica, b_Owns = [KConfigMap],
     b_Watches = [(KPod, map_pod)], b_Named = ''litestreamreplica''\<rparr>"

definition restore_SetupWithManager :: builder where
  "restore_SetupWithManager = \<lparr>b_For = KLitestreamRestore, b_Owns = [KJob], b_Watches = [],
     b_Named = ''litestreamrestore''\<rparr>"

locale controller_runtime =
  fixes enqueue :: "builder \<Rightarrow> changed \<Rightarrow> NamespacedName list"
  assumes for_object: "kind_of (ch_Object c) = b_For b \<Longrightarrow> key_of (meta_of (ch_Object c)) \<in> set (enqueue b c)"
    and for_owner: "kind_of (ch_Object c) \<in> set (b_Owns b) \<Longrightarrow> ch_Controller c = Some (b_For b, n)
      \<Longrightarrow> \<lparr>nn_Namespace = om_Namespace (meta_of (ch_Object c)), nn_Name = n\<rparr> \<in> set (enqueue b c)"
    and for_watch: "(kind_of (ch_Object c), f) \<in> set (b_Watches b) \<Longrightarrow> set (f (ch_Object c)) \<subseteq> set (enqueue b c)"
    and for_others: "kind_of (ch_Object c) \<noteq> b_For b \<Longrightarrow> kind_of (ch_Object c) \<notin> set (b_Owns b)
      \<Longrightarrow> kind_of (ch_Object c) \<notin> fst ` set (b_Watches b) \<Longrightarrow> enqueue b c = []"
    and for_other_owner: "kind_of (ch_Object c) \<noteq> b_For b \<Longrightarrow> (\<forall>n. ch_Controller c \<noteq> Some (b_For b, n))
      \<Longrightarrow> kind_of (ch_Object c) \<notin> fst ` set (b_Watches b) \<Longrightarrow> enqueue b c = []"

text \<open>The handlers of the three registrations, one after the other.\<close>

fun enqueue_watches :: "(kind \<times> (client_Object \<Rightarrow> NamespacedName list)) list \<Rightarrow> client_Object \<Rightarrow> NamespacedName list"
where
  "enqueue_watches [] ob = []"
| "enqueue_watches ((k, f) # ws) ob = (if k = kind_of ob then f ob else []) @ enqueue_watches ws ob"

lemma enqueue_watches_mem: "(kind_of ob, f) \<in> set ws \<Longrightarrow> set (f ob) \<subseteq> set (enqueue_watches ws ob)"
  by (induction ws) auto

lemma enqueue_watches_other: "kind_of ob \<notin> fst ` set ws \<Longrightarrow> enqueue_watches ws ob = []"
  by (induction ws) auto

fun enqueue_owner :: "kind \<Rightarrow> string \<Rightarrow> (kind \<times> string) option \<Rightarrow> NamespacedName list" where
  "enqueue_owner k ns None = []"
| "enqueue_owner k ns (Some (k', n)) = (if k' = k then [\<lparr>nn_Namespace = ns, nn_Name = n\<rparr>] else [])"

lemma enqueue_owner_other: "\<forall>n. o' \<noteq> Some (k, n) \<Longrightarrow> enqueue_owner k ns o' = []"
  by (cases o') auto

definition enqueue_all :: "builder \<Rightarrow> changed \<Rightarrow> NamespacedName list" where
  "enqueue_all b c =
     (let ob = ch_Object c in
      (if kind_of ob = b_For b then [key_of (meta_of ob)] else [])
      @ (if kind_of ob \<in> set (b_Owns b)
         then enqueue_owner (b_For b) (om_Namespace (meta_of ob)) (ch_Controller c) else [])
      @ enqueue_watches (b_Watches b) ob)"

interpretation all_handlers: controller_runtime enqueue_all
  by unfold_locales
    (use enqueue_watches_mem in \<open>auto simp: enqueue_all_def Let_def enqueue_watches_other enqueue_owner_other\<close>)

section \<open>What a reconciliation owns\<close>

text \<open>The owner that \<^verbatim>\<open>SetControllerReference\<close> records.\<close>

fun reference_to :: "obj \<Rightarrow> kind \<times> string" where
  "reference_to (ReplicaObj db) = (KLitestreamReplica, db_Name db)"
| "reference_to (RestoreObj x) = (KLitestreamRestore, res_Name x)"

fun config_owned :: "LitestreamReplica \<Rightarrow> api_req \<Rightarrow> bool" where
  "config_owned db (CreateOrUpdateConfigMap nn m ow) = (ow = ReplicaObj db \<and> nn_Namespace nn = db_Namespace db)"
| "config_owned db _ = True"

lemma config_owned_query [simp]: "config_owned db (target_query db')"
  by (simp add: target_query_def)

lemma config_owned_calls [simp]:
  "all_calls (config_owned db) (patch_replica_status b n)"
  "all_calls (config_owned db) (clearSkipArchiveCheck db')"
  "all_calls (config_owned db) (patch_status_err b n)"
  "all_calls (config_owned db) (litestreamContainerState db' wt)"
  "all_calls (config_owned db) (archiveCheckState db' wt)"
  "all_calls (config_owned db) (reconcileLitestreamConfig db)"
  "all_calls (config_owned db) (reconcileInitSQLConfig M db)"
  by (auto simp: clearSkipArchiveCheck_def patch_status_err_def patch_replica_status_def litestreamContainerState_def
      archiveCheckState_def reconcileLitestreamConfig_def reconcileInitSQLConfig_def Let_def
      split: sum.splits option.splits)

lemma config_owned_template [simp]: "all_calls (config_owned db) (patchWorkloadPodTemplate wt an lb)"
  by (auto simp: patchWorkloadPodTemplate_def Let_def view_deployment_def view_statefulSet_def
      split: option.splits intro!: all_calls_bindI)

lemma config_owned_annotation [simp]: "all_calls (config_owned db) (reconcileTargetAnnotation db')"
  unfolding reconcileTargetAnnotation_def by (auto intro!: all_calls_bindI split: sum.splits)

lemma config_owned_status [simp]: "all_calls (config_owned db) (updateStatus M db')"
  by (auto simp: updateStatus_def update_backup_health_def Let_def
      split: sum.splits option.splits prod.splits intro!: all_calls_bindI)

lemma config_owned_reconcile: "all_calls (config_owned db) (answered (replica_Reconcile M req) (RReplica db))"
  by (auto simp: answered_def replica_Reconcile_def intro!: all_calls_bindI split: option.splits prod.splits)

text \<open>The only ConfigMap that a restore writes is its own.\<close>

fun restore_config_owned :: "api_req \<Rightarrow> bool" where
  "restore_config_owned (CreateOrUpdateConfigMap nn m ow) = (\<exists>x. ow = RestoreObj x)"
| "restore_config_owned _ = True"

lemma restore_config_query [simp]: "restore_config_owned (target_query db)"
  by (simp add: target_query_def)

lemma restore_config_calls [simp]:
  "all_calls restore_config_owned (setStatus x ph j m o' s c)"
  "all_calls restore_config_owned (pauseReplication db)" "all_calls restore_config_owned (resumeReplication db)"
  "all_calls restore_config_owned (setSkipArchiveCheck db e)"
  "all_calls restore_config_owned (restoreJobPodLogs k ns n)"
  "all_calls restore_config_owned (reconcileRestoreConfig x src)"
  by (auto simp: setStatus_def pauseReplication_def resumeReplication_def setSkipArchiveCheck_def restoreJobPodLogs_def
      reconcileRestoreConfig_def Let_def split: sum.splits option.splits list.splits)

lemma restore_config_scale [simp]: "all_calls restore_config_owned (scaleWorkload wt n)"
  by (auto simp: scaleWorkload_def Let_def intro!: all_calls_bindI split: option.splits sum.splits)

lemma restore_config_fail [simp]:
  "all_calls restore_config_owned (failRestore x msg)"
  "all_calls restore_config_owned (failRestoreWithCleanup x src msg)"
  by (auto simp: failRestore_def failRestoreWithCleanup_def intro!: all_calls_bindI
      split: sum.splits option.splits)

lemma restore_config_dispatch: "all_calls restore_config_owned (restore_dispatch k x src)"
  by (auto simp: restore_dispatch_def reconcilePending_def reconcilePausing_def reconcileScalingDown_def
      reconcileRunning_def reconcileValidating_def reconcileScalingUp_def Let_def
      intro!: all_calls_bindI split: sum.splits option.splits prod.splits job_verdict.splits)

lemma restore_config_reconcile: "all_calls restore_config_owned (restore_Reconcile k req)"
  unfolding restore_Reconcile_def
  by (auto simp: restore_config_dispatch intro!: all_calls_bindI split: sum.splits)

text \<open>
  A Job is created right after the restore was recorded as its controller, in the namespace of the
  restore.
\<close>

fun job_owned :: "LitestreamRestore \<Rightarrow> trace \<Rightarrow> api_req \<Rightarrow> bool" where
  "job_owned x h (CreateJob job) =
     ((\<exists>r t. h = (SetControllerReference x job, r) # t \<and> as_error r = None)
      \<and> om_Namespace (job_Meta job) = res_Namespace x)"
| "job_owned x h _ = True"

fun no_create :: "api_req \<Rightarrow> bool" where
  "no_create (CreateJob job) = False"
| "no_create _ = True"

lemma no_create_owned: "no_create q \<Longrightarrow> job_owned x h q"
  by (cases q) auto

lemma no_create_wp: "all_calls no_create p \<Longrightarrow> wp p (job_owned x) (\<lambda>_ _. True) h"
  by (rule all_calls_wp [where P = no_create]) (auto intro: no_create_owned)

lemma no_create_query [simp]: "no_create (target_query db)"
  by (simp add: target_query_def)

lemma no_create_calls [simp]:
  "all_calls no_create (setStatus x ph j m o' s c)"
  "all_calls no_create (pauseReplication db)" "all_calls no_create (resumeReplication db)"
  "all_calls no_create (setSkipArchiveCheck db e)" "all_calls no_create (restoreJobPodLogs k ns n)"
  "all_calls no_create (reconcileRestoreConfig x src)"
  by (auto simp: setStatus_def pauseReplication_def resumeReplication_def setSkipArchiveCheck_def restoreJobPodLogs_def
      reconcileRestoreConfig_def Let_def split: sum.splits option.splits list.splits)

lemma no_create_scale [simp]: "all_calls no_create (scaleWorkload wt n)"
  by (auto simp: scaleWorkload_def Let_def intro!: all_calls_bindI split: option.splits sum.splits)

lemma no_create_fail [simp]:
  "all_calls no_create (failRestore x msg)" "all_calls no_create (failRestoreWithCleanup x src msg)"
  by (auto simp: failRestore_def failRestoreWithCleanup_def intro!: all_calls_bindI
      split: sum.splits option.splits)

lemma no_create_phases:
  "all_calls no_create (reconcilePending x src)" "all_calls no_create (reconcilePausing x src)"
  "all_calls no_create (reconcileRunning k x src)" "all_calls no_create (reconcileScalingUp x src)"
  by (auto simp: reconcilePending_def reconcilePausing_def reconcileRunning_def reconcileScalingUp_def Let_def
      intro!: all_calls_bindI split: sum.splits option.splits prod.splits job_verdict.splits)

lemma job_namespaces:
  "buildRestoreJob x src n = Some job \<Longrightarrow> om_Namespace (job_Meta job) = res_Namespace x"
  "om_Namespace (job_Meta (buildValidationJob x src n)) = res_Namespace x"
  by (auto simp: buildRestoreJob_def buildValidationJob_def Let_def split: option.splits)

lemma owned_after_create:
  assumes "om_Namespace (job_Meta job) = res_Namespace x" "\<And>r. all_calls no_create (f r)"
  shows "wp (Call (SetControllerReference x job) (\<lambda>r. case as_error r of
      Some e \<Rightarrow> Ret (0, Some e) | None \<Rightarrow> Call (CreateJob job) f)) (job_owned x) (\<lambda>_ _. True) h"
  using assms by (auto intro: no_create_wp split: option.splits)

lemma owned_validating: "wp (reconcileValidating x src) (job_owned x) (\<lambda>_ _. True) h"
  unfolding reconcileValidating_def Let_def
  by (auto simp: job_namespaces simp del: wp.simps(1) intro!: no_create_wp owned_after_create all_calls_bindI
      split: sum.splits option.splits job_verdict.splits)

lemma no_create_then:
  "all_calls no_create p \<Longrightarrow> (\<And>a h. wp (f a) (job_owned x) (\<lambda>_ _. True) h)
   \<Longrightarrow> wp (bind p f) (job_owned x) (\<lambda>_ _. True) h"
  by (rule all_calls_wp_bind [where P = no_create]) (auto intro: no_create_owned)

lemma no_create_reads [simp]:
  "all_calls no_create (wt_runningReplicas wt)"
  by (auto simp: wt_runningReplicas_def intro!: all_calls_bindI split: option.splits)

lemma owned_scalingDown: "wp (reconcileScalingDown x src) (job_owned x) (\<lambda>_ _. True) h"
proof -
  have create: "wp (bind (deref (buildRestoreJob x src n)) (\<lambda>job.
      Call (SetControllerReference x job) (\<lambda>r. case as_error r of
        Some e \<Rightarrow> Ret (0, Some e) | None \<Rightarrow> Call (CreateJob job) (f job)))) (job_owned x) (\<lambda>_ _. True) h'"
    if "\<And>job r. all_calls no_create (f job r)" for f :: "Job \<Rightarrow> api_resp \<Rightarrow> ctrl_result prog" and n h'
  proof (cases "buildRestoreJob x src n")
    case (Some job)
    with owned_after_create [OF job_namespaces(1) [OF Some] that] show ?thesis by (simp only: bind_deref_Some)
  qed (simp add: deref_def)
  show ?thesis
    unfolding reconcileScalingDown_def Let_def
    by (auto simp del: wp.simps(3) intro!: no_create_then create all_calls_bindI
        split: sum.splits option.splits)
qed

lemma owned_dispatch: "wp (restore_dispatch k x src) (job_owned x) (\<lambda>_ _. True) h"
  unfolding restore_dispatch_def
  by (auto intro: no_create_wp no_create_phases owned_scalingDown owned_validating)

lemma owned_reconcile: "wp (answered (restore_Reconcile k req) (RRestore x)) (job_owned x) (\<lambda>_ _. True) h"
  unfolding answered_def restore_Reconcile_def
  by (auto intro: owned_dispatch intro!: no_create_then split: sum.splits)

lemma created_job_owned:
  assumes "exec (restore_Reconcile k req) ((GetRestore req, RRestore x) # tr) out"
    and "i < length tr" "tr ! i = (CreateJob job, r)"
  shows "job_owned x (rev (take i tr)) (CreateJob job)"
proof -
  have "exec (answered (restore_Reconcile k req) (RRestore x)) tr out"
    using assms(1) by (auto simp: restore_Reconcile_def answered_def prog_simps)
  with owned_reconcile have "guarded (job_owned x) [] tr" using wp_exec by blast
  from guarded_nth [OF this assms(2)] assms(3) show ?thesis by simp
qed

section \<open>Properties\<close>

text \<open>The registrations: which changes are routed, and which are not.\<close>

context controller_runtime
begin

lemma owned_config_event:
  "kind_of (ch_Object c) = KConfigMap \<Longrightarrow> ch_Controller c = Some (KLitestreamReplica, n)
   \<Longrightarrow> \<lparr>nn_Namespace = om_Namespace (meta_of (ch_Object c)), nn_Name = n\<rparr>
       \<in> set (enqueue replica_SetupWithManager c)"
  by (rule for_owner) (simp_all add: replica_SetupWithManager_def)

lemma owned_job_event:
  "kind_of (ch_Object c) = KJob \<Longrightarrow> ch_Controller c = Some (KLitestreamRestore, n)
   \<Longrightarrow> \<lparr>nn_Namespace = om_Namespace (meta_of (ch_Object c)), nn_Name = n\<rparr>
       \<in> set (enqueue restore_SetupWithManager c)"
  by (rule for_owner) (simp_all add: restore_SetupWithManager_def)

lemma pod_event: "ch_Object c = PodOb pod \<Longrightarrow> set (podToLitestreamReplica pod) \<subseteq> set (enqueue replica_SetupWithManager c)"
  using for_watch [of c map_pod replica_SetupWithManager] by (simp add: replica_SetupWithManager_def map_pod_def)

lemma restore_config_event:
  "kind_of (ch_Object c) = KConfigMap \<Longrightarrow> ch_Controller c = Some (KLitestreamRestore, n)
   \<Longrightarrow> enqueue replica_SetupWithManager c = [] \<and> enqueue restore_SetupWithManager c = []"
  using for_other_owner [of c replica_SetupWithManager] for_others [of c restore_SetupWithManager]
  by (auto simp: replica_SetupWithManager_def restore_SetupWithManager_def)

lemma workload_event:
  "kind_of (ch_Object c) \<in> {KDeployment, KStatefulSet}
   \<Longrightarrow> enqueue replica_SetupWithManager c = [] \<and> enqueue restore_SetupWithManager c = []"
  using for_others [of c replica_SetupWithManager] for_others [of c restore_SetupWithManager]
  by (auto simp: replica_SetupWithManager_def restore_SetupWithManager_def)

end

text \<open>
  C20. Which changes come back. A ConfigMap that a reconciliation of a replica writes and a Job that a
  reconciliation of a restore creates get this resource as their controller, so that every later change
  of them queues the same request again. The ConfigMap that a reconciliation of a restore writes is
  owned by the restore, and no change of it queues anything, in either controller. A change of a pod
  with the reference of a replica queues the replica; a change of the workload queues nothing.
\<close>

theorem changes_reach_owner:
  assumes "controller_runtime enqueue"
  shows
    "(exec (replica_Reconcile M req) ((GetReplica req, RReplica db) # tr) out \<and> key_of (db_Meta db) = req
        \<and> (CreateOrUpdateConfigMap nn dat ow, r) \<in> set tr
        \<and> ch_Object c = ConfigMapOb cm \<and> key_of (cm_Meta cm) = nn \<and> ch_Controller c = Some (reference_to ow)
      \<longrightarrow> req \<in> set (enqueue replica_SetupWithManager c))
   \<and> (exec (restore_Reconcile k req) ((GetRestore req, RRestore x) # tr') out' \<and> key_of (res_Meta x) = req
        \<and> i < length tr' \<and> tr' ! i = (CreateJob job, r')
      \<longrightarrow> (\<exists>r. 0 < i \<and> tr' ! (i - 1) = (SetControllerReference x job, r) \<and> as_error r = None)
          \<and> (ch_Object c = JobOb job \<and> ch_Controller c = Some (reference_to (RestoreObj x))
             \<longrightarrow> req \<in> set (enqueue restore_SetupWithManager c)))
   \<and> (exec (restore_Reconcile k req) ((GetRestore req, RRestore x) # tr') out'
        \<and> (CreateOrUpdateConfigMap nn dat ow, r) \<in> set tr'
        \<and> ch_Object c = ConfigMapOb cm \<and> ch_Controller c = Some (reference_to ow)
      \<longrightarrow> enqueue replica_SetupWithManager c = [] \<and> enqueue restore_SetupWithManager c = [])
   \<and> (ch_Object c = PodOb pod \<and> map_get (om_Annotations (pod_Meta pod)) AnnotationConfig = configRef src
        \<and> CHR ''/'' \<notin> set (db_Namespace src) \<and> db_Namespace src \<noteq> []
      \<longrightarrow> key_of (db_Meta src) \<in> set (enqueue replica_SetupWithManager c))
   \<and> (kind_of (ch_Object c) \<in> {KDeployment, KStatefulSet}
      \<longrightarrow> enqueue replica_SetupWithManager c = [] \<and> enqueue restore_SetupWithManager c = [])"
proof (intro conjI impI, goal_cases)
  case 1
  then have "exec (answered (replica_Reconcile M req) (RReplica db)) tr out"
    by (auto simp: replica_Reconcile_def answered_def prog_simps)
  from all_calls_exec [OF config_owned_reconcile this] 1
  have "config_owned db (CreateOrUpdateConfigMap nn dat ow)" by blast
  with 1 controller_runtime.owned_config_event [OF assms, of c "db_Name db"] show ?case
    by (auto simp: key_of_def)
next
  case 2
  then have "job_owned x (rev (take i tr')) (CreateJob job)" using created_job_owned by blast
  then obtain r t where "rev (take i tr') = (SetControllerReference x job, r) # t" "as_error r = None" by auto
  moreover from this(1) 2 have "0 < i \<and> tr' ! (i - 1) = (SetControllerReference x job, r)"
    by (cases i) (auto simp: take_Suc_conv_app_nth)
  ultimately show ?case by blast
next
  case 3
  then have "job_owned x (rev (take i tr')) (CreateJob job)" using created_job_owned by blast
  with 3 controller_runtime.owned_job_event [OF assms, of c "res_Name x"] show ?case
    by (auto simp: key_of_def)
next
  case 4
  then have "restore_config_owned (CreateOrUpdateConfigMap nn dat ow)"
    using all_calls_exec [OF restore_config_reconcile] by (metis list.set_intros(2))
  with 4 controller_runtime.restore_config_event [OF assms, of c] show ?case by auto
next
  case 5
  then have "restore_config_owned (CreateOrUpdateConfigMap nn dat ow)"
    using all_calls_exec [OF restore_config_reconcile] by (metis list.set_intros(2))
  with 5 controller_runtime.restore_config_event [OF assms, of c] show ?case by auto
next
  case 6
  then have "podToLitestreamReplica pod = [key_of (db_Meta src)]"
    by (simp add: podToLitestreamReplica_def configRef_def slash_index_append key_of_def)
  with 6 controller_runtime.pod_event [OF assms, of c pod] show ?case by simp
next
  case 7
  with controller_runtime.workload_event [OF assms] show ?case by blast
next
  case 8
  with controller_runtime.workload_event [OF assms] show ?case by blast
qed

theorem changes_reach_owner_witness:
  "\<exists>job. created_job (fst (fst scalingDown_run ! 3)) = Some job
     \<and> \<lparr>nn_Namespace = ''paperless'', nn_Name = ''recover''\<rparr> \<in> set (enqueue_all restore_SetupWithManager
         \<lparr>ch_Object = JobOb job, ch_Controller = Some (KLitestreamRestore, ''recover'')\<rparr>)"
proof -
  let ?x = "restore_in RestorePhaseScalingDown" and ?req = "\<lparr>nn_Namespace = ''paperless'', nn_Name = ''recover''\<rparr>"
  have *: "created_job (fst (fst scalingDown_run ! 3)) \<noteq> None \<and> 3 < length (fst scalingDown_run)"
    by code_simp
  then obtain job r where e: "created_job (fst (fst scalingDown_run ! 3)) = Some job"
      "fst scalingDown_run ! 3 = (CreateJob job, r)"
    using created_jobE by blast
  let ?tr = "(GetReplica (source_key ?x), RReplica paused_source) # fst scalingDown_run"
  have "key_of (res_Meta ?x) = ?req" "reference_to (RestoreObj ?x) = (KLitestreamRestore, ''recover'')"
    by (simp_all add: key_of_def restore_in_def sample_restore_def zero_ObjectMeta_def)
  moreover have "4 < length ?tr" "?tr ! 4 = (CreateJob job, r)" using * e(2) by simp_all
  ultimately show ?thesis
    using changes_reach_owner [OF all_handlers.controller_runtime_axioms,
        where req = ?req and k = True and x = ?x and tr' = ?tr and out' = "snd scalingDown_run" and i = 4
          and job = job and r' = r and c = "\<lparr>ch_Object = JobOb job, ch_Controller = Some (KLitestreamRestore, ''recover'')\<rparr>"]
      sample_runs_exec(2) [of ?req] e(1) by simp
qed

end
