(* ===== verification/Spec2Isabelle.thy ===== *)
theory Spec2Isabelle
  imports Restore_Progress Pod_Startup Manager_Startup Replica_Schema Reconcile_Bounds Patch_Base Watches
begin

text \<open>
  Verification of the Litestream operator: a Kubernetes operator that attaches a Litestream sidecar
  to a workload with a SQLite database, replicates the database to S3 and restores it on request.

  \<^bold>\<open>The program.\<close> Two custom resources: a LitestreamReplica describes a database and its backup, a
  LitestreamRestore asks for a restore. The replica controller
  (\<^verbatim>\<open>src/internal/controller/litestreamreplica_controller.go\<close>) writes the Litestream configuration
  to a ConfigMap, annotates the target workload for injection and reports the health of the
  sidecar. The pod webhook (\<^verbatim>\<open>src/internal/webhook/sidecar_injector.go\<close>) adds the sidecar and init
  containers, with their shell scripts, to the pods of an annotated workload. The restore controller
  (\<^verbatim>\<open>litestreamrestore_controller.go\<close>) pauses replication, scales the workload to zero, runs a
  restore Job and a validation Job, and brings the workload back; its phases are kept in the status
  of the resource. A validating webhook (\<^verbatim>\<open>litestreamreplica_webhook.go\<close>) checks replicas on
  admission. The two controllers and the webhooks share no memory: they interact through the
  objects of the API server, chiefly the pause annotation, the ConfigMap and the annotations of the
  pod template. \<^verbatim>\<open>src/cmd/main.go\<close> starts all of them.

  \<^bold>\<open>The foundation.\<close>
  \<^item> \<open>Prelude\<close>: Go strings, maps (nil maps included), errors and the shared simplification rules.
  \<^item> \<open>Api_Types\<close>: the records of \<^verbatim>\<open>src/api/v1\<close> and of the Kubernetes types the code reads, with the
    annotation keys, condition types and phases.
  \<^item> \<open>Effects\<close>: code that talks to the API server is a program (\<open>prog\<close>): a tree of calls, each with
    a continuation for every possible response, ending in a value or a panic. Programs are finite,
    so every reconciliation ends and no fuel is needed. \<open>exec\<close> is the set of traces, \<open>drive\<close> runs a
    program on a list of responses, \<open>wp\<close> is the weakest precondition over the trace so far with an
    obligation on every call.
  \<^item> \<open>Go_Path\<close>, \<open>Sha256\<close>: the parts of the Go library whose results matter (\<^verbatim>\<open>filepath.Clean\<close>,
    \<^verbatim>\<open>filepath.Dir\<close>, \<^verbatim>\<open>sha256.Sum256\<close>).

  \<^bold>\<open>The components.\<close> One definition per function of the source, with its name.
  \<^item> \<open>Workload\<close>: the Deployment-or-StatefulSet handle of \<^verbatim>\<open>workload.go\<close>; locale \<open>workload_kind\<close>.
  \<^item> \<open>Replica_Config\<close>, \<open>Replica_Controller\<close>: configuration text, the reconcile steps, pod inspection,
    status and the event mapper. \<open>Replica_Facts\<close>, \<open>Replica_Trace\<close>: their properties; locale
    \<open>status_conditions\<close> for the condition helpers of the API machinery, which are a parameter.
  \<^item> \<open>Restore_Jobs\<close>, \<open>Restore_Controller\<close>: the two Jobs and the handlers of the phases.
    \<open>Restore_Facts\<close> states the phase machine (\<open>restore_edge\<close>) and the obligations of every write
    (\<open>restore_guard\<close>) and proves them by symbolic execution for all responses; \<open>Restore_Trace\<close>
    has the properties of executions and of reachable states.
  \<^item> \<open>Replica_Validator\<close>: admission of replicas.
  \<^item> \<open>Sidecar_Injector\<close>, \<open>Injector_Facts\<close>: the mutating webhook; locale \<open>init_injection\<close> for the three
    functions that add an init container.
  \<^item> \<open>Shell\<close>, \<open>Startup_Scripts\<close>, \<open>Script_Facts\<close>: a fragment of the shell with a printer and a
    semantics; the injected scripts are the printed form of programs of the fragment, and what they
    do is proved from laws of the programs in the images (locales \<open>litestream_restore\<close>,
    \<open>sqlite_tools\<close>, \<open>sha256_tool\<close>).
  \<^item> \<open>Manager_Startup\<close>: \<^verbatim>\<open>main.go\<close> from the parsed flags on, with Go slices in a store of arrays.

  \<^item> \<open>Replica_Schema\<close>: the constraints of the resource definition on a replica's status (phases, and
    type, status, reason and observed generation of the conditions) as a type of statuses that every
    status write of the controller stays in; the length of condition messages, into which error texts
    go, is not bounded by the code and not part of it. \<open>Reconcile_Bounds\<close>: how many calls a
    reconciliation makes at most, and when a restore is not requeued. \<open>Watches\<close>: the registrations of
    the two controllers and which changes of objects queue which resource; locale \<open>controller_runtime\<close> for
    the manager, which is a parameter.
  \<^item> \<open>Go_Heap\<close>, \<open>Deep_Copy\<close>: the objects as Go has them, structs with addresses on a heap, and the
    generated copies of \<^verbatim>\<open>zz_generated.deepcopy.go\<close>; locale \<open>deep_copy\<close> is the contract of a copy, \<open>cell_copy\<close>
    its extension to pointers, and \<open>api_copies\<close> the contract of the copies of the API machinery, which are
    a parameter. \<open>Patch_Base\<close>: the controllers treat an object as a value elsewhere; here the statements
    that take a deep copy as the base of a patch and then change the object in place run on the heap, and
    what they send is what the value-level definitions send.

  \<^bold>\<open>The composition.\<close>
  \<^item> \<open>Pod_Startup\<close>: controller, injector, scripts and admission together: a pod of an annotated
    workload gets the configuration of its replica and does not start on an untracked database.
  \<^item> \<open>Cluster\<close>, \<open>Isolation\<close>: both controllers on one API server, interleaved call by call with
    transient errors, lost answers, restarts, pods that come and go, Jobs that finish and users who
    edit the replica. The system keeps the history of the cluster, and a read may be answered from any
    state of it, as from the caches of the manager's client. What outsiders do to the objects a restore
    rests on, and a cache that hides the restore Job, is possible and recorded (\<open>disturbance\<close>).
    \<open>sys_inv\<close> is the inductive invariant of the runs without such a record; its use of the
    controllers is only through the obligations of their writes.
  \<^item> \<open>Cluster_Runs\<close>, \<open>Restore_Progress\<close>: error-free runs on current objects, an abstract machine of a
    restore that both controllers refine, the end of every restore after eight rounds, the isolation
    theorem, and a run that loses the isolation by one stale answer.

  \<^bold>\<open>What is shown.\<close> Safety of a restore: while its Job runs, replication is paused and the workload
  is set to zero, also when the controllers read stale objects (\<open>restore_isolation\<close>), unless the
  cache hides the Job itself (\<open>stale_job_read_breaks_isolation\<close>, a defect). Every phase change,
  scaling and Job creation is justified by what was read before in the same reconciliation. Liveness:
  without API errors a restore ends and gives the workload back (\<open>restore_ends\<close>); eight rounds are the
  longest path of the machine. Along any sequence of reconciliations a restore has at most six status
  writes (\<open>restore_reach_inv\<close>). Error paths: what remains after transient errors is stated exactly,
  which includes some defects. Functional behaviour: the configuration text determines the settings,
  the status, the injected pod, admission, the scripts, start-up. Panics: none in the restore
  controller, only a missing selector in the replica controller. Bounds: at most 12 and 15 calls for a
  reconciliation. Memory: a deep copy reads the same as its original and shares nothing with it, so a
  patch is computed from the right base.

  \<^bold>\<open>Assumptions.\<close> A request takes effect at the API server when it is answered or not at all, and a
  merge patch changes the fields in which the given objects differ (\<open>served\<close>). In the system with
  caches (\<open>sys_step\<close>) a read shows an earlier state of the cluster, whole states at a time for one
  call; the replica that the replica controller reads does not go back in time. The runs behind
  \<open>restore_ends\<close> and \<open>controllers_refine\<close> are free of errors and read the current objects. In both, the
  workload exists, nobody deletes a Job unrecorded, and a restore and its replica have different names.
  The count of pods is \<^verbatim>\<open>status.replicas\<close>, which leaves terminating pods out, so nothing is claimed of
  those. The capacities of Go slices are arbitrary. How Litestream parses its configuration is not
  modelled: the statements about the file are about its text.

  \<^bold>\<open>Not modelled.\<close> Logging, the registration of the types with the scheme
  and of the validator with the webhook server, and the parsing of the command line, which have no
  state of the program. \<^verbatim>\<open>src/test/utils\<close>: helpers of the
  end-to-end tests. Decoding and encoding of admission requests are parameters of the webhook.
\<close>

end
